(* ===== verification/Prelude.thy ===== *)
theory Prelude
  imports Main "HOL-Library.Word"
begin

text \<open>
  The vocabulary every component theory shares.

  \<^item> Rust's fixed-width integers are \<open>'a word\<close>; \<open>checked_add\<close>, \<open>checked_mul\<close> and
    \<open>saturating_sub\<close> are the standard-library methods the sources call.
  \<^item> \<open>Result<T, E>\<close> is the sum \<open>'e + 'a\<close> (\<open>Err\<close> is \<open>Inl\<close>, \<open>Ok\<close> is \<open>Inr\<close>) and the
    question-mark operator is \<open>and_then\<close>.
  \<^item> A Rust \<open>String\<close> is its UTF-8 byte sequence, a \<open>string\<close> of HOL; \<open>utf8_chars\<close> groups the
    bytes into characters, which gives \<open>trim\<close>, \<open>chars().any(char::is_control)\<close> and
    \<open>chars().take(n)\<close>.
\<close>

unbundle bit_operations_syntax

subsection \<open>Collections of facts\<close>

named_theorems checked_simps \<open>the results of checked word arithmetic, read as naturals\<close>
named_theorems result_simps \<open>equations and inversions of the result combinators\<close>

subsection \<open>Machine integers\<close>

type_synonym u8 = "8 word"
type_synonym u32 = "32 word"
type_synonym u64 = "64 word"
type_synonym u128 = "128 word"
type_synonym usize = "64 word"
type_synonym bytes = string

definition checked_add :: "'a::len word \<Rightarrow> 'a word \<Rightarrow> 'a word option" where
  "checked_add a b = (if unat a + unat b < 2 ^ LENGTH('a) then Some (a + b) else None)"

definition checked_mul :: "'a::len word \<Rightarrow> 'a word \<Rightarrow> 'a word option" where
  "checked_mul a b = (if unat a * unat b < 2 ^ LENGTH('a) then Some (a * b) else None)"

definition checked_sub :: "'a::len word \<Rightarrow> 'a word \<Rightarrow> 'a word option" where
  "checked_sub a b = (if unat b \<le> unat a then Some (a - b) else None)"

definition saturating_sub :: "'a::len word \<Rightarrow> 'a word \<Rightarrow> 'a word" where
  "saturating_sub a b = (if b \<le> a then a - b else 0)"

definition saturating_add :: "'a::len word \<Rightarrow> 'a word \<Rightarrow> 'a word" where
  "saturating_add a b = (if unat a + unat b < 2 ^ LENGTH('a) then a + b else - 1)"

text \<open>\<open>TryFrom\<close> between integer types: \<open>None\<close> when the value does not fit.\<close>

definition try_into :: "'a::len word \<Rightarrow> 'b::len word option" where
  "try_into a = (if unat a < 2 ^ LENGTH('b) then Some (of_nat (unat a)) else None)"

text \<open>\<open>div_ceil\<close> on unsigned integers, as the standard library computes it.\<close>

definition div_ceil :: "'a::len word \<Rightarrow> 'a word \<Rightarrow> 'a word" where
  "div_ceil a b = (if a mod b = 0 then a div b else a div b + 1)"

lemma unat_plus_small [simp]:
  fixes a b :: "'a::len word"
  assumes "unat a + unat b < 2 ^ LENGTH('a)"
  shows "unat (a + b) = unat a + unat b"
  using assms by (simp add: unat_word_ariths)

lemma unat_mult_small [simp]:
  fixes a b :: "'a::len word"
  assumes "unat a * unat b < 2 ^ LENGTH('a)"
  shows "unat (a * b) = unat a * unat b"
  using assms by (simp add: unat_word_ariths)

lemma checked_add_eq_Some [checked_simps]:
  "checked_add a b = Some c \<longleftrightarrow> unat a + unat b < 2 ^ LENGTH('a::len) \<and> c = (a + b :: 'a word)"
  by (auto simp: checked_add_def)

lemma checked_add_eq_None [checked_simps]:
  "checked_add a b = None \<longleftrightarrow> 2 ^ LENGTH('a::len) \<le> unat a + unat (b :: 'a word)"
  by (auto simp: checked_add_def not_less)

lemma checked_mul_eq_Some [checked_simps]:
  "checked_mul a b = Some c \<longleftrightarrow> unat a * unat b < 2 ^ LENGTH('a::len) \<and> c = (a * b :: 'a word)"
  by (auto simp: checked_mul_def)

lemma checked_mul_eq_None [checked_simps]:
  "checked_mul a b = None \<longleftrightarrow> 2 ^ LENGTH('a::len) \<le> unat a * unat (b :: 'a word)"
  by (auto simp: checked_mul_def not_less)

lemma unat_saturating_sub [checked_simps]: "unat (saturating_sub a b) = unat a - unat b"
proof (cases "b \<le> a")
  case True
  then show ?thesis by (simp add: saturating_sub_def unat_sub word_le_nat_alt)
next
  case False
  then show ?thesis by (simp add: saturating_sub_def word_le_nat_alt)
qed

lemma unat_ucast_32_64 [simp]: "unat (ucast (w :: u32) :: u64) = unat w"
proof -
  have "unat w < 2 ^ 32" using unsigned_less [of w] by simp
  then have "unat w < 2 ^ 64" by (rule less_le_trans) simp
  then show ?thesis by (simp add: unsigned_ucast_eq take_bit_nat_eq_self)
qed

lemma unat_ucast_64_128 [simp]: "unat (ucast (w :: u64) :: u128) = unat w"
proof -
  have "unat w < 2 ^ 64" using unsigned_less [of w] by simp
  then have "unat w < 2 ^ 128" by (rule less_le_trans) simp
  then show ?thesis by (simp add: unsigned_ucast_eq take_bit_nat_eq_self)
qed

lemma unat_u32_bound [simp]: "unat (w :: u32) < 4294967296"
  using unsigned_less [of w] by simp

lemma unat_u64_bound [simp]: "unat (w :: u64) < 18446744073709551616"
  using unsigned_less [of w] by simp

text \<open>Rounding up on naturals, the reference every rounding division is compared with.\<close>

definition ceil_div :: "nat \<Rightarrow> nat \<Rightarrow> nat" where
  "ceil_div x y = (x + y - 1) div y"

lemma ceil_div_eq:
  assumes "0 < y"
  shows "ceil_div x y = x div y + (if x mod y = 0 then 0 else 1)"
proof -
  have split: "x = (x div y) * y + x mod y" by simp
  show ?thesis
  proof (cases "x mod y = 0")
    case True
    then have "x + y - 1 = (x div y) * y + (y - 1)" using split assms by linarith
    then have "ceil_div x y = (x div y * y + (y - 1)) div y" by (simp only: ceil_div_def)
    also have "\<dots> = x div y + (y - 1) div y" using assms by (simp only: div_mult_self3)
    also have "\<dots> = x div y" using assms by simp
    finally show ?thesis using True by simp
  next
    case False
    then have "0 < x mod y" by simp
    moreover have "(x div y + 1) * y = (x div y) * y + y" by simp
    ultimately have "x + y - 1 = (x div y + 1) * y + (x mod y - 1)"
      using split by linarith
    then have "ceil_div x y = ((x div y + 1) * y + (x mod y - 1)) div y"
      by (simp only: ceil_div_def)
    also have "\<dots> = x div y + 1 + (x mod y - 1) div y"
      using assms by (simp only: div_mult_self3)
    also have "(x mod y - 1) div y = 0"
      using mod_less_divisor [OF assms, of x] by simp
    finally show ?thesis using False by simp
  qed
qed

lemma ceil_div_le_iff:
  assumes "0 < y"
  shows "ceil_div x y \<le> m \<longleftrightarrow> x \<le> m * y"
proof -
  have "ceil_div x y \<le> m \<longleftrightarrow> (x + y - 1) div y < Suc m"
    by (simp only: ceil_div_def less_Suc_eq_le)
  also have "\<dots> \<longleftrightarrow> x + y - 1 < Suc m * y"
    using assms by (simp only: div_less_iff_less_mult)
  also have "\<dots> \<longleftrightarrow> x \<le> m * y"
  proof -
    have "Suc m * y = m * y + y" by simp
    then show ?thesis using assms by linarith
  qed
  finally show ?thesis .
qed

lemma ceil_div_mono: "x \<le> x' \<Longrightarrow> ceil_div x y \<le> ceil_div x' y"
  unfolding ceil_div_def by (intro div_le_mono) simp

lemma unat_div_ceil:
  fixes a b :: "'a::len word"
  assumes "0 < unat b"
  shows "unat (div_ceil a b) = ceil_div (unat a) (unat b)"
proof -
  have zero_iff: "a mod b = 0 \<longleftrightarrow> unat a mod unat b = 0"
    by (metis unat_eq_zero unat_mod_distrib)
  show ?thesis
  proof (cases "unat a mod unat b = 0")
    case True
    then show ?thesis
      using zero_iff assms by (simp add: div_ceil_def ceil_div_eq unat_div_distrib)
  next
    case False
    then have b2: "2 \<le> unat b" using assms by (cases "unat b = 1") auto
    have pos: "0 < unat a" using False by (cases "unat a") auto
    have "unat a div unat b < unat a" using b2 pos by (simp add: div_less_dividend)
    moreover have "unat a < 2 ^ LENGTH('a)" by simp
    ultimately have "unat (a div b) + unat (1 :: 'a word) < 2 ^ LENGTH('a)"
      by (simp only: unat_div_distrib unat_1)
    then have "unat (a div b + 1) = unat a div unat b + 1"
      by (simp add: unat_div_distrib)
    then show ?thesis using False zero_iff assms by (simp add: div_ceil_def ceil_div_eq)
  qed
qed

subsection \<open>Options and results\<close>

abbreviation Ok :: "'a \<Rightarrow> 'e + 'a" where "Ok \<equiv> Inr"

abbreviation Err :: "'e \<Rightarrow> 'e + 'a" where "Err \<equiv> Inl"

definition is_ok :: "'e + 'a \<Rightarrow> bool" where
  "is_ok r = (case r of Inl _ \<Rightarrow> False | Inr _ \<Rightarrow> True)"

definition and_then :: "'e + 'a \<Rightarrow> ('a \<Rightarrow> 'e + 'b) \<Rightarrow> 'e + 'b" where
  "and_then r f = (case r of Inl e \<Rightarrow> Inl e | Inr x \<Rightarrow> f x)"

definition map_err :: "('e \<Rightarrow> 'f) \<Rightarrow> 'e + 'a \<Rightarrow> 'f + 'a" where
  "map_err f r = (case r of Inl e \<Rightarrow> Inl (f e) | Inr x \<Rightarrow> Inr x)"

definition ok_or :: "'e \<Rightarrow> 'a option \<Rightarrow> 'e + 'a" where
  "ok_or e o' = (case o' of None \<Rightarrow> Inl e | Some x \<Rightarrow> Inr x)"

definition ensure :: "bool \<Rightarrow> 'e \<Rightarrow> 'e + unit" where
  "ensure b e = (if b then Inr () else Inl e)"

definition opt_filter :: "('a \<Rightarrow> bool) \<Rightarrow> 'a option \<Rightarrow> 'a option" where
  "opt_filter P o' = (case o' of None \<Rightarrow> None | Some x \<Rightarrow> if P x then Some x else None)"

definition is_none_or :: "('a \<Rightarrow> bool) \<Rightarrow> 'a option \<Rightarrow> bool" where
  "is_none_or P o' = (case o' of None \<Rightarrow> True | Some x \<Rightarrow> P x)"

definition is_some_and :: "('a \<Rightarrow> bool) \<Rightarrow> 'a option \<Rightarrow> bool" where
  "is_some_and P o' = (case o' of None \<Rightarrow> False | Some x \<Rightarrow> P x)"

lemma is_ok_simps [simp]: "is_ok (Ok x)" "\<not> is_ok (Err e)"
  by (simp_all add: is_ok_def)

lemma and_then_simps [simp]: "and_then (Ok x) f = f x" "and_then (Err e) f = Err e"
  by (simp_all add: and_then_def)

lemma and_then_eq_Ok [result_simps]:
  "and_then r f = Ok y \<longleftrightarrow> (\<exists>x. r = Ok x \<and> f x = Ok y)"
  by (cases r) simp_all

lemma and_then_eq_Err [result_simps]:
  "and_then r f = Err e \<longleftrightarrow> r = Err e \<or> (\<exists>x. r = Ok x \<and> f x = Err e)"
  by (cases r) simp_all

lemma is_ok_and_then [result_simps]:
  "is_ok (and_then r f) \<longleftrightarrow> (\<exists>x. r = Ok x \<and> is_ok (f x))"
  by (cases r) simp_all

lemma map_err_eq_Ok [result_simps]: "map_err f r = Ok y \<longleftrightarrow> r = Ok y"
  by (cases r) (simp_all add: map_err_def)

lemma map_err_simps [simp]: "map_err f (Ok x) = Ok x" "map_err f (Err e) = Err (f e)"
  by (simp_all add: map_err_def)

lemma ok_or_eq_Ok [result_simps]: "ok_or e o' = Ok x \<longleftrightarrow> o' = Some x"
  by (cases o') (simp_all add: ok_or_def)

lemma ok_or_simps [simp]: "ok_or e (Some x) = Ok x" "ok_or e None = Err e"
  by (simp_all add: ok_or_def)

lemma ensure_eq_Ok [result_simps]: "ensure b e = Ok u \<longleftrightarrow> b"
  by (simp add: ensure_def)

lemma ensure_simps [simp]: "ensure True e = Ok ()" "ensure False e = Err e"
  by (simp_all add: ensure_def)

lemma opt_filter_eq_Some [result_simps]: "opt_filter P o' = Some x \<longleftrightarrow> o' = Some x \<and> P x"
  by (cases o') (auto simp: opt_filter_def)

lemma opt_filter_simps [simp]:
  "opt_filter P None = None" "opt_filter P (Some x) = (if P x then Some x else None)"
  by (simp_all add: opt_filter_def)

lemma is_none_or_simps [simp]: "is_none_or P None" "is_none_or P (Some x) = P x"
  by (simp_all add: is_none_or_def)

lemma is_some_and_simps [simp]: "\<not> is_some_and P None" "is_some_and P (Some x) = P x"
  by (simp_all add: is_some_and_def)

lemma is_ok_iff: "is_ok r \<longleftrightarrow> (\<exists>x. r = Ok x)"
  by (cases r) simp_all

subsection \<open>Panics\<close>

text \<open>
  A function of the source that can panic (an index out of range, \<open>expect\<close>, \<open>unreachable!\<close>)
  has the result type \<open>outcome\<close>; \<open>chain\<close> runs a continuation after a normal return.
\<close>

datatype 'a outcome = Panic | Return 'a

definition chain :: "'a outcome \<Rightarrow> ('a \<Rightarrow> 'b outcome) \<Rightarrow> 'b outcome" where
  "chain r f = (case r of Panic \<Rightarrow> Panic | Return x \<Rightarrow> f x)"

definition expect :: "'a option \<Rightarrow> 'a outcome" where
  "expect o' = (case o' of None \<Rightarrow> Panic | Some x \<Rightarrow> Return x)"

definition index_at :: "'a list \<Rightarrow> nat \<Rightarrow> 'a outcome" where
  "index_at xs i = (if i < length xs then Return (xs ! i) else Panic)"

lemma chain_simps [simp]: "chain (Return x) f = f x" "chain Panic f = Panic"
  by (simp_all add: chain_def)

lemma chain_eq_Return [result_simps]:
  "chain r f = Return y \<longleftrightarrow> (\<exists>x. r = Return x \<and> f x = Return y)"
  by (cases r) simp_all

lemma expect_simps [simp]: "expect (Some x) = Return x" "expect None = Panic"
  by (simp_all add: expect_def)

subsection \<open>Strings as UTF-8 bytes\<close>

definition byte_of :: "char \<Rightarrow> nat" where
  "byte_of c = of_char c"

definition is_continuation :: "char \<Rightarrow> bool" where
  "is_continuation c \<longleftrightarrow> 128 \<le> byte_of c \<and> byte_of c < 192"

text \<open>The characters of a string, each as its bytes: a leading byte and its continuation bytes.\<close>

function utf8_chars :: "string \<Rightarrow> string list" where
  "utf8_chars [] = []"
| "utf8_chars (b # bs) =
     (b # takeWhile is_continuation bs) # utf8_chars (dropWhile is_continuation bs)"
  by pat_completeness auto
termination
  by (relation "measure length") (auto simp: less_Suc_eq_le length_dropWhile_le)

definition from_bytes :: "nat list \<Rightarrow> string" where
  "from_bytes bs = map char_of bs"

text \<open>\<open>char::is_whitespace\<close>: the Unicode property White_Space, by encoding.\<close>

definition is_whitespace :: "string \<Rightarrow> bool" where
  "is_whitespace ch = (let b = map byte_of ch in
     b \<in> set [[9], [10], [11], [12], [13], [32], [194, 133], [194, 160], [225, 154, 128],
       [226, 128, 128], [226, 128, 129], [226, 128, 130], [226, 128, 131], [226, 128, 132],
       [226, 128, 133], [226, 128, 134], [226, 128, 135], [226, 128, 136], [226, 128, 137],
       [226, 128, 138], [226, 128, 168], [226, 128, 169], [226, 128, 175], [226, 129, 159],
       [227, 128, 128]])"

text \<open>\<open>char::is_control\<close>: the Unicode category Cc, that is U+0000..U+001F and U+007F..U+009F.\<close>

definition is_control :: "string \<Rightarrow> bool" where
  "is_control ch = (case map byte_of ch of
     [b] \<Rightarrow> b < 32 \<or> b = 127
   | [b, c] \<Rightarrow> b = 194 \<and> 128 \<le> c \<and> c < 160
   | _ \<Rightarrow> False)"

definition any_control :: "string \<Rightarrow> bool" where
  "any_control s \<longleftrightarrow> list_ex is_control (utf8_chars s)"

definition trim_chars :: "string list \<Rightarrow> string list" where
  "trim_chars cs = rev (dropWhile is_whitespace (rev (dropWhile is_whitespace cs)))"

definition trim :: "string \<Rightarrow> string" where
  "trim s = concat (trim_chars (utf8_chars s))"

definition take_chars :: "nat \<Rightarrow> string \<Rightarrow> string" where
  "take_chars n s = concat (take n (utf8_chars s))"

definition is_ascii_digit :: "char \<Rightarrow> bool" where
  "is_ascii_digit c \<longleftrightarrow> 48 \<le> byte_of c \<and> byte_of c \<le> 57"

definition is_lower_hex :: "char \<Rightarrow> bool" where
  "is_lower_hex c \<longleftrightarrow> is_ascii_digit c \<or> (97 \<le> byte_of c \<and> byte_of c \<le> 102)"

definition is_ascii_alphanumeric :: "char \<Rightarrow> bool" where
  "is_ascii_alphanumeric c \<longleftrightarrow>
     is_ascii_digit c \<or> (65 \<le> byte_of c \<and> byte_of c \<le> 90) \<or> (97 \<le> byte_of c \<and> byte_of c \<le> 122)"

definition strip_prefix :: "string \<Rightarrow> string \<Rightarrow> string option" where
  "strip_prefix p s = (if take (length p) s = p then Some (drop (length p) s) else None)"

text \<open>\<open>split_once\<close> on a one-byte separator, and \<open>split\<close>, which always has at least one part.\<close>

fun split_once :: "char \<Rightarrow> string \<Rightarrow> (string \<times> string) option" where
  "split_once c [] = None"
| "split_once c (x # xs) =
     (if x = c then Some ([], xs) else map_option (\<lambda>(a, b). (x # a, b)) (split_once c xs))"

fun split_on :: "char \<Rightarrow> string \<Rightarrow> string list" where
  "split_on c [] = [[]]"
| "split_on c (x # xs) =
     (if x = c then [] # split_on c xs
      else case split_on c xs of [] \<Rightarrow> [[x]] | p # ps \<Rightarrow> (x # p) # ps)"

text \<open>\<open>str::lines\<close>: lines end with LF or CR LF; a last line without LF keeps its CR.\<close>

definition strip_cr :: "string \<Rightarrow> string" where
  "strip_cr l = (if l \<noteq> [] \<and> last l = CHR 0x0D then butlast l else l)"

definition lines_of :: "string \<Rightarrow> string list" where
  "lines_of s = (let parts = split_on CHR 0x0A s in
     map strip_cr (butlast parts) @ (if last parts = [] then [] else [last parts]))"

subsubsection \<open>Decimal notation\<close>

fun show_nat :: "nat \<Rightarrow> string" where
  "show_nat n = (if n < 10 then [char_of (48 + n)]
     else show_nat (n div 10) @ [char_of (48 + n mod 10)])"

declare show_nat.simps [simp del]

definition show_word :: "'a::len word \<Rightarrow> string" where
  "show_word w = show_nat (unat w)"

definition decimal_value :: "string \<Rightarrow> nat" where
  "decimal_value ds = foldl (\<lambda>n d. 10 * n + (byte_of d - 48)) 0 ds"

text \<open>
  \<open>str::parse::<u32>()\<close>: an optional plus sign and at least one ASCII digit; an error on
  overflow.
\<close>

definition parse_u32 :: "string \<Rightarrow> u32 option" where
  "parse_u32 s = (let ds = (if s \<noteq> [] \<and> hd s = CHR ''+'' then tl s else s) in
     if ds = [] \<or> \<not> list_all is_ascii_digit ds then None
     else if decimal_value ds < 2 ^ 32 then Some (of_nat (decimal_value ds)) else None)"

text \<open>\<open>to_be_bytes\<close> and \<open>from_be_bytes\<close>.\<close>

definition be_bytes :: "nat \<Rightarrow> 'a::len word \<Rightarrow> bytes" where
  "be_bytes n w = map (\<lambda>i. char_of (unat w div 256 ^ i mod 256)) (rev [0..<n])"

definition be_value :: "bytes \<Rightarrow> nat" where
  "be_value bs = foldl (\<lambda>n b. 256 * n + byte_of b) 0 bs"

subsubsection \<open>Facts about strings\<close>

lemma byte_of_lt [simp]: "byte_of c < 256"
  by (simp add: byte_of_def)

lemma byte_of_char_of [simp]: "byte_of (char_of n) = n mod 256"
  by (simp add: byte_of_def)

lemma concat_utf8_chars [simp]: "concat (utf8_chars s) = s"
  by (induction s rule: utf8_chars.induct) simp_all

text \<open>
  A list of characters is well-formed when each one is a byte followed by continuation bytes
  and every character but the first starts with a byte that is not a continuation byte;
  \<open>utf8_chars\<close> then inverts \<open>concat\<close>, so every segment of a string's characters is again
  the characters of its bytes.
\<close>

fun wf_tail :: "string list \<Rightarrow> bool" where
  "wf_tail [] = True"
| "wf_tail (c # cs) =
     (c \<noteq> [] \<and> \<not> is_continuation (hd c) \<and> list_all is_continuation (tl c) \<and> wf_tail cs)"

fun wf_chars :: "string list \<Rightarrow> bool" where
  "wf_chars [] = True"
| "wf_chars (c # cs) = (c \<noteq> [] \<and> list_all is_continuation (tl c) \<and> wf_tail cs)"

lemma wf_tail_wf_chars: "wf_tail cs \<Longrightarrow> wf_chars cs"
  by (cases cs) simp_all

lemma wf_chars_utf8_chars_dropWhile:
  "wf_tail (utf8_chars (dropWhile is_continuation s))"
proof (induction s rule: length_induct)
  case (1 s)
  show ?case
  proof (cases "dropWhile is_continuation s")
    case Nil
    then show ?thesis by (simp only: utf8_chars.simps wf_tail.simps)
  next
    case (Cons b bs)
    then have nb: "\<not> is_continuation b" by (metis dropWhile_eq_Cons_conv)
    have "length bs < length s"
      using Cons length_dropWhile_le [of is_continuation s] by simp
    then have "wf_tail (utf8_chars (dropWhile is_continuation bs))" using "1.IH" by blast
    moreover have "list_all is_continuation (takeWhile is_continuation bs)"
      by (auto simp: list_all_iff dest: set_takeWhileD)
    ultimately show ?thesis using nb by (simp only: Cons utf8_chars.simps wf_tail.simps) simp
  qed
qed

lemma wf_chars_utf8_chars: "wf_chars (utf8_chars s)"
proof (cases s)
  case (Cons b bs)
  then show ?thesis
    by (auto simp: wf_chars_utf8_chars_dropWhile list_all_iff dest: set_takeWhileD)
qed simp

lemma wf_chars_tl: "wf_chars cs \<Longrightarrow> wf_tail (tl cs)"
  by (cases cs) simp_all

lemma wf_tail_dropWhile: "wf_tail cs \<Longrightarrow> wf_tail (dropWhile P cs)"
  by (induction cs) auto

lemma wf_chars_dropWhile: "wf_chars cs \<Longrightarrow> wf_chars (dropWhile P cs)"
  by (cases cs) (auto intro: wf_tail_wf_chars wf_tail_dropWhile)

lemma wf_tail_append: "wf_tail (cs @ ds) \<longleftrightarrow> wf_tail cs \<and> wf_tail ds"
  by (induction cs) auto

lemma wf_chars_append: "wf_chars (cs @ ds) \<Longrightarrow> wf_chars cs"
  by (cases cs) (simp_all add: wf_tail_append)

lemma takeWhile_continuation:
  assumes "list_all is_continuation t" and "wf_tail cs"
  shows "takeWhile is_continuation (t @ concat cs) = t"
    and "dropWhile is_continuation (t @ concat cs) = concat cs"
proof -
  have "takeWhile is_continuation (concat cs) = [] \<and> dropWhile is_continuation (concat cs) = concat cs"
  proof (cases cs)
    case (Cons c cs')
    then obtain h r where "c = h # r" using assms(2) by (cases c) auto
    then show ?thesis using Cons assms(2) by simp
  qed simp
  then show "takeWhile is_continuation (t @ concat cs) = t"
    and "dropWhile is_continuation (t @ concat cs) = concat cs"
    using assms(1) by (simp_all add: takeWhile_append2 dropWhile_append2 list_all_iff)
qed

lemma utf8_chars_concat: "wf_chars cs \<Longrightarrow> utf8_chars (concat cs) = cs"
proof (induction cs)
  case (Cons c cs)
  then obtain h t where c: "c = h # t" by (cases c) auto
  have "utf8_chars (concat cs) = cs" using Cons by (simp add: wf_tail_wf_chars)
  then show ?case using Cons.prems c by (simp add: takeWhile_continuation)
qed simp

lemma trim_chars_sublist: "\<exists>a b. cs = a @ trim_chars cs @ b"
proof -
  let ?d = "dropWhile is_whitespace cs"
  have "?d = rev (dropWhile is_whitespace (rev ?d)) @ rev (takeWhile is_whitespace (rev ?d))"
    by (metis rev_append rev_rev_ident takeWhile_dropWhile_id)
  then have "cs = takeWhile is_whitespace cs @ trim_chars cs @ rev (takeWhile is_whitespace (rev ?d))"
    unfolding trim_chars_def by (metis takeWhile_dropWhile_id)
  then show ?thesis by blast
qed

lemma utf8_chars_trim: "utf8_chars (trim s) = trim_chars (utf8_chars s)"
proof -
  let ?d = "dropWhile is_whitespace (utf8_chars s)"
  have "wf_chars ?d" by (simp add: wf_chars_dropWhile wf_chars_utf8_chars)
  moreover have "?d = trim_chars (utf8_chars s) @ rev (takeWhile is_whitespace (rev ?d))"
    unfolding trim_chars_def by (metis rev_append rev_rev_ident takeWhile_dropWhile_id)
  ultimately have "wf_chars (trim_chars (utf8_chars s))" using wf_chars_append by metis
  then show ?thesis by (simp add: trim_def utf8_chars_concat)
qed

lemma trim_chars_idem: "trim_chars (trim_chars cs) = trim_chars cs"
proof (cases "trim_chars cs")
  case Nil
  show ?thesis by (simp only: Nil) (simp add: trim_chars_def)
next
  case (Cons t ts)
  let ?d = "dropWhile is_whitespace cs"
  have ends: "\<not> is_whitespace (last (trim_chars cs))"
    using Cons unfolding trim_chars_def by (metis hd_dropWhile last_rev list.distinct(1) rev_is_Nil_conv)
  have pre: "?d = trim_chars cs @ rev (takeWhile is_whitespace (rev ?d))"
    unfolding trim_chars_def by (metis rev_append rev_rev_ident takeWhile_dropWhile_id)
  then have "?d \<noteq> []" "hd ?d = t" using Cons by (metis Nil_is_append_conv list.distinct(1), metis hd_append2 list.distinct(1) list.sel(1))
  then have start: "\<not> is_whitespace t" by (metis hd_dropWhile)
  then have "dropWhile is_whitespace (trim_chars cs) = trim_chars cs" using Cons by simp
  moreover have "dropWhile is_whitespace (rev (trim_chars cs)) = rev (trim_chars cs)"
    using ends Cons by (cases "rev (trim_chars cs)") (auto simp: last_rev hd_rev simp flip: hd_rev)
  ultimately show ?thesis unfolding trim_chars_def [of "trim_chars cs"] by simp
qed

lemma trim_idem [simp]: "trim (trim s) = trim s"
  by (metis concat_utf8_chars trim_chars_idem trim_def utf8_chars_trim)

lemma length_trim: "length (trim s) \<le> length s"
proof -
  obtain a b where "utf8_chars s = a @ trim_chars (utf8_chars s) @ b"
    using trim_chars_sublist by blast
  then have "s = concat a @ trim s @ concat b"
    unfolding trim_def by (metis concat_append concat_utf8_chars)
  then show ?thesis by (metis le_add1 le_add2 length_append order_trans)
qed

lemma take_chars_length: "length (utf8_chars (take_chars n s)) \<le> n"
proof -
  have "utf8_chars s = take n (utf8_chars s) @ drop n (utf8_chars s)" by simp
  then have "wf_chars (take n (utf8_chars s))"
    by (metis wf_chars_append wf_chars_utf8_chars)
  then show ?thesis by (simp add: take_chars_def utf8_chars_concat)
qed

end
