(* ===== verification/Experiment.thy ===== *)
theory Experiment
  imports Prelude
begin

text \<open>
  The requested experiment and its semantic validation,
  \<open>src/crates/benchplane-schema/src/experiment.rs\<close>: the constants, the structs and enums of the
  document, the serde defaults and \<open>Experiment::validate\<close>. The document's \<open>f64\<close> budget is its
  64-bit IEEE 754 representation. The main result reads the collected error list: it is empty
  exactly when the document satisfies the bounds stated over unbounded naturals, so none of the
  checked products hides an overflow.
\<close>

subsection \<open>Constants\<close>

definition API_VERSION :: string where "API_VERSION = ''benchplane/v1alpha1''"
definition EXPERIMENT_KIND :: string where "EXPERIMENT_KIND = ''Experiment''"
definition EVIDENCE_FORMAT_V1 :: string where "EVIDENCE_FORMAT_V1 = ''benchplane-evidence/v1''"
definition LOCAL_FAKE_GENERATOR_VERSION :: string where
  "LOCAL_FAKE_GENERATOR_VERSION = ''benchplane-local-fake/v1''"
definition CPU_PROBE_GENERATOR_VERSION :: string where
  "CPU_PROBE_GENERATOR_VERSION = ''benchplane-cpu-probe/v1''"
definition CPU_PROBE_WORKLOAD_PROFILE :: string where
  "CPU_PROBE_WORKLOAD_PROFILE = ''cpu-token-probe-v1''"
definition LLAMA_CPP_GENERATOR_VERSION_V1 :: string where
  "LLAMA_CPP_GENERATOR_VERSION_V1 = ''benchplane-llama-cpp-smollm2/v1''"
definition LLAMA_CPP_GENERATOR_VERSION :: string where
  "LLAMA_CPP_GENERATOR_VERSION = ''benchplane-llama-cpp-smollm2/v2''"
definition LLAMA_CPP_WORKLOAD_PROFILE :: string where
  "LLAMA_CPP_WORKLOAD_PROFILE = ''smollm2-chat-greedy-v1''"
definition LLAMA_CPP_MODEL_IDENTITY :: string where
  "LLAMA_CPP_MODEL_IDENTITY = ''smollm2-135m-instruct-q2-k-v1''"
definition MAX_LOCAL_FAKE_RECORDS :: u32 where "MAX_LOCAL_FAKE_RECORDS = 10000"
definition MAX_CPU_PROBE_RECORDS :: u32 where "MAX_CPU_PROBE_RECORDS = 1000"
definition MAX_CPU_PROBE_OUTPUT_TOKENS :: u32 where "MAX_CPU_PROBE_OUTPUT_TOKENS = 4096"
definition MAX_CPU_PROBE_WORK_UNITS_PER_TOKEN :: u32 where
  "MAX_CPU_PROBE_WORK_UNITS_PER_TOKEN = 1000000"
definition MAX_CPU_PROBE_TOTAL_WORK_UNITS :: u64 where
  "MAX_CPU_PROBE_TOTAL_WORK_UNITS = 100000000"
definition MAX_LLAMA_CPP_RECORDS :: u32 where "MAX_LLAMA_CPP_RECORDS = 16"
definition MAX_LLAMA_CPP_OUTPUT_TOKENS :: u32 where "MAX_LLAMA_CPP_OUTPUT_TOKENS = 32"
definition MAX_LLAMA_CPP_PROMPT_TOKENS :: u32 where "MAX_LLAMA_CPP_PROMPT_TOKENS = 96"
definition MAX_LLAMA_CPP_TOTAL_TOKENS :: u64 where "MAX_LLAMA_CPP_TOTAL_TOKENS = 8192"
definition MAX_LLAMA_CPP_REQUEST_OBSERVATIONS :: u64 where
  "MAX_LLAMA_CPP_REQUEST_OBSERVATIONS =
     MAX_LLAMA_CPP_TOTAL_TOKENS div (ucast MAX_LLAMA_CPP_PROMPT_TOKENS + 1)"

lemmas limit_defs = MAX_LOCAL_FAKE_RECORDS_def MAX_CPU_PROBE_RECORDS_def
  MAX_CPU_PROBE_OUTPUT_TOKENS_def MAX_CPU_PROBE_WORK_UNITS_PER_TOKEN_def
  MAX_CPU_PROBE_TOTAL_WORK_UNITS_def MAX_LLAMA_CPP_RECORDS_def MAX_LLAMA_CPP_OUTPUT_TOKENS_def
  MAX_LLAMA_CPP_PROMPT_TOKENS_def MAX_LLAMA_CPP_TOTAL_TOKENS_def

subsection \<open>Floating point: the bits of an \<open>f64\<close>\<close>

type_synonym f64 = "64 word"

definition f64_exponent :: "f64 \<Rightarrow> 64 word" where
  "f64_exponent b = take_bit 11 (drop_bit 52 b)"

definition f64_mantissa :: "f64 \<Rightarrow> 64 word" where
  "f64_mantissa b = take_bit 52 b"

definition f64_is_finite :: "f64 \<Rightarrow> bool" where
  "f64_is_finite b \<longleftrightarrow> f64_exponent b \<noteq> 2047"

definition f64_is_nan :: "f64 \<Rightarrow> bool" where
  "f64_is_nan b \<longleftrightarrow> f64_exponent b = 2047 \<and> f64_mantissa b \<noteq> 0"

definition f64_is_zero :: "f64 \<Rightarrow> bool" where
  "f64_is_zero b \<longleftrightarrow> take_bit 63 b = 0"

text \<open>The comparisons \<open>b < 0.0\<close>, \<open>b <= 0.0\<close> and \<open>a == b\<close> of IEEE 754.\<close>

definition f64_lt_zero :: "f64 \<Rightarrow> bool" where
  "f64_lt_zero b \<longleftrightarrow> \<not> f64_is_nan b \<and> \<not> f64_is_zero b \<and> bit b 63"

definition f64_le_zero :: "f64 \<Rightarrow> bool" where
  "f64_le_zero b \<longleftrightarrow> \<not> f64_is_nan b \<and> (f64_is_zero b \<or> bit b 63)"

definition f64_eq :: "f64 \<Rightarrow> f64 \<Rightarrow> bool" where
  "f64_eq a b \<longleftrightarrow> \<not> f64_is_nan a \<and> \<not> f64_is_nan b \<and> (a = b \<or> f64_is_zero a \<and> f64_is_zero b)"

subsection \<open>The document\<close>

record Metadata =
  md_name :: string
  md_labels :: "string \<rightharpoonup> string"

datatype AwsCapacity = Spot | OnDemand

datatype ProviderSpec =
    ProviderLocalFake
  | ProviderLocal
  | ProviderAws (aws_region: string) (aws_capacity: AwsCapacity) (aws_instance_types: "string list")

datatype LocalFakeScenario =
  ScenarioSuccess | ScenarioRuntimeFailure | ScenarioInterrupted | ScenarioInsufficientMeasurements

datatype LlamaCppTarget = TargetCpu | TargetNvidiaCuda

datatype RuntimeSpec =
    RuntimeLocalFake u64 LocalFakeScenario
  | RuntimeCpuProbe u32 u32
  | RuntimeLlamaCpp LlamaCppTarget string u32
  | RuntimeVllm string string "string list"

record WorkloadSpec =
  wl_profile :: string
  wl_requests :: u32
  wl_concurrency :: u32

record MeasurementSpec =
  ms_warmup_runs :: u32
  ms_repetitions :: u32

record BudgetSpec =
  bs_maximum_cost_usd :: f64

record LifecycleSpec =
  ls_maximum_runtime_seconds :: u64
  ls_destroy_on_completion :: bool

record ArtifactSpec =
  as_public :: bool
  as_format :: string

record ExperimentSpec =
  sp_provider :: ProviderSpec
  sp_runtime :: RuntimeSpec
  sp_workload :: WorkloadSpec
  sp_measurement :: MeasurementSpec
  sp_budget :: BudgetSpec
  sp_lifecycle :: LifecycleSpec
  sp_artifacts :: ArtifactSpec

record Experiment =
  ex_api_version :: string
  ex_kind :: string
  ex_metadata :: Metadata
  ex_spec :: ExperimentSpec

record ResolvedExperiment =
  re_api_version :: string
  re_kind :: string
  re_experiment :: Experiment
  re_experiment_digest :: string
  re_resolved_plan_digest :: string

subsection \<open>Defaults\<close>

definition default_llama_cpp_target :: LlamaCppTarget where
  "default_llama_cpp_target = TargetCpu"

definition is_cpu :: "LlamaCppTarget \<Rightarrow> bool" where
  "is_cpu t \<longleftrightarrow> t = TargetCpu"

definition default_llama_cpp_model :: string where
  "default_llama_cpp_model = LLAMA_CPP_MODEL_IDENTITY"

definition default_llama_cpp_output_tokens :: u32 where
  "default_llama_cpp_output_tokens = 4"

definition default_concurrency :: u32 where "default_concurrency = 1"
definition default_warmups :: u32 where "default_warmups = 1"
definition default_repetitions :: u32 where "default_repetitions = 3"
definition default_runtime_seconds :: u64 where "default_runtime_seconds = 3600"
definition default_true :: bool where "default_true = True"
definition default_artifact_format :: string where "default_artifact_format = EVIDENCE_FORMAT_V1"

definition measurement_default :: MeasurementSpec where
  "measurement_default = \<lparr>ms_warmup_runs = default_warmups, ms_repetitions = default_repetitions\<rparr>"

definition lifecycle_default :: LifecycleSpec where
  "lifecycle_default =
     \<lparr>ls_maximum_runtime_seconds = default_runtime_seconds, ls_destroy_on_completion = True\<rparr>"

definition artifact_default :: ArtifactSpec where
  "artifact_default = \<lparr>as_public = False, as_format = default_artifact_format\<rparr>"

subsection \<open>Validation\<close>

datatype ValidationError =
    ApiVersion string
  | Kind string
  | EmptyName
  | EmptyWorkloadProfile
  | NoRequests
  | NoConcurrency
  | NoRepetitions
  | LocalFakeRecordLimit
  | InvalidCpuProbeOutputTokens
  | InvalidCpuProbeWorkUnits
  | InvalidCpuProbeProfile
  | UnsupportedCpuProbeConcurrency
  | CpuProbeRecordLimit
  | CpuProbeWorkLimit
  | InvalidLlamaCppModel
  | InvalidLlamaCppOutputTokens
  | InvalidLlamaCppProfile
  | UnsupportedLlamaCppConcurrency
  | LlamaCppRecordLimit
  | LlamaCppWorkLimit
  | InvalidLocalBudget
  | InvalidAwsBudget
  | InvalidRuntime
  | MissingInstanceTypes
  | EmptyAwsRegion
  | EmptyAwsInstanceType
  | InvalidVllmIdentity
  | UnsupportedArtifactFormat string

text \<open>\<open>if cond { errors.push(error) }\<close>.\<close>

definition push_if :: "bool \<Rightarrow> 'e \<Rightarrow> 'e list" where
  "push_if b e = (if b then [e] else [])"

definition record_count :: "Experiment \<Rightarrow> u32 option" where
  "record_count e = checked_add (ms_warmup_runs (sp_measurement (ex_spec e)))
     (ms_repetitions (sp_measurement (ex_spec e)))"

definition document_errors :: "Experiment \<Rightarrow> ValidationError list" where
  "document_errors e = (let w = sp_workload (ex_spec e) in
     push_if (ex_api_version e \<noteq> API_VERSION) (ApiVersion (ex_api_version e)) @
     push_if (ex_kind e \<noteq> EXPERIMENT_KIND) (Kind (ex_kind e)) @
     push_if (trim (md_name (ex_metadata e)) = []) EmptyName @
     push_if (trim (wl_profile w) = []) EmptyWorkloadProfile @
     push_if (wl_requests w = 0) NoRequests @
     push_if (wl_concurrency w = 0) NoConcurrency @
     push_if (ms_repetitions (sp_measurement (ex_spec e)) = 0) NoRepetitions)"

definition local_fake_errors :: "Experiment \<Rightarrow> ValidationError list" where
  "local_fake_errors e = (case sp_runtime (ex_spec e) of
     RuntimeLocalFake _ _ \<Rightarrow>
       push_if (is_none_or (\<lambda>total. total > MAX_LOCAL_FAKE_RECORDS) (record_count e))
         LocalFakeRecordLimit
   | _ \<Rightarrow> [])"

definition cpu_probe_total_work :: "Experiment \<Rightarrow> u32 \<Rightarrow> u32 \<Rightarrow> u64 option" where
  "cpu_probe_total_work e output_tokens work_units_per_token =
     Option.bind (Option.bind (Option.bind (map_option ucast (record_count e))
       (\<lambda>value. checked_mul value (ucast (wl_requests (sp_workload (ex_spec e))))))
       (\<lambda>value. checked_mul value (ucast output_tokens)))
       (\<lambda>value. checked_mul value (ucast work_units_per_token))"

definition cpu_probe_errors :: "Experiment \<Rightarrow> ValidationError list" where
  "cpu_probe_errors e = (case sp_runtime (ex_spec e) of
     RuntimeCpuProbe output_tokens work_units_per_token \<Rightarrow>
       push_if (\<not> (1 \<le> output_tokens \<and> output_tokens \<le> MAX_CPU_PROBE_OUTPUT_TOKENS))
         InvalidCpuProbeOutputTokens @
       push_if (\<not> (1 \<le> work_units_per_token
           \<and> work_units_per_token \<le> MAX_CPU_PROBE_WORK_UNITS_PER_TOKEN))
         InvalidCpuProbeWorkUnits @
       push_if (wl_profile (sp_workload (ex_spec e)) \<noteq> CPU_PROBE_WORKLOAD_PROFILE)
         InvalidCpuProbeProfile @
       push_if (wl_concurrency (sp_workload (ex_spec e)) \<noteq> 1) UnsupportedCpuProbeConcurrency @
       push_if (is_none_or (\<lambda>total. total > MAX_CPU_PROBE_RECORDS) (record_count e))
         CpuProbeRecordLimit @
       push_if (is_none_or (\<lambda>total. total > MAX_CPU_PROBE_TOTAL_WORK_UNITS)
           (cpu_probe_total_work e output_tokens work_units_per_token))
         CpuProbeWorkLimit
   | _ \<Rightarrow> [])"

definition llama_cpp_total_work :: "Experiment \<Rightarrow> u32 \<Rightarrow> u64 option" where
  "llama_cpp_total_work e output_tokens =
     (let tokens_per_request =
        map_option ucast (checked_add MAX_LLAMA_CPP_PROMPT_TOKENS output_tokens) in
     Option.bind (Option.bind (map_option ucast (record_count e))
       (\<lambda>value. checked_mul value (ucast (wl_requests (sp_workload (ex_spec e))))))
       (\<lambda>value. Option.bind tokens_per_request (\<lambda>tokens. checked_mul value tokens)))"

definition llama_cpp_errors :: "Experiment \<Rightarrow> ValidationError list" where
  "llama_cpp_errors e = (case sp_runtime (ex_spec e) of
     RuntimeLlamaCpp _ model output_tokens \<Rightarrow>
       push_if (model \<noteq> LLAMA_CPP_MODEL_IDENTITY) InvalidLlamaCppModel @
       push_if (\<not> (1 \<le> output_tokens \<and> output_tokens \<le> MAX_LLAMA_CPP_OUTPUT_TOKENS))
         InvalidLlamaCppOutputTokens @
       push_if (wl_profile (sp_workload (ex_spec e)) \<noteq> LLAMA_CPP_WORKLOAD_PROFILE)
         InvalidLlamaCppProfile @
       push_if (wl_concurrency (sp_workload (ex_spec e)) \<noteq> 1) UnsupportedLlamaCppConcurrency @
       push_if (is_none_or (\<lambda>total. total > MAX_LLAMA_CPP_RECORDS) (record_count e))
         LlamaCppRecordLimit @
       push_if (is_none_or (\<lambda>total. total > MAX_LLAMA_CPP_TOTAL_TOKENS)
           (llama_cpp_total_work e output_tokens))
         LlamaCppWorkLimit
   | _ \<Rightarrow> [])"

definition lifecycle_errors :: "Experiment \<Rightarrow> ValidationError list" where
  "lifecycle_errors e = (let s = ls_maximum_runtime_seconds (sp_lifecycle (ex_spec e)) in
     push_if (\<not> (1 \<le> s \<and> s \<le> 86400)) InvalidRuntime)"

definition provider_errors :: "Experiment \<Rightarrow> ValidationError list" where
  "provider_errors e = (let cost = bs_maximum_cost_usd (sp_budget (ex_spec e)) in
     case sp_provider (ex_spec e) of
       ProviderAws region _ instance_types \<Rightarrow>
         push_if (\<not> f64_is_finite cost \<or> f64_le_zero cost) InvalidAwsBudget @
         push_if (trim region = []) EmptyAwsRegion @
         (if instance_types = [] then [MissingInstanceTypes]
          else push_if (list_ex (\<lambda>value. trim value = []) instance_types) EmptyAwsInstanceType)
     | _ \<Rightarrow> push_if (\<not> f64_is_finite cost \<or> f64_lt_zero cost) InvalidLocalBudget)"

definition vllm_errors :: "Experiment \<Rightarrow> ValidationError list" where
  "vllm_errors e = (case sp_runtime (ex_spec e) of
     RuntimeVllm model revision _ \<Rightarrow>
       push_if (trim model = [] \<or> trim revision = []) InvalidVllmIdentity
   | _ \<Rightarrow> [])"

definition artifact_errors :: "Experiment \<Rightarrow> ValidationError list" where
  "artifact_errors e = (let format = as_format (sp_artifacts (ex_spec e)) in
     push_if (format \<noteq> EVIDENCE_FORMAT_V1) (UnsupportedArtifactFormat format))"

definition validation_errors :: "Experiment \<Rightarrow> ValidationError list" where
  "validation_errors e = document_errors e @ local_fake_errors e @ cpu_probe_errors e @
     llama_cpp_errors e @ lifecycle_errors e @ provider_errors e @ vllm_errors e @ artifact_errors e"

definition validate :: "Experiment \<Rightarrow> ValidationError list + unit" where
  "validate e = (let errors = validation_errors e in if errors = [] then Ok () else Err errors)"

lemma push_if_eq_Nil [simp]: "push_if b e = [] \<longleftrightarrow> \<not> b"
  by (simp add: push_if_def)

subsection \<open>What validation accepts\<close>

text \<open>
  The specification of an acceptable document, over unbounded naturals: the products below are
  mathematical ones, so nothing wraps.
\<close>

definition records :: "Experiment \<Rightarrow> nat" where
  "records e = unat (ms_warmup_runs (sp_measurement (ex_spec e)))
     + unat (ms_repetitions (sp_measurement (ex_spec e)))"

definition requests :: "Experiment \<Rightarrow> nat" where
  "requests e = unat (wl_requests (sp_workload (ex_spec e)))"

definition runtime_admissible :: "Experiment \<Rightarrow> bool" where
  "runtime_admissible e = (let w = sp_workload (ex_spec e) in case sp_runtime (ex_spec e) of
     RuntimeLocalFake _ _ \<Rightarrow> records e \<le> 10000
   | RuntimeCpuProbe t u \<Rightarrow> 1 \<le> unat t \<and> unat t \<le> 4096 \<and> 1 \<le> unat u \<and> unat u \<le> 1000000
       \<and> wl_profile w = CPU_PROBE_WORKLOAD_PROFILE \<and> wl_concurrency w = 1
       \<and> records e \<le> 1000 \<and> records e * requests e * unat t * unat u \<le> 100000000
   | RuntimeLlamaCpp _ m t \<Rightarrow> m = LLAMA_CPP_MODEL_IDENTITY \<and> 1 \<le> unat t \<and> unat t \<le> 32
       \<and> wl_profile w = LLAMA_CPP_WORKLOAD_PROFILE \<and> wl_concurrency w = 1
       \<and> records e \<le> 16 \<and> records e * requests e * (96 + unat t) \<le> 8192
   | RuntimeVllm m r _ \<Rightarrow> trim m \<noteq> [] \<and> trim r \<noteq> [])"

definition provider_admissible :: "Experiment \<Rightarrow> bool" where
  "provider_admissible e = (let cost = bs_maximum_cost_usd (sp_budget (ex_spec e)) in
     f64_is_finite cost \<and> (case sp_provider (ex_spec e) of
       ProviderAws region _ types \<Rightarrow> \<not> f64_le_zero cost \<and> trim region \<noteq> [] \<and> types \<noteq> []
         \<and> (\<forall>t\<in>set types. trim t \<noteq> [])
     | _ \<Rightarrow> \<not> f64_lt_zero cost))"

definition admissible :: "Experiment \<Rightarrow> bool" where
  "admissible e = (let s = unat (ls_maximum_runtime_seconds (sp_lifecycle (ex_spec e))) in
     ex_api_version e = API_VERSION \<and> ex_kind e = EXPERIMENT_KIND
     \<and> trim (md_name (ex_metadata e)) \<noteq> []
     \<and> trim (wl_profile (sp_workload (ex_spec e))) \<noteq> []
     \<and> 0 < requests e \<and> wl_concurrency (sp_workload (ex_spec e)) \<noteq> 0
     \<and> ms_repetitions (sp_measurement (ex_spec e)) \<noteq> 0
     \<and> 1 \<le> s \<and> s \<le> 86400 \<and> as_format (sp_artifacts (ex_spec e)) = EVIDENCE_FORMAT_V1
     \<and> runtime_admissible e \<and> provider_admissible e)"

text \<open>
  A checked computation tracks a natural number below a limit: it either computed exactly that
  number or gave up on one that exceeds the limit.
\<close>

definition counts :: "nat \<Rightarrow> 'a::len word option \<Rightarrow> nat \<Rightarrow> bool" where
  "counts L c n \<longleftrightarrow> (case c of None \<Rightarrow> L < n | Some v \<Rightarrow> unat v = n)"

lemma counts_checked_mul:
  fixes m :: "'a::len word"
  assumes "counts L c n" and "0 < unat m" and "L < 2 ^ LENGTH('a)"
  shows "counts L (Option.bind c (\<lambda>v. checked_mul v m)) (n * unat m)"
proof (cases c)
  case None
  have "n * 1 \<le> n * unat m" using assms(2) by (intro mult_le_mono2) simp
  then show ?thesis using None assms(1) by (simp add: counts_def order_less_le_trans)
next
  case (Some v)
  then show ?thesis using assms(1,3) by (auto simp: counts_def checked_mul_def)
qed

lemma counts_exceeds: "counts (unat M) c n \<Longrightarrow> is_none_or (\<lambda>t. t > M) c \<longleftrightarrow> unat M < n"
  by (cases c) (auto simp: counts_def word_less_nat_alt)

lemma counts_record_count: "L < 2 ^ 32 \<Longrightarrow> counts L (record_count e) (records e)"
  by (auto simp: counts_def record_count_def records_def checked_add_def)

lemma counts_ucast: "counts L (c :: u32 option) n \<Longrightarrow> counts L (map_option ucast c :: u64 option) n"
  by (cases c) (auto simp: counts_def)

lemma record_limit_iff:
  "is_none_or (\<lambda>t. t > M) (record_count e) \<longleftrightarrow> unat M < records e"
  using counts_exceeds [OF counts_record_count, of M e] by simp

lemma counts_checked_mul_ucast:
  assumes "counts L (c :: u64 option) n" and "0 < unat (m :: u32)" and "L < 2 ^ 32"
  shows "counts L (Option.bind c (\<lambda>v. checked_mul v (ucast m))) (n * unat m)"
proof -
  have "L < 2 ^ LENGTH(64)" using assms(3) by simp
  then show ?thesis using counts_checked_mul [OF assms(1), of "ucast m"] assms(2) by simp
qed

lemma cpu_probe_work_iff:
  assumes "0 < requests e" "0 < unat t" "0 < unat u"
  shows "is_none_or (\<lambda>w. w > MAX_CPU_PROBE_TOTAL_WORK_UNITS) (cpu_probe_total_work e t u)
    \<longleftrightarrow> 100000000 < records e * requests e * unat t * unat u"
proof -
  have L: "(100000000 :: nat) < 2 ^ 32" by simp
  have "counts 100000000 (cpu_probe_total_work e t u) (records e * requests e * unat t * unat u)"
    unfolding cpu_probe_total_work_def requests_def
    by (intro counts_checked_mul_ucast counts_ucast counts_record_count L assms
        assms(1) [unfolded requests_def])
  then show ?thesis
    using counts_exceeds [of MAX_CPU_PROBE_TOTAL_WORK_UNITS] by (simp add: limit_defs)
qed

lemma llama_cpp_work_iff:
  assumes "0 < requests e" "unat t \<le> 32"
  shows "is_none_or (\<lambda>w. w > MAX_LLAMA_CPP_TOTAL_TOKENS) (llama_cpp_total_work e t)
    \<longleftrightarrow> 8192 < records e * requests e * (96 + unat t)"
proof -
  have L: "(8192 :: nat) < 2 ^ 32" by simp
  have tokens: "checked_add MAX_LLAMA_CPP_PROMPT_TOKENS t = Some (96 + t)"
    and unat_tokens: "unat (96 + t) = 96 + unat t"
    using assms(2) by (simp_all add: checked_add_def limit_defs)
  have "counts 8192 (llama_cpp_total_work e t) (records e * requests e * unat (96 + t))"
    unfolding llama_cpp_total_work_def requests_def tokens Let_def option.map(2) bind.bind_lunit
    by (intro counts_checked_mul_ucast counts_ucast counts_record_count L
        assms(1) [unfolded requests_def]) (simp add: unat_tokens)
  then show ?thesis
    using counts_exceeds [of MAX_LLAMA_CPP_TOTAL_TOKENS] unat_tokens by (simp add: limit_defs)
qed

lemma document_ok_iff:
  "document_errors e = [] \<longleftrightarrow> ex_api_version e = API_VERSION \<and> ex_kind e = EXPERIMENT_KIND
     \<and> trim (md_name (ex_metadata e)) \<noteq> [] \<and> trim (wl_profile (sp_workload (ex_spec e))) \<noteq> []
     \<and> 0 < requests e \<and> wl_concurrency (sp_workload (ex_spec e)) \<noteq> 0
     \<and> ms_repetitions (sp_measurement (ex_spec e)) \<noteq> 0"
  by (simp add: document_errors_def requests_def unat_gt_0 Let_def)

lemma lifecycle_ok_iff:
  "lifecycle_errors e = [] \<longleftrightarrow>
     1 \<le> unat (ls_maximum_runtime_seconds (sp_lifecycle (ex_spec e)))
     \<and> unat (ls_maximum_runtime_seconds (sp_lifecycle (ex_spec e))) \<le> 86400"
  by (simp add: lifecycle_errors_def Let_def word_le_nat_alt)

lemma provider_ok_iff: "provider_errors e = [] \<longleftrightarrow> provider_admissible e"
  by (auto simp: provider_errors_def provider_admissible_def Let_def list_ex_iff
      split: ProviderSpec.splits)

lemma artifact_ok_iff:
  "artifact_errors e = [] \<longleftrightarrow> as_format (sp_artifacts (ex_spec e)) = EVIDENCE_FORMAT_V1"
  by (simp add: artifact_errors_def Let_def)

lemmas runtime_error_defs = local_fake_errors_def cpu_probe_errors_def llama_cpp_errors_def
  vllm_errors_def runtime_admissible_def record_limit_iff not_less limit_defs word_le_nat_alt Let_def

lemma runtime_ok_iff:
  assumes "0 < requests e"
  shows "(local_fake_errors e = [] \<and> cpu_probe_errors e = [] \<and> llama_cpp_errors e = []
       \<and> vllm_errors e = []) \<longleftrightarrow> runtime_admissible e"
proof (cases "sp_runtime (ex_spec e)")
  case (RuntimeLocalFake s c)
  then show ?thesis by (simp add: runtime_error_defs)
next
  case (RuntimeCpuProbe t u)
  then show ?thesis
    using assms cpu_probe_work_iff [of e t u] by (auto simp: runtime_error_defs)
next
  case (RuntimeLlamaCpp g m t)
  then show ?thesis
    using assms llama_cpp_work_iff [of e t] by (auto simp: runtime_error_defs)
next
  case (RuntimeVllm m r a)
  then show ?thesis by (simp add: runtime_error_defs)
qed

lemma validation_errors_empty_iff: "validation_errors e = [] \<longleftrightarrow> admissible e"
  unfolding validation_errors_def admissible_def Let_def
  using document_ok_iff [of e] lifecycle_ok_iff [of e] provider_ok_iff [of e] artifact_ok_iff [of e]
    runtime_ok_iff [of e]
  by simp blast

lemma validate_Ok_iff: "validate e = Ok u \<longleftrightarrow> validation_errors e = []"
  by (simp add: validate_def Let_def)

text \<open>
  C19. Validation accepts exactly the admissible documents: every bound of the local runtimes
  holds of the mathematical record count and work product, whatever the 32-bit inputs are.
\<close>

theorem validate_iff_admissible: "validate e = Ok () \<longleftrightarrow> admissible e"
  by (simp add: validate_Ok_iff validation_errors_empty_iff)

end
