(* ===== verification/EvidenceSchema.thy ===== *)
theory EvidenceSchema
  imports Experiment
begin

text \<open>
  The evidence records, \<open>src/crates/benchplane-schema/src/evidence.rs\<close>: one record per struct and
  one datatype per enum, with a two- or three-letter prefix per struct because several of them
  share field names. \<open>RunState\<close> derives \<open>Ord\<close> in the source, which is the \<open>linorder\<close> instance
  below.
\<close>

subsection \<open>Constants\<close>

definition ATTEMPT_PROVENANCE_FORMAT_V1 :: string where
  "ATTEMPT_PROVENANCE_FORMAT_V1 = ''benchplane-attempt-provenance/v1''"
definition ATTEMPT_RESOURCES_FORMAT_V1 :: string where
  "ATTEMPT_RESOURCES_FORMAT_V1 = ''benchplane-attempt-resources/v1''"
definition EVIDENCE_COMPARISON_FORMAT_V1 :: string where
  "EVIDENCE_COMPARISON_FORMAT_V1 = ''benchplane-evidence-comparison/v1''"
definition BENCHPLANE_SOFTWARE_NAME :: string where "BENCHPLANE_SOFTWARE_NAME = ''benchplane''"
definition LLAMA_CPP_ENGINE_NAME :: string where "LLAMA_CPP_ENGINE_NAME = ''llama.cpp''"
definition LLAMA_CPP_ENGINE_VERSION :: string where "LLAMA_CPP_ENGINE_VERSION = ''b10133''"
definition LLAMA_CPP_MODEL_SHA256 :: string where
  "LLAMA_CPP_MODEL_SHA256 =
     ''sha256:55aa88ddac43adce6af0e9be8d6cdff2337a3835cd9b50bbcd7a894eb66dfc75''"
definition LLAMA_CPP_BACKEND_IDENTITY :: string where
  "LLAMA_CPP_BACKEND_IDENTITY = ''nixpkgs-llama-cpp-cpu-only-dynamic/v1''"
definition LLAMA_CPP_CUDA_BACKEND_IDENTITY :: string where
  "LLAMA_CPP_CUDA_BACKEND_IDENTITY = ''nixpkgs-llama-cpp-nvidia-cuda-dynamic/v1''"

definition ERROR_LOCAL_FAKE_RUNTIME_FAILURE :: string where
  "ERROR_LOCAL_FAKE_RUNTIME_FAILURE = ''localFake.runtimeFailure''"
definition ERROR_LOCAL_FAKE_INTERRUPTED :: string where
  "ERROR_LOCAL_FAKE_INTERRUPTED = ''localFake.interrupted''"
definition ERROR_EVIDENCE_FINALIZATION_FAILED :: string where
  "ERROR_EVIDENCE_FINALIZATION_FAILED = ''evidence.finalizationFailed''"
definition ERROR_LIFECYCLE_INVALID_TRANSITION :: string where
  "ERROR_LIFECYCLE_INVALID_TRANSITION = ''lifecycle.invalidTransition''"
definition ERROR_IO_OPERATION_FAILED :: string where
  "ERROR_IO_OPERATION_FAILED = ''io.operationFailed''"
definition ERROR_EXECUTION_UNSUPPORTED_COMBINATION :: string where
  "ERROR_EXECUTION_UNSUPPORTED_COMBINATION = ''execution.unsupportedCombination''"
definition ERROR_CPU_PROBE_SPAWN_FAILED :: string where
  "ERROR_CPU_PROBE_SPAWN_FAILED = ''cpuProbe.spawnFailed''"
definition ERROR_CPU_PROBE_EXIT_FAILED :: string where
  "ERROR_CPU_PROBE_EXIT_FAILED = ''cpuProbe.exitFailed''"
definition ERROR_CPU_PROBE_OUTPUT_INVALID :: string where
  "ERROR_CPU_PROBE_OUTPUT_INVALID = ''cpuProbe.outputInvalid''"
definition ERROR_CPU_PROBE_DEADLINE_EXCEEDED :: string where
  "ERROR_CPU_PROBE_DEADLINE_EXCEEDED = ''cpuProbe.deadlineExceeded''"
definition ERROR_CPU_PROBE_RESOURCE_ACCOUNTING_FAILED :: string where
  "ERROR_CPU_PROBE_RESOURCE_ACCOUNTING_FAILED = ''cpuProbe.resourceAccountingFailed''"
definition ERROR_LLAMA_CPP_SPAWN_FAILED :: string where
  "ERROR_LLAMA_CPP_SPAWN_FAILED = ''llamaCpp.spawnFailed''"
definition ERROR_LLAMA_CPP_MODEL_INIT_FAILED :: string where
  "ERROR_LLAMA_CPP_MODEL_INIT_FAILED = ''llamaCpp.modelInitFailed''"
definition ERROR_LLAMA_CPP_EXIT_FAILED :: string where
  "ERROR_LLAMA_CPP_EXIT_FAILED = ''llamaCpp.exitFailed''"
definition ERROR_LLAMA_CPP_OUTPUT_INVALID :: string where
  "ERROR_LLAMA_CPP_OUTPUT_INVALID = ''llamaCpp.outputInvalid''"
definition ERROR_LLAMA_CPP_DEADLINE_EXCEEDED :: string where
  "ERROR_LLAMA_CPP_DEADLINE_EXCEEDED = ''llamaCpp.deadlineExceeded''"
definition ERROR_LLAMA_CPP_RESOURCE_ACCOUNTING_FAILED :: string where
  "ERROR_LLAMA_CPP_RESOURCE_ACCOUNTING_FAILED = ''llamaCpp.resourceAccountingFailed''"

subsection \<open>States\<close>

datatype RunState =
  Created | Preparing | Running | Collecting | Finalizing | Succeeded | Failed | Interrupted

fun run_state_rank :: "RunState \<Rightarrow> nat" where
  "run_state_rank Created = 0"
| "run_state_rank Preparing = 1"
| "run_state_rank Running = 2"
| "run_state_rank Collecting = 3"
| "run_state_rank Finalizing = 4"
| "run_state_rank Succeeded = 5"
| "run_state_rank Failed = 6"
| "run_state_rank Interrupted = 7"

lemma run_state_rank_inject: "run_state_rank a = run_state_rank b \<longleftrightarrow> a = b"
  by (cases a; cases b) simp_all

instantiation RunState :: linorder
begin

definition less_eq_RunState :: "RunState \<Rightarrow> RunState \<Rightarrow> bool" where
  "less_eq_RunState a b \<longleftrightarrow> run_state_rank a \<le> run_state_rank b"

definition less_RunState :: "RunState \<Rightarrow> RunState \<Rightarrow> bool" where
  "less_RunState a b \<longleftrightarrow> run_state_rank a < run_state_rank b"

instance
  by standard
    (auto simp: less_eq_RunState_def less_RunState_def run_state_rank_inject)

end

fun run_state_as_str :: "RunState \<Rightarrow> string" where
  "run_state_as_str Created = ''created''"
| "run_state_as_str Preparing = ''preparing''"
| "run_state_as_str Running = ''running''"
| "run_state_as_str Collecting = ''collecting''"
| "run_state_as_str Finalizing = ''finalizing''"
| "run_state_as_str Succeeded = ''succeeded''"
| "run_state_as_str Failed = ''failed''"
| "run_state_as_str Interrupted = ''interrupted''"

fun is_terminal :: "RunState \<Rightarrow> bool" where
  "is_terminal Succeeded = True"
| "is_terminal Failed = True"
| "is_terminal Interrupted = True"
| "is_terminal _ = False"

datatype AttemptStatus =
    AttemptCreated | AttemptPreparing | AttemptRunning
  | AttemptSucceeded | AttemptFailed | AttemptInterrupted

datatype ValidityStatus = Valid | Invalid | Indeterminate

fun validity_as_str :: "ValidityStatus \<Rightarrow> string" where
  "validity_as_str Valid = ''valid''"
| "validity_as_str Invalid = ''invalid''"
| "validity_as_str Indeterminate = ''indeterminate''"

subsection \<open>Run and attempt records\<close>

record FailureRecord =
  fr_phase :: string
  fr_code :: string
  fr_message :: string
  fr_retryable :: bool
  fr_attempt_number :: u32

record RunRecord =
  rr_run_id :: string
  rr_run_status :: RunState
  rr_created_at :: string
  rr_updated_at :: string
  rr_completed_at :: "string option"
  rr_experiment_digest :: string
  rr_resolved_plan_digest :: string
  rr_attempt_count :: u32
  rr_failure :: "FailureRecord option"

record AttemptRecord =
  ar_run_id :: string
  ar_attempt_number :: u32
  ar_status :: AttemptStatus
  ar_started_at :: string
  ar_updated_at :: string
  ar_completed_at :: "string option"
  ar_failure :: "FailureRecord option"

datatype ResourceScope = HelperProcessLifetime

record ProcessResources =
  pr_cpu_time_micros :: u64
  pr_peak_rss_bytes :: u64

record AttemptResources =
  at_format :: string
  at_run_id :: string
  at_attempt_number :: u32
  at_scope :: ResourceScope
  at_cpu_time_micros :: u64
  at_peak_rss_bytes :: u64

subsection \<open>Provenance\<close>

record OperatingSystemProvenance =
  os_family :: string
  os_distribution :: "string option"
  os_version :: "string option"

record KernelProvenance =
  kp_name :: string
  kp_release :: "string option"

record CpuProvenance =
  cp_model :: "string option"
  cp_logical_cpu_count :: "u32 option"

record PlatformProvenance =
  pp_operating_system :: OperatingSystemProvenance
  pp_kernel :: KernelProvenance
  pp_architecture :: string
  pp_cpu :: CpuProvenance

record SoftwareComponentProvenance =
  sc_name :: string
  sc_version :: string
  sc_nix_store_path :: "string option"

record ModelProvenance =
  mp_identity :: string
  mp_sha256 :: string
  mp_nix_store_path :: "string option"

datatype DeviceClass = DeviceCpu | DeviceNvidiaCuda

record NvidiaOffloadProvenance =
  no_policy :: string
  no_offloaded_layers :: u32
  no_total_layers :: u32

record NvidiaGpuProvenance =
  nv_vendor :: string
  nv_device_name :: string
  nv_logical_device_index :: u32
  nv_total_vram_bytes :: u64
  nv_nvidia_driver_version :: string
  nv_cuda_driver_version :: string
  nv_cuda_runtime_version :: string
  nv_cuda_toolkit_version :: string
  nv_compute_capability :: string
  nv_offload :: NvidiaOffloadProvenance

record BackendProvenance =
  bp_identity :: string
  bp_device_class :: DeviceClass
  bp_nix_store_path :: "string option"
  bp_nvidia :: "NvidiaGpuProvenance option"

datatype RuntimeProvenance =
    ProvLocalFake string
  | ProvCpuProbe string
  | ProvLlamaCpp string SoftwareComponentProvenance ModelProvenance BackendProvenance

record SoftwareProvenance =
  sw_benchplane :: SoftwareComponentProvenance
  sw_runtime :: RuntimeProvenance

record AttemptProvenance =
  ap_format :: string
  ap_run_id :: string
  ap_attempt_number :: u32
  ap_platform :: PlatformProvenance
  ap_software :: SoftwareProvenance

subsection \<open>Events, measurements, validity and summary\<close>

record LifecycleEvent =
  le_run_id :: string
  le_sequence :: u64
  le_recorded_at :: string
  le_from_state :: "RunState option"
  le_to_state :: RunState
  le_attempt_number :: u32
  le_failure :: "FailureRecord option"

datatype MeasurementPhase = Warmup | Measured

record RequestObservation =
  ro_request_index :: u32
  ro_latency_micros :: u64
  ro_time_to_first_token_micros :: u64

record MeasurementRecord =
  mr_generator :: string
  mr_attempt_number :: u32
  mr_phase :: MeasurementPhase
  mr_repetition_index :: u32
  mr_sample_index :: u32
  mr_latency_micros :: u64
  mr_time_to_first_token_micros :: u64
  mr_throughput_milli_requests_per_second :: u64
  mr_successful_requests :: u32
  mr_failed_requests :: u32
  mr_request_observations :: "RequestObservation list"

record ValidityReason =
  vr_code :: string
  vr_message :: string

record ValidityResult =
  vy_run_id :: string
  vy_status :: ValidityStatus
  vy_required_samples :: u32
  vy_observed_samples :: u32
  vy_reasons :: "ValidityReason list"

record LatencySummary =
  lat_mean_micros :: u64
  lat_p50_micros :: u64
  lat_p95_micros :: u64

record RunSummary =
  su_run_id :: string
  su_run_status :: RunState
  su_attempt_count :: u32
  su_sample_count :: u32
  su_validity_status :: ValidityStatus
  su_latency :: "LatencySummary option"
  su_mean_throughput_milli_requests_per_second :: "u64 option"
  su_experiment_digest :: string
  su_resolved_plan_digest :: string

record EvidenceManifest =
  em_format :: string
  em_run_id :: string
  em_run_status :: RunState
  em_validity_status :: ValidityStatus
  em_experiment_digest :: string
  em_resolved_plan_digest :: string
  em_attempt_count :: u32

record RunResult =
  rs_run_id :: string
  rs_run_state :: RunState
  rs_validity_status :: ValidityStatus
  rs_attempt_count :: u32
  rs_sample_count :: u32
  rs_latency :: "LatencySummary option"
  rs_mean_throughput_milli_requests_per_second :: "u64 option"
  rs_resources :: "ProcessResources option"
  rs_bundle_path :: string
  rs_experiment_digest :: string
  rs_resolved_plan_digest :: string
  rs_evidence_digest :: string
  rs_failure :: "FailureRecord option"

end
