(* ===== verification/Fixtures.thy ===== *)
theory Fixtures
  imports EvidenceSchema
begin

text \<open>
  Concrete documents on which the properties are evaluated: the repository's
  \<open>tests/fixtures/valid/minimal-local-fake.yaml\<close> and \<open>minimal-llama-cpp.yaml\<close>, and a CPU probe
  document of the same shape, with the serde defaults of the schema filled in, and their resolved
  forms under given digests.
\<close>

definition minimal_experiment :: "string \<Rightarrow> ProviderSpec \<Rightarrow> RuntimeSpec \<Rightarrow> string \<Rightarrow> f64 \<Rightarrow> Experiment" where
  "minimal_experiment name provider runtime profile cost =
     \<lparr>ex_api_version = API_VERSION, ex_kind = EXPERIMENT_KIND,
      ex_metadata = \<lparr>md_name = name, md_labels = Map.empty\<rparr>,
      ex_spec = \<lparr>sp_provider = provider, sp_runtime = runtime,
        sp_workload = \<lparr>wl_profile = profile, wl_requests = 1, wl_concurrency = default_concurrency\<rparr>,
        sp_measurement = measurement_default, sp_budget = \<lparr>bs_maximum_cost_usd = cost\<rparr>,
        sp_lifecycle = lifecycle_default, sp_artifacts = artifact_default\<rparr>\<rparr>"

text \<open>The budget of the first fixture is the double nearest to 0.01.\<close>

definition minimal_local_fake :: Experiment where
  "minimal_local_fake = minimal_experiment ''minimal-local-fake'' ProviderLocalFake
     (RuntimeLocalFake 0 ScenarioSuccess) ''deterministic-smoke'' 4576918229304087675"

definition minimal_cpu_probe :: Experiment where
  "minimal_cpu_probe = minimal_experiment ''minimal-cpu-probe'' ProviderLocal
     (RuntimeCpuProbe 8 1000) CPU_PROBE_WORKLOAD_PROFILE 0"

definition minimal_llama_cpp :: Experiment where
  "minimal_llama_cpp = minimal_experiment ''minimal-llama-cpp'' ProviderLocal
     (RuntimeLlamaCpp default_llama_cpp_target default_llama_cpp_model default_llama_cpp_output_tokens)
     LLAMA_CPP_WORKLOAD_PROFILE 0"

definition resolved_with :: "string \<Rightarrow> string \<Rightarrow> Experiment \<Rightarrow> ResolvedExperiment" where
  "resolved_with d p e = \<lparr>re_api_version = API_VERSION, re_kind = ''ResolvedExperiment'',
     re_experiment = e, re_experiment_digest = d, re_resolved_plan_digest = p\<rparr>"

definition zero_digest :: string where
  "zero_digest = ''sha256:'' @ replicate 64 CHR ''0''"

definition resolved_fixture :: "Experiment \<Rightarrow> ResolvedExperiment" where
  "resolved_fixture = resolved_with zero_digest zero_digest"

lemmas default_defs = measurement_default_def lifecycle_default_def artifact_default_def
  default_concurrency_def default_warmups_def default_repetitions_def default_runtime_seconds_def
  default_artifact_format_def default_llama_cpp_target_def default_llama_cpp_model_def
  default_llama_cpp_output_tokens_def

lemmas fixture_defs = minimal_local_fake_def minimal_cpu_probe_def minimal_llama_cpp_def
  minimal_experiment_def default_defs resolved_fixture_def resolved_with_def zero_digest_def

lemma trim_nonempty:
  assumes "utf8_chars s \<noteq> []" and "\<not> is_whitespace (hd (utf8_chars s))"
  shows "trim s \<noteq> []"
proof -
  have d: "dropWhile is_whitespace (utf8_chars s) = utf8_chars s"
    using assms by (cases "utf8_chars s") auto
  have "hd (utf8_chars s) \<in> set (rev (utf8_chars s))" using assms(1) by simp
  then have "dropWhile is_whitespace (rev (utf8_chars s)) \<noteq> []" using assms(2) by auto
  then have "trim_chars (utf8_chars s) \<noteq> []" by (simp add: trim_chars_def d)
  then show ?thesis by (metis utf8_chars.simps(1) utf8_chars_trim)
qed

lemma trim_graphic:
  assumes "33 \<le> byte_of c" and "byte_of c < 127"
  shows "trim (c # s) \<noteq> []"
  by (rule trim_nonempty) (use assms in \<open>auto simp: is_whitespace_def Let_def\<close>)

lemma local_fake_admissible: "admissible minimal_local_fake"
proof -
  have "f64_is_finite 4576918229304087675" by (simp add: f64_is_finite_def f64_exponent_def drop_bit_eq_div take_bit_eq_mod)
  moreover have "\<not> f64_lt_zero 4576918229304087675"
    by (simp add: f64_lt_zero_def f64_is_nan_def f64_exponent_def bit_iff_odd drop_bit_eq_div take_bit_eq_mod)
  ultimately show ?thesis
    by (simp add: fixture_defs admissible_def Let_def runtime_admissible_def provider_admissible_def
        requests_def records_def trim_graphic byte_of_def)
qed

lemma f64_zero: "f64_is_finite 0" "\<not> f64_lt_zero 0"
  by (simp_all add: f64_is_finite_def f64_lt_zero_def f64_exponent_def)

lemma cpu_probe_admissible: "admissible minimal_cpu_probe"
  by (simp add: fixture_defs admissible_def Let_def runtime_admissible_def provider_admissible_def
      requests_def records_def trim_graphic byte_of_def CPU_PROBE_WORKLOAD_PROFILE_def f64_zero)

lemma llama_cpp_admissible: "admissible minimal_llama_cpp"
  by (simp add: fixture_defs admissible_def Let_def runtime_admissible_def provider_admissible_def
      requests_def records_def trim_graphic byte_of_def LLAMA_CPP_WORKLOAD_PROFILE_def f64_zero)

end
