(* ===== verification/Resolution.thy ===== *)
theory Resolution
  imports Fixtures
begin

text \<open>
  Resolution of a document into a plan, \<open>src/crates/benchplane-core/src/resolution.rs\<close> and
  \<open>parsing.rs\<close>. The serializer (\<open>serde_json\<close>), the YAML reader (\<open>serde_saphyr\<close>), SHA-256 and
  \<open>hex::encode\<close> are crates outside the repository: they are arguments of the definitions, and
  \<open>sha256_contract\<close> and \<open>hex_contract\<close> name what their documentation promises and the code
  relies on.
\<close>

type_synonym sha256_fn = "bytes \<Rightarrow> bytes"
type_synonym hex_fn = "bytes \<Rightarrow> string"

definition sha256_contract :: "sha256_fn \<Rightarrow> bool" where
  "sha256_contract sha256 \<longleftrightarrow> (\<forall>b. length (sha256 b) = 32)"

definition hex_contract :: "hex_fn \<Rightarrow> bool" where
  "hex_contract hex \<longleftrightarrow> (\<forall>b. length (hex b) = 2 * length b \<and> list_all is_lower_hex (hex b))"

subsection \<open>Parsing\<close>

datatype 'y ParseError = Utf8 | Yaml 'y

text \<open>
  \<open>std::str::from_utf8\<close>: a well-formed sequence of the four encodings of RFC 3629, by leading
  byte, without overlong forms, surrogates or code points above U+10FFFF.
\<close>

definition is_utf8_char :: "string \<Rightarrow> bool" where
  "is_utf8_char ch = (case map byte_of ch of
     [a] \<Rightarrow> a < 128
   | [a, b] \<Rightarrow> 194 \<le> a \<and> a \<le> 223
   | [a, b, c] \<Rightarrow> (a = 224 \<and> 160 \<le> b) \<or> (225 \<le> a \<and> a \<le> 236) \<or> (a = 237 \<and> b < 160)
       \<or> a = 238 \<or> a = 239
   | [a, b, c, d] \<Rightarrow> (a = 240 \<and> 144 \<le> b) \<or> (241 \<le> a \<and> a \<le> 243) \<or> (a = 244 \<and> b < 144)
   | _ \<Rightarrow> False)"

definition from_utf8 :: "bytes \<Rightarrow> string option" where
  "from_utf8 bs = (if list_all is_utf8_char (utf8_chars bs) then Some bs else None)"

definition parse_experiment ::
  "(string \<Rightarrow> 'y + Experiment) \<Rightarrow> bytes \<Rightarrow> 'y ParseError + Experiment" where
  "parse_experiment from_str bs = (case from_utf8 bs of
     None \<Rightarrow> Err Utf8
   | Some source \<Rightarrow> map_err Yaml (from_str source))"

subsection \<open>Resolution\<close>

datatype 'j ResolutionError =
    Validation "ValidationError list"
  | DeterministicSerialization 'j

record ResolvedPlanContent =
  pc_api_version :: string
  pc_kind :: string
  pc_experiment :: Experiment
  pc_experiment_digest :: string

definition sha256_digest :: "sha256_fn \<Rightarrow> hex_fn \<Rightarrow> bytes \<Rightarrow> string" where
  "sha256_digest sha256 hex b = ''sha256:'' @ hex (sha256 b)"

definition resolve_experiment ::
  "sha256_fn \<Rightarrow> hex_fn \<Rightarrow> (Experiment \<Rightarrow> 'j + bytes) \<Rightarrow> (ResolvedPlanContent \<Rightarrow> 'j + bytes)
     \<Rightarrow> Experiment \<Rightarrow> 'j ResolutionError + ResolvedExperiment" where
  "resolve_experiment sha256 hex to_vec_experiment to_vec_content experiment =
     and_then (map_err Validation (validate experiment)) (\<lambda>_.
     and_then (map_err DeterministicSerialization (to_vec_experiment experiment)) (\<lambda>experiment_bytes.
     let experiment_digest = sha256_digest sha256 hex experiment_bytes;
       content = \<lparr>pc_api_version = API_VERSION, pc_kind = ''ResolvedExperiment'',
         pc_experiment = experiment, pc_experiment_digest = experiment_digest\<rparr>
     in and_then (map_err DeterministicSerialization (to_vec_content content)) (\<lambda>plan_bytes.
     Ok \<lparr>re_api_version = API_VERSION, re_kind = ''ResolvedExperiment'',
       re_experiment = experiment, re_experiment_digest = experiment_digest,
       re_resolved_plan_digest = sha256_digest sha256 hex plan_bytes\<rparr>)))"

text \<open>
  The form of a digest: \<open>is_sha256_digest\<close> of \<open>src/crates/benchplane-core/src/evidence.rs\<close>, which
  every reader of a digest applies.
\<close>

definition is_sha256_digest :: "string \<Rightarrow> bool" where
  "is_sha256_digest value = is_some_and (\<lambda>digest. length digest = 64
     \<and> list_all (\<lambda>b. is_ascii_digit b \<or> b \<in> set ''abcdef'') digest) (strip_prefix ''sha256:'' value)"

lemma hex_letter_iff: "97 \<le> byte_of c \<and> byte_of c \<le> 102 \<longleftrightarrow> c \<in> set ''abcdef''"
proof
  assume *: "97 \<le> byte_of c \<and> byte_of c \<le> 102"
  have c: "c = char_of (byte_of c)" by (simp add: byte_of_def)
  from * have "byte_of c \<in> {97, 98, 99, 100, 101, 102}" by auto
  then have "c \<in> {char_of (97 :: nat), char_of (98 :: nat), char_of (99 :: nat),
      char_of (100 :: nat), char_of (101 :: nat), char_of (102 :: nat)}"
    by (subst c) auto
  then show "c \<in> set ''abcdef''" by (simp add: char_of_def bit_0)
qed (auto simp: byte_of_def)

lemma sha256_digest_form:
  assumes "sha256_contract sha256" and "hex_contract hex"
  shows "is_sha256_digest (sha256_digest sha256 hex b)"
proof -
  have "length (hex (sha256 b)) = 64" "list_all is_lower_hex (hex (sha256 b))"
    using assms by (simp_all add: sha256_contract_def hex_contract_def)
  then show ?thesis
    by (auto simp: is_sha256_digest_def sha256_digest_def strip_prefix_def is_lower_hex_def list_all_iff
        hex_letter_iff simp del: set_simps)
qed

lemma resolve_Ok_iff:
  "resolve_experiment sha256 hex te tc e = Ok p \<longleftrightarrow> admissible e \<and> (\<exists>eb pb.
     te e = Ok eb \<and> tc \<lparr>pc_api_version = API_VERSION, pc_kind = ''ResolvedExperiment'',
       pc_experiment = e, pc_experiment_digest = sha256_digest sha256 hex eb\<rparr> = Ok pb
     \<and> p = resolved_with (sha256_digest sha256 hex eb) (sha256_digest sha256 hex pb) e)"
  by (auto simp: resolve_experiment_def result_simps validate_Ok_iff validation_errors_empty_iff Let_def
      resolved_with_def)

text \<open>
  C29. Resolution succeeds only on admissible documents, keeps the document, and gives well-formed
  digests; resolving the document of a resolved plan again gives the same plan. An inadmissible
  document is refused with its complete list of validation errors and nothing is serialized.
\<close>

theorem resolve_experiment_sound:
  assumes "sha256_contract sha256" and "hex_contract hex"
  shows "(\<forall>p. resolve_experiment sha256 hex te tc e = Ok p \<longrightarrow>
      admissible e \<and> re_experiment p = e
      \<and> is_sha256_digest (re_experiment_digest p) \<and> is_sha256_digest (re_resolved_plan_digest p)
      \<and> resolve_experiment sha256 hex te tc (re_experiment p) = Ok p)
    \<and> (\<not> admissible e \<longrightarrow>
      resolve_experiment sha256 hex te tc e = Err (Validation (validation_errors e))
      \<and> validation_errors e \<noteq> [])"
proof (intro conjI allI impI)
  fix p assume p: "resolve_experiment sha256 hex te tc e = Ok p"
  then obtain eb pb where *: "admissible e"
    "p = resolved_with (sha256_digest sha256 hex eb) (sha256_digest sha256 hex pb) e"
    by (auto simp: resolve_Ok_iff)
  then show "admissible e" "re_experiment p = e" "is_sha256_digest (re_experiment_digest p)"
    "is_sha256_digest (re_resolved_plan_digest p)"
    using sha256_digest_form [OF assms] by (simp_all add: resolved_with_def)
  then show "resolve_experiment sha256 hex te tc (re_experiment p) = Ok p" using p by simp
next
  assume "\<not> admissible e"
  then show "validation_errors e \<noteq> []" by (simp add: validation_errors_empty_iff)
  then show "resolve_experiment sha256 hex te tc e = Err (Validation (validation_errors e))"
    by (simp add: resolve_experiment_def validate_def Let_def)
qed

text \<open>Concrete functions that meet the contracts: they show the hypotheses can hold.\<close>

definition zero_sha256 :: sha256_fn where "zero_sha256 b = replicate 32 (char_of (0 :: nat))"

definition zero_hex :: hex_fn where "zero_hex b = replicate (2 * length b) CHR ''0''"

lemma zero_contracts: "sha256_contract zero_sha256" "hex_contract zero_hex"
  by (simp_all add: sha256_contract_def hex_contract_def zero_sha256_def zero_hex_def list_all_iff
      is_lower_hex_def is_ascii_digit_def byte_of_def)

theorem resolve_experiment_sound_witness:
  "\<exists>p. resolve_experiment zero_sha256 zero_hex (\<lambda>_. Ok ''e'' :: unit + bytes) (\<lambda>_. Ok ''p'')
      minimal_local_fake = Ok p \<and> re_experiment p = minimal_local_fake
    \<and> is_sha256_digest (re_resolved_plan_digest p)"
proof -
  obtain p where p: "resolve_experiment zero_sha256 zero_hex (\<lambda>_. Ok ''e'' :: unit + bytes)
      (\<lambda>_. Ok ''p'') minimal_local_fake = Ok p"
    using resolve_Ok_iff local_fake_admissible by blast
  then show ?thesis using resolve_experiment_sound [OF zero_contracts] by blast
qed

end
