(* ===== verification/Execution.thy ===== *)
theory Execution
  imports Fixtures "HOL-Library.Multiset"
begin

text \<open>
  Validity and summary statistics, \<open>src/crates/benchplane-core/src/execution.rs\<close>. Percentiles use
  the nearest-rank method on the sorted sample and the mean is the floor of the 128-bit sum over the
  count. The lemmas show that \<open>nearest_rank\<close> never indexes out of range on a nonempty sample and
  returns the nearest-rank percentile, that the mean always fits 64 bits, and that the summary does
  not depend on the order of the sample.
\<close>

record ExecutionOutput =
  eo_measurements :: "MeasurementRecord list"
  eo_resources :: "ProcessResources option"
  eo_nvidia_gpu :: "NvidiaGpuProvenance option"
  eo_terminal_state :: RunState
  eo_failure :: "FailureRecord option"

definition measured_records :: "MeasurementRecord list \<Rightarrow> MeasurementRecord list" where
  "measured_records rs = filter (\<lambda>r. mr_phase r = Measured) rs"

definition evaluate_validity ::
  "ResolvedExperiment \<Rightarrow> ExecutionOutput \<Rightarrow> string \<Rightarrow> ValidityResult outcome" where
  "evaluate_validity plan output run_id = (let
       observed = (of_nat (length (measured_records (eo_measurements output))) :: u32);
       required = ms_repetitions (sp_measurement (ex_spec (re_experiment plan)));
       result = (\<lambda>status reasons. Return \<lparr>vy_run_id = run_id, vy_status = status,
          vy_required_samples = required, vy_observed_samples = observed, vy_reasons = reasons\<rparr>)
     in case eo_terminal_state output of
       Succeeded \<Rightarrow>
         if observed \<ge> required then result Valid []
         else result Invalid [\<lparr>vr_code = ''insufficientSamples'',
           vr_message = ''required '' @ show_word required @ '' measured samples but observed ''
             @ show_word observed\<rparr>]
     | Failed \<Rightarrow> result Indeterminate [\<lparr>vr_code = ''runtimeFailure'',
         vr_message = ''measurement validity is indeterminate after runtime failure''\<rparr>]
     | Interrupted \<Rightarrow> result Indeterminate [\<lparr>vr_code = ''interrupted'',
         vr_message = ''measurement validity is indeterminate after interruption''\<rparr>]
     | _ \<Rightarrow> Panic)"

definition mean_u64 :: "u64 list \<Rightarrow> u64 option" where
  "mean_u64 values = (if values = [] then None
     else let s = sum_list (map (\<lambda>v. ucast v :: u128) values) in
       try_into (s div of_nat (length values)))"

definition nearest_rank :: "u64 list \<Rightarrow> usize \<Rightarrow> u64 outcome" where
  "nearest_rank values percentile =
     (let rank = div_ceil (percentile * of_nat (length values)) 100
      in index_at values (unat (saturating_sub rank 1)))"

definition describe_micros :: "u64 list \<Rightarrow> LatencySummary option outcome" where
  "describe_micros values = (if values = [] then Return None
     else let ordered = sort values in
       case mean_u64 ordered of
         None \<Rightarrow> Return None
       | Some mean \<Rightarrow>
           chain (nearest_rank ordered 50) (\<lambda>p50. chain (nearest_rank ordered 95) (\<lambda>p95.
             Return (Some \<lparr>lat_mean_micros = mean, lat_p50_micros = p50, lat_p95_micros = p95\<rparr>))))"

definition summarize ::
  "ResolvedExperiment \<Rightarrow> ExecutionOutput \<Rightarrow> ValidityResult \<Rightarrow> string \<Rightarrow> RunSummary outcome" where
  "summarize plan output validity run_id = (let
       measured = measured_records (eo_measurements output);
       sample_count = of_nat (length measured)
     in chain
       (if measured = [] \<or> vy_status validity = Indeterminate then Return (None, None)
        else chain (describe_micros (map mr_latency_micros measured)) (\<lambda>latency.
          Return (latency, mean_u64 (map mr_throughput_milli_requests_per_second measured))))
       (\<lambda>(latency, mean_throughput). Return
         \<lparr>su_run_id = run_id, su_run_status = eo_terminal_state output, su_attempt_count = 1,
          su_sample_count = sample_count, su_validity_status = vy_status validity,
          su_latency = latency, su_mean_throughput_milli_requests_per_second = mean_throughput,
          su_experiment_digest = re_experiment_digest plan,
          su_resolved_plan_digest = re_resolved_plan_digest plan\<rparr>))"

subsection \<open>The mean\<close>

lemma unat_of_nat_small: "n < 2 ^ LENGTH('a::len) \<Longrightarrow> unat (of_nat n :: 'a word) = n"
  by (simp add: unat_of_nat)

lemma unat_sum_list_u128:
  "length xs \<le> 2 ^ 64 \<Longrightarrow>
     unat (sum_list (map (\<lambda>v. ucast v :: u128) (xs :: u64 list))) = sum_list (map unat xs)
     \<and> sum_list (map unat xs) \<le> length xs * (2 ^ 64 - 1)"
proof (induction xs)
  case (Cons x xs)
  have IH: "unat (sum_list (map (\<lambda>v. ucast v :: u128) xs)) = sum_list (map unat xs)"
    and bound: "sum_list (map unat xs) \<le> length xs * (2 ^ 64 - 1)"
    using Cons by simp_all
  have "unat x < 18446744073709551616" by simp
  then have "unat x \<le> 18446744073709551615" by linarith
  then have x: "unat x \<le> 2 ^ 64 - 1" by simp
  then have le: "unat x + sum_list (map unat xs) \<le> length (x # xs) * (2 ^ 64 - 1)"
    using bound by simp
  also have "\<dots> \<le> 2 ^ 64 * (2 ^ 64 - 1)" using Cons.prems by (intro mult_le_mono1)
  also have "\<dots> < (2 :: nat) ^ 128" by simp
  finally have "unat (ucast x :: u128) + unat (sum_list (map (\<lambda>v. ucast v :: u128) xs)) < 2 ^ LENGTH(128)"
    using IH by simp
  then show ?case using IH le by simp
qed simp

lemma mean_u64_value:
  assumes "xs \<noteq> []" and "length xs < 2 ^ 64"
  shows "\<exists>m. mean_u64 xs = Some m \<and> unat m = sum_list (map unat xs) div length xs"
proof -
  let ?s = "sum_list (map (\<lambda>v. ucast v :: u128) xs)" and ?n = "sum_list (map unat xs)"
  have s: "unat ?s = ?n" and bound: "?n \<le> length xs * (2 ^ 64 - 1)"
    using unat_sum_list_u128 [of xs] assms(2) by simp_all
  have "length xs < 2 ^ LENGTH(128)" using assms(2) by simp
  then have l: "unat (of_nat (length xs) :: u128) = length xs" by (rule unat_of_nat_small)
  have d: "unat (?s div of_nat (length xs)) = ?n div length xs"
    by (simp only: unat_div_distrib s l)
  have "?n div length xs \<le> 2 ^ 64 - 1"
    using div_le_mono [OF bound, of "length xs"] assms(1) by simp
  then have fits: "?n div length xs < 2 ^ LENGTH(64)" by simp
  then have "mean_u64 xs = Some (of_nat (?n div length xs))"
    using assms(1) d by (simp add: mean_u64_def Let_def try_into_def)
  moreover have "unat (of_nat (?n div length xs) :: u64) = ?n div length xs"
    using fits by (rule unat_of_nat_small)
  ultimately show ?thesis by blast
qed

lemma sum_list_between:
  fixes xs :: "nat list"
  assumes "\<forall>x\<in>set xs. lo \<le> x \<and> x \<le> hi"
  shows "length xs * lo \<le> sum_list xs \<and> sum_list xs \<le> length xs * hi"
  using assms by (induction xs) auto

text \<open>
  C35. On a nonempty sample of 64-bit values the mean is defined, is the floor of the exact
  mathematical mean, and lies between the smallest and the largest value.
\<close>

theorem mean_u64_exact:
  assumes "xs \<noteq> []" and "length xs < 2 ^ 64"
  shows "\<exists>m. mean_u64 xs = Some m \<and> unat m = sum_list (map unat xs) div length xs
    \<and> Min (set xs) \<le> m \<and> m \<le> Max (set xs)"
proof -
  obtain m where m: "mean_u64 xs = Some m" "unat m = sum_list (map unat xs) div length xs"
    using mean_u64_value [OF assms] by blast
  let ?lo = "unat (Min (set xs))" and ?hi = "unat (Max (set xs))"
  have "\<forall>x\<in>set (map unat xs). ?lo \<le> x \<and> x \<le> ?hi"
    using assms(1) by (auto simp flip: word_le_nat_alt)
  then have sb: "length xs * ?lo \<le> sum_list (map unat xs)" "sum_list (map unat xs) \<le> length xs * ?hi"
    using sum_list_between [of "map unat xs" ?lo ?hi] by simp_all
  have "?lo \<le> unat m" "unat m \<le> ?hi"
    using div_le_mono [OF sb(1), of "length xs"] div_le_mono [OF sb(2), of "length xs"] assms(1) m(2)
    by simp_all
  then show ?thesis using m by (auto simp: word_le_nat_alt)
qed

theorem mean_u64_exact_witness: "mean_u64 [10, 20, 33] = Some 21"
proof -
  obtain m :: u64 where m: "mean_u64 [10, 20, 33] = Some m" "unat m = 21"
    using mean_u64_exact [of "[10, 20, 33]"] by auto
  then have "m = 21" by (simp add: word_eq_iff_unsigned [where 'a = nat])
  then show ?thesis using m by simp
qed

subsection \<open>The nearest rank\<close>

lemma nearest_rank_index:
  assumes "xs \<noteq> []" and "length xs < 2 ^ 57" and "1 \<le> unat p" and "unat p \<le> 100"
  defines "k \<equiv> ceil_div (unat p * length xs) 100"
  shows "nearest_rank xs p = Return (xs ! (k - 1)) \<and> 1 \<le> k \<and> k \<le> length xs
    \<and> unat p * length xs \<le> k * 100 \<and> (k - 1) * 100 < unat p * length xs"
proof -
  have len: "unat (of_nat (length xs) :: usize) = length xs"
    using assms(2) by (intro unat_of_nat_small) simp
  have "unat p * length xs \<le> 100 * 2 ^ 57" using assms(2,4) by (intro mult_le_mono) simp_all
  then have prod: "unat (p * of_nat (length xs)) = unat p * length xs"
    using len by simp
  have rank: "unat (div_ceil (p * of_nat (length xs)) 100) = k"
    using unat_div_ceil [of "100 :: usize" "p * of_nat (length xs)"] prod by (simp add: k_def)
  have pos: "0 < unat p * length xs" using assms(1,3) by simp
  have k1: "1 \<le> k" using ceil_div_le_iff [of 100 "unat p * length xs" 0] pos by (simp add: k_def)
  have kn: "k \<le> length xs"
    using ceil_div_le_iff [of 100 "unat p * length xs" "length xs"] assms(4)
    by (simp add: k_def mult.commute)
  have up: "unat p * length xs \<le> k * 100"
    using ceil_div_le_iff [of 100 "unat p * length xs" k] by (simp add: k_def)
  have "\<not> k \<le> k - 1" using k1 by linarith
  then have down: "(k - 1) * 100 < unat p * length xs"
    using ceil_div_le_iff [of 100 "unat p * length xs" "k - 1", folded k_def] by (simp add: not_le)
  have "unat (saturating_sub (div_ceil (p * of_nat (length xs)) 100) 1) = k - 1"
    using rank by (simp add: unat_saturating_sub)
  then show ?thesis
    using k1 kn up down assms(1) by (simp add: nearest_rank_def Let_def index_at_def)
qed

text \<open>In a sorted list the first \<open>k\<close> elements are at most the \<open>k\<close>-th, and those before are fewer.\<close>

lemma sorted_count_le:
  assumes "sorted xs" and "k < length xs"
  shows "Suc k \<le> length (filter (\<lambda>x. x \<le> xs ! k) xs)"
proof -
  have "filter (\<lambda>x. x \<le> xs ! k) (take (Suc k) xs) = take (Suc k) xs"
    using assms(2) by (intro filter_True)
      (auto simp: in_set_conv_nth less_Suc_eq_le intro!: sorted_nth_mono [OF assms(1)])
  then have "Suc k = length (filter (\<lambda>x. x \<le> xs ! k) (take (Suc k) xs))" using assms by simp
  also have "\<dots> \<le> length (filter (\<lambda>x. x \<le> xs ! k) (take (Suc k) xs))
     + length (filter (\<lambda>x. x \<le> xs ! k) (drop (Suc k) xs))" by simp
  also have "\<dots> = length (filter (\<lambda>x. x \<le> xs ! k) xs)"
    by (metis append_take_drop_id filter_append length_append)
  finally show ?thesis .
qed

lemma sorted_count_less:
  assumes "sorted xs" and "k < length xs"
  shows "length (filter (\<lambda>x. x < xs ! k) xs) \<le> k"
proof -
  have none: "filter (\<lambda>x. x < xs ! k) (drop k xs) = []"
    using assms(2)
    by (auto simp: filter_empty_conv in_set_conv_nth not_less intro!: sorted_nth_mono [OF assms(1)])
  have "length (filter (\<lambda>x. x < xs ! k) xs) =
     length (filter (\<lambda>x. x < xs ! k) (take k xs)) + length (filter (\<lambda>x. x < xs ! k) (drop k xs))"
    by (metis append_take_drop_id filter_append length_append)
  also have "\<dots> \<le> k" using none length_filter_le [of _ "take k xs"] assms
    by (metis add.right_neutral length_take less_imp_le list.size(3) min.absorb2)
  finally show ?thesis .
qed

text \<open>
  C33. On a nonempty sorted sample \<open>nearest_rank\<close> returns (it never indexes out of range) the
  nearest-rank percentile: a sample value such that at least \<open>p\<close> percent of the sample is at most
  that value and fewer than \<open>p\<close> percent are below it.
\<close>

theorem nearest_rank_percentile:
  assumes "sorted xs" and "xs \<noteq> []" and "length xs < 2 ^ 57" and "1 \<le> unat p" and "unat p \<le> 100"
  shows "\<exists>v. nearest_rank xs p = Return v \<and> v \<in> set xs
    \<and> unat p * length xs \<le> 100 * length (filter (\<lambda>x. x \<le> v) xs)
    \<and> 100 * length (filter (\<lambda>x. x < v) xs) < unat p * length xs"
proof -
  define k where "k = ceil_div (unat p * length xs) 100"
  note idx = nearest_rank_index [OF assms(2-5), folded k_def]
  have k: "k - 1 < length xs" using idx by linarith
  have "k \<le> length (filter (\<lambda>x. x \<le> xs ! (k - 1)) xs)"
    using sorted_count_le [OF assms(1) k] idx by simp
  moreover have "length (filter (\<lambda>x. x < xs ! (k - 1)) xs) \<le> k - 1"
    by (rule sorted_count_less [OF assms(1) k])
  ultimately show ?thesis
    using idx k by (intro exI [of _ "xs ! (k - 1)"]) auto
qed

theorem nearest_rank_percentile_witness: "nearest_rank [10, 20, 30] 95 = Return 30"
proof -
  obtain v where v: "nearest_rank [10, 20, 30] 95 = Return v" "v \<in> set [10, 20, 30]"
    "unat (95 :: usize) * 3 \<le> 100 * length (filter (\<lambda>x. x \<le> v) [10, 20, 30])"
    using nearest_rank_percentile [of "[10, 20, 30]" 95] by auto
  then have "v = 10 \<or> v = 20 \<or> v = 30" by simp
  then show ?thesis using v(1,3) by (elim disjE) simp_all
qed

subsection \<open>The latency description\<close>

lemma describe_micros_value:
  assumes "xs \<noteq> []" and "length xs < 2 ^ 57"
  shows "\<exists>l m. describe_micros xs = Return (Some l) \<and> mean_u64 (sort xs) = Some m \<and> lat_mean_micros l = m
    \<and> nearest_rank (sort xs) 50 = Return (lat_p50_micros l)
    \<and> nearest_rank (sort xs) 95 = Return (lat_p95_micros l)"
proof -
  have ne: "sort xs \<noteq> []" using assms(1) by (metis mset_zero_iff mset_sort)
  have len: "length (sort xs) < 2 ^ 57" using assms(2) by simp
  have "length (sort xs) < 2 ^ 64" using len by simp
  then obtain m where m: "mean_u64 (sort xs) = Some m" using mean_u64_value [OF ne] by blast
  obtain a where a: "nearest_rank (sort xs) 50 = Return a"
    using nearest_rank_index [OF ne len, of 50] by auto
  obtain b where b: "nearest_rank (sort xs) 95 = Return b"
    using nearest_rank_index [OF ne len, of 95] by auto
  show ?thesis using assms(1) m a b by (simp add: describe_micros_def Let_def)
qed

lemma nearest_rank_mem:
  assumes "xs \<noteq> []" and "length xs < 2 ^ 57" and "1 \<le> unat p" and "unat p \<le> 100"
    and "nearest_rank xs p = Return a"
  shows "a \<in> set xs"
proof -
  note idx = nearest_rank_index [OF assms(1-4)]
  then have "ceil_div (unat p * length xs) 100 - 1 < length xs" by linarith
  then show ?thesis using idx assms(5) by (metis nth_mem outcome.inject)
qed

lemma nearest_rank_mono:
  assumes "sorted xs" and "xs \<noteq> []" and "length xs < 2 ^ 57" and "1 \<le> unat p" and "unat p \<le> unat q"
    and "unat q \<le> 100" and "nearest_rank xs p = Return a" and "nearest_rank xs q = Return b"
  shows "a \<le> b"
proof -
  note p = nearest_rank_index [OF assms(2,3,4), OF order_trans [OF assms(5,6)]]
  note q = nearest_rank_index [OF assms(2,3) order_trans [OF assms(4,5)] assms(6)]
  have "ceil_div (unat p * length xs) 100 \<le> ceil_div (unat q * length xs) 100"
    using assms(5) by (intro ceil_div_mono mult_le_mono1)
  then have "xs ! (ceil_div (unat p * length xs) 100 - 1) \<le> xs ! (ceil_div (unat q * length xs) 100 - 1)"
    using q by (intro sorted_nth_mono [OF assms(1)]) linarith+
  then show ?thesis using p q assms(7,8) by simp
qed

text \<open>
  C34. The latency description of a nonempty sample is always produced, does not depend on the order
  in which the sample was observed, has its median at most its 95th percentile, and both percentiles
  are values of the sample.
\<close>

theorem describe_micros_statistics:
  assumes "xs \<noteq> []" and "length xs < 2 ^ 57"
  shows "\<exists>l. describe_micros xs = Return (Some l)
    \<and> (\<forall>ys. mset ys = mset xs \<longrightarrow> describe_micros ys = Return (Some l))
    \<and> lat_p50_micros l \<le> lat_p95_micros l
    \<and> lat_p50_micros l \<in> set xs \<and> lat_p95_micros l \<in> set xs
    \<and> unat (lat_mean_micros l) = sum_list (map unat xs) div length xs"
proof -
  obtain l m where l: "describe_micros xs = Return (Some l)" "mean_u64 (sort xs) = Some m"
    "lat_mean_micros l = m" "nearest_rank (sort xs) 50 = Return (lat_p50_micros l)"
    "nearest_rank (sort xs) 95 = Return (lat_p95_micros l)"
    using describe_micros_value [OF assms] by blast
  have ne: "sort xs \<noteq> []" using assms(1) by (metis mset_zero_iff mset_sort)
  have len: "length (sort xs) < 2 ^ 57" and len64: "length (sort xs) < 2 ^ 64" using assms(2) by simp_all
  have perm: "describe_micros ys = describe_micros xs" if "mset ys = mset xs" for ys
  proof -
    have "sort ys = sort xs" using that by (metis mset_sort properties_for_sort sorted_sort)
    moreover have "ys \<noteq> []" using that assms(1) by auto
    ultimately show ?thesis using assms(1) by (simp add: describe_micros_def Let_def)
  qed
  have le: "lat_p50_micros l \<le> lat_p95_micros l"
    by (rule nearest_rank_mono [OF sorted_sort ne len _ _ _ l(4,5)]) simp_all
  have mem: "lat_p50_micros l \<in> set (sort xs)" "lat_p95_micros l \<in> set (sort xs)"
    using nearest_rank_mem [OF ne len _ _ l(4)] nearest_rank_mem [OF ne len _ _ l(5)] by simp_all
  have "sum_list (map unat (sort xs)) = sum_list (map unat xs)"
    by (metis mset_map mset_sort sum_mset_sum_list)
  then have "unat (lat_mean_micros l) = sum_list (map unat xs) div length xs"
    using mean_u64_value [OF ne len64] l(2,3) by auto
  moreover have "\<forall>ys. mset ys = mset xs \<longrightarrow> describe_micros ys = Return (Some l)"
    by (intro allI impI, drule perm) (simp only: l(1))
  ultimately show ?thesis using l(1) le mem [unfolded set_sort] by blast
qed

theorem describe_micros_statistics_witness:
  "\<exists>l. describe_micros [30, 10, 20] = Return (Some l) \<and> describe_micros [10, 20, 30] = Return (Some l)
    \<and> unat (lat_mean_micros l) = 20"
proof -
  let ?xs = "[30, 10, 20 :: u64]"
  have pre: "?xs \<noteq> []" "length ?xs < 2 ^ 57" by simp_all
  obtain l where l: "describe_micros ?xs = Return (Some l)"
    "\<forall>ys. mset ys = mset ?xs \<longrightarrow> describe_micros ys = Return (Some l)"
    "unat (lat_mean_micros l) = sum_list (map unat ?xs) div length ?xs"
    using describe_micros_statistics [OF pre] by blast
  have "mset [10, 20, 30] = mset ?xs" by (simp add: add_mset_commute)
  then have "describe_micros [10, 20, 30] = Return (Some l)" using l(2) by blast
  moreover have "unat (lat_mean_micros l) = 20" using l(3) by simp
  ultimately show ?thesis using l(1) by blast
qed

subsection \<open>Validity and the summary\<close>

definition terminal_states :: "RunState list" where
  "terminal_states = [Succeeded, Failed, Interrupted]"

lemma evaluate_validity_observed:
  assumes "eo_terminal_state out \<in> set terminal_states"
  shows "\<exists>v. evaluate_validity plan out rid = Return v \<and> vy_run_id v = rid
    \<and> vy_required_samples v = ms_repetitions (sp_measurement (ex_spec (re_experiment plan)))
    \<and> vy_observed_samples v = of_nat (length (measured_records (eo_measurements out)))"
  using assms by (auto simp: evaluate_validity_def terminal_states_def Let_def)

text \<open>
  C32. Validity is decided for every terminal state (the \<open>unreachable!\<close> branch is not taken), and the
  measurements are valid exactly when the run succeeded with at least the required number of measured
  records; it is indeterminate exactly when the run did not succeed. A reason is given exactly when
  the status is not valid.
\<close>

theorem evaluate_validity_classifies:
  assumes "eo_terminal_state out \<in> set terminal_states"
    and "length (measured_records (eo_measurements out)) < 2 ^ 32"
  shows "\<exists>v. evaluate_validity plan out rid = Return v
    \<and> (vy_status v = Valid \<longleftrightarrow> eo_terminal_state out = Succeeded
        \<and> unat (ms_repetitions (sp_measurement (ex_spec (re_experiment plan))))
            \<le> length (measured_records (eo_measurements out)))
    \<and> (vy_status v = Indeterminate \<longleftrightarrow> eo_terminal_state out \<noteq> Succeeded)
    \<and> (vy_reasons v = [] \<longleftrightarrow> vy_status v = Valid)
    \<and> unat (vy_observed_samples v) = length (measured_records (eo_measurements out))"
proof -
  have "unat (of_nat (length (measured_records (eo_measurements out))) :: u32)
     = length (measured_records (eo_measurements out))"
    using assms(2) by (intro unat_of_nat_small) simp
  then show ?thesis
    using assms(1) by (auto simp: evaluate_validity_def terminal_states_def Let_def word_le_nat_alt)
qed

theorem evaluate_validity_classifies_witness:
  "\<exists>v. evaluate_validity (resolved_fixture minimal_local_fake)
      \<lparr>eo_measurements = [], eo_resources = None, eo_nvidia_gpu = None,
       eo_terminal_state = Succeeded, eo_failure = None\<rparr> ''run'' = Return v
    \<and> vy_status v = Invalid \<and> vy_observed_samples v = 0"
proof -
  let ?out = "\<lparr>eo_measurements = [], eo_resources = None, eo_nvidia_gpu = None,
    eo_terminal_state = Succeeded, eo_failure = None\<rparr>"
  let ?plan = "resolved_fixture minimal_local_fake"
  have n: "measured_records (eo_measurements ?out) = []" by (simp add: measured_records_def)
  have r: "unat (ms_repetitions (sp_measurement (ex_spec (re_experiment ?plan)))) = 3"
    by (simp add: fixture_defs)
  have *: "eo_terminal_state ?out \<in> set terminal_states"
    "length (measured_records (eo_measurements ?out)) < 2 ^ 32" by (simp_all add: terminal_states_def measured_records_def)
  have st: "eo_terminal_state ?out = Succeeded" by simp
  obtain v where v: "evaluate_validity ?plan ?out ''run'' = Return v"
    "vy_status v \<noteq> Valid" "vy_status v \<noteq> Indeterminate" "unat (vy_observed_samples v) = 0"
    using evaluate_validity_classifies [OF *, of ?plan "''run''", unfolded r n st] by auto
  then have "vy_status v = Invalid" by (cases "vy_status v") simp_all
  moreover have "vy_observed_samples v = 0" using v(4) by (simp add: unat_eq_zero)
  ultimately show ?thesis using v(1) by blast
qed

lemma summarize_value:
  assumes "length (measured_records (eo_measurements out)) < 2 ^ 57"
  shows "\<exists>s. summarize plan out v rid = Return s \<and> su_run_status s = eo_terminal_state out
    \<and> su_validity_status s = vy_status v
    \<and> (su_latency s = None \<longleftrightarrow> measured_records (eo_measurements out) = [] \<or> vy_status v = Indeterminate)
    \<and> (su_mean_throughput_milli_requests_per_second s = None \<longleftrightarrow> su_latency s = None)"
proof (cases "measured_records (eo_measurements out) = [] \<or> vy_status v = Indeterminate")
  case True
  then show ?thesis by (auto simp: summarize_def Let_def)
next
  case False
  let ?m = "measured_records (eo_measurements out)"
  obtain l where l: "describe_micros (map mr_latency_micros ?m) = Return (Some l)"
    using describe_micros_value [of "map mr_latency_micros ?m"] False assms by auto
  have "length (map mr_throughput_milli_requests_per_second ?m) < 2 ^ 64" using assms by simp
  then obtain t where t: "mean_u64 (map mr_throughput_milli_requests_per_second ?m) = Some t"
    using mean_u64_value [of "map mr_throughput_milli_requests_per_second ?m"] False by fastforce
  show ?thesis using False l t by (simp add: summarize_def Let_def)
qed

end
