(* ===== verification/ChildSupervisor.thy ===== *)
theory ChildSupervisor
  imports Resolution Execution
begin

text \<open>
  Supervision of the measurement helpers, \<open>src/crates/benchplane-core/src/child_supervisor.rs\<close>: the
  reader of the helper's standard output, the supervision loop with its deadline, reaping and
  resource accounting, and the result of one execution.

  The operating system is the environment of the model. A call of \<open>reader.read\<close> is a \<open>ReadResult\<close>, a
  call of \<open>wait4\<close> a \<open>WaitCall\<close>, and one iteration of the supervision loop consumes one \<open>Poll\<close>: the
  instant it reads, what \<open>recv_timeout\<close> returned and what \<open>wait4\<close> returned. The loop is a recursion
  over the polls that have happened; \<open>None\<close> means that it is still running after them. JSON parsing
  (\<open>from_slice\<close>) and the display of a wait status are arguments. The receiver outlives the
  reader thread (it is joined first), so a send never fails.
\<close>

definition MAX_STDERR_BYTES :: usize where "MAX_STDERR_BYTES = 16 * 1024"
definition MAX_DIAGNOSTIC_CHARS :: nat where "MAX_DIAGNOSTIC_CHARS = 1024"
definition POLL_INTERVAL :: nat where "POLL_INTERVAL = 10000000"

record ExitCodeFailure =
  xf_exit_code :: nat
  xf_failure_code :: string
  xf_message :: string

record ChildProtocol =
  cq_runtime_name :: string
  cq_expected_metadata_records :: usize
  cq_expected_records :: usize
  cq_max_record_bytes :: usize
  cq_max_stdout_bytes :: usize
  cq_maximum_runtime_seconds :: u64
  cq_spawn_failure_code :: string
  cq_exit_failure_code :: string
  cq_output_failure_code :: string
  cq_deadline_failure_code :: string
  cq_resource_failure_code :: string
  cq_special_exit_codes :: "ExitCodeFailure list"

record ChildExecution =
  ce_metadata :: "bytes list"
  ce_measurements :: "MeasurementRecord list"
  ce_resources :: "ProcessResources option"
  ce_failure :: "FailureRecord option"

type_synonym wait_status = "32 word"
type_synonym accounting = "string + ProcessResources"

record ReapedChild =
  rc_status :: wait_status
  rc_resources :: accounting

record CompletedChild =
  cc_reaped :: ReapedChild
  cc_metadata :: "bytes list"
  cc_measurements :: "MeasurementRecord list"

record SupervisionFailure =
  sf_failure :: FailureRecord
  sf_resources :: "accounting option"

datatype StdoutEvent = Line bytes | StdoutError string | Done

definition child_failed :: "FailureRecord \<Rightarrow> ProcessResources option \<Rightarrow> ChildExecution" where
  "child_failed f resources = \<lparr>ce_metadata = [], ce_measurements = [], ce_resources = resources,
     ce_failure = Some f\<rparr>"

subsection \<open>Failure records\<close>

definition bounded_message :: "string \<Rightarrow> string" where
  "bounded_message message = take_chars MAX_DIAGNOSTIC_CHARS message"

definition failure :: "string \<Rightarrow> string \<Rightarrow> FailureRecord" where
  "failure code message = \<lparr>fr_phase = ''running'', fr_code = code,
     fr_message = bounded_message message, fr_retryable = False, fr_attempt_number = 1\<rparr>"

definition output_failure :: "ChildProtocol \<Rightarrow> string \<Rightarrow> FailureRecord" where
  "output_failure p message =
     failure (cq_output_failure_code p) (cq_runtime_name p @ '' protocol: '' @ message)"

definition resource_failure :: "ChildProtocol \<Rightarrow> string \<Rightarrow> FailureRecord" where
  "resource_failure p message = failure (cq_resource_failure_code p)
     (''could not account for packaged '' @ cq_runtime_name p @ '' helper: '' @ message)"

definition result_ok :: "'e + 'a \<Rightarrow> 'a option" where
  "result_ok r = (case r of Inl _ \<Rightarrow> None | Inr x \<Rightarrow> Some x)"

definition failed_after_reap :: "FailureRecord \<Rightarrow> accounting \<Rightarrow> ChildExecution" where
  "failed_after_reap primary resources = child_failed primary (result_ok resources)"

text \<open>
  \<open>String::from_utf8_lossy\<close>: each maximal prefix of a valid character that is not completed, and each
  byte that starts none, becomes U+FFFD.
\<close>

definition continuation_ranges :: "nat \<Rightarrow> (nat \<times> nat) list option" where
  "continuation_ranges b = (
     if b < 128 then Some []
     else if 194 \<le> b \<and> b \<le> 223 then Some [(128, 191)]
     else if b = 224 then Some [(160, 191), (128, 191)]
     else if b = 237 then Some [(128, 159), (128, 191)]
     else if 225 \<le> b \<and> b \<le> 239 then Some [(128, 191), (128, 191)]
     else if b = 240 then Some [(144, 191), (128, 191), (128, 191)]
     else if 241 \<le> b \<and> b \<le> 243 then Some [(128, 191), (128, 191), (128, 191)]
     else if b = 244 then Some [(128, 143), (128, 191), (128, 191)]
     else None)"

fun matched_prefix :: "(nat \<times> nat) list \<Rightarrow> bytes \<Rightarrow> nat" where
  "matched_prefix ((lo, hi) # rs) (b # bs) =
     (if lo \<le> byte_of b \<and> byte_of b \<le> hi then Suc (matched_prefix rs bs) else 0)"
| "matched_prefix _ _ = 0"

definition replacement_character :: string where
  "replacement_character = map char_of [239, 191, 189 :: nat]"

function from_utf8_lossy :: "bytes \<Rightarrow> string" where
  "from_utf8_lossy [] = []"
| "from_utf8_lossy (b # bs) = (case continuation_ranges (byte_of b) of
     None \<Rightarrow> replacement_character @ from_utf8_lossy bs
   | Some ranges \<Rightarrow> let k = matched_prefix ranges bs in
       (if k = length ranges then b # take k bs else replacement_character)
         @ from_utf8_lossy (drop k bs))"
  by pat_completeness auto
termination by (relation "measure length") auto

definition format_stderr :: "bytes \<Rightarrow> string" where
  "format_stderr stderr = (if stderr = [] then []
     else ''; stderr: '' @ trim (from_utf8_lossy stderr))"

subsection \<open>Resource accounting\<close>

type_synonym i64 = "64 word"

definition u64_from_i64 :: "i64 \<Rightarrow> u64 option" where
  "u64_from_i64 v = (if sint v < 0 then None else Some v)"

definition time_micros :: "i64 \<Rightarrow> i64 \<Rightarrow> u64 option" where
  "time_micros seconds micros =
     (if sint seconds < 0 \<or> \<not> (0 \<le> sint micros \<and> sint micros < 1000000) then None
      else Option.bind (u64_from_i64 seconds) (\<lambda>s. Option.bind (checked_mul s 1000000) (\<lambda>t.
        Option.bind (u64_from_i64 micros) (\<lambda>m. checked_add t m))))"

definition resource_usage_from_components :: "i64 \<Rightarrow> i64 \<Rightarrow> i64 \<Rightarrow> i64 \<Rightarrow> i64 \<Rightarrow> accounting" where
  "resource_usage_from_components user_seconds user_micros system_seconds system_micros peak_rss_kib =
     and_then (ok_or ''helper user CPU time is not representable'' (time_micros user_seconds user_micros)) (\<lambda>user.
     and_then (ok_or ''helper system CPU time is not representable'' (time_micros system_seconds system_micros)) (\<lambda>system.
     and_then (ok_or ''helper total CPU time overflowed'' (checked_add user system)) (\<lambda>cpu_time_micros.
     and_then (ok_or ''helper peak RSS is not representable in bytes''
         (Option.bind (u64_from_i64 peak_rss_kib) (\<lambda>value. checked_mul value 1024))) (\<lambda>peak_rss_bytes.
     Ok \<lparr>pr_cpu_time_micros = cpu_time_micros, pr_peak_rss_bytes = peak_rss_bytes\<rparr>))))"

record Rusage =
  ru_utime_sec :: i64
  ru_utime_usec :: i64
  ru_stime_sec :: i64
  ru_stime_usec :: i64
  ru_maxrss :: i64

definition convert_resource_usage :: "Rusage \<Rightarrow> accounting" where
  "convert_resource_usage u = resource_usage_from_components (ru_utime_sec u) (ru_utime_usec u)
     (ru_stime_sec u) (ru_stime_usec u) (ru_maxrss u)"

subsection \<open>Waiting for the child\<close>

text \<open>One return of the system call: the child's status, zero, or an error.\<close>

datatype WaitCall = Waited wait_status Rusage | StillRunning | InterruptedCall | WaitFailed string

fun wait4_loop :: "WaitCall list \<Rightarrow> (string + ReapedChild option) option" where
  "wait4_loop [] = None"
| "wait4_loop (call # calls) = (case call of
     Waited status usage \<Rightarrow> Some (Ok (Some \<lparr>rc_status = status, rc_resources = convert_resource_usage usage\<rparr>))
   | StillRunning \<Rightarrow> Some (Ok None)
   | InterruptedCall \<Rightarrow> wait4_loop calls
   | WaitFailed error \<Rightarrow> Some (Err error))"

text \<open>
  \<open>u32\<close> process identifiers must fit \<open>pid_t\<close>; the loop repeats the call while it is interrupted,
  and \<open>None\<close> is a call that has not returned yet.
\<close>

definition wait4 :: "u32 \<Rightarrow> WaitCall list \<Rightarrow> (string + ReapedChild option) option" where
  "wait4 pid calls = (if 2 ^ 31 \<le> unat pid then Some (Err ''helper process ID is not representable'')
     else wait4_loop calls)"

definition status_success :: "wait_status \<Rightarrow> bool" where
  "status_success s \<longleftrightarrow> s = 0"

definition status_code :: "wait_status \<Rightarrow> nat option" where
  "status_code s = (if take_bit 7 s = 0 then Some (unat (take_bit 8 (drop_bit 8 s))) else None)"

subsection \<open>Reading the streams\<close>

definition len :: "'a list \<Rightarrow> usize" where
  "len xs = of_nat (length xs)"

datatype ReadResult = ReadBytes bytes | ReadError string

text \<open>
  The inner loop over the bytes of one read: the lines completed, and either the unfinished line or
  the error that ends the reader.
\<close>

fun feed :: "ChildProtocol \<Rightarrow> bytes \<Rightarrow> bytes \<Rightarrow> StdoutEvent list \<times> (string + bytes)" where
  "feed p line [] = ([], Ok line)"
| "feed p line (b # bs) =
     (if b = CHR 0x0A then (let (events, r) = feed p [] bs in (Line line # events, r))
      else let line' = line @ [b] in
        if len line' \<ge> cq_max_record_bytes p
        then ([], Err (''output line exceeded the '' @ show_word (cq_max_record_bytes p) @ '' byte limit''))
        else feed p line' bs)"

definition finish_stdout :: "bytes \<Rightarrow> StdoutEvent list" where
  "finish_stdout line = (if line \<noteq> [] then [Line line] else []) @ [Done]"

fun read_stdout_loop :: "ChildProtocol \<Rightarrow> bytes \<Rightarrow> usize \<Rightarrow> ReadResult list \<Rightarrow> StdoutEvent list" where
  "read_stdout_loop p line seen [] = finish_stdout line"
| "read_stdout_loop p line seen (ReadError error # rs) =
     [StdoutError (''could not read output: '' @ error)]"
| "read_stdout_loop p line seen (ReadBytes bs # rs) =
     (if bs = [] then finish_stdout line
      else let seen' = saturating_add seen (len bs) in
        if seen' > cq_max_stdout_bytes p
        then [StdoutError (''output exceeded the '' @ show_word (cq_max_stdout_bytes p) @ '' byte limit'')]
        else case feed p line bs of
          (events, Inl message) \<Rightarrow> events @ [StdoutError message]
        | (events, Inr line') \<Rightarrow> events @ read_stdout_loop p line' seen' rs)"

definition read_stdout :: "ChildProtocol \<Rightarrow> ReadResult list \<Rightarrow> StdoutEvent list" where
  "read_stdout p reads = read_stdout_loop p [] 0 reads"

fun read_stderr_loop :: "bytes \<Rightarrow> ReadResult list \<Rightarrow> bytes" where
  "read_stderr_loop retained [] = retained"
| "read_stderr_loop retained (ReadError _ # rs) = retained"
| "read_stderr_loop retained (ReadBytes bs # rs) =
     (if bs = [] then retained
      else let remaining = saturating_sub MAX_STDERR_BYTES (len retained) in
        read_stderr_loop (retained @ take (min (length bs) (unat remaining)) bs) rs)"

definition read_stderr :: "ReadResult list \<Rightarrow> bytes" where
  "read_stderr reads = read_stderr_loop [] reads"

subsection \<open>The supervision loop\<close>

datatype Received = Received StdoutEvent | ReceiveTimeout | ReceiveDisconnected

record Poll =
  po_now :: nat
  po_received :: Received
  po_wait :: "string + ReapedChild option"

record Supervision =
  sv_metadata :: "bytes list"
  sv_measurements :: "MeasurementRecord list"
  sv_stdout_done :: bool
  sv_exit_status :: "ReapedChild option"

type_synonym json_reader = "bytes \<Rightarrow> string + MeasurementRecord"
type_synonym validator = "MeasurementRecord \<Rightarrow> nat \<Rightarrow> string + unit"

definition supervision_failure :: "FailureRecord \<Rightarrow> ReapedChild option \<Rightarrow> SupervisionFailure" where
  "supervision_failure f reaped = \<lparr>sf_failure = f, sf_resources = map_option rc_resources reaped\<rparr>"

text \<open>
  A received line: \<open>Inr (True, st)\<close> is the \<open>continue\<close> after a metadata line, which goes to the next
  iteration without polling the child.
\<close>

definition accept_line ::
  "json_reader \<Rightarrow> validator \<Rightarrow> ChildProtocol \<Rightarrow> bytes \<Rightarrow> Supervision \<Rightarrow> FailureRecord + (bool \<times> Supervision)" where
  "accept_line from_slice check p line st = (let
       emitted = saturating_add (len (sv_metadata st)) (len (sv_measurements st));
       expected = saturating_add (cq_expected_metadata_records p) (cq_expected_records p)
     in if emitted \<ge> expected then Err (output_failure p ''emitted excessive protocol records'')
     else if is_none_or (\<lambda>bytes. bytes > cq_max_record_bytes p) (checked_add (len line) 1)
     then Err (output_failure p (''measurement record exceeded the ''
       @ show_word (cq_max_record_bytes p) @ '' byte protocol envelope''))
     else if len (sv_metadata st) < cq_expected_metadata_records p
     then Ok (True, st\<lparr>sv_metadata := sv_metadata st @ [line]\<rparr>)
     else case from_slice line of
       Inl error \<Rightarrow> Err (output_failure p (''emitted malformed JSON: '' @ error))
     | Inr record \<Rightarrow> (case check record (length (sv_measurements st)) of
         Inl message \<Rightarrow> Err (output_failure p message)
       | Inr _ \<Rightarrow> Ok (False, st\<lparr>sv_measurements := sv_measurements st @ [record]\<rparr>)))"

definition receive ::
  "json_reader \<Rightarrow> validator \<Rightarrow> ChildProtocol \<Rightarrow> Received \<Rightarrow> Supervision \<Rightarrow> FailureRecord + (bool \<times> Supervision)" where
  "receive from_slice check p r st = (case r of
     Received (Line line) \<Rightarrow> accept_line from_slice check p line st
   | Received (StdoutError message) \<Rightarrow> Err (output_failure p message)
   | Received Done \<Rightarrow> Ok (False, st\<lparr>sv_stdout_done := True\<rparr>)
   | ReceiveDisconnected \<Rightarrow> Ok (False, st\<lparr>sv_stdout_done := True\<rparr>)
   | ReceiveTimeout \<Rightarrow> Ok (False, st))"

definition poll_exit ::
  "ChildProtocol \<Rightarrow> string + ReapedChild option \<Rightarrow> Supervision \<Rightarrow> FailureRecord + Supervision" where
  "poll_exit p wait st = (case sv_exit_status st of
     Some _ \<Rightarrow> Ok st
   | None \<Rightarrow> (case wait of
       Inr status \<Rightarrow> Ok (st\<lparr>sv_exit_status := status\<rparr>)
     | Inl error \<Rightarrow> Err (output_failure p (''could not wait for helper: '' @ error))))"

definition deadline_failure :: "ChildProtocol \<Rightarrow> FailureRecord" where
  "deadline_failure p = failure (cq_deadline_failure_code p)
     (''packaged '' @ cq_runtime_name p @ '' helper exceeded the ''
       @ show_word (cq_maximum_runtime_seconds p) @ '' second experiment deadline'')"

definition supervise_iteration ::
  "json_reader \<Rightarrow> validator \<Rightarrow> ChildProtocol \<Rightarrow> nat \<Rightarrow> Poll \<Rightarrow> Supervision \<Rightarrow> SupervisionFailure + Supervision" where
  "supervise_iteration from_slice check p deadline poll st =
     map_err (\<lambda>f. supervision_failure f (sv_exit_status st))
       (if po_now poll \<ge> deadline then Err (deadline_failure p)
        else and_then (receive from_slice check p (po_received poll) st) (\<lambda>(continue, st').
          if continue then Ok st' else poll_exit p (po_wait poll) st'))"

definition supervise_complete :: "Supervision \<Rightarrow> CompletedChild option" where
  "supervise_complete st = (case sv_exit_status st of
     Some reaped \<Rightarrow> if sv_stdout_done st then Some \<lparr>cc_reaped = reaped, cc_metadata = sv_metadata st,
       cc_measurements = sv_measurements st\<rparr> else None
   | None \<Rightarrow> None)"

fun supervise_loop ::
  "json_reader \<Rightarrow> validator \<Rightarrow> ChildProtocol \<Rightarrow> nat \<Rightarrow> Poll list \<Rightarrow> Supervision
     \<Rightarrow> (SupervisionFailure + CompletedChild) option" where
  "supervise_loop fs v p deadline [] st = map_option Inr (supervise_complete st)"
| "supervise_loop fs v p deadline (poll # polls) st = (case supervise_complete st of
     Some completed \<Rightarrow> Some (Ok completed)
   | None \<Rightarrow> (case supervise_iteration fs v p deadline poll st of
       Inl f \<Rightarrow> Some (Err f)
     | Inr st' \<Rightarrow> supervise_loop fs v p deadline polls st'))"

definition supervision_start :: Supervision where
  "supervision_start = \<lparr>sv_metadata = [], sv_measurements = [], sv_stdout_done = False, sv_exit_status = None\<rparr>"

definition supervise ::
  "json_reader \<Rightarrow> validator \<Rightarrow> ChildProtocol \<Rightarrow> nat \<Rightarrow> Poll list
     \<Rightarrow> (SupervisionFailure + CompletedChild) option" where
  "supervise fs v p deadline polls = supervise_loop fs v p deadline polls supervision_start"

subsection \<open>One execution\<close>

definition completed_success ::
  "ChildProtocol \<Rightarrow> accounting \<Rightarrow> bytes list \<Rightarrow> MeasurementRecord list \<Rightarrow> ChildExecution" where
  "completed_success p resources metadata measurements =
     (if len metadata \<noteq> cq_expected_metadata_records p \<or> len measurements \<noteq> cq_expected_records p
      then failed_after_reap (output_failure p (''emitted '' @ show_nat (length metadata)
        @ '' metadata and '' @ show_nat (length measurements) @ '' measurement records; expected ''
        @ show_word (cq_expected_metadata_records p) @ '' and '' @ show_word (cq_expected_records p)))
        resources
      else case resources of
        Inr r \<Rightarrow> \<lparr>ce_metadata = metadata, ce_measurements = measurements, ce_resources = Some r,
          ce_failure = None\<rparr>
      | Inl error \<Rightarrow> child_failed (resource_failure p error) None)"

definition accepted_bytes :: "ChildProtocol \<Rightarrow> FailureRecord + usize" where
  "accepted_bytes p = ok_or (output_failure p ''requested output exceeds its transport bound'')
     (opt_filter (\<lambda>bytes. bytes \<le> cq_max_stdout_bytes p)
       (Option.bind (checked_add (cq_expected_metadata_records p) (cq_expected_records p))
         (\<lambda>records. checked_mul records (cq_max_record_bytes p))))"

text \<open>What the supervisor has done about the child, or learned of it, before a call that may block.\<close>

datatype ChildAction = Kill | Wait | Reaped

text \<open>
  What the system did during one execution of a helper. The blocking calls after the loop depend on
  what was done before them, and may never return: \<open>wait4\<close> without \<open>WNOHANG\<close> and \<open>Child::wait\<close> wait for the
  child, and joining a reader thread waits until every holder of the pipe has closed it. \<open>en_stderr\<close> gives the reads
  of the stderr thread, if it ends.
\<close>

record ChildEnvironment =
  en_spawn :: "string + unit"
  en_started :: nat
  en_polls :: "Poll list"
  en_nohang :: "string + ReapedChild option"
  en_blocking :: "ChildAction list \<Rightarrow> (string + ReapedChild option) option"
  en_child_wait :: "ChildAction list \<Rightarrow> bool"
  en_stdout_joined :: "ChildAction list \<Rightarrow> bool"
  en_stderr :: "ChildAction list \<Rightarrow> ReadResult list option"

text \<open>The result and what was done, or \<open>None\<close> while a wait has not returned.\<close>

definition terminate_and_reap :: "ChildEnvironment \<Rightarrow> (accounting \<times> ChildAction list) option" where
  "terminate_and_reap env = (let
       kill_and_wait = (\<lambda>error acts. if en_child_wait env acts then Some (Err error, acts @ [Wait]) else None)
     in case en_nohang env of
       Inr (Some reaped) \<Rightarrow> Some (rc_resources reaped, [Reaped])
     | Inl error \<Rightarrow> kill_and_wait error [Kill]
     | Inr None \<Rightarrow> (case en_blocking env [Kill] of
         None \<Rightarrow> None
       | Some (Inr (Some reaped)) \<Rightarrow> Some (rc_resources reaped, [Kill, Reaped])
       | Some (Inr None) \<Rightarrow> Some (Err ''blocking wait returned without reaping the helper'', [Kill])
       | Some (Inl error) \<Rightarrow> kill_and_wait error [Kill]))"

definition exit_failure_record ::
  "(wait_status \<Rightarrow> string) \<Rightarrow> ChildProtocol \<Rightarrow> wait_status \<Rightarrow> bytes \<Rightarrow> FailureRecord" where
  "exit_failure_record show_status p status stderr = (let
       special = Option.bind (status_code status) (\<lambda>code.
         List.find (\<lambda>f. xf_exit_code f = code) (cq_special_exit_codes p));
       (code, message) = (case special of
           Some special \<Rightarrow> (xf_failure_code special, xf_message special)
         | None \<Rightarrow> (cq_exit_failure_code p,
             ''packaged '' @ cq_runtime_name p @ '' helper exited with '' @ show_status status))
     in failure code (message @ format_stderr stderr))"

definition supervised_failure_record :: "ChildProtocol \<Rightarrow> FailureRecord \<Rightarrow> bytes \<Rightarrow> FailureRecord" where
  "supervised_failure_record p f stderr =
     (if stderr \<noteq> [] \<and> fr_code f \<noteq> cq_deadline_failure_code p
      then f\<lparr>fr_message := bounded_message (fr_message f @ format_stderr stderr)\<rparr> else f)"

text \<open>After the loop the child has been reaped, or is terminated and reaped now.\<close>

definition settle_child ::
  "ChildEnvironment \<Rightarrow> SupervisionFailure + CompletedChild
     \<Rightarrow> ((FailureRecord \<times> accounting + CompletedChild) \<times> ChildAction list) option" where
  "settle_child env result = (case result of
     Inr completed \<Rightarrow> Some (Ok completed, [Reaped])
   | Inl sf \<Rightarrow> (case sf_resources sf of
       Some resources \<Rightarrow> Some (Err (sf_failure sf, resources), [Reaped])
     | None \<Rightarrow> map_option (\<lambda>(resources, acts). (Err (sf_failure sf, resources), acts)) (terminate_and_reap env)))"

definition conclude ::
  "(wait_status \<Rightarrow> string) \<Rightarrow> ChildProtocol \<Rightarrow> FailureRecord \<times> accounting + CompletedChild \<Rightarrow> bytes \<Rightarrow> ChildExecution" where
  "conclude show_status p result stderr = (case result of
     Inr completed \<Rightarrow> (let reaped = cc_reaped completed in
       if status_success (rc_status reaped)
       then completed_success p (rc_resources reaped) (cc_metadata completed) (cc_measurements completed)
       else failed_after_reap (exit_failure_record show_status p (rc_status reaped) stderr) (rc_resources reaped))
   | Inl (f, resources) \<Rightarrow> failed_after_reap (supervised_failure_record p f stderr) resources)"

definition child_execute ::
  "(wait_status \<Rightarrow> string) \<Rightarrow> json_reader \<Rightarrow> ChildProtocol \<Rightarrow> validator \<Rightarrow> ChildEnvironment
     \<Rightarrow> ChildExecution option" where
  "child_execute show_status fs p check env = (case accepted_bytes p of
     Inl f \<Rightarrow> Some (child_failed f None)
   | Inr _ \<Rightarrow> (case en_spawn env of
       Inl error \<Rightarrow> Some (child_failed (failure (cq_spawn_failure_code p)
         (''could not start packaged '' @ cq_runtime_name p @ '' helper: '' @ error)) None)
     | Inr _ \<Rightarrow> (let deadline = en_started env + unat (cq_maximum_runtime_seconds p) * 1000000000 in
         Option.bind (supervise fs check p deadline (en_polls env)) (\<lambda>result.
         Option.bind (settle_child env result) (\<lambda>(result, acts).
         if en_stdout_joined env acts
         then map_option (\<lambda>reads. conclude show_status p result (read_stderr reads)) (en_stderr env acts)
         else None)))))"

end
