(* ===== verification/SupervisionFacts.thy ===== *)
theory SupervisionFacts
  imports ChildSupervisor "HOL-Library.Sublist"
begin

text \<open>
  What supervision guarantees: exact resource accounting, a reader that does not depend on how the
  helper's output is cut into reads, validated and complete measurements on success, no measurements
  on failure, bounded diagnostics, and a return once the deadline has passed.
\<close>

subsection \<open>Resource accounting\<close>

lemma uint_of_nonneg_sint:
  assumes "0 \<le> sint (v :: 64 word)"
  shows "uint v = sint v"
proof -
  have "sint v < 2 ^ 63" using sint_lt [of v] by simp
  then have "sint v < 2 ^ 64" by simp
  then show ?thesis using assms by (simp add: uint_sint take_bit_int_eq_self)
qed

lemma checked_add_uint:
  "checked_add a b = Some c \<longleftrightarrow> uint a + uint b < 2 ^ 64 \<and> uint c = uint a + uint (b :: u64)"
proof -
  have "int (unat a + unat b) < int (2 ^ 64) \<longleftrightarrow> uint a + uint b < 2 ^ 64" by simp
  then have fits: "unat a + unat b < 2 ^ 64 \<longleftrightarrow> uint a + uint b < 2 ^ 64" by (simp only: of_nat_less_iff)
  have "c = a + b \<longleftrightarrow> uint c = uint a + uint b" if "uint a + uint b < 2 ^ 64"
  proof -
    have "uint (a + b) = uint a + uint b" using that by (simp add: uint_word_ariths)
    then show ?thesis by (metis word_uint_eq_iff)
  qed
  then show ?thesis using fits by (auto simp: checked_add_eq_Some)
qed

lemma checked_mul_uint:
  "checked_mul a b = Some c \<longleftrightarrow> uint a * uint b < 2 ^ 64 \<and> uint c = uint a * uint (b :: u64)"
proof -
  have "int (unat a * unat b) < int (2 ^ 64) \<longleftrightarrow> uint a * uint b < 2 ^ 64" by simp
  then have fits: "unat a * unat b < 2 ^ 64 \<longleftrightarrow> uint a * uint b < 2 ^ 64" by (simp only: of_nat_less_iff)
  have "c = a * b \<longleftrightarrow> uint c = uint a * uint b" if "uint a * uint b < 2 ^ 64"
  proof -
    have "uint (a * b) = uint a * uint b" using that by (simp add: uint_word_ariths)
    then show ?thesis by (metis word_uint_eq_iff)
  qed
  then show ?thesis using fits by (auto simp: checked_mul_eq_Some)
qed

lemma uint_exists: "0 \<le> n \<Longrightarrow> n < 2 ^ 64 \<Longrightarrow> \<exists>x :: u64. uint x = n"
  by (rule exI [of _ "word_of_int n"]) (simp add: uint_word_of_int)

lemma time_micros_exact:
  "time_micros s m = Some t \<longleftrightarrow> 0 \<le> sint s \<and> 0 \<le> sint m \<and> sint m < 1000000
     \<and> sint s * 1000000 + sint m < 2 ^ 64 \<and> uint t = sint s * 1000000 + sint m"
proof (cases "0 \<le> sint s \<and> 0 \<le> sint m \<and> sint m < 1000000")
  case True
  then have s: "uint s = sint s" and m: "uint m = sint m" by (simp_all add: uint_of_nonneg_sint)
  have "time_micros s m = Some t \<longleftrightarrow> (\<exists>x. checked_mul s 1000000 = Some x \<and> checked_add x m = Some t)"
    using True by (auto simp: time_micros_def u64_from_i64_def bind_eq_Some_conv)
  also have "\<dots> \<longleftrightarrow> (\<exists>x :: u64. sint s * 1000000 < 2 ^ 64 \<and> uint x = sint s * 1000000
      \<and> uint x + sint m < 2 ^ 64 \<and> uint t = uint x + sint m)"
    by (simp only: checked_add_uint checked_mul_uint s m) simp
  also have "\<dots> \<longleftrightarrow> sint s * 1000000 + sint m < 2 ^ 64 \<and> uint t = sint s * 1000000 + sint m"
  proof -
    have "\<exists>x :: u64. uint x = sint s * 1000000" if "sint s * 1000000 < 2 ^ 64"
      using that True by (intro uint_exists) simp_all
    then show ?thesis using True by fastforce
  qed
  finally show ?thesis using True by blast
next
  case False
  then show ?thesis by (auto simp: time_micros_def)
qed

text \<open>
  C24. Resource accounting is exact. It succeeds precisely when every component is in range and
  both totals fit 64 bits, and then it is the sum of user and system time in microseconds and the
  peak resident set in bytes, with no rounding or wrap-around.
\<close>

theorem resource_usage_exact:
  "resource_usage_from_components us um ss sm k = Ok r \<longleftrightarrow>
     0 \<le> sint us \<and> 0 \<le> sint um \<and> sint um < 1000000 \<and> 0 \<le> sint ss \<and> 0 \<le> sint sm \<and> sint sm < 1000000
     \<and> 0 \<le> sint k \<and> (sint us + sint ss) * 1000000 + sint um + sint sm < 2 ^ 64
     \<and> sint k * 1024 < 2 ^ 64
     \<and> uint (pr_cpu_time_micros r) = (sint us + sint ss) * 1000000 + sint um + sint sm
     \<and> uint (pr_peak_rss_bytes r) = sint k * 1024"
  (is "_ \<longleftrightarrow> ?spec")
proof
  assume "resource_usage_from_components us um ss sm k = Ok r"
  then obtain u s where t: "time_micros us um = Some u" "time_micros ss sm = Some s"
    "checked_add u s = Some (pr_cpu_time_micros r)"
    and k: "0 \<le> sint k" "checked_mul k 1024 = Some (pr_peak_rss_bytes r)"
    by (auto simp: resource_usage_from_components_def result_simps bind_eq_Some_conv u64_from_i64_def
        split: if_splits)
  then show ?spec
    by (auto simp: time_micros_exact checked_add_uint checked_mul_uint uint_of_nonneg_sint)
next
  assume spec: ?spec
  then obtain u s :: u64 where u: "uint u = sint us * 1000000 + sint um"
    and s: "uint s = sint ss * 1000000 + sint sm"
    using uint_exists [of "sint us * 1000000 + sint um"] uint_exists [of "sint ss * 1000000 + sint sm"]
    by auto
  then have "time_micros us um = Some u" "time_micros ss sm = Some s"
    using spec by (auto simp: time_micros_exact)
  moreover have "checked_add u s = Some (pr_cpu_time_micros r)"
    using spec u s by (auto simp: checked_add_uint)
  moreover have "checked_mul k 1024 = Some (pr_peak_rss_bytes r)"
    using spec by (auto simp: checked_mul_uint uint_of_nonneg_sint)
  ultimately show "resource_usage_from_components us um ss sm k = Ok r"
    using spec by (simp add: resource_usage_from_components_def u64_from_i64_def)
qed

subsection \<open>The reader\<close>

text \<open>The lines of an output: the parts between line feeds, without an empty last part.\<close>

definition protocol_lines :: "bytes \<Rightarrow> bytes list" where
  "protocol_lines out = (let parts = split_on CHR 0x0A out in
     butlast parts @ (if last parts = [] then [] else [last parts]))"

lemma split_on_not_Nil [simp]: "split_on c xs \<noteq> []"
  by (cases xs) (auto split: list.splits)

text \<open>\<open>feed\<close> from an unfinished line: the parts of the input, the first one prefixed by that line.\<close>

definition continued :: "bytes \<Rightarrow> bytes \<Rightarrow> bytes list" where
  "continued line bs = (line @ hd (split_on CHR 0x0A bs)) # tl (split_on CHR 0x0A bs)"

lemma continued_simps [simp]:
  "continued line [] = [line]"
  "continued line (CHR 0x0A # bs) = line # continued [] bs"
  "b \<noteq> CHR 0x0A \<Longrightarrow> continued line (b # bs) = continued (line @ [b]) bs"
  by (simp_all add: continued_def split: list.splits)

lemma continued_Nil: "continued [] bs = split_on CHR 0x0A bs"
  by (simp add: continued_def)

lemma hd_continued_length: "length line \<le> length (hd (continued line bs))"
  by (simp add: continued_def)

lemma len_less: "length xs < 2 ^ 64 \<Longrightarrow> unat (len xs) = length xs"
  unfolding len_def by (rule unat_of_nat_small) simp

lemma len_le_iff:
  assumes "length xs \<le> unat (m :: usize)"
  shows "unat (len xs) = length xs"
proof -
  have "unat m < 2 ^ 64" by simp
  then have "length xs < 2 ^ 64" using assms by linarith
  then show ?thesis by (rule len_less)
qed

lemma feed_full_line:
  assumes "b \<noteq> CHR 0x0A" and "length (line @ [b]) = unat (cq_max_record_bytes p)"
  shows "\<exists>m. feed p line (b # bs) = ([], Err m)"
    and "\<not> (\<forall>l\<in>set (continued line (b # bs)). length l < unat (cq_max_record_bytes p))"
proof -
  have "len (line @ [b]) \<ge> cq_max_record_bytes p" using assms(2) by (subst word_le_nat_alt, subst len_le_iff) auto
  then show "\<exists>m. feed p line (b # bs) = ([], Err m)" using assms(1) by simp
  have "\<not> length (hd (continued line (b # bs))) < unat (cq_max_record_bytes p)"
    using hd_continued_length [of "line @ [b]" bs] assms by simp
  then show "\<not> (\<forall>l\<in>set (continued line (b # bs)). length l < unat (cq_max_record_bytes p))"
    by (metis continued_def list.set_intros(1) list.sel(1))
qed

lemma feed_spec:
  assumes "length line < unat (cq_max_record_bytes p)"
  shows "if \<forall>l\<in>set (continued line bs). length l < unat (cq_max_record_bytes p)
    then feed p line bs = (map Line (butlast (continued line bs)), Ok (last (continued line bs)))
    else \<exists>ls m. feed p line bs = (map Line ls, Err m)"
  using assms
proof (induction bs arbitrary: line)
  case Nil
  then show ?case by simp
next
  case (Cons b bs)
  show ?case
  proof (cases "b = CHR 0x0A")
    case True
    have "length ([] :: bytes) < unat (cq_max_record_bytes p)" using Cons.prems by simp
    note IH = Cons.IH [OF this]
    show ?thesis
    proof (cases "\<forall>l\<in>set (continued [] bs). length l < unat (cq_max_record_bytes p)")
      case all: True
      then show ?thesis using Cons.IH [of "[]"] Cons.prems True by (auto simp: continued_Nil)
    next
      case False
      then obtain ls m where "feed p [] bs = (map Line ls, Err m)"
        using IH [unfolded if_not_P [OF False]] by blast
      then have "feed p line (b # bs) = (map Line (line # ls), Err m)" using True by simp
      moreover have "\<not> (\<forall>l\<in>set (continued line (b # bs)). length l < unat (cq_max_record_bytes p))"
        using False True by auto
      ultimately show ?thesis by (simp only: if_False) blast
    qed
  next
    case False
    show ?thesis
    proof (cases "length (line @ [b]) = unat (cq_max_record_bytes p)")
      case True
      from feed_full_line [OF False True, of bs] show ?thesis by (simp only: if_False) (metis list.simps(8))
    next
      case short: False
      then have lt: "length (line @ [b]) < unat (cq_max_record_bytes p)" using Cons.prems by simp
      then have "\<not> len (line @ [b]) \<ge> cq_max_record_bytes p"
        by (subst word_le_nat_alt, subst len_le_iff [OF less_imp_le]) auto
      then show ?thesis using Cons.IH [OF lt] False by (simp add: Let_def)
    qed
  qed
qed

lemma feed_append:
  "feed p line (xs @ ys) = (case feed p line xs of
     (ev, Inl m) \<Rightarrow> (ev, Inl m)
   | (ev, Inr l) \<Rightarrow> (let (ev', r) = feed p l ys in (ev @ ev', r)))"
  by (induction xs arbitrary: line)
    (auto simp: Let_def split: sum.splits prod.splits)

lemma saturating_add_len:
  assumes "unat a + length bs \<le> unat (m :: usize)"
  shows "unat (saturating_add a (len bs)) = unat a + length bs"
proof -
  have l: "unat (len bs) = length bs" using assms len_le_iff [of bs m] by simp
  have "unat m < 2 ^ 64" by simp
  then have "unat a + length bs < 2 ^ 64" using assms by linarith
  then show ?thesis using l by (simp add: saturating_add_def)
qed

lemma read_stdout_loop_chunks:
  assumes "\<forall>c\<in>set cs. c \<noteq> []" and "unat seen + length (concat cs) \<le> unat (cq_max_stdout_bytes p)"
  shows "read_stdout_loop p line seen (map ReadBytes cs) = (case feed p line (concat cs) of
     (ev, Inl m) \<Rightarrow> ev @ [StdoutError m] | (ev, Inr l) \<Rightarrow> ev @ finish_stdout l)"
  using assms
proof (induction cs arbitrary: line seen)
  case (Cons c cs)
  have sum: "unat (saturating_add seen (len c)) = unat seen + length c"
    using Cons.prems(2) by (intro saturating_add_len [of _ _ "cq_max_stdout_bytes p"]) simp
  then have within: "\<not> saturating_add seen (len c) > cq_max_stdout_bytes p"
    using Cons.prems(2) by (simp add: word_less_nat_alt)
  have "\<And>l. read_stdout_loop p l (saturating_add seen (len c)) (map ReadBytes cs) = (case feed p l (concat cs) of
     (ev, Inl m) \<Rightarrow> ev @ [StdoutError m] | (ev, Inr l) \<Rightarrow> ev @ finish_stdout l)"
    using Cons.prems sum by (intro Cons.IH) simp_all
  then show ?case
    using Cons.prems(1) within by (auto simp: feed_append Let_def split: sum.splits prod.splits)
qed simp

lemma read_stdout_cases:
  assumes "\<forall>c\<in>set chunks. c \<noteq> []" and "length (concat chunks) \<le> unat (cq_max_stdout_bytes p)"
    and "0 < cq_max_record_bytes p"
  shows "if \<forall>l\<in>set (protocol_lines (concat chunks)). length l < unat (cq_max_record_bytes p)
    then read_stdout p (map ReadBytes chunks) = map Line (protocol_lines (concat chunks)) @ [Done]
    else \<exists>ls m. read_stdout p (map ReadBytes chunks) = map Line ls @ [StdoutError m]"
proof -
  let ?out = "concat chunks" and ?M = "unat (cq_max_record_bytes p)"
  have M: "0 < ?M" using assms(3) by (simp add: word_less_nat_alt)
  have loop: "read_stdout p (map ReadBytes chunks) = (case feed p [] ?out of
     (ev, Inl m) \<Rightarrow> ev @ [StdoutError m] | (ev, Inr l) \<Rightarrow> ev @ finish_stdout l)"
    unfolding read_stdout_def using assms(1,2) by (intro read_stdout_loop_chunks) simp_all
  have spec: "if \<forall>l\<in>set (split_on CHR 0x0A ?out). length l < ?M
    then feed p [] ?out = (map Line (butlast (split_on CHR 0x0A ?out)), Ok (last (split_on CHR 0x0A ?out)))
    else \<exists>ls m. feed p [] ?out = (map Line ls, Err m)"
    using feed_spec [of "[]" p ?out] M by (simp add: continued_Nil)
  have "set (split_on CHR 0x0A ?out) = set (butlast (split_on CHR 0x0A ?out)) \<union> {last (split_on CHR 0x0A ?out)}"
    by (metis append_butlast_last_id list.set(1,2) set_append split_on_not_Nil)
  then have iff: "(\<forall>l\<in>set (split_on CHR 0x0A ?out). length l < ?M)
      \<longleftrightarrow> (\<forall>l\<in>set (protocol_lines ?out). length l < ?M)"
    using M by (auto simp: protocol_lines_def Let_def)
  show ?thesis
  proof (cases "\<forall>l\<in>set (protocol_lines ?out). length l < ?M")
    case True
    then have "feed p [] ?out = (map Line (butlast (split_on CHR 0x0A ?out)), Ok (last (split_on CHR 0x0A ?out)))"
      using spec iff by simp
    then show ?thesis using True loop by (simp add: protocol_lines_def Let_def finish_stdout_def)
  next
    case False
    then have "\<exists>ls m. feed p [] ?out = (map Line ls, Err m)" using spec iff by (simp only: if_False)
    then show ?thesis using False loop by (simp only: if_False) auto
  qed
qed

lemma read_stdout_whole:
  assumes "\<forall>c\<in>set chunks. c \<noteq> []" and "length (concat chunks) \<le> unat (cq_max_stdout_bytes p)"
    and "0 < cq_max_record_bytes p"
    and "\<forall>l\<in>set (protocol_lines (concat chunks)). length l < unat (cq_max_record_bytes p)"
  shows "read_stdout p (map ReadBytes chunks) = map Line (protocol_lines (concat chunks)) @ [Done]"
  using read_stdout_cases [OF assms(1-3)] assms(4) by simp

text \<open>
  C23. Within its byte limit the reader does not depend on how the helper's output is cut into reads.
  When every line is shorter than the record limit it reports exactly the lines of the output and
  then the end; otherwise it reports some lines and ends with an error.
\<close>

theorem read_stdout_lines:
  assumes "\<forall>c\<in>set chunks. c \<noteq> []" and "length (concat chunks) \<le> unat (cq_max_stdout_bytes p)"
    and "0 < cq_max_record_bytes p"
  shows "if \<forall>l\<in>set (protocol_lines (concat chunks)). length l < unat (cq_max_record_bytes p)
    then read_stdout p (map ReadBytes chunks) = map Line (protocol_lines (concat chunks)) @ [Done]
    else \<exists>ls m. read_stdout p (map ReadBytes chunks) = map Line ls @ [StdoutError m]"
  using assms by (rule read_stdout_cases)

text \<open>A protocol of two records of at most 16 bytes, on which the properties are evaluated.\<close>

definition sample_protocol :: ChildProtocol where
  "sample_protocol = \<lparr>cq_runtime_name = ''sample'', cq_expected_metadata_records = 0,
     cq_expected_records = 2, cq_max_record_bytes = 16, cq_max_stdout_bytes = 64,
     cq_maximum_runtime_seconds = 5, cq_spawn_failure_code = ''sample.spawn'',
     cq_exit_failure_code = ''sample.exit'', cq_output_failure_code = ''sample.output'',
     cq_deadline_failure_code = ''sample.deadline'', cq_resource_failure_code = ''sample.resource'',
     cq_special_exit_codes = []\<rparr>"

theorem read_stdout_lines_witness:
  "read_stdout sample_protocol (map ReadBytes [''ab'', CHR ''c'' # CHR 0x0A # ''d'', ''e'']) =
     [Line ''abc'', Line ''de'', Done]"
proof -
  let ?chunks = "[''ab'', CHR ''c'' # CHR 0x0A # ''d'', ''e'']"
  have lines: "protocol_lines (concat ?chunks) = [''abc'', ''de'']"
    by (simp add: protocol_lines_def Let_def)
  have pre: "\<forall>c\<in>set ?chunks. c \<noteq> []" "length (concat ?chunks) \<le> unat (cq_max_stdout_bytes sample_protocol)"
    "0 < cq_max_record_bytes sample_protocol" by (simp_all add: sample_protocol_def)
  have "\<forall>l\<in>set (protocol_lines (concat ?chunks)). length l < unat (cq_max_record_bytes sample_protocol)"
    unfolding lines by (simp add: sample_protocol_def)
  then show ?thesis using read_stdout_lines [OF pre] unfolding lines by simp
qed

subsection \<open>Lines and records\<close>

text \<open>
  The state of the supervision after the lines \<open>ls\<close>: the first lines are the metadata, the others
  the measurements, each one validated at its position.
\<close>

definition holds ::
  "json_reader \<Rightarrow> validator \<Rightarrow> ChildProtocol \<Rightarrow> bytes list \<Rightarrow> bytes list \<Rightarrow> MeasurementRecord list \<Rightarrow> bool" where
  "holds fs v p ls metadata measurements \<longleftrightarrow>
     metadata = take (unat (cq_expected_metadata_records p)) ls
     \<and> list_all2 (\<lambda>l r. fs l = Ok r) (drop (unat (cq_expected_metadata_records p)) ls) measurements
     \<and> (\<forall>i < length measurements. v (measurements ! i) i = Ok ())
     \<and> length ls \<le> unat (cq_expected_metadata_records p) + unat (cq_expected_records p)"

abbreviation st_holds where
  "st_holds fs v p ls st \<equiv> holds fs v p ls (sv_metadata st) (sv_measurements st)"

definition representable :: "ChildProtocol \<Rightarrow> bool" where
  "representable p \<longleftrightarrow> unat (cq_expected_metadata_records p) + unat (cq_expected_records p) < 2 ^ 64"

lemma holds_lengths:
  assumes "holds fs v p ls ms rs"
  shows "length ms + length rs = length ls" "length ms \<le> unat (cq_expected_metadata_records p)"
    "length rs \<le> unat (cq_expected_records p)"
proof -
  have ms: "ms = take (unat (cq_expected_metadata_records p)) ls"
    and rs: "length rs = length ls - unat (cq_expected_metadata_records p)"
    and b: "length ls \<le> unat (cq_expected_metadata_records p) + unat (cq_expected_records p)"
    using assms by (auto simp: holds_def dest: list_all2_lengthD)
  show "length ms + length rs = length ls" "length ms \<le> unat (cq_expected_metadata_records p)"
    "length rs \<le> unat (cq_expected_records p)"
    using ms rs b by auto
qed

lemma holds_len:
  assumes "holds fs v p ls ms rs"
  shows "unat (len ms) = length ms" "unat (len rs) = length rs"
  using holds_lengths [OF assms] len_le_iff by blast+

lemma emitted_less_iff:
  assumes "holds fs v p ls ms rs" and "representable p"
  shows "saturating_add (len ms) (len rs)
      \<ge> saturating_add (cq_expected_metadata_records p) (cq_expected_records p)
    \<longleftrightarrow> length ls = unat (cq_expected_metadata_records p) + unat (cq_expected_records p)"
proof -
  note l = holds_lengths [OF assms(1)] holds_len [OF assms(1)]
  have "length ms + length rs < 2 ^ 64" using l assms(2) unfolding representable_def by linarith
  then have e: "unat (saturating_add (len ms) (len rs)) = length ls"
    using l by (simp add: saturating_add_def)
  have x: "unat (saturating_add (cq_expected_metadata_records p) (cq_expected_records p))
      = unat (cq_expected_metadata_records p) + unat (cq_expected_records p)"
    using assms(2) by (simp add: representable_def saturating_add_def)
  show ?thesis unfolding word_le_nat_alt e x using assms(1) by (auto simp: holds_def)
qed

lemma accept_line_holds:
  assumes h: "st_holds fs v p ls st" and r: "representable p"
    and ok: "accept_line fs v p line st = Ok (c, st')"
  shows "st_holds fs v p (ls @ [line]) st' \<and> sv_stdout_done st' = sv_stdout_done st
    \<and> sv_exit_status st' = sv_exit_status st"
proof -
  let ?m = "unat (cq_expected_metadata_records p)"
  note l = holds_lengths [OF h] holds_len [OF h]
  have room: "length ls < ?m + unat (cq_expected_records p)"
    using ok emitted_less_iff [OF h r] h unfolding accept_line_def Let_def holds_def
    by (auto split: if_splits)
  have less: "len (sv_metadata st) < cq_expected_metadata_records p \<longleftrightarrow> length ls < ?m"
    using l h by (auto simp: word_less_nat_alt holds_def)
  show ?thesis
  proof (cases "length ls < ?m")
    case True
    then have "st' = st\<lparr>sv_metadata := sv_metadata st @ [line]\<rparr>" "sv_measurements st = []"
      using ok less h unfolding accept_line_def Let_def by (auto simp: holds_def split: if_splits)
    then show ?thesis using h True room by (auto simp: holds_def)
  next
    case False
    then obtain rec where rec: "fs line = Ok rec" "v rec (length (sv_measurements st)) = Ok ()"
      "st' = st\<lparr>sv_measurements := sv_measurements st @ [rec]\<rparr>"
      using ok less unfolding accept_line_def Let_def by (auto split: if_splits sum.splits)
    then show ?thesis using h False room
      by (auto simp: holds_def nth_append less_Suc_eq intro!: list_all2_appendI)
  qed
qed

subsection \<open>The channel\<close>

text \<open>
  The polls see the reader's events in order, and the channel reports disconnection only when it is
  empty: \<open>channel q polls\<close> for the events \<open>q\<close> not yet received.
\<close>

fun channel :: "StdoutEvent list \<Rightarrow> Poll list \<Rightarrow> bool" where
  "channel q [] = True"
| "channel q (poll # polls) = (case po_received poll of
     Received e \<Rightarrow> (case q of [] \<Rightarrow> False | e' # q' \<Rightarrow> e = e' \<and> channel q' polls)
   | ReceiveTimeout \<Rightarrow> channel q polls
   | ReceiveDisconnected \<Rightarrow> q = [] \<and> channel q polls)"

definition ends :: "StdoutEvent \<Rightarrow> bool" where
  "ends x \<longleftrightarrow> (\<forall>l. x \<noteq> Line l)"

lemma feed_lines: "\<exists>ls. fst (feed p line bs) = map Line ls"
proof (induction bs arbitrary: line)
  case Nil
  then show ?case by simp
next
  case (Cons b bs)
  obtain ls ls' where IH: "fst (feed p [] bs) = map Line ls" "fst (feed p (line @ [b]) bs) = map Line ls'"
    using Cons by blast
  show ?case
  proof (cases "b = CHR 0x0A")
    case True
    then have "fst (feed p line (b # bs)) = map Line (line # ls)"
      using IH(1) by (simp add: case_prod_unfold)
    then show ?thesis by blast
  next
    case False
    then have "fst (feed p line (b # bs)) \<in> {map Line [], map Line ls'}"
      using IH(2) by (simp add: Let_def)
    then show ?thesis by blast
  qed
qed

lemma end_shapes:
  "\<exists>ls x. finish_stdout line = map Line ls @ [x] \<and> ends x" "\<exists>ls x. [StdoutError m] = map Line ls @ [x] \<and> ends x"
proof -
  have "finish_stdout line = map Line (if line \<noteq> [] then [line] else []) @ [Done]" by (simp add: finish_stdout_def)
  then show "\<exists>ls x. finish_stdout line = map Line ls @ [x] \<and> ends x" unfolding ends_def by blast
  have "[StdoutError m] = map Line [] @ [StdoutError m]" by simp
  then show "\<exists>ls x. [StdoutError m] = map Line ls @ [x] \<and> ends x" unfolding ends_def by blast
qed

lemma read_stdout_loop_shape: "\<exists>ls x. read_stdout_loop p line seen reads = map Line ls @ [x] \<and> ends x"
proof (induction p line seen reads rule: read_stdout_loop.induct)
  case (1 p line seen)
  then show ?case using end_shapes(1) by simp
next
  case (2 p line seen error rs)
  then show ?case using end_shapes(2) by simp
next
  case (3 p line seen bs rs)
  obtain ev r where f: "feed p line bs = (ev, r)" by force
  obtain ls where ev: "ev = map Line ls" using feed_lines [of p line bs] f by auto
  let ?seen = "saturating_add seen (len bs)"
  consider "bs = []" | "bs \<noteq> []" "?seen > cq_max_stdout_bytes p"
    | m where "bs \<noteq> []" "\<not> ?seen > cq_max_stdout_bytes p" "r = Inl m"
    | l where "bs \<noteq> []" "\<not> ?seen > cq_max_stdout_bytes p" "r = Inr l"
    by (cases r) blast+
  then show ?case
  proof cases
    case 1
    then show ?thesis using end_shapes(1) by simp
  next
    case 2
    then show ?thesis using end_shapes(2) by (simp add: Let_def)
  next
    case 3
    then show ?thesis using f ev by (auto simp: Let_def ends_def)
  next
    case (4 l)
    obtain ls' x where IH: "read_stdout_loop p l ?seen rs = map Line ls' @ [x]" "ends x"
      using "3.IH" [OF 4(1) refl 4(2) f [symmetric] 4(3)] by blast
    have "read_stdout_loop p line seen (ReadBytes bs # rs) = map Line (ls @ ls') @ [x]"
      using 4 f ev IH(1) by (simp add: Let_def)
    then show ?thesis using IH(2) by blast
  qed
qed

lemma poll_exit_keeps:
  "poll_exit p w st = Ok st' \<Longrightarrow> sv_metadata st' = sv_metadata st \<and> sv_measurements st' = sv_measurements st
     \<and> sv_stdout_done st' = sv_stdout_done st"
  by (auto simp: poll_exit_def split: option.splits sum.splits)

lemma map_Line_end_unique:
  assumes "map Line ls @ y # q = map Line L @ [x]" and "ends x" and "ends y"
  shows "ls = L \<and> x = y \<and> q = []"
  using assms
proof (induction ls arbitrary: L)
  case Nil
  then show ?case by (cases L) (auto simp: ends_def)
next
  case (Cons l ls)
  then show ?case by (cases L) (auto simp: ends_def)
qed

lemma supervise_complete_eq_Some:
  "supervise_complete st = Some c \<longleftrightarrow> sv_stdout_done st \<and> (\<exists>r. sv_exit_status st = Some r
     \<and> c = \<lparr>cc_reaped = r, cc_metadata = sv_metadata st, cc_measurements = sv_measurements st\<rparr>)"
  by (auto simp: supervise_complete_def split: option.splits)

text \<open>The invariant of the loop over a channel that delivers \<open>map Line L @ [x]\<close>.\<close>

definition stream_inv ::
  "json_reader \<Rightarrow> validator \<Rightarrow> ChildProtocol \<Rightarrow> bytes list \<Rightarrow> StdoutEvent \<Rightarrow> StdoutEvent list \<Rightarrow> Supervision \<Rightarrow> bool" where
  "stream_inv fs v p L x q st \<longleftrightarrow> (if sv_stdout_done st then q = [] \<and> x = Done \<and> st_holds fs v p L st
     else \<exists>ls. map Line ls @ q = map Line L @ [x] \<and> st_holds fs v p ls st)"

lemma stream_inv_drained:
  assumes "stream_inv fs v p L x [] st" and "ends x"
  shows "sv_stdout_done st"
proof (rule ccontr)
  assume "\<not> sv_stdout_done st"
  then obtain ls where "map Line ls = map Line L @ [x]" using assms(1) by (auto simp: stream_inv_def)
  then have "x \<in> set (map Line ls)" by (metis in_set_conv_decomp)
  then show False using assms(2) by (auto simp: ends_def)
qed

lemma stream_inv_receive:
  assumes inv: "stream_inv fs v p L x q st" and x: "ends x" and r: "representable p"
    and chan: "channel q (poll # polls)"
    and ok: "receive fs v p (po_received poll) st = Ok (c, st')"
  shows "\<exists>q'. stream_inv fs v p L x q' st' \<and> channel q' polls"
proof (cases "po_received poll")
  case (Received e)
  show ?thesis
  proof (cases e)
    case (Line line)
    then obtain q' where q: "q = Line line # q'" "channel q' polls"
      using chan Received by (auto split: list.splits)
    then obtain ls where ls: "map Line ls @ q = map Line L @ [x]" "st_holds fs v p ls st" "\<not> sv_stdout_done st"
      using inv by (auto simp: stream_inv_def split: if_splits)
    have "accept_line fs v p line st = Ok (c, st')" using ok Received Line by (simp add: receive_def)
    note acc = accept_line_holds [OF ls(2) r this]
    have "map Line (ls @ [line]) @ q' = map Line L @ [x]" using ls(1) q(1) by simp
    moreover have "\<not> sv_stdout_done st'" using acc ls(3) by simp
    ultimately have "stream_inv fs v p L x q' st'"
      unfolding stream_inv_def using acc by (simp only: if_False) blast
    then show ?thesis using q(2) by blast
  next
    case (StdoutError m)
    then show ?thesis using ok Received by (simp add: receive_def)
  next
    case Done
    then obtain q' where q: "q = Done # q'" "channel q' polls"
      using chan Received by (auto split: list.splits)
    then obtain ls where ls: "map Line ls @ Done # q' = map Line L @ [x]" "st_holds fs v p ls st"
      using inv by (auto simp: stream_inv_def split: if_splits)
    have "ends Done" by (simp add: ends_def)
    from map_Line_end_unique [OF ls(1) x this] have "ls = L" "x = Done" "q' = []" by auto
    then show ?thesis using ls(2) q(2) ok Received Done by (auto simp: receive_def stream_inv_def)
  qed
next
  case ReceiveTimeout
  then show ?thesis using inv chan ok by (auto simp: receive_def)
next
  case ReceiveDisconnected
  then have q: "q = []" "channel [] polls" using chan by auto
  have "sv_stdout_done st" using stream_inv_drained [OF _ x] inv q(1) by blast
  then show ?thesis using inv q ok ReceiveDisconnected by (auto simp: receive_def stream_inv_def)
qed

lemma iteration_Ok:
  assumes "supervise_iteration fs v p d poll st = Ok st'"
  shows "\<exists>b st1. receive fs v p (po_received poll) st = Ok (b, st1) \<and> po_now poll < d
    \<and> (if b then st1 = st' else poll_exit p (po_wait poll) st1 = Ok st')"
proof -
  have lt: "po_now poll < d" using assms by (auto simp: supervise_iteration_def split: if_splits)
  obtain b st1 where r: "receive fs v p (po_received poll) st = Ok (b, st1)"
    and "(if b then Ok st1 else poll_exit p (po_wait poll) st1) = Ok st'"
    using assms lt by (auto simp: supervise_iteration_def map_err_eq_Ok and_then_eq_Ok)
  then have "if b then st1 = st' else poll_exit p (po_wait poll) st1 = Ok st'" by (cases b) auto
  then show ?thesis using r lt by blast
qed

lemma stream_inv_loop:
  assumes "stream_inv fs v p L x q st" and "ends x" and "representable p" and "channel q polls"
    and "supervise_loop fs v p d polls st = Some (Ok c)"
  shows "x = Done \<and> holds fs v p L (cc_metadata c) (cc_measurements c)"
  using assms
proof (induction polls arbitrary: st q)
  case Nil
  then show ?case by (auto simp: supervise_complete_eq_Some stream_inv_def)
next
  case (Cons poll polls)
  show ?case
  proof (cases "supervise_complete st")
    case (Some c')
    then have "c = c'" using Cons.prems(5) by simp
    then show ?thesis using Some Cons.prems(1) by (auto simp: supervise_complete_eq_Some stream_inv_def)
  next
    case None
    then obtain st' where it: "supervise_iteration fs v p d poll st = Ok st'"
      and rest: "supervise_loop fs v p d polls st' = Some (Ok c)"
      using Cons.prems(5) by (auto split: sum.splits)
    obtain b st1 where rcv: "receive fs v p (po_received poll) st = Ok (b, st1)"
      and fin: "if b then st1 = st' else poll_exit p (po_wait poll) st1 = Ok st'"
      using iteration_Ok [OF it] by blast
    obtain q' where q': "stream_inv fs v p L x q' st1" "channel q' polls"
      using stream_inv_receive [OF Cons.prems(1-4) rcv] by blast
    have "stream_inv fs v p L x q' st'"
      using q'(1) fin poll_exit_keeps [of p "po_wait poll" st1 st']
      by (auto simp: stream_inv_def split: if_splits)
    then show ?thesis using Cons.IH [OF _ Cons.prems(2,3) q'(2) rest] by blast
  qed
qed

subsection \<open>The result of an execution\<close>

lemma receive_holds:
  assumes "\<exists>ls. st_holds fs v p ls st" and "representable p" and "receive fs v p r st = Ok (c, st')"
  shows "\<exists>ls. st_holds fs v p ls st'"
proof (cases r)
  case (Received e)
  show ?thesis
  proof (cases e)
    case (Line line)
    then have "accept_line fs v p line st = Ok (c, st')" using assms(3) Received by (simp add: receive_def)
    moreover obtain ls where "st_holds fs v p ls st" using assms(1) by blast
    ultimately have "st_holds fs v p (ls @ [line]) st'"
      using accept_line_holds [OF _ assms(2)] by (simp only:)
    then show ?thesis by (rule exI)
  qed (use assms Received in \<open>auto simp: receive_def\<close>)
qed (use assms in \<open>auto simp: receive_def\<close>)

lemma iteration_holds:
  assumes "\<exists>ls. st_holds fs v p ls st" and "representable p"
    and "supervise_iteration fs v p d poll st = Ok st'"
  shows "\<exists>ls. st_holds fs v p ls st'"
proof -
  obtain b st1 where *: "receive fs v p (po_received poll) st = Ok (b, st1)"
    "if b then st1 = st' else poll_exit p (po_wait poll) st1 = Ok st'"
    using iteration_Ok [OF assms(3)] by blast
  have "\<exists>ls. st_holds fs v p ls st1" by (rule receive_holds [OF assms(1,2) *(1)])
  then show ?thesis using *(2) poll_exit_keeps [of p "po_wait poll" st1 st'] by (cases b) auto
qed

lemma loop_holds:
  assumes "\<exists>ls. st_holds fs v p ls st" and "representable p"
    and "supervise_loop fs v p d polls st = Some (Ok c)"
  shows "\<exists>ls. holds fs v p ls (cc_metadata c) (cc_measurements c)"
  using assms
proof (induction polls arbitrary: st)
  case Nil
  then show ?case by (auto simp: supervise_complete_eq_Some)
next
  case (Cons poll polls)
  show ?case
  proof (cases "supervise_complete st")
    case (Some c')
    then have "c = c'" using Cons.prems(3) by simp
    then show ?thesis using Some Cons.prems(1) by (auto simp: supervise_complete_eq_Some)
  next
    case None
    then obtain st' where "supervise_iteration fs v p d poll st = Ok st'"
      "supervise_loop fs v p d polls st' = Some (Ok c)"
      using Cons.prems(3) by (auto split: sum.splits)
    then show ?thesis using Cons.IH iteration_holds [OF Cons.prems(1,2)] Cons.prems(2) by blast
  qed
qed

lemma start_holds: "st_holds fs v p [] supervision_start"
  by (simp add: holds_def supervision_start_def)

lemma accepted_bytes_Ok:
  "accepted_bytes p = Ok b \<Longrightarrow> representable p
     \<and> (unat (cq_expected_metadata_records p) + unat (cq_expected_records p)) * unat (cq_max_record_bytes p)
       \<le> unat (cq_max_stdout_bytes p)"
proof -
  assume "accepted_bytes p = Ok b"
  then obtain r where r: "checked_add (cq_expected_metadata_records p) (cq_expected_records p) = Some r"
    "checked_mul r (cq_max_record_bytes p) = Some b" "b \<le> cq_max_stdout_bytes p"
    by (auto simp: accepted_bytes_def result_simps bind_eq_Some_conv)
  then have "unat r = unat (cq_expected_metadata_records p) + unat (cq_expected_records p)"
    "unat b = unat r * unat (cq_max_record_bytes p)"
    by (auto simp: checked_simps)
  then show ?thesis using r by (auto simp: representable_def checked_simps word_le_nat_alt)
qed

definition succeeded_with ::
  "json_reader \<Rightarrow> validator \<Rightarrow> ChildProtocol \<Rightarrow> ChildExecution \<Rightarrow> bool" where
  "succeeded_with fs v p x \<longleftrightarrow> length (ce_metadata x) = unat (cq_expected_metadata_records p)
     \<and> length (ce_measurements x) = unat (cq_expected_records p)
     \<and> (\<forall>i < length (ce_measurements x). v (ce_measurements x ! i) i = Ok ())
     \<and> (\<exists>ls. list_all2 (\<lambda>l r. fs l = Ok r) ls (ce_measurements x))
     \<and> ce_resources x \<noteq> None"

definition discarded :: "ChildExecution \<Rightarrow> bool" where
  "discarded x \<longleftrightarrow> ce_metadata x = [] \<and> ce_measurements x = []"

lemma child_failed_simps [simp]:
  "ce_failure (child_failed f r) = Some f" "discarded (child_failed f r)"
  by (simp_all add: child_failed_def discarded_def)

lemma failed_after_reap_simps [simp]:
  "ce_failure (failed_after_reap f r) = Some f" "discarded (failed_after_reap f r)"
  by (simp_all add: failed_after_reap_def)

lemma completed_success_cases:
  assumes "holds fs v p ls ms rs"
  shows "if ce_failure (completed_success p res ms rs) = None
    then succeeded_with fs v p (completed_success p res ms rs)
    else discarded (completed_success p res ms rs)"
proof -
  have "len ms = cq_expected_metadata_records p \<longleftrightarrow> length ms = unat (cq_expected_metadata_records p)"
    "len rs = cq_expected_records p \<longleftrightarrow> length rs = unat (cq_expected_records p)"
    using holds_len [OF assms] by (metis word_unat_eq_iff)+
  then show ?thesis using assms
    by (auto simp: completed_success_def succeeded_with_def holds_def split: sum.splits)
qed

lemma child_execute_Some:
  assumes "child_execute show_status fs p v env = Some x" and "accepted_bytes p = Ok b" and "en_spawn env = Ok u"
  obtains result outcome acts stderr
  where "supervise fs v p (en_started env + unat (cq_maximum_runtime_seconds p) * 1000000000) (en_polls env) = Some result"
    "settle_child env result = Some (outcome, acts)" "x = conclude show_status p outcome stderr"
  using assms by (auto simp: child_execute_def Let_def bind_eq_Some_conv split: if_splits)

lemma child_execute_cases:
  assumes "child_execute show_status fs p v env = Some x"
  shows "if ce_failure x = None then succeeded_with fs v p x else discarded x"
proof (cases "\<exists>b u. accepted_bytes p = Ok b \<and> en_spawn env = Ok u")
  case False
  then show ?thesis using assms by (auto simp: child_execute_def split: sum.splits)
next
  case True
  then obtain result outcome acts stderr where
    res: "supervise fs v p (en_started env + unat (cq_maximum_runtime_seconds p) * 1000000000) (en_polls env) = Some result"
    and settled: "settle_child env result = Some (outcome, acts)" and x: "x = conclude show_status p outcome stderr"
    using child_execute_Some [OF assms] by blast
  have rep: "representable p" using True accepted_bytes_Ok by blast
  show ?thesis
  proof (cases result)
    case (Inl sf)
    then obtain f a where "outcome = Err (f, a)" using settled by (auto simp: settle_child_def split: option.splits)
    then have "ce_failure x \<noteq> None \<and> discarded x" using x by (simp add: conclude_def)
    then show ?thesis by auto
  next
    case finished: (Inr c)
    then have out: "outcome = Ok c" using settled by (simp add: settle_child_def)
    obtain ls where ls: "holds fs v p ls (cc_metadata c) (cc_measurements c)"
      using loop_holds [OF _ rep] start_holds res finished unfolding supervise_def by blast
    show ?thesis
    proof (cases "status_success (rc_status (cc_reaped c))")
      case True
      then show ?thesis using completed_success_cases [OF ls] x out by (simp add: conclude_def)
    next
      case False
      then have "ce_failure x \<noteq> None \<and> discarded x" using x out by (simp add: conclude_def Let_def)
      then show ?thesis by auto
    qed
  qed
qed

text \<open>
  C20. An execution that reports no failure has exactly the expected metadata and measurement
  records, every measurement accepted by the validator at its own position and parsed from a line,
  and its resource usage. An execution that reports a failure keeps no metadata and no measurements.
\<close>

theorem child_execute_outcome:
  assumes "child_execute show_status fs p v env = Some x"
  shows "(ce_failure x = None \<longrightarrow>
      length (ce_metadata x) = unat (cq_expected_metadata_records p)
      \<and> length (ce_measurements x) = unat (cq_expected_records p)
      \<and> (\<forall>i < length (ce_measurements x). v (ce_measurements x ! i) i = Ok ())
      \<and> (\<exists>ls. list_all2 (\<lambda>l r. fs l = Ok r) ls (ce_measurements x))
      \<and> ce_resources x \<noteq> None)
    \<and> (ce_failure x \<noteq> None \<longrightarrow> ce_metadata x = [] \<and> ce_measurements x = [])"
  using child_execute_cases [OF assms] by (auto simp: succeeded_with_def discarded_def split: if_splits)

text \<open>
  An environment for the evaluations: two records arrive, the end of the stream, and the exit of the
  child with status zero; the records are local-fake like ones and every line parses.
\<close>

definition sample_record :: MeasurementRecord where
  "sample_record = \<lparr>mr_generator = ''sample'', mr_attempt_number = 1, mr_phase = Measured,
     mr_repetition_index = 1, mr_sample_index = 1, mr_latency_micros = 2,
     mr_time_to_first_token_micros = 1, mr_throughput_milli_requests_per_second = 1,
     mr_successful_requests = 1, mr_failed_requests = 0, mr_request_observations = []\<rparr>"

definition sample_from_slice :: json_reader where "sample_from_slice line = Ok sample_record"

definition sample_check :: validator where "sample_check r i = Ok ()"

definition sample_poll :: "nat \<Rightarrow> Received \<Rightarrow> ReapedChild option \<Rightarrow> Poll" where
  "sample_poll now r w = \<lparr>po_now = now, po_received = r, po_wait = Ok w\<rparr>"

definition sample_reaped :: ReapedChild where
  "sample_reaped = \<lparr>rc_status = 0, rc_resources = Ok \<lparr>pr_cpu_time_micros = 7, pr_peak_rss_bytes = 1024\<rparr>\<rparr>"

definition sample_polls :: "Poll list" where
  "sample_polls = [sample_poll 1 (Received (Line ''a'')) None, sample_poll 2 ReceiveTimeout None,
     sample_poll 3 (Received (Line ''b'')) None, sample_poll 4 (Received Done) (Some sample_reaped)]"

definition sample_environment :: "Poll list \<Rightarrow> ChildEnvironment" where
  "sample_environment polls = \<lparr>en_spawn = Ok (), en_started = 0, en_polls = polls, en_nohang = Ok None,
     en_blocking = (\<lambda>_. Some (Ok None)), en_child_wait = (\<lambda>_. True), en_stdout_joined = (\<lambda>_. True), en_stderr = (\<lambda>_. Some [])\<rparr>"

lemmas sample_defs = sample_protocol_def sample_record_def sample_from_slice_def sample_check_def
  sample_poll_def sample_reaped_def sample_polls_def sample_environment_def supervision_start_def

lemmas supervise_eval = supervise_def supervise_complete_def supervise_iteration_def receive_def
  accept_line_def poll_exit_def len_def saturating_add_def checked_add_def Let_def

lemma sample_accepted: "accepted_bytes sample_protocol = Ok 32"
  by (simp add: accepted_bytes_def sample_protocol_def checked_add_def checked_mul_def)

lemma sample_supervise:
  "supervise sample_from_slice sample_check sample_protocol 5000000000 sample_polls = Some (Ok
     \<lparr>cc_reaped = sample_reaped, cc_metadata = [], cc_measurements = [sample_record, sample_record]\<rparr>)"
  by (simp add: sample_defs supervise_eval word_le_nat_alt)

lemma sample_execute:
  "child_execute (\<lambda>_. []) sample_from_slice sample_protocol sample_check (sample_environment sample_polls) =
     Some \<lparr>ce_metadata = [], ce_measurements = [sample_record, sample_record],
       ce_resources = Some \<lparr>pr_cpu_time_micros = 7, pr_peak_rss_bytes = 1024\<rparr>, ce_failure = None\<rparr>"
proof -
  have p: "cq_maximum_runtime_seconds sample_protocol = 5" "cq_expected_metadata_records sample_protocol = 0"
    "cq_expected_records sample_protocol = 2" by (simp_all add: sample_protocol_def)
  show ?thesis using sample_supervise
    by (simp add: child_execute_def sample_accepted sample_environment_def p status_success_def settle_child_def conclude_def
        completed_success_def sample_reaped_def len_def)
qed

theorem child_execute_outcome_witness:
  "\<exists>x. child_execute (\<lambda>_. []) sample_from_slice sample_protocol sample_check
      (sample_environment sample_polls) = Some x \<and> length (ce_measurements x) = 2"
  using child_execute_outcome [OF sample_execute] sample_execute by simp

text \<open>
  C21. Success means that the helper's whole output was consumed: if the polls received the events
  of the reader in order, a completed supervision has the first lines of the output as its metadata
  and exactly the remaining lines, parsed, as its measurements, and the reader reached the end of
  the output without an error.
\<close>

theorem supervise_reads_whole_output:
  assumes "supervise fs v p deadline polls = Some (Ok c)" and "channel (read_stdout p reads) polls"
    and "unat (cq_expected_metadata_records p) + unat (cq_expected_records p) < 2 ^ 64"
  shows "\<exists>ls. read_stdout p reads = map Line ls @ [Done]
    \<and> cc_metadata c = take (unat (cq_expected_metadata_records p)) ls
    \<and> list_all2 (\<lambda>l r. fs l = Ok r) (drop (unat (cq_expected_metadata_records p)) ls) (cc_measurements c)"
proof -
  obtain L x where Lx: "read_stdout p reads = map Line L @ [x]" "ends x"
    using read_stdout_loop_shape unfolding read_stdout_def by blast
  have st: "\<not> sv_stdout_done supervision_start" by (simp add: supervision_start_def)
  have "stream_inv fs v p L x (read_stdout p reads) supervision_start"
    unfolding stream_inv_def if_not_P [OF st] using start_holds Lx(1) by (intro exI [of _ "[]"]) simp
  from stream_inv_loop [OF this Lx(2) _ assms(2) assms(1) [unfolded supervise_def]]
  show ?thesis using Lx(1) assms(3) by (auto simp: representable_def holds_def)
qed

theorem supervise_reads_whole_output_witness:
  "\<exists>ls. read_stdout sample_protocol [ReadBytes (CHR ''a'' # CHR 0x0A # CHR ''b'' # [CHR 0x0A])] = map Line ls @ [Done]
     \<and> list_all2 (\<lambda>l r. sample_from_slice l = Ok r) ls [sample_record, sample_record]"
proof -
  let ?reads = "[ReadBytes (CHR ''a'' # CHR 0x0A # CHR ''b'' # [CHR 0x0A])]"
  have "read_stdout sample_protocol ?reads = [Line ''a'', Line ''b'', Done]"
    by (simp add: read_stdout_def sample_protocol_def len_def saturating_add_def finish_stdout_def
        Let_def word_le_nat_alt)
  then have "channel (read_stdout sample_protocol ?reads) sample_polls"
    by (simp add: sample_polls_def sample_poll_def)
  from supervise_reads_whole_output [OF sample_supervise this] show ?thesis
    by (simp add: sample_protocol_def)
qed

subsection \<open>The deadline\<close>

lemma loop_returns_after_deadline:
  "\<exists>poll\<in>set polls. d \<le> po_now poll \<Longrightarrow> \<exists>r. supervise_loop fs v p d polls st = Some r"
proof (induction polls arbitrary: st)
  case (Cons poll polls)
  show ?case
  proof (cases "d \<le> po_now poll")
    case True
    then have "\<exists>f. supervise_iteration fs v p d poll st = Err f" by (simp add: supervise_iteration_def)
    then show ?thesis by (auto split: option.splits)
  next
    case False
    then have "\<exists>poll\<in>set polls. d \<le> po_now poll" using Cons.prems by simp
    from Cons.IH [OF this] show ?thesis by (auto split: option.splits sum.splits)
  qed
qed simp

text \<open>
  What the operating system promises of a child that was killed, or that has been reaped, and whose descendants
  are gone with it: waits for it return, and the reader threads see the end of its pipes.
\<close>

definition ends_when_killed :: "ChildEnvironment \<Rightarrow> bool" where
  "ends_when_killed env \<longleftrightarrow> (\<forall>acts. Kill \<in> set acts \<or> Reaped \<in> set acts \<longrightarrow> en_blocking env acts \<noteq> None
     \<and> en_child_wait env acts \<and> en_stdout_joined env acts \<and> en_stderr env acts \<noteq> None)"

lemma settle_child_ends:
  assumes "ends_when_killed env"
  shows "\<exists>outcome acts. settle_child env result = Some (outcome, acts) \<and> (Kill \<in> set acts \<or> Reaped \<in> set acts)"
proof -
  have "\<exists>r acts. terminate_and_reap env = Some (r, acts) \<and> (Kill \<in> set acts \<or> Reaped \<in> set acts)"
    using assms [unfolded ends_when_killed_def, rule_format, of "[Kill]"]
    by (auto simp: terminate_and_reap_def split: sum.splits option.splits)
  then show ?thesis by (auto simp: settle_child_def split: sum.splits option.splits)
qed

text \<open>
  C22. Once a poll happens at or after the deadline, the supervisor returns, whatever the helper did until
  then - it may be silent, keep its output open or never exit - because the supervisor ends the child before it waits for
  anything: all that is needed is that waits and reader threads end after the child has been killed or
  reaped. They do unless a descendant of the helper outlives it with an end of a pipe; then the joins, which have no
  deadline, and with them the run, wait for that descendant.
\<close>

theorem child_execute_returns_after_deadline:
  assumes "\<exists>poll\<in>set (en_polls env).
    en_started env + unat (cq_maximum_runtime_seconds p) * 1000000000 \<le> po_now poll"
    and "ends_when_killed env"
  shows "\<exists>x. child_execute show_status fs p v env = Some x"
proof -
  obtain r where r: "supervise fs v p (en_started env + unat (cq_maximum_runtime_seconds p) * 1000000000)
      (en_polls env) = Some r"
    using loop_returns_after_deadline [OF assms(1)] unfolding supervise_def by blast
  obtain outcome acts where s: "settle_child env r = Some (outcome, acts)" "Kill \<in> set acts \<or> Reaped \<in> set acts"
    using settle_child_ends [OF assms(2)] by blast
  then have "en_stdout_joined env acts" "\<exists>reads. en_stderr env acts = Some reads"
    using assms(2) by (auto simp: ends_when_killed_def)
  then show ?thesis
    using r s(1) by (auto simp: child_execute_def Let_def split: sum.splits)
qed

theorem child_execute_returns_after_deadline_witness:
  "\<exists>x. child_execute (\<lambda>_. []) sample_from_slice sample_protocol sample_check
     (sample_environment [sample_poll 1 ReceiveTimeout None, sample_poll 5000000000 ReceiveTimeout None]) = Some x"
  by (rule child_execute_returns_after_deadline)
    (simp_all add: sample_environment_def sample_poll_def sample_protocol_def ends_when_killed_def)

subsection \<open>Diagnostics\<close>

definition bounded_failure :: "FailureRecord \<Rightarrow> bool" where
  "bounded_failure f \<longleftrightarrow> fr_phase f = ''running'' \<and> \<not> fr_retryable f \<and> fr_attempt_number f = 1
     \<and> length (utf8_chars (fr_message f)) \<le> 1024"

lemma bounded_failure_intros [simp]:
  "bounded_failure (failure c m)" "bounded_failure (output_failure p m)"
  "bounded_failure (resource_failure p m)" "bounded_failure (deadline_failure p)"
  "bounded_failure (exit_failure_record ss p st err)"
  using take_chars_length [of 1024]
  by (simp_all add: bounded_failure_def failure_def bounded_message_def MAX_DIAGNOSTIC_CHARS_def
      output_failure_def resource_failure_def deadline_failure_def exit_failure_record_def Let_def
      split: prod.splits)

lemma bounded_supervised_failure: "bounded_failure f \<Longrightarrow> bounded_failure (supervised_failure_record p f err)"
  using take_chars_length [of 1024]
  by (simp add: bounded_failure_def supervised_failure_record_def bounded_message_def MAX_DIAGNOSTIC_CHARS_def)

lemma accept_line_Err: "accept_line fs v p line st = Err f \<Longrightarrow> bounded_failure f"
  by (auto simp: accept_line_def Let_def split: if_splits sum.splits)

lemma receive_Err: "receive fs v p r st = Err f \<Longrightarrow> bounded_failure f"
  by (auto simp: receive_def dest: accept_line_Err split: Received.splits StdoutEvent.splits)

lemma poll_exit_Err: "poll_exit p w st = Err f \<Longrightarrow> bounded_failure f"
  by (auto simp: poll_exit_def split: option.splits sum.splits)

lemma iteration_Err:
  assumes "supervise_iteration fs v p d poll st = Err sf"
  shows "bounded_failure (sf_failure sf)"
proof -
  let ?r = "if d \<le> po_now poll then Err (deadline_failure p)
    else and_then (receive fs v p (po_received poll) st) (\<lambda>(continue, st').
      if continue then Ok st' else poll_exit p (po_wait poll) st')"
  have eq: "map_err (\<lambda>f. supervision_failure f (sv_exit_status st)) ?r = Err sf"
    using assms by (simp only: supervise_iteration_def)
  then obtain f where f: "?r = Err f" "sf_failure sf = f"
    by (cases ?r) (auto simp: supervision_failure_def)
  have "bounded_failure f"
  proof (cases "d \<le> po_now poll")
    case True
    then show ?thesis using f(1) by auto
  next
    case False
    then have "and_then (receive fs v p (po_received poll) st) (\<lambda>(continue, st').
      if continue then Ok st' else poll_exit p (po_wait poll) st') = Err f" using f(1) by simp
    then show ?thesis
      by (auto simp: and_then_eq_Err split: if_splits dest: receive_Err poll_exit_Err)
  qed
  then show ?thesis using f(2) by simp
qed

lemma loop_Err:
  "supervise_loop fs v p d polls st = Some (Err sf) \<Longrightarrow> bounded_failure (sf_failure sf)"
proof (induction polls arbitrary: st)
  case Nil
  then show ?case by auto
next
  case (Cons poll polls)
  then show ?case by (auto split: option.splits sum.splits dest: iteration_Err)
qed

text \<open>
  C25. Every failure an execution reports is a non-retryable failure of the running phase of attempt
  one whose message has at most 1024 characters, however much the helper wrote to its streams.
\<close>

theorem child_execute_failure_bounded:
  assumes "child_execute show_status fs p v env = Some x" and "ce_failure x = Some f"
  shows "fr_phase f = ''running'' \<and> \<not> fr_retryable f \<and> fr_attempt_number f = 1
    \<and> length (utf8_chars (fr_message f)) \<le> 1024"
proof -
  have "bounded_failure f"
  proof (cases "\<exists>b u. accepted_bytes p = Ok b \<and> en_spawn env = Ok u")
    case False
    then show ?thesis using assms
      by (auto simp: child_execute_def accepted_bytes_def ok_or_def split: sum.splits option.splits)
  next
    case True
    then obtain result outcome acts stderr where
      res: "supervise fs v p (en_started env + unat (cq_maximum_runtime_seconds p) * 1000000000) (en_polls env) = Some result"
      and settled: "settle_child env result = Some (outcome, acts)" and x: "x = conclude show_status p outcome stderr"
      using child_execute_Some [OF assms(1)] by blast
    show ?thesis
    proof (cases result)
      case (Inl sf)
      then have "bounded_failure (sf_failure sf)" using res loop_Err unfolding supervise_def by blast
      moreover obtain a where "outcome = Err (sf_failure sf, a)"
        using settled Inl by (auto simp: settle_child_def split: option.splits)
      ultimately show ?thesis using assms(2) x by (auto simp: conclude_def bounded_supervised_failure)
    next
      case (Inr c)
      then show ?thesis using assms(2) x settled
        by (auto simp: settle_child_def conclude_def Let_def completed_success_def split: if_splits sum.splits)
    qed
  qed
  then show ?thesis by (simp add: bounded_failure_def)
qed

lemma sample_deadline_execute:
  "\<exists>x f. child_execute (\<lambda>_. []) sample_from_slice sample_protocol sample_check
     (sample_environment [sample_poll 5000000000 ReceiveTimeout None]) = Some x \<and> ce_failure x = Some f
     \<and> fr_code f = ''sample.deadline''"
proof -
  have p: "cq_maximum_runtime_seconds sample_protocol = 5" by (simp add: sample_protocol_def)
  have "supervise sample_from_slice sample_check sample_protocol 5000000000
      [sample_poll 5000000000 ReceiveTimeout None] =
      Some (Err \<lparr>sf_failure = deadline_failure sample_protocol, sf_resources = None\<rparr>)"
    by (simp add: supervise_def supervise_complete_def supervision_start_def supervise_iteration_def
        sample_poll_def supervision_failure_def)
  then show ?thesis
    by (simp add: child_execute_def sample_accepted sample_environment_def p supervised_failure_record_def settle_child_def conclude_def
        terminate_and_reap_def
        read_stderr_def deadline_failure_def failure_def) (simp add: sample_protocol_def)
qed

theorem child_execute_failure_bounded_witness:
  "\<exists>x f. child_execute (\<lambda>_. []) sample_from_slice sample_protocol sample_check
     (sample_environment [sample_poll 5000000000 ReceiveTimeout None]) = Some x \<and> ce_failure x = Some f
     \<and> length (utf8_chars (fr_message f)) \<le> 1024"
  using sample_deadline_execute child_execute_failure_bounded by blast

subsection \<open>The record protocol of an adapter\<close>

text \<open>
  An adapter runs a helper under a protocol and a validator. Its contract: the validator accepts a
  record at a position below the expected count only if the record is the one expected there. Then a
  successful execution has the expected record at every position.
\<close>

locale record_protocol =
  fixes protocol :: "'c \<Rightarrow> ChildProtocol"
    and accepts :: "'c \<Rightarrow> validator"
    and expected :: "'c \<Rightarrow> nat \<Rightarrow> MeasurementRecord \<Rightarrow> bool"
  assumes accepts_expected: "accepts c r i = Ok u \<Longrightarrow> i < unat (cq_expected_records (protocol c)) \<Longrightarrow> expected c i r"
begin

lemma records_as_expected:
  assumes "child_execute show_status fs (protocol c) (accepts c) env = Some x" and "ce_failure x = None"
  shows "length (ce_measurements x) = unat (cq_expected_records (protocol c))
    \<and> (\<forall>i < length (ce_measurements x). expected c i (ce_measurements x ! i))"
  using child_execute_cases [OF assms(1)] assms(2) accepts_expected
  by (auto simp: succeeded_with_def)

lemma failure_discards:
  assumes "child_execute show_status fs (protocol c) (accepts c) env = Some x" and "ce_failure x \<noteq> None"
  shows "ce_measurements x = []"
  using child_execute_cases [OF assms(1)] assms(2) by (auto simp: discarded_def)

end

end
