(* ===== verification/LocalFake.thy ===== *)
theory LocalFake
  imports Resolution Execution
begin

text \<open>
  The deterministic local runtime, \<open>src/crates/benchplane-core/src/local_fake.rs\<close>. Every metric is
  derived from SHA-256 over length-prefixed components. The lemmas show that the framing is
  injective, so two different requests for a value hash different inputs; that every value lies in
  its documented range; and how many records each scenario produces.
\<close>

text \<open>\<open>1..=n\<close> as the list of values the loop visits.\<close>

definition one_to :: "u32 \<Rightarrow> u32 list" where
  "one_to n = map (\<lambda>k. of_nat (Suc k)) [0..<unat n]"

definition frame :: "bytes list \<Rightarrow> bytes" where
  "frame components = concat (map (\<lambda>c. be_bytes 8 (of_nat (length c) :: u64) @ c) components)"

definition value_components :: "string \<Rightarrow> u64 \<Rightarrow> string \<Rightarrow> u32 \<Rightarrow> u32 \<Rightarrow> string \<Rightarrow> bytes list" where
  "value_components plan_digest seed phase repetition_index sample_index metric_tag =
     [LOCAL_FAKE_GENERATOR_VERSION, plan_digest, be_bytes 8 seed, phase,
      be_bytes 4 repetition_index, be_bytes 4 sample_index, metric_tag]"

definition derive_value ::
  "sha256_fn \<Rightarrow> string \<Rightarrow> u64 \<Rightarrow> string \<Rightarrow> u32 \<Rightarrow> u32 \<Rightarrow> string \<Rightarrow> u64 \<Rightarrow> u64 \<Rightarrow> u64" where
  "derive_value sha256 plan_digest seed phase repetition_index sample_index metric_tag minimum span =
     (let digest = sha256 (frame (value_components plan_digest seed phase repetition_index
            sample_index metric_tag));
        value = (of_nat (be_value (take 8 digest)) :: u64)
      in minimum + value mod span)"

fun phase_tag :: "MeasurementPhase \<Rightarrow> string" where
  "phase_tag Warmup = ''warmup''"
| "phase_tag Measured = ''measured''"

definition measurement ::
  "sha256_fn \<Rightarrow> ResolvedExperiment \<Rightarrow> u64 \<Rightarrow> MeasurementPhase \<Rightarrow> u32 \<Rightarrow> u32 \<Rightarrow> MeasurementRecord" where
  "measurement sha256 plan seed phase repetition_index sample_index = (let
       metric = derive_value sha256 (re_resolved_plan_digest plan) seed (phase_tag phase)
         repetition_index sample_index
     in \<lparr>mr_generator = LOCAL_FAKE_GENERATOR_VERSION, mr_attempt_number = 1, mr_phase = phase,
       mr_repetition_index = repetition_index, mr_sample_index = sample_index,
       mr_latency_micros = metric ''latencyMicros'' 10000 40001,
       mr_time_to_first_token_micros = metric ''timeToFirstTokenMicros'' 1000 9001,
       mr_throughput_milli_requests_per_second =
         metric ''throughputMilliRequestsPerSecond'' 10000 90001,
       mr_successful_requests = wl_requests (sp_workload (ex_spec (re_experiment plan))),
       mr_failed_requests = 0, mr_request_observations = []\<rparr>)"

definition measured_count :: "u32 \<Rightarrow> LocalFakeScenario \<Rightarrow> u32" where
  "measured_count repetitions scenario = (case scenario of
     ScenarioSuccess \<Rightarrow> repetitions
   | ScenarioInsufficientMeasurements \<Rightarrow> saturating_sub repetitions 1
   | _ \<Rightarrow> min (saturating_sub repetitions 1) 1)"

definition running_failure :: "string \<Rightarrow> string \<Rightarrow> FailureRecord" where
  "running_failure code message = \<lparr>fr_phase = ''running'', fr_code = code, fr_message = message,
     fr_retryable = False, fr_attempt_number = 1\<rparr>"

definition local_fake_execute ::
  "sha256_fn \<Rightarrow> ResolvedExperiment \<Rightarrow> u64 \<Rightarrow> LocalFakeScenario \<Rightarrow> ExecutionOutput" where
  "local_fake_execute sha256 plan seed scenario = (let
       spec = sp_measurement (ex_spec (re_experiment plan));
       warmups = map (\<lambda>index. measurement sha256 plan seed Warmup index 1) (one_to (ms_warmup_runs spec));
       measured = map (\<lambda>index. measurement sha256 plan seed Measured index 1)
         (one_to (measured_count (ms_repetitions spec) scenario));
       output = \<lparr>eo_measurements = warmups @ measured, eo_resources = None, eo_nvidia_gpu = None,
         eo_terminal_state = Succeeded, eo_failure = None\<rparr>
     in case scenario of
       ScenarioRuntimeFailure \<Rightarrow> output\<lparr>eo_terminal_state := Failed,
         eo_failure := Some (running_failure ERROR_LOCAL_FAKE_RUNTIME_FAILURE
           ''deterministic local-fake runtime failure'')\<rparr>
     | ScenarioInterrupted \<Rightarrow> output\<lparr>eo_terminal_state := Interrupted,
         eo_failure := Some (running_failure ERROR_LOCAL_FAKE_INTERRUPTED
           ''deterministic local-fake interruption'')\<rparr>
     | _ \<Rightarrow> output)"

subsection \<open>Big-endian encoding\<close>

lemma length_be_bytes [simp]: "length (be_bytes n w) = n"
  by (simp add: be_bytes_def)

lemma be_bytes_eq_Nil [simp]: "be_bytes n w = [] \<longleftrightarrow> n = 0"
  by (simp add: be_bytes_def)

lemma be_value_snoc: "be_value (bs @ [b]) = 256 * be_value bs + byte_of b"
  by (simp add: be_value_def)

lemma be_bytes_Suc: "be_bytes (Suc n) w = be_bytes n (of_nat (unat w div 256) :: 'a::len word) @
    [char_of (unat (w :: 'a word) mod 256)]"
proof -
  have less: "unat w div 256 < 2 ^ LENGTH('a)"
    using unsigned_less [of w] by (metis div_le_dividend le_less_trans)
  have "rev [0..<Suc n] = rev (map Suc [0..<n]) @ [0]"
    by (metis rev.simps(2) upt_conv_Cons map_Suc_upt zero_less_Suc)
  then have "be_bytes (Suc n) w =
      map (\<lambda>i. char_of (unat w div 256 ^ Suc i mod 256)) (rev [0..<n]) @ [char_of (unat w mod 256)]"
    by (simp add: be_bytes_def rev_map o_def)
  also have "(\<lambda>i. char_of (unat w div 256 ^ Suc i mod 256)) =
      (\<lambda>i. char_of (unat (of_nat (unat w div 256) :: 'a word) div 256 ^ i mod 256) :: char)"
    using less by (simp add: unat_of_nat_small div_mult2_eq)
  finally show ?thesis by (simp add: be_bytes_def)
qed

lemma be_value_be_bytes: "be_value (be_bytes n (w :: 'a::len word)) = unat w mod 256 ^ n"
proof (induction n arbitrary: w)
  case 0
  then show ?case by (simp add: be_bytes_def be_value_def)
next
  case (Suc n)
  have less: "unat w div 256 < 2 ^ LENGTH('a)"
    using unsigned_less [of w] by (metis div_le_dividend le_less_trans)
  have "be_value (be_bytes (Suc n) w) = 256 * (unat w div 256 mod 256 ^ n) + unat w mod 256"
    using less by (simp add: be_bytes_Suc be_value_snoc Suc unat_of_nat_small)
  also have "\<dots> = unat w mod 256 ^ Suc n" by (simp add: mod_mult2_eq)
  finally show ?case .
qed

lemma be_bytes_inject:
  assumes "256 ^ n = (2 :: nat) ^ LENGTH('a::len)"
  shows "be_bytes n (a :: 'a word) = be_bytes n b \<longleftrightarrow> a = b"
proof
  assume "be_bytes n a = be_bytes n b"
  then have "unat a mod 256 ^ n = unat b mod 256 ^ n" by (metis be_value_be_bytes)
  then show "a = b" using assms by (simp add: word_unat_eq_iff)
qed simp

subsection \<open>Framing\<close>

lemma frame_simps [simp]:
  "frame [] = []" "frame (c # cs) = be_bytes 8 (of_nat (length c) :: u64) @ c @ frame cs"
  by (simp_all add: frame_def)

lemma frame_inject:
  assumes "\<forall>c\<in>set xs. length c < 2 ^ 64" and "\<forall>c\<in>set ys. length c < 2 ^ 64" and "frame xs = frame ys"
  shows "xs = ys"
  using assms
proof (induction xs arbitrary: ys)
  case Nil
  then show ?case by (cases ys) (simp_all add: be_bytes_def)
next
  case (Cons x xs)
  have "length (frame (x # xs)) \<noteq> 0" by simp
  then obtain y ys' where ys: "ys = y # ys'" using Cons.prems(3) by (cases ys) auto
  have eq: "be_bytes 8 (of_nat (length x) :: u64) @ x @ frame xs
      = be_bytes 8 (of_nat (length y) :: u64) @ y @ frame ys'"
    using Cons.prems(3) ys by simp
  then have "be_bytes 8 (of_nat (length x) :: u64) = be_bytes 8 (of_nat (length y) :: u64)"
    and rest: "x @ frame xs = y @ frame ys'" by (simp_all add: append_eq_append_conv)
  then have "of_nat (length x) = (of_nat (length y) :: u64)" by (simp add: be_bytes_inject)
  moreover have "length x < 2 ^ LENGTH(64)" "length y < 2 ^ LENGTH(64)" using Cons.prems(1,2) ys by simp_all
  ultimately have "length x = length y" by (metis unat_of_nat_small)
  then have "x = y" "frame xs = frame ys'" using rest by simp_all
  then show ?case using Cons ys by simp
qed

lemma phase_tag_inject: "phase_tag a = phase_tag b \<longleftrightarrow> a = b"
  by (cases a; cases b) simp_all

text \<open>
  C31. The hash input of a metric determines everything it is derived from: the plan digest, the
  seed, the phase, the two indices and the metric. Moving a byte from one component to the next
  changes the input.
\<close>

theorem hash_input_injective:
  assumes "length d < 2 ^ 64" and "length d' < 2 ^ 64" and "length m < 2 ^ 64" and "length m' < 2 ^ 64"
    and "frame (value_components d s (phase_tag p) r i m)
      = frame (value_components d' s' (phase_tag p') r' i' m')"
  shows "d = d' \<and> s = s' \<and> p = p' \<and> r = r' \<and> i = i' \<and> m = m'"
proof -
  have "length (phase_tag q) < 2 ^ 64" for q by (cases q) simp_all
  then have "value_components d s (phase_tag p) r i m = value_components d' s' (phase_tag p') r' i' m'"
    using assms by (intro frame_inject [OF _ _ assms(5)])
      (simp_all add: value_components_def LOCAL_FAKE_GENERATOR_VERSION_def)
  then show ?thesis by (simp add: value_components_def be_bytes_inject phase_tag_inject)
qed

theorem hash_input_injective_witness:
  "frame (value_components ''ab'' 1 (phase_tag Warmup) 1 1 ''c'')
     \<noteq> frame (value_components ''a'' 1 (phase_tag Warmup) 1 1 ''bc'')"
  using hash_input_injective [of "''ab''" "''a''" "''c''" "''bc''" 1 Warmup 1 1 1 Warmup 1 1] by auto

subsection \<open>Values and records\<close>

lemma derive_value_range:
  assumes "0 < unat span" and "unat minimum + unat span \<le> 2 ^ 64"
  shows "unat minimum \<le> unat (derive_value sha256 d s p r i m minimum span)
    \<and> unat (derive_value sha256 d s p r i m minimum span) \<le> unat minimum + unat span - 1"
proof -
  let ?v = "of_nat (be_value (take 8 (sha256 (frame (value_components d s p r i m))))) :: u64"
  have lt: "unat (?v mod span) < unat span" using assms(1) by (simp only: unat_mod_distrib mod_less_divisor)
  then have "unat minimum + unat (?v mod span) < 2 ^ LENGTH(64)" using assms(2) by simp
  then have "unat (minimum + ?v mod span) = unat minimum + unat (?v mod span)" by (rule unat_plus_small)
  then show ?thesis using lt by (simp add: derive_value_def Let_def)
qed

lemma length_one_to [simp]: "length (one_to n) = unat n"
  by (simp add: one_to_def)

lemma one_to_nth: "k < unat n \<Longrightarrow> one_to n ! k = of_nat (Suc k)"
  by (simp add: one_to_def)

lemma measurement_ranges:
  fixes sha256 plan seed ph rep samp
  defines "r \<equiv> measurement sha256 plan seed ph rep samp"
  shows "10000 \<le> unat (mr_latency_micros r)" "unat (mr_latency_micros r) \<le> 50000"
    "1000 \<le> unat (mr_time_to_first_token_micros r)" "unat (mr_time_to_first_token_micros r) \<le> 10000"
    "10000 \<le> unat (mr_throughput_milli_requests_per_second r)"
    "unat (mr_throughput_milli_requests_per_second r) \<le> 100000"
  using derive_value_range [of 40001 10000] derive_value_range [of 9001 1000]
    derive_value_range [of 90001 10000]
  by (simp_all add: r_def measurement_def Let_def)

lemma unat_measured_count:
  "unat (measured_count n sc) = (case sc of ScenarioSuccess \<Rightarrow> unat n
     | ScenarioInsufficientMeasurements \<Rightarrow> unat n - 1 | _ \<Rightarrow> min (unat n - 1) 1)"
  by (auto simp: measured_count_def unat_saturating_sub min_def word_le_nat_alt split: LocalFakeScenario.splits)

lemma local_fake_measurements:
  "eo_measurements (local_fake_execute sha256 plan seed sc) =
     map (\<lambda>index. measurement sha256 plan seed Warmup index 1)
       (one_to (ms_warmup_runs (sp_measurement (ex_spec (re_experiment plan))))) @
     map (\<lambda>index. measurement sha256 plan seed Measured index 1)
       (one_to (measured_count (ms_repetitions (sp_measurement (ex_spec (re_experiment plan)))) sc))"
  by (simp add: local_fake_execute_def Let_def split: LocalFakeScenario.splits)

lemma local_fake_measured:
  "measured_records (eo_measurements (local_fake_execute sha256 plan seed sc)) =
     map (\<lambda>index. measurement sha256 plan seed Measured index 1)
       (one_to (measured_count (ms_repetitions (sp_measurement (ex_spec (re_experiment plan)))) sc))"
  by (simp add: local_fake_measurements measured_records_def measurement_def Let_def filter_map o_def)

text \<open>
  C30. Each local-fake scenario leads to the validity it is named after: success is valid, the
  insufficient-measurements scenario succeeds and is invalid, failure and interruption end in the
  terminal state of that name, carry a failure record and are indeterminate. The observed sample
  count is exactly the number of measured records the scenario produces.
\<close>

theorem local_fake_scenario_validity:
  fixes sha256 plan seed sc
  assumes "0 < ms_repetitions (sp_measurement (ex_spec (re_experiment plan)))"
  defines "out \<equiv> local_fake_execute sha256 plan seed sc"
  shows "\<exists>v. evaluate_validity plan out rid = Return v
    \<and> vy_status v = (case sc of ScenarioSuccess \<Rightarrow> Valid | ScenarioInsufficientMeasurements \<Rightarrow> Invalid
        | _ \<Rightarrow> Indeterminate)
    \<and> eo_terminal_state out = (case sc of ScenarioRuntimeFailure \<Rightarrow> Failed
        | ScenarioInterrupted \<Rightarrow> Interrupted | _ \<Rightarrow> Succeeded)
    \<and> (eo_failure out = None \<longleftrightarrow> eo_terminal_state out = Succeeded)
    \<and> unat (vy_observed_samples v) = length (measured_records (eo_measurements out))"
proof -
  let ?n = "ms_repetitions (sp_measurement (ex_spec (re_experiment plan)))"
  have obs: "of_nat (length (measured_records (eo_measurements out))) = measured_count ?n sc"
    by (simp add: out_def local_fake_measured)
  have len: "length (measured_records (eo_measurements out)) = unat (measured_count ?n sc)"
    by (simp add: out_def local_fake_measured)
  have pos: "0 < unat ?n" using assms(1) by (simp add: word_less_nat_alt)
  have enough: "?n \<le> measured_count ?n sc \<longleftrightarrow> sc = ScenarioSuccess"
    if "sc \<in> {ScenarioSuccess, ScenarioInsufficientMeasurements}"
    using that pos by (auto simp: word_le_nat_alt unat_measured_count)
  show ?thesis
    by (cases sc) (use enough len in \<open>simp_all add: evaluate_validity_def obs Let_def\<close>,
      simp_all add: out_def local_fake_execute_def Let_def enough)
qed

theorem local_fake_scenario_validity_witness:
  "\<exists>v. evaluate_validity (resolved_fixture minimal_local_fake)
      (local_fake_execute zero_sha256 (resolved_fixture minimal_local_fake) 7 ScenarioSuccess) ''run''
    = Return v \<and> vy_status v = Valid"
proof -
  have "0 < ms_repetitions (sp_measurement (ex_spec (re_experiment (resolved_fixture minimal_local_fake))))"
    by (simp add: fixture_defs)
  from local_fake_scenario_validity [OF this, of zero_sha256 7 ScenarioSuccess "''run''"]
  show ?thesis by auto
qed

end
