(* ===== verification/RuntimeContract.thy ===== *)
theory RuntimeContract
  imports SupervisionFacts LocalFake
begin

text \<open>
  What the runtimes promise to the rest of the program. \<open>slot_record\<close> is the record expected at a
  position of the measurement sequence: the warmup records first, then the measured ones, each
  numbered from one. The locale \<open>runtime_adapter\<close> is the contract of an execution's output on which
  validity and summary rely; it is interpreted here on the local fake runtime and in their own
  theories on the two helper-backed runtimes.
\<close>

definition slot_phase :: "nat \<Rightarrow> nat \<Rightarrow> MeasurementPhase" where
  "slot_phase warmups i = (if i < warmups then Warmup else Measured)"

definition slot_index :: "nat \<Rightarrow> nat \<Rightarrow> nat" where
  "slot_index warmups i = (if i < warmups then i + 1 else i - warmups + 1)"

definition slot_record :: "string \<Rightarrow> u32 \<Rightarrow> u32 \<Rightarrow> nat \<Rightarrow> MeasurementRecord \<Rightarrow> bool" where
  "slot_record generator reqs warmups i r \<longleftrightarrow> mr_generator r = generator
     \<and> mr_attempt_number r = 1 \<and> mr_phase r = slot_phase (unat warmups) i
     \<and> unat (mr_repetition_index r) = slot_index (unat warmups) i \<and> mr_sample_index r = 1
     \<and> 0 < mr_latency_micros r \<and> 0 < mr_time_to_first_token_micros r
     \<and> mr_time_to_first_token_micros r \<le> mr_latency_micros r
     \<and> 0 < mr_throughput_milli_requests_per_second r
     \<and> mr_successful_requests r = reqs \<and> mr_failed_requests r = 0"

lemma try_into_eq_Some:
  "try_into (a :: 'a::len word) = Some (b :: 'b::len word) \<longleftrightarrow> unat a = unat b"
proof
  assume "try_into a = Some b"
  then have "unat a < 2 ^ LENGTH('b)" "b = of_nat (unat a)" by (auto simp: try_into_def split: if_splits)
  then show "unat a = unat b" by (simp only: unat_of_nat_small)
next
  assume "unat a = unat b"
  moreover have "unat b < 2 ^ LENGTH('b)" by simp
  moreover have "of_nat (unat b) = b" by (metis calculation(2) unat_of_nat_small word_unat_eq_iff)
  ultimately show "try_into a = Some b" by (simp add: try_into_def)
qed

text \<open>The position arithmetic of the source on \<open>u32\<close>, which does not wrap below \<open>2^32 - 1\<close>.\<close>

lemma slot_index_words:
  fixes w :: u32
  assumes "i < 2 ^ 32 - 1"
  shows "unat ((of_nat i :: u32) + 1) = i + 1"
    and "unat w \<le> i \<Longrightarrow> unat ((of_nat i :: u32) - w + 1) = i - unat w + 1"
proof -
  have "i < 2 ^ LENGTH(32)" using assms by simp
  then have i: "unat (of_nat i :: u32) = i" by (rule unat_of_nat_small)
  then show "unat ((of_nat i :: u32) + 1) = i + 1" using assms by simp
  assume "unat w \<le> i"
  then have d: "unat ((of_nat i :: u32) - w) = i - unat w"
    using i by (simp add: unat_sub word_le_nat_alt)
  then show "unat ((of_nat i :: u32) - w + 1) = i - unat w + 1" using assms by simp
qed

lemma slot_index_eq_iff:
  fixes w :: u32
  assumes "i < 2 ^ 32 - 1"
  shows "j = (if i < unat w then of_nat i + 1 else of_nat i - w + 1) \<longleftrightarrow> unat j = slot_index (unat w) i"
proof (cases "i < unat w")
  case True
  then show ?thesis using slot_index_words(1) [OF assms] by (auto simp: slot_index_def word_unat_eq_iff)
next
  case False
  then show ?thesis using slot_index_words(2) [OF assms, of w] by (auto simp: slot_index_def word_unat_eq_iff)
qed

subsection \<open>The contract of a runtime\<close>

locale runtime_adapter =
  fixes run :: "'c \<Rightarrow> 'e \<Rightarrow> ExecutionOutput option"
  assumes terminal: "run c e = Some out \<Longrightarrow> eo_terminal_state out \<in> set terminal_states"
    and failure_iff: "run c e = Some out \<Longrightarrow> eo_failure out = None \<longleftrightarrow> eo_terminal_state out = Succeeded"
    and bounded: "run c e = Some out \<Longrightarrow> length (measured_records (eo_measurements out)) < 2 ^ 32"
begin

text \<open>Validity and summary are defined, and their \<open>u32\<close> counters hold the number of measured records.\<close>

lemma statistics_total:
  assumes "run c e = Some out"
  shows "\<exists>v s. evaluate_validity plan out rid = Return v \<and> summarize plan out v rid = Return s
    \<and> unat (vy_observed_samples v) = length (measured_records (eo_measurements out))
    \<and> unat (su_sample_count s) = length (measured_records (eo_measurements out))"
proof -
  let ?n = "length (measured_records (eo_measurements out))"
  have "?n < 2 ^ 57" using bounded [OF assms] by simp
  then obtain v s where v: "evaluate_validity plan out rid = Return v" "vy_observed_samples v = of_nat ?n"
    and s: "summarize plan out v rid = Return s"
    using evaluate_validity_observed [OF terminal [OF assms]] summarize_value by blast
  moreover have "unat (of_nat ?n :: u32) = ?n" using bounded [OF assms] by (intro unat_of_nat_small) simp
  moreover have "su_sample_count s = of_nat ?n" using s by (auto simp: summarize_def Let_def result_simps)
  ultimately show ?thesis by auto
qed

end

definition local_fake_run :: "(sha256_fn \<times> ResolvedExperiment) \<Rightarrow> (u64 \<times> LocalFakeScenario) \<Rightarrow> ExecutionOutput option" where
  "local_fake_run c e = Some (local_fake_execute (fst c) (snd c) (fst e) (snd e))"

lemma local_fake_terminal:
  "eo_terminal_state (local_fake_execute sha plan seed sc) = (case sc of ScenarioRuntimeFailure \<Rightarrow> Failed
     | ScenarioInterrupted \<Rightarrow> Interrupted | _ \<Rightarrow> Succeeded)"
  "eo_failure (local_fake_execute sha plan seed sc) = None \<longleftrightarrow>
     eo_terminal_state (local_fake_execute sha plan seed sc) = Succeeded"
  by (simp_all add: local_fake_execute_def Let_def split: LocalFakeScenario.splits)

interpretation local_fake: runtime_adapter local_fake_run
proof
  fix c e out assume "local_fake_run c e = Some out"
  then have out: "out = local_fake_execute (fst c) (snd c) (fst e) (snd e)" by (simp add: local_fake_run_def)
  show "eo_terminal_state out \<in> set terminal_states"
    unfolding out local_fake_terminal terminal_states_def by (simp split: LocalFakeScenario.splits)
  show "eo_failure out = None \<longleftrightarrow> eo_terminal_state out = Succeeded" unfolding out by (rule local_fake_terminal)
  have "unat (w :: u32) < 2 ^ 32" for w by simp
  then show "length (measured_records (eo_measurements out)) < 2 ^ 32" unfolding out local_fake_measured by simp
qed

text \<open>Every local-fake record is the one expected at its position.\<close>

lemma local_fake_slots:
  assumes "i < length (eo_measurements (local_fake_execute sha plan seed sc))"
  defines "m \<equiv> sp_measurement (ex_spec (re_experiment plan))"
  shows "slot_record LOCAL_FAKE_GENERATOR_VERSION (wl_requests (sp_workload (ex_spec (re_experiment plan))))
    (ms_warmup_runs m) i (eo_measurements (local_fake_execute sha plan seed sc) ! i)
    \<and> mr_request_observations (eo_measurements (local_fake_execute sha plan seed sc) ! i) = []"
proof -
  let ?w = "ms_warmup_runs m" and ?n = "measured_count (ms_repetitions m) sc"
  have r: "slot_record LOCAL_FAKE_GENERATOR_VERSION (wl_requests (sp_workload (ex_spec (re_experiment plan))))
      ?w i (measurement sha plan seed ph j 1) \<and> mr_request_observations (measurement sha plan seed ph j 1) = []"
    if "ph = slot_phase (unat ?w) i" "unat j = slot_index (unat ?w) i" for ph j
    using that measurement_ranges [of sha plan seed ph j 1]
    by (auto simp: slot_record_def word_less_nat_alt word_le_nat_alt) (simp_all add: measurement_def Let_def)
  show ?thesis
  proof (cases "i < unat ?w")
    case True
    have "i + 1 < 4294967296" using True unat_u32_bound [of ?w] by linarith
    then have "unat (of_nat (Suc i) :: u32) = i + 1" by (subst unat_of_nat_small) simp_all
    then show ?thesis using True r [of Warmup "of_nat (Suc i)"]
      by (simp add: local_fake_measurements m_def [symmetric] nth_append one_to_nth slot_phase_def slot_index_def)
  next
    case False
    then have k: "i - unat ?w < unat ?n"
      using assms(1) by (simp add: local_fake_measurements m_def [symmetric])
    then have "i - unat ?w + 1 < 4294967296" using unat_u32_bound [of ?n] by linarith
    then have "unat (of_nat (Suc (i - unat ?w)) :: u32) = i - unat ?w + 1" by (subst unat_of_nat_small) simp_all
    then show ?thesis using False k r [of Measured "of_nat (Suc (i - unat ?w))"]
      by (simp add: local_fake_measurements m_def [symmetric] nth_append one_to_nth slot_phase_def slot_index_def)
  qed
qed

end
