(* ===== verification/Provenance.thy ===== *)
theory Provenance
  imports RuntimeContract
begin

text \<open>
  Provenance of an attempt, \<open>src/crates/benchplane-core/src/provenance.rs\<close>. The files and the process
  facts the source reads are the fields of a \<open>Platform\<close>: the content of \<open>/etc/os-release\<close>,
  \<open>/proc/sys/kernel/ostype\<close>, \<open>/proc/sys/kernel/osrelease\<close> and \<open>/proc/cpuinfo\<close> (\<open>None\<close> when it
  cannot be read), the available parallelism, the canonical path of the executable and the
  compile-time environment variables.
\<close>

definition MAX_OS_RELEASE_BYTES :: nat where "MAX_OS_RELEASE_BYTES = 16 * 1024"
definition MAX_CPUINFO_SCAN_BYTES :: nat where "MAX_CPUINFO_SCAN_BYTES = 256 * 1024"
definition MAX_KERNEL_FILE_BYTES :: nat where "MAX_KERNEL_FILE_BYTES = 4 * 1024"
definition MAX_PLATFORM_VALUE_BYTES :: nat where "MAX_PLATFORM_VALUE_BYTES = 256"
definition pv_MAX_NIX_STORE_PATH_BYTES :: nat where "pv_MAX_NIX_STORE_PATH_BYTES = 512"
definition MIN_NVIDIA_DRIVER_VERSION :: "u32 \<times> u32 \<times> u32" where
  "MIN_NVIDIA_DRIVER_VERSION = (575, 57, 8)"

text \<open>The comparison of tuples in Rust is lexicographic.\<close>

definition version_ge :: "u32 \<times> u32 \<times> u32 \<Rightarrow> u32 \<times> u32 \<times> u32 \<Rightarrow> bool" where
  "version_ge v m = (case v of (a, b, c) \<Rightarrow> case m of (x, y, z) \<Rightarrow>
     a > x \<or> (a = x \<and> (b > y \<or> (b = y \<and> c \<ge> z))))"

definition nvidia_driver_version_supported :: "string \<Rightarrow> bool" where
  "nvidia_driver_version_supported value = (case map parse_u32 (split_on CHR ''.'' value) of
     [Some major, Some minor] \<Rightarrow> version_ge (major, minor, 0) MIN_NVIDIA_DRIVER_VERSION
   | [Some major, Some minor, Some patch] \<Rightarrow> version_ge (major, minor, patch) MIN_NVIDIA_DRIVER_VERSION
   | _ \<Rightarrow> False)"

definition bounded_value :: "string \<Rightarrow> string option" where
  "bounded_value value = (let value = trim value in
     if value = [] \<or> length value > MAX_PLATFORM_VALUE_BYTES \<or> any_control value then None
     else Some value)"

definition read_bounded :: "bytes option \<Rightarrow> nat \<Rightarrow> string option" where
  "read_bounded file limit = Option.bind file (\<lambda>content.
     let bytes = take (limit + 1) content in if length bytes > limit then None else from_utf8 bytes)"

definition read_single_value :: "bytes option \<Rightarrow> nat \<Rightarrow> string option" where
  "read_single_value file limit = Option.bind (read_bounded file limit) bounded_value"

definition unquote :: "string \<Rightarrow> string" where
  "unquote trimmed = (if length trimmed \<ge> 2
       \<and> ((hd trimmed = CHR 0x22 \<and> last trimmed = CHR 0x22)
         \<or> (hd trimmed = CHR 0x27 \<and> last trimmed = CHR 0x27))
     then butlast (tl trimmed) else trimmed)"

definition release_line :: "string \<Rightarrow> string \<Rightarrow> string option" where
  "release_line key line = Option.bind (split_once CHR ''='' line) (\<lambda>(candidate, value).
     if candidate \<noteq> key then None else bounded_value (unquote (trim value)))"

fun find_map :: "('a \<Rightarrow> 'b option) \<Rightarrow> 'a list \<Rightarrow> 'b option" where
  "find_map f [] = None"
| "find_map f (x # xs) = (case f x of None \<Rightarrow> find_map f xs | Some y \<Rightarrow> Some y)"

definition release_value :: "string \<Rightarrow> string \<Rightarrow> string option" where
  "release_value contents key = find_map (release_line key) (lines_of contents)"

definition os_release_identity :: "string \<Rightarrow> string option \<times> string option" where
  "os_release_identity contents = (release_value contents ''ID'', release_value contents ''VERSION_ID'')"

text \<open>\<open>read_until\<close>: the next line with its line feed, and the rest.\<close>

definition read_until :: "bytes \<Rightarrow> bytes \<times> bytes" where
  "read_until bs = (let line = takeWhile (\<lambda>b. b \<noteq> CHR 0x0A) bs; rest = drop (length line) bs in
     case rest of [] \<Rightarrow> (line, []) | lf # rest' \<Rightarrow> (line @ [lf], rest'))"

lemma read_until_rest: "bs \<noteq> [] \<Longrightarrow> length (snd (read_until bs)) < length bs"
  by (cases bs) (auto simp: read_until_def Let_def split: list.splits
      dest!: arg_cong [of _ _ length])

function cpu_model_scan :: "nat \<Rightarrow> bytes \<Rightarrow> string option" where
  "cpu_model_scan scanned bs = (if bs = [] then None
     else let (line, rest) = read_until bs; scanned' = scanned + length line in
       if scanned' > MAX_CPUINFO_SCAN_BYTES then None
       else case from_utf8 line of
         None \<Rightarrow> cpu_model_scan scanned' rest
       | Some line \<Rightarrow> (case split_once CHR '':'' line of
           None \<Rightarrow> cpu_model_scan scanned' rest
         | Some (key, value) \<Rightarrow>
             if trim key \<in> set [''model name'', ''Processor'', ''Hardware''] then bounded_value value
             else cpu_model_scan scanned' rest))"
  by pat_completeness auto
termination
  by (relation "measure (\<lambda>(_, bs). length bs)") (auto dest: read_until_rest [of _] simp: prod_eq_iff)

declare cpu_model_scan.simps [simp del]

definition cpu_model_from_reader :: "bytes \<Rightarrow> string option" where
  "cpu_model_from_reader content = cpu_model_scan 0 (take (MAX_CPUINFO_SCAN_BYTES + 1) content)"

definition read_cpu_model :: "bytes option \<Rightarrow> string option" where
  "read_cpu_model file = Option.bind file cpu_model_from_reader"

definition nix_store_object :: "bytes \<Rightarrow> string option" where
  "nix_store_object path = Option.bind (from_utf8 path) (\<lambda>text.
     Option.bind (strip_prefix ''/nix/store/'' text) (\<lambda>rest.
     let entry = hd (split_on CHR ''/'' rest) in
     if entry = [] \<or> length entry + length ''/nix/store/'' > pv_MAX_NIX_STORE_PATH_BYTES \<or> any_control entry
     then None else Some (''/nix/store/'' @ entry)))"

definition compiled_nix_store_path :: "bytes option \<Rightarrow> string option" where
  "compiled_nix_store_path value = Option.bind value nix_store_object"

record Platform =
  pf_os :: string
  pf_arch :: string
  pf_package_version :: string
  pf_os_release :: "bytes option"
  pf_ostype :: "bytes option"
  pf_osrelease :: "bytes option"
  pf_cpuinfo :: "bytes option"
  pf_parallelism :: "usize option"
  pf_executable :: "bytes option"
  pf_llama_path :: "bytes option"
  pf_llama_cuda_path :: "bytes option"
  pf_model_path :: "bytes option"

definition current_executable_nix_store_path :: "Platform \<Rightarrow> string option" where
  "current_executable_nix_store_path pf = Option.bind (pf_executable pf) nix_store_object"

definition llama_store_path :: "Platform \<Rightarrow> LlamaCppTarget \<Rightarrow> string option" where
  "llama_store_path pf target = compiled_nix_store_path (case target of
     TargetCpu \<Rightarrow> pf_llama_path pf | TargetNvidiaCuda \<Rightarrow> pf_llama_cuda_path pf)"

definition capture_runtime :: "Platform \<Rightarrow> RuntimeSpec \<Rightarrow> RuntimeProvenance outcome" where
  "capture_runtime pf runtime = (case runtime of
     RuntimeLocalFake _ _ \<Rightarrow> Return (ProvLocalFake LOCAL_FAKE_GENERATOR_VERSION)
   | RuntimeCpuProbe _ _ \<Rightarrow> Return (ProvCpuProbe CPU_PROBE_GENERATOR_VERSION)
   | RuntimeLlamaCpp target model _ \<Rightarrow> Return (ProvLlamaCpp LLAMA_CPP_GENERATOR_VERSION
       \<lparr>sc_name = LLAMA_CPP_ENGINE_NAME, sc_version = LLAMA_CPP_ENGINE_VERSION,
        sc_nix_store_path = llama_store_path pf target\<rparr>
       \<lparr>mp_identity = model, mp_sha256 = LLAMA_CPP_MODEL_SHA256,
        mp_nix_store_path = compiled_nix_store_path (pf_model_path pf)\<rparr>
       \<lparr>bp_identity = (case target of TargetCpu \<Rightarrow> LLAMA_CPP_BACKEND_IDENTITY
          | TargetNvidiaCuda \<Rightarrow> LLAMA_CPP_CUDA_BACKEND_IDENTITY),
        bp_device_class = (case target of TargetCpu \<Rightarrow> DeviceCpu | TargetNvidiaCuda \<Rightarrow> DeviceNvidiaCuda),
        bp_nix_store_path = llama_store_path pf target, bp_nvidia = None\<rparr>)
   | RuntimeVllm _ _ _ \<Rightarrow> Panic)"

definition capture :: "Platform \<Rightarrow> string \<Rightarrow> ResolvedExperiment \<Rightarrow> AttemptProvenance outcome" where
  "capture pf run_id plan = chain (capture_runtime pf (sp_runtime (ex_spec (re_experiment plan)))) (\<lambda>runtime. let
       os_release = read_bounded (pf_os_release pf) MAX_OS_RELEASE_BYTES;
       (distribution, version) = (case os_release of None \<Rightarrow> (None, None) | Some c \<Rightarrow> os_release_identity c);
       kernel_name = (case read_single_value (pf_ostype pf) MAX_KERNEL_FILE_BYTES of
         None \<Rightarrow> pf_os pf | Some v \<Rightarrow> v);
       kernel_release = read_single_value (pf_osrelease pf) MAX_KERNEL_FILE_BYTES;
       cpu_model = read_cpu_model (pf_cpuinfo pf);
       logical_cpu_count = Option.bind (pf_parallelism pf) try_into
     in Return \<lparr>ap_format = ATTEMPT_PROVENANCE_FORMAT_V1, ap_run_id = run_id, ap_attempt_number = 1,
       ap_platform = \<lparr>pp_operating_system = \<lparr>os_family = pf_os pf, os_distribution = distribution,
           os_version = version\<rparr>,
         pp_kernel = \<lparr>kp_name = kernel_name, kp_release = kernel_release\<rparr>,
         pp_architecture = pf_arch pf,
         pp_cpu = \<lparr>cp_model = cpu_model, cp_logical_cpu_count = logical_cpu_count\<rparr>\<rparr>,
       ap_software = \<lparr>sw_benchplane = \<lparr>sc_name = BENCHPLANE_SOFTWARE_NAME,
           sc_version = pf_package_version pf,
           sc_nix_store_path = current_executable_nix_store_path pf\<rparr>,
         sw_runtime = runtime\<rparr>\<rparr>)"

definition attach_nvidia :: "AttemptProvenance \<Rightarrow> NvidiaGpuProvenance \<Rightarrow> string + AttemptProvenance" where
  "attach_nvidia provenance nvidia = (case sw_runtime (ap_software provenance) of
     ProvLlamaCpp generator engine model backend \<Rightarrow>
       if bp_device_class backend = DeviceNvidiaCuda \<and> bp_nvidia backend = None
       then Ok (provenance\<lparr>ap_software := (ap_software provenance)\<lparr>sw_runtime :=
         ProvLlamaCpp generator engine model (backend\<lparr>bp_nvidia := Some nvidia\<rparr>)\<rparr>\<rparr>)
       else Err ''NVIDIA execution provenance does not match the prepared runtime''
   | _ \<Rightarrow> Err ''NVIDIA execution provenance does not match the prepared runtime'')"

subsection \<open>Captured values are presentable\<close>

definition good_value :: "string \<Rightarrow> bool" where
  "good_value v \<longleftrightarrow> v \<noteq> [] \<and> trim v = v \<and> length v \<le> 256 \<and> \<not> any_control v"

lemma bounded_value_good: "bounded_value v = Some x \<Longrightarrow> good_value x"
  by (auto simp: bounded_value_def good_value_def Let_def MAX_PLATFORM_VALUE_BYTES_def split: if_splits)

lemma bounded_value_iff: "bounded_value v = Some v \<longleftrightarrow> good_value v"
  by (auto simp: bounded_value_def good_value_def Let_def MAX_PLATFORM_VALUE_BYTES_def)

lemma find_map_Some: "find_map f xs = Some y \<Longrightarrow> \<exists>x\<in>set xs. f x = Some y"
  by (induction xs) (auto split: option.splits)

lemma release_value_good: "release_value c k = Some x \<Longrightarrow> good_value x"
  unfolding release_value_def
  by (drule find_map_Some) (auto simp: release_line_def bind_eq_Some_conv split: if_splits
      dest: bounded_value_good)

lemma read_single_value_good: "read_single_value f l = Some x \<Longrightarrow> good_value x"
  by (auto simp: read_single_value_def bind_eq_Some_conv dest: bounded_value_good)

lemma cpu_model_scan_step:
  assumes "read_until bs = (line, rest)"
  shows "cpu_model_scan n bs = (if bs = [] \<or> n + length line > MAX_CPUINFO_SCAN_BYTES then None
    else case from_utf8 line of None \<Rightarrow> cpu_model_scan (n + length line) rest
      | Some l \<Rightarrow> (case split_once CHR '':'' l of None \<Rightarrow> cpu_model_scan (n + length line) rest
        | Some (key, val) \<Rightarrow> if trim key \<in> set [''model name'', ''Processor'', ''Hardware'']
            then bounded_value val else cpu_model_scan (n + length line) rest))"
  by (subst cpu_model_scan.simps) (simp only: assms Let_def split_conv simp_thms if_distrib if_bool_eq_disj, simp)

lemma cpu_model_scan_good: "cpu_model_scan n bs = Some x \<Longrightarrow> good_value x"
proof (induction bs arbitrary: n rule: length_induct)
  case (1 bs)
  obtain line rest where lr: "read_until bs = (line, rest)" by force
  note step = cpu_model_scan_step [OF lr, of n]
  have "bs \<noteq> []" using "1.prems" unfolding step by (metis option.distinct(1))
  then have "length rest < length bs" using read_until_rest lr by (metis snd_conv)
  then have rest: "good_value x" if "cpu_model_scan k rest = Some x" for k using that "1.IH" by blast
  have good: "good_value x" if "bounded_value val = Some x" for val using that by (rule bounded_value_good)
  show ?case
    using "1.prems" rest good unfolding step
    by (auto split: if_splits option.splits prod.splits)
qed

subsection \<open>Decimal text\<close>

lemma show_nat_nonempty [simp]: "show_nat n \<noteq> []"
  by (subst show_nat.simps) simp

lemma show_nat_digits: "list_all is_ascii_digit (show_nat n)"
proof (induction n rule: show_nat.induct)
  case (1 n)
  have "is_ascii_digit (char_of (48 + k))" if "k < 10" for k :: nat
    using that by (simp add: is_ascii_digit_def)
  then show ?case using 1 by (subst show_nat.simps) simp
qed

lemma decimal_value_snoc: "decimal_value (ds @ [d]) = 10 * decimal_value ds + (byte_of d - 48)"
  by (simp add: decimal_value_def)

lemma decimal_value_show: "decimal_value (show_nat n) = n"
proof (induction n rule: show_nat.induct)
  case (1 n)
  show ?case
  proof (cases "n < 10")
    case True
    then show ?thesis by (subst show_nat.simps) (simp add: decimal_value_def)
  next
    case False
    then have "decimal_value (show_nat n) = 10 * (n div 10) + n mod 10"
      using 1 by (subst show_nat.simps) (simp add: decimal_value_snoc)
    then show ?thesis by simp
  qed
qed

lemma parse_show: "parse_u32 (show_word w) = Some w"
proof -
  let ?s = "show_nat (unat w)"
  have d: "is_ascii_digit (hd ?s)" using show_nat_digits [of "unat w"] by (cases ?s) auto
  have "\<not> is_ascii_digit CHR ''+''" by (simp add: is_ascii_digit_def byte_of_def)
  then have "hd ?s \<noteq> CHR ''+''" using d by metis
  moreover have "of_nat (unat w) = w" by (metis of_nat_unat ucast_id)
  ultimately show ?thesis
    using show_nat_digits [of "unat w"]
    by (simp add: parse_u32_def show_word_def Let_def decimal_value_show)
qed

lemma split_on_none: "c \<notin> set s \<Longrightarrow> split_on c s = [s]"
  by (induction s) auto

lemma split_on_join: "c \<notin> set s \<Longrightarrow> split_on c (s @ c # t) = s # split_on c t"
  by (induction s) auto

lemma dot_not_in_show: "CHR ''.'' \<notin> set (show_word w)"
proof
  assume "CHR ''.'' \<in> set (show_word w)"
  then have "is_ascii_digit CHR ''.''" using show_nat_digits [of "unat w"] by (auto simp: show_word_def list_all_iff)
  then show False by (simp add: is_ascii_digit_def byte_of_def)
qed

text \<open>
  C38. Driver versions are compared numerically, component by component: a version written as three
  decimal components is supported exactly when it is lexicographically at least 575.57.8, and two
  components count as patch zero.
\<close>

theorem driver_version_threshold:
  fixes a b c :: u32
  shows "(nvidia_driver_version_supported (show_word a @ ''.'' @ show_word b @ ''.'' @ show_word c) \<longleftrightarrow>
      575 < unat a \<or> unat a = 575 \<and> (57 < unat b \<or> unat b = 57 \<and> 8 \<le> unat c))
    \<and> (nvidia_driver_version_supported (show_word a @ ''.'' @ show_word b) \<longleftrightarrow>
      575 < unat a \<or> unat a = 575 \<and> 57 < unat b)"
proof -
  have "a = 575 \<longleftrightarrow> unat a = 575" "b = 57 \<longleftrightarrow> unat b = 57"
    by (simp_all add: word_eq_iff_unsigned [where 'a = nat])
  then show ?thesis
    by (auto simp: nvidia_driver_version_supported_def split_on_join split_on_none dot_not_in_show parse_show
        version_ge_def MIN_NVIDIA_DRIVER_VERSION_def word_less_nat_alt word_le_nat_alt)
qed

end
