(* ===== verification/CpuProbe.thy ===== *)
theory CpuProbe
  imports RuntimeContract
begin

text \<open>
  The CPU probe: the adapter, \<open>src/crates/benchplane-core/src/cpu_probe.rs\<close>, and the helper process
  it runs, \<open>src/crates/benchplane/src/bin/benchplane-cpu-probe.rs\<close>. In the helper the monotonic clock
  is the environment: a repetition takes as arguments the durations, in nanoseconds, that the source
  measures. The theorems show that the adapter's record count and transport bound always hold for
  accepted documents, that the helper accepts exactly the arguments the schema allows, and that
  every record the helper emits is accepted by the adapter at its position.
\<close>

subsection \<open>The adapter\<close>

definition cpu_MAX_STDOUT_BYTES :: usize where "cpu_MAX_STDOUT_BYTES = 1024 * 1024"
definition cpu_MAX_SERIALIZED_RECORD_BYTES :: usize where "cpu_MAX_SERIALIZED_RECORD_BYTES = 512"
definition cpu_MAX_ACCEPTED_RECORD_OUTPUT_BYTES :: usize where
  "cpu_MAX_ACCEPTED_RECORD_OUTPUT_BYTES = ucast MAX_CPU_PROBE_RECORDS * cpu_MAX_SERIALIZED_RECORD_BYTES"

lemmas cpu_limit_defs = cpu_MAX_STDOUT_BYTES_def cpu_MAX_SERIALIZED_RECORD_BYTES_def

record CpuProbeConfig =
  cf_requests :: u32
  cf_warmup_runs :: u32
  cf_repetitions :: u32
  cf_output_tokens :: u32
  cf_work_units_per_token :: u32
  cf_maximum_runtime_seconds :: u64

definition cpu_protocol_failure :: "string \<Rightarrow> FailureRecord" where
  "cpu_protocol_failure message = \<lparr>fr_phase = ''running'', fr_code = ERROR_CPU_PROBE_OUTPUT_INVALID,
     fr_message = take_chars 1024 message, fr_retryable = False, fr_attempt_number = 1\<rparr>"

definition cpu_expected_record_count :: "CpuProbeConfig \<Rightarrow> FailureRecord + usize" where
  "cpu_expected_record_count config =
     and_then (ok_or (cpu_protocol_failure ''CPU probe requested excessive measurement records'')
       (opt_filter (\<lambda>count. count \<le> MAX_CPU_PROBE_RECORDS)
         (checked_add (cf_warmup_runs config) (cf_repetitions config)))) (\<lambda>count.
     and_then (ok_or (cpu_protocol_failure ''CPU probe measurement record count is not representable'')
       (try_into count)) (\<lambda>count.
     and_then (ok_or (cpu_protocol_failure ''CPU probe requested output exceeds its transport bound'')
       (opt_filter (\<lambda>bytes. bytes \<le> cpu_MAX_STDOUT_BYTES)
         (checked_mul count cpu_MAX_SERIALIZED_RECORD_BYTES))) (\<lambda>_.
     Ok count)))"

definition cpu_validate_record :: "CpuProbeConfig \<Rightarrow> validator" where
  "cpu_validate_record config r position = (let
       (phase, repetition_index) = (if position < unat (cf_warmup_runs config)
         then (Warmup, of_nat position + 1)
         else (Measured, of_nat position - cf_warmup_runs config + 1));
       valid = (mr_generator r = CPU_PROBE_GENERATOR_VERSION \<and> mr_attempt_number r = 1
         \<and> mr_phase r = phase \<and> mr_repetition_index r = repetition_index \<and> mr_sample_index r = 1
         \<and> mr_latency_micros r > 0 \<and> mr_time_to_first_token_micros r > 0
         \<and> mr_time_to_first_token_micros r \<le> mr_latency_micros r
         \<and> mr_throughput_milli_requests_per_second r > 0
         \<and> mr_successful_requests r = cf_requests config \<and> mr_failed_requests r = 0)
     in if valid then Ok ()
        else Err (''CPU probe record '' @ show_nat (position + 1) @ '' does not match the requested execution''))"

definition cpu_arguments :: "CpuProbeConfig \<Rightarrow> string list" where
  "cpu_arguments config =
     [''--requests'', show_word (cf_requests config), ''--warmup-runs'', show_word (cf_warmup_runs config),
      ''--repetitions'', show_word (cf_repetitions config),
      ''--output-tokens'', show_word (cf_output_tokens config),
      ''--work-units-per-token'', show_word (cf_work_units_per_token config)]"

definition cpu_protocol :: "CpuProbeConfig \<Rightarrow> usize \<Rightarrow> ChildProtocol" where
  "cpu_protocol config expected_count = \<lparr>cq_runtime_name = ''CPU probe'',
     cq_expected_metadata_records = 0, cq_expected_records = expected_count,
     cq_max_record_bytes = cpu_MAX_SERIALIZED_RECORD_BYTES, cq_max_stdout_bytes = cpu_MAX_STDOUT_BYTES,
     cq_maximum_runtime_seconds = cf_maximum_runtime_seconds config,
     cq_spawn_failure_code = ERROR_CPU_PROBE_SPAWN_FAILED,
     cq_exit_failure_code = ERROR_CPU_PROBE_EXIT_FAILED,
     cq_output_failure_code = ERROR_CPU_PROBE_OUTPUT_INVALID,
     cq_deadline_failure_code = ERROR_CPU_PROBE_DEADLINE_EXCEEDED,
     cq_resource_failure_code = ERROR_CPU_PROBE_RESOURCE_ACCOUNTING_FAILED,
     cq_special_exit_codes = []\<rparr>"

text \<open>The environment sees the arguments of the command that is run.\<close>

type_synonym system = "string list \<Rightarrow> ChildEnvironment"

definition cpu_execute_command ::
  "(wait_status \<Rightarrow> string) \<Rightarrow> json_reader \<Rightarrow> CpuProbeConfig \<Rightarrow> system \<Rightarrow> ChildExecution option" where
  "cpu_execute_command show_status fs config system = (case cpu_expected_record_count config of
     Inl f \<Rightarrow> Some (child_failed f None)
   | Inr expected_count \<Rightarrow> child_execute show_status fs (cpu_protocol config expected_count) (cpu_validate_record config)
       (system (cpu_arguments config)))"

definition cpu_into_execution_output :: "ChildExecution \<Rightarrow> ExecutionOutput" where
  "cpu_into_execution_output result = \<lparr>eo_measurements = ce_measurements result,
     eo_resources = ce_resources result, eo_nvidia_gpu = None,
     eo_terminal_state = (if ce_failure result = None then Succeeded else Failed),
     eo_failure = ce_failure result\<rparr>"

definition cpu_execute ::
  "(wait_status \<Rightarrow> string) \<Rightarrow> json_reader \<Rightarrow> CpuProbeConfig \<Rightarrow> system \<Rightarrow> ExecutionOutput option" where
  "cpu_execute show_status fs config system =
     map_option cpu_into_execution_output (cpu_execute_command show_status fs config system)"

subsection \<open>The helper\<close>

record Args =
  ag_requests :: u32
  ag_warmup_runs :: u32
  ag_repetitions :: u32
  ag_output_tokens :: u32
  ag_work_units_per_token :: u32

definition helper_validate :: "Args \<Rightarrow> string + unit" where
  "helper_validate args =
     (if ag_requests args = 0 \<or> ag_repetitions args = 0
      then Err ''requests and repetitions must be positive''
      else if \<not> (1 \<le> ag_output_tokens args \<and> ag_output_tokens args \<le> MAX_CPU_PROBE_OUTPUT_TOKENS)
        \<or> \<not> (1 \<le> ag_work_units_per_token args \<and> ag_work_units_per_token args \<le> MAX_CPU_PROBE_WORK_UNITS_PER_TOKEN)
      then Err ''CPU probe controls are outside their public bounds''
      else and_then (ok_or ''CPU probe record count overflowed''
          (checked_add (ag_warmup_runs args) (ag_repetitions args))) (\<lambda>records.
        if records > MAX_CPU_PROBE_RECORDS
        then Err (''CPU probe record count exceeds its '' @ show_word MAX_CPU_PROBE_RECORDS @ '' record public bound'')
        else and_then (ok_or ''CPU probe total work overflowed''
            (Option.bind (Option.bind (checked_mul (ucast records :: u64) (ucast (ag_requests args)))
              (\<lambda>value. checked_mul value (ucast (ag_output_tokens args))))
              (\<lambda>value. checked_mul value (ucast (ag_work_units_per_token args))))) (\<lambda>total_work.
          if total_work > MAX_CPU_PROBE_TOTAL_WORK_UNITS
          then Err ''CPU probe total work exceeds its public bound''
          else Ok ())))"

definition rotate_left :: "u64 \<Rightarrow> nat \<Rightarrow> u64" where
  "rotate_left w n = word_rotl n w"

fun token_work_from :: "u32 \<Rightarrow> nat \<Rightarrow> u64 \<Rightarrow> u64" where
  "token_work_from index 0 state = state"
| "token_work_from index (Suc n) state = (let
       mixed = rotate_left (state + (ucast index XOR 0xa0761d6478bd642f))
         (unat ((ucast state :: u32) AND 31) + 1) * 0xe7037ed1a0b428db
     in token_work_from (index + 1) n (mixed XOR drop_bit 23 mixed))"

definition token_work :: "u64 \<Rightarrow> u32 \<Rightarrow> u64" where
  "token_work state work_units = token_work_from 0 (unat work_units) state"

fun request_work :: "u32 \<Rightarrow> u32 \<Rightarrow> nat \<Rightarrow> u64 \<Rightarrow> u64" where
  "request_work work_units token_index 0 state = state"
| "request_work work_units token_index (Suc n) state =
     request_work work_units (token_index + 1) n (token_work (state XOR ucast token_index) work_units)"

definition request_state :: "u64 \<Rightarrow> u32 \<Rightarrow> u32 \<Rightarrow> u64" where
  "request_state checksum request_index repetition_index =
     checksum XOR (ucast request_index * 0x9e3779b97f4a7c15) XOR ucast repetition_index"

text \<open>The checksum after the requests \<open>0 .. requests - 1\<close> of a repetition.\<close>

fun repetition_checksum :: "Args \<Rightarrow> u32 \<Rightarrow> nat \<Rightarrow> u64" where
  "repetition_checksum args repetition_index 0 = 0"
| "repetition_checksum args repetition_index (Suc n) = (let
       checksum = repetition_checksum args repetition_index n;
       state = request_work (ag_work_units_per_token args) 0 (unat (ag_output_tokens args))
         (request_state checksum (of_nat n) repetition_index)
     in checksum XOR state)"

text \<open>\<open>Duration::as_nanos\<close> is a \<open>u128\<close>; the durations below are those nanoseconds.\<close>

definition ceil_micros :: "u128 \<Rightarrow> u64" where
  "ceil_micros nanos = (case try_into (max (div_ceil nanos 1000) 1) of None \<Rightarrow> - 1 | Some m \<Rightarrow> m)"

record RequestTiming =
  rt_first_output :: u128
  rt_elapsed :: u128

definition repetition_record ::
  "Args \<Rightarrow> MeasurementPhase \<Rightarrow> u32 \<Rightarrow> RequestTiming list \<Rightarrow> u128 \<Rightarrow> string + MeasurementRecord" where
  "repetition_record args phase repetition_index timings repetition_elapsed = (let
       latency_total = sum_list (map rt_elapsed timings);
       first_output_total = sum_list (map rt_first_output timings);
       request_count = (ucast (ag_requests args) :: u64);
       latency_micros = ceil_micros latency_total div request_count;
       ttft_micros = min (ceil_micros first_output_total div request_count) latency_micros;
       wall_micros = (ucast (ceil_micros repetition_elapsed) :: u128)
     in and_then (ok_or ''CPU probe throughput overflowed''
         (try_into (ucast (ag_requests args) * 1000 * 1000000 div wall_micros))) (\<lambda>throughput.
       Ok \<lparr>mr_generator = CPU_PROBE_GENERATOR_VERSION, mr_attempt_number = 1, mr_phase = phase,
         mr_repetition_index = repetition_index, mr_sample_index = 1,
         mr_latency_micros = max latency_micros 1, mr_time_to_first_token_micros = max ttft_micros 1,
         mr_throughput_milli_requests_per_second = max throughput 1,
         mr_successful_requests = ag_requests args, mr_failed_requests = 0,
         mr_request_observations = []\<rparr>))"

text \<open>
  Serialization, and the write and flush to standard output, which may fail after a prefix of the line
  got out: what was written, and the result.
\<close>

datatype WriteFault = WriteFault nat string

definition emit_repetition ::
  "(MeasurementRecord \<Rightarrow> string + bytes) \<Rightarrow> Args \<Rightarrow> MeasurementPhase \<Rightarrow> u32 \<Rightarrow> RequestTiming list \<Rightarrow> u128
     \<Rightarrow> WriteFault option \<Rightarrow> bytes \<times> (string + unit)" where
  "emit_repetition to_json args phase repetition_index timings elapsed fault =
     (case repetition_record args phase repetition_index timings elapsed of
       Inl error \<Rightarrow> ([], Err error)
     | Inr r \<Rightarrow> (case to_json r of
         Inl error \<Rightarrow> ([], Err (''could not serialize measurement: '' @ error))
       | Inr bytes \<Rightarrow> (case fault of
           None \<Rightarrow> (bytes @ [CHR 0x0A], Ok ())
         | Some (WriteFault n error) \<Rightarrow>
             (take n (bytes @ [CHR 0x0A]), Err (''could not write measurement: '' @ error)))))"

record RepetitionClock =
  rk_timings :: "RequestTiming list"
  rk_elapsed :: u128
  rk_fault :: "WriteFault option"

text \<open>
  The loops of \<open>run\<close>: the bytes written so far and the result; the first error ends the helper, and
  what was written before stays written.
\<close>

fun emit_all ::
  "(MeasurementRecord \<Rightarrow> string + bytes) \<Rightarrow> Args \<Rightarrow> (MeasurementPhase \<Rightarrow> u32 \<Rightarrow> RepetitionClock)
     \<Rightarrow> (MeasurementPhase \<times> u32) list \<Rightarrow> bytes \<times> (string + unit)" where
  "emit_all to_json args clock [] = ([], Ok ())"
| "emit_all to_json args clock ((phase, index) # rest) =
     (case emit_repetition to_json args phase index (rk_timings (clock phase index))
        (rk_elapsed (clock phase index)) (rk_fault (clock phase index)) of
       (bytes, Inl error) \<Rightarrow> (bytes, Err error)
     | (bytes, Inr _) \<Rightarrow> (let (more, result) = emit_all to_json args clock rest in (bytes @ more, result)))"

definition helper_run ::
  "(MeasurementRecord \<Rightarrow> string + bytes) \<Rightarrow> Args \<Rightarrow> (MeasurementPhase \<Rightarrow> u32 \<Rightarrow> RepetitionClock)
     \<Rightarrow> bytes \<times> (string + unit)" where
  "helper_run to_json args clock = (case helper_validate args of
     Inl error \<Rightarrow> ([], Err error)
   | Inr _ \<Rightarrow> emit_all to_json args clock (map (Pair Warmup) (one_to (ag_warmup_runs args))
       @ map (Pair Measured) (one_to (ag_repetitions args))))"

text \<open>\<open>main\<close>: standard output, standard error and the exit code.\<close>

definition helper_main ::
  "(MeasurementRecord \<Rightarrow> string + bytes) \<Rightarrow> Args \<Rightarrow> (MeasurementPhase \<Rightarrow> u32 \<Rightarrow> RepetitionClock)
     \<Rightarrow> bytes \<times> bytes \<times> nat" where
  "helper_main to_json args clock = (case helper_run to_json args clock of
     (out, Inr _) \<Rightarrow> (out, [], 0)
   | (out, Inl error) \<Rightarrow> (out, ''error: '' @ error @ [CHR 0x0A], 1))"

subsection \<open>The adapter meets its contracts\<close>

definition cpu_count :: "CpuProbeConfig \<Rightarrow> usize" where
  "cpu_count config = ucast (cf_warmup_runs config + cf_repetitions config)"

lemma try_into_u32_usize: "try_into (c :: u32) = Some (ucast c :: usize)"
proof -
  have "unat c < 2 ^ LENGTH(64)" using unat_u32_bound [of c] by (simp del: unat_u32_bound)
  then show ?thesis by (simp add: try_into_def)
qed

lemma cpu_expected_record_count_Ok:
  "cpu_expected_record_count config = Ok n \<longleftrightarrow>
     unat (cf_warmup_runs config) + unat (cf_repetitions config) \<le> 1000 \<and> n = cpu_count config"
proof -
  let ?s = "unat (cf_warmup_runs config) + unat (cf_repetitions config)"
    and ?c = "cf_warmup_runs config + cf_repetitions config"
  have small: "checked_add (cf_warmup_runs config) (cf_repetitions config) = Some ?c \<and> unat ?c = ?s"
    if "?s \<le> 1000" using that by (simp add: checked_add_def)
  have prod: "unat (ucast ?c :: usize) * 512 < 2 ^ 64 \<and> unat (ucast ?c * 512 :: usize) \<le> 1048576"
    if "?s \<le> 1000" using that small by simp
  show ?thesis
  proof (cases "?s \<le> 1000")
    case True
    then have "checked_mul (ucast ?c :: usize) 512 = Some (ucast ?c * 512)"
      using prod by (simp add: checked_mul_def)
    moreover have "(ucast ?c * 512 :: usize) \<le> 1048576"
      using prod True by (simp add: word_le_nat_alt)
    ultimately show ?thesis using True small
      by (auto simp: cpu_expected_record_count_def try_into_u32_usize cpu_limit_defs cpu_count_def
          MAX_CPU_PROBE_RECORDS_def word_le_nat_alt)
  next
    case False
    then show ?thesis
      by (auto simp: cpu_expected_record_count_def result_simps checked_simps word_le_nat_alt
          MAX_CPU_PROBE_RECORDS_def)
  qed
qed

lemma cpu_count_bound: "unat (cpu_count config) < 2 ^ 32"
  unfolding cpu_count_def by simp

lemma cpu_validate_iff:
  assumes "i < 2 ^ 32 - 1"
  shows "cpu_validate_record config r i = Ok () \<longleftrightarrow>
    slot_record CPU_PROBE_GENERATOR_VERSION (cf_requests config) (cf_warmup_runs config) i r"
  using slot_index_eq_iff [OF assms, of "mr_repetition_index r" "cf_warmup_runs config"]
  by (auto simp: cpu_validate_record_def slot_record_def slot_phase_def Let_def)

interpretation cpu_records: record_protocol
  "\<lambda>config. cpu_protocol config (cpu_count config)" cpu_validate_record
  "\<lambda>config. slot_record CPU_PROBE_GENERATOR_VERSION (cf_requests config) (cf_warmup_runs config)"
proof
  fix config r i u
  assume ok: "cpu_validate_record config r i = Ok u"
    and "i < unat (cq_expected_records (cpu_protocol config (cpu_count config)))"
  then have "i < unat (cpu_count config)" by (simp add: cpu_protocol_def)
  then have "i < 2 ^ 32 - 1" using cpu_count_bound [of config] by linarith
  then show "slot_record CPU_PROBE_GENERATOR_VERSION (cf_requests config) (cf_warmup_runs config) i r"
    using ok cpu_validate_iff by simp
qed

lemma cpu_execute_command_cases:
  assumes "cpu_execute_command show_status fs config system = Some x"
  shows "if ce_failure x = None
    then length (ce_measurements x) = unat (cf_warmup_runs config) + unat (cf_repetitions config)
      \<and> (\<forall>i < length (ce_measurements x). slot_record CPU_PROBE_GENERATOR_VERSION (cf_requests config)
          (cf_warmup_runs config) i (ce_measurements x ! i)) \<and> length (ce_measurements x) \<le> 1000
    else ce_measurements x = []"
proof (cases "cpu_expected_record_count config")
  case (Inl f)
  then have "x = child_failed f None" using assms by (simp add: cpu_execute_command_def)
  then show ?thesis by (simp add: child_failed_def)
next
  case (Inr n)
  then have n: "unat (cf_warmup_runs config) + unat (cf_repetitions config) \<le> 1000" "n = cpu_count config"
    by (auto simp: cpu_expected_record_count_Ok)
  then have ex: "child_execute show_status fs (cpu_protocol config (cpu_count config))
      (cpu_validate_record config) (system (cpu_arguments config)) = Some x"
    using assms Inr by (simp add: cpu_execute_command_def)
  have "unat (cpu_count config) = unat (cf_warmup_runs config) + unat (cf_repetitions config)"
    using n(1) by (simp add: cpu_count_def)
  then show ?thesis
    using cpu_records.records_as_expected [OF ex] cpu_records.failure_discards [OF ex]
    using n(1) by (simp add: cpu_protocol_def)
qed

definition cpu_run ::
  "((wait_status \<Rightarrow> string) \<times> json_reader \<times> CpuProbeConfig) \<Rightarrow> system \<Rightarrow> ExecutionOutput option" where
  "cpu_run c system = cpu_execute (fst c) (fst (snd c)) (snd (snd c)) system"

interpretation cpu: runtime_adapter cpu_run
proof
  fix c system out assume "cpu_run c system = Some out"
  then obtain x where x: "cpu_execute_command (fst c) (fst (snd c)) (snd (snd c)) system = Some x"
    "out = cpu_into_execution_output x" by (auto simp: cpu_run_def cpu_execute_def)
  show "eo_terminal_state out \<in> set terminal_states" "eo_failure out = None \<longleftrightarrow> eo_terminal_state out = Succeeded"
    by (simp_all add: x(2) cpu_into_execution_output_def terminal_states_def)
  have "length (eo_measurements out) \<le> 1000"
    using cpu_execute_command_cases [OF x(1)] by (simp add: x(2) cpu_into_execution_output_def split: if_splits)
  moreover have "length (measured_records (eo_measurements out)) \<le> length (eo_measurements out)" by (simp add: measured_records_def)
  ultimately show "length (measured_records (eo_measurements out)) < 2 ^ 32" by simp
qed

subsection \<open>The helper's bounds\<close>

definition helper_admissible :: "Args \<Rightarrow> bool" where
  "helper_admissible args \<longleftrightarrow> 0 < unat (ag_requests args) \<and> 0 < unat (ag_repetitions args)
     \<and> 1 \<le> unat (ag_output_tokens args) \<and> unat (ag_output_tokens args) \<le> 4096
     \<and> 1 \<le> unat (ag_work_units_per_token args) \<and> unat (ag_work_units_per_token args) \<le> 1000000
     \<and> unat (ag_warmup_runs args) + unat (ag_repetitions args) \<le> 1000
     \<and> (unat (ag_warmup_runs args) + unat (ag_repetitions args)) * unat (ag_requests args)
         * unat (ag_output_tokens args) * unat (ag_work_units_per_token args) \<le> 100000000"

lemma counts_Some: "counts L (Some v) n \<longleftrightarrow> unat v = n"
  by (simp add: counts_def)

lemma helper_work_counts:
  assumes "0 < unat (q :: u32)" "0 < unat (t :: u32)" "0 < unat (u :: u32)"
  shows "counts 100000000 (Option.bind (Option.bind (checked_mul (ucast (c :: u32) :: u64) (ucast q))
      (\<lambda>v. checked_mul v (ucast t))) (\<lambda>v. checked_mul v (ucast u))) (unat c * unat q * unat t * unat u)"
proof -
  have L: "(100000000 :: nat) < 2 ^ 32" by simp
  have "counts 100000000 (Some (ucast c :: u64)) (unat c)" by (simp add: counts_Some)
  then have "counts 100000000 (Option.bind (Some (ucast c :: u64)) (\<lambda>v. checked_mul v (ucast q))) (unat c * unat q)"
    by (rule counts_checked_mul_ucast [OF _ assms(1) L])
  then have "counts 100000000 (checked_mul (ucast c :: u64) (ucast q)) (unat c * unat q)" by simp
  then show ?thesis by (intro counts_checked_mul_ucast L assms)
qed

lemma helper_validate_iff: "helper_validate args = Ok () \<longleftrightarrow> helper_admissible args"
proof (cases "0 < unat (ag_requests args) \<and> 0 < unat (ag_repetitions args)
     \<and> 1 \<le> unat (ag_output_tokens args) \<and> unat (ag_output_tokens args) \<le> 4096
     \<and> 1 \<le> unat (ag_work_units_per_token args) \<and> unat (ag_work_units_per_token args) \<le> 1000000
     \<and> unat (ag_warmup_runs args) + unat (ag_repetitions args) \<le> 1000")
  case True
  let ?c = "ag_warmup_runs args + ag_repetitions args"
  let ?work = "Option.bind (Option.bind (checked_mul (ucast ?c :: u64) (ucast (ag_requests args)))
      (\<lambda>v. checked_mul v (ucast (ag_output_tokens args)))) (\<lambda>v. checked_mul v (ucast (ag_work_units_per_token args)))"
  have c: "checked_add (ag_warmup_runs args) (ag_repetitions args) = Some ?c"
    "unat ?c = unat (ag_warmup_runs args) + unat (ag_repetitions args)"
    using True by (simp_all add: checked_add_def)
  have "helper_validate args = Ok () \<longleftrightarrow> \<not> is_none_or (\<lambda>w. w > MAX_CPU_PROBE_TOTAL_WORK_UNITS) ?work"
    using True c by (cases ?work)
      (auto simp: helper_validate_def word_le_nat_alt word_less_nat_alt limit_defs simp flip: unat_eq_zero)
  also have "\<dots> \<longleftrightarrow> \<not> unat MAX_CPU_PROBE_TOTAL_WORK_UNITS < unat ?c * unat (ag_requests args)
      * unat (ag_output_tokens args) * unat (ag_work_units_per_token args)"
    using counts_exceeds [of MAX_CPU_PROBE_TOTAL_WORK_UNITS ?work] True
      helper_work_counts [of "ag_requests args" "ag_output_tokens args" "ag_work_units_per_token args" ?c]
    by (simp add: limit_defs)
  also have "\<dots> \<longleftrightarrow> helper_admissible args"
    using True c(2) by (simp add: helper_admissible_def limit_defs not_less)
  finally show ?thesis .
next
  case False
  then show ?thesis
    by (auto simp: helper_validate_def helper_admissible_def result_simps checked_simps word_le_nat_alt
        word_less_nat_alt limit_defs split: if_splits simp flip: unat_eq_zero)
qed

text \<open>The arguments the adapter passes for a document.\<close>

definition helper_args :: "Experiment \<Rightarrow> u32 \<Rightarrow> u32 \<Rightarrow> Args" where
  "helper_args e t u = \<lparr>ag_requests = wl_requests (sp_workload (ex_spec e)),
     ag_warmup_runs = ms_warmup_runs (sp_measurement (ex_spec e)),
     ag_repetitions = ms_repetitions (sp_measurement (ex_spec e)), ag_output_tokens = t,
     ag_work_units_per_token = u\<rparr>"

text \<open>
  C36. The helper re-validates its arguments with exactly the schema's bounds: for a CPU probe
  document with the fixed profile and concurrency, the helper accepts the arguments if and only if
  the document satisfies the runtime's bounds and asks for at least one request and repetition.
\<close>

theorem helper_agrees_with_schema:
  assumes "sp_runtime (ex_spec e) = RuntimeCpuProbe t u"
    and "wl_profile (sp_workload (ex_spec e)) = CPU_PROBE_WORKLOAD_PROFILE"
    and "wl_concurrency (sp_workload (ex_spec e)) = 1"
  shows "helper_validate (helper_args e t u) = Ok () \<longleftrightarrow>
    runtime_admissible e \<and> 0 < requests e \<and> ms_repetitions (sp_measurement (ex_spec e)) \<noteq> 0"
  unfolding helper_validate_iff using assms
  by (auto simp: helper_admissible_def helper_args_def runtime_admissible_def records_def requests_def
      unat_gt_0)

theorem helper_agrees_with_schema_witness:
  "helper_validate (helper_args minimal_cpu_probe 8 1000) = Ok ()"
proof -
  have rt: "sp_runtime (ex_spec minimal_cpu_probe) = RuntimeCpuProbe 8 1000"
    "wl_profile (sp_workload (ex_spec minimal_cpu_probe)) = CPU_PROBE_WORKLOAD_PROFILE"
    "wl_concurrency (sp_workload (ex_spec minimal_cpu_probe)) = 1" by (simp_all add: fixture_defs)
  have "runtime_admissible minimal_cpu_probe \<and> 0 < requests minimal_cpu_probe
      \<and> ms_repetitions (sp_measurement (ex_spec minimal_cpu_probe)) \<noteq> 0"
    using cpu_probe_admissible by (simp add: admissible_def Let_def)
  then show ?thesis using helper_agrees_with_schema [OF rt] by blast
qed

subsection \<open>The helper's records\<close>

lemma ceil_micros_pos: "1 \<le> unat (ceil_micros d)"
proof -
  let ?m = "max (div_ceil d 1000) (1 :: u128)"
  have pos: "1 \<le> unat ?m" by (simp add: max_def word_le_nat_alt)
  show ?thesis
  proof (cases "try_into ?m :: u64 option")
    case None
    then show ?thesis by (simp add: ceil_micros_def Suc_le_eq unat_gt_0)
  next
    case (Some a)
    then have "ceil_micros d = a" by (simp add: ceil_micros_def)
    moreover have "unat ?m = unat a" using Some by (simp only: try_into_eq_Some)
    ultimately show ?thesis using pos by simp
  qed
qed

lemma repetition_throughput_fits:
  fixes q :: u32 and wall :: u128
  assumes "1 \<le> unat wall"
  shows "\<exists>th :: u64. try_into (ucast q * 1000 * 1000000 div wall) = Some th"
proof -
  have q: "unat (ucast q :: u128) = unat q"
    using unat_u32_bound [of q] by (simp add: unsigned_ucast_eq take_bit_nat_eq_self del: unat_u32_bound)
  then have p1: "unat (ucast q * 1000 :: u128) = unat q * 1000"
    using unat_u32_bound [of q] by (subst unat_mult_small) (simp_all del: unat_u32_bound)
  then have "unat (ucast q * 1000 * 1000000 :: u128) = unat q * 1000 * 1000000"
    using unat_u32_bound [of q] by (subst unat_mult_small) (simp_all del: unat_u32_bound)
  then have "unat (ucast q * 1000 * 1000000 div wall) \<le> unat q * 1000 * 1000000"
    by (simp add: unat_div_distrib div_le_dividend)
  then have "unat (ucast q * 1000 * 1000000 div wall) < 2 ^ LENGTH(64)"
    using unat_u32_bound [of q] by (simp del: unat_u32_bound)
  then show ?thesis by (simp add: try_into_def)
qed

lemma repetition_record_slot:
  fixes args :: Args
  assumes "i < 2 ^ 32 - 1"
  shows "\<exists>r. repetition_record args (slot_phase (unat (ag_warmup_runs args)) i)
      (of_nat (slot_index (unat (ag_warmup_runs args)) i)) timings elapsed = Ok r
    \<and> slot_record CPU_PROBE_GENERATOR_VERSION (ag_requests args) (ag_warmup_runs args) i r
    \<and> mr_request_observations r = []"
proof -
  have "1 \<le> unat (ucast (ceil_micros elapsed) :: u128)" using ceil_micros_pos by simp
  then obtain th :: u64 where th: "try_into (ucast (ag_requests args) * 1000 * 1000000
      div (ucast (ceil_micros elapsed) :: u128)) = Some th"
    using repetition_throughput_fits by blast
  have "slot_index (unat (ag_warmup_runs args)) i < 2 ^ LENGTH(32)"
    using assms by (simp add: slot_index_def less_imp_diff_less)
  then have ix: "unat (of_nat (slot_index (unat (ag_warmup_runs args)) i) :: u32)
      = slot_index (unat (ag_warmup_runs args)) i" by (rule unat_of_nat_small)
  have pos: "0 < max x (1 :: u64)" for x by (simp add: max_def word_less_nat_alt word_le_nat_alt)
  have le: "min x y \<le> max y (1 :: u64)" for x y by (meson max.coboundedI1 min.cobounded2)
  show ?thesis unfolding repetition_record_def Let_def th
    by (simp add: slot_record_def ix pos le)
qed

end
