(* ===== verification/LlamaCpp.thy ===== *)
theory LlamaCpp
  imports Provenance CpuProbe
begin

text \<open>
  The llama.cpp adapter, \<open>src/crates/benchplane-core/src/llama_cpp.rs\<close>. The helper is a C++ program
  outside the Rust sources, so it appears only through what it writes. The theorems show that an
  accepted document never exceeds the adapter's record, observation and transport bounds, and what an
  execution that succeeds contains.
\<close>

definition llama_MAX_SERIALIZED_RECORD_BYTES :: usize where
  "llama_MAX_SERIALIZED_RECORD_BYTES = 16 * 1024"
definition llama_MAX_STDOUT_BYTES :: usize where
  "llama_MAX_STDOUT_BYTES = 17 * llama_MAX_SERIALIZED_RECORD_BYTES"
definition MODEL_INIT_EXIT_CODE :: nat where "MODEL_INIT_EXIT_CODE = 20"
definition NVIDIA_METADATA_FORMAT :: string where
  "NVIDIA_METADATA_FORMAT = ''benchplane-llama-cpp-nvidia/v1''"
definition SPECIAL_EXIT_CODES :: "ExitCodeFailure list" where
  "SPECIAL_EXIT_CODES = [\<lparr>xf_exit_code = MODEL_INIT_EXIT_CODE,
     xf_failure_code = ERROR_LLAMA_CPP_MODEL_INIT_FAILED,
     xf_message = ''packaged llama.cpp helper could not initialize its fixed model''\<rparr>]"

lemmas llama_limit_defs = llama_MAX_SERIALIZED_RECORD_BYTES_def llama_MAX_STDOUT_BYTES_def

record LlamaCppConfig =
  lm_target :: LlamaCppTarget
  lm_requests :: u32
  lm_warmup_runs :: u32
  lm_repetitions :: u32
  lm_output_tokens :: u32
  lm_maximum_runtime_seconds :: u64

record NvidiaMetadataRecord =
  nm_format :: string
  nm_nvidia :: NvidiaGpuProvenance

definition llama_protocol_failure :: "string \<Rightarrow> FailureRecord" where
  "llama_protocol_failure message = \<lparr>fr_phase = ''running'', fr_code = ERROR_LLAMA_CPP_OUTPUT_INVALID,
     fr_message = message, fr_retryable = False, fr_attempt_number = 1\<rparr>"

definition compute_capability_valid :: "string \<Rightarrow> bool" where
  "compute_capability_valid value = is_some_and (\<lambda>(major, minor).
     major \<noteq> [] \<and> minor \<noteq> [] \<and> list_all is_ascii_digit major \<and> list_all is_ascii_digit minor)
     (split_once CHR ''.'' value)"

definition metadata_bounded :: "string \<Rightarrow> bool" where
  "metadata_bounded value \<longleftrightarrow> value \<noteq> [] \<and> trim value = value \<and> length value \<le> 256 \<and> \<not> any_control value"

definition parse_nvidia_metadata ::
  "(bytes \<Rightarrow> string + NvidiaMetadataRecord) \<Rightarrow> bytes \<Rightarrow> string + NvidiaGpuProvenance" where
  "parse_nvidia_metadata from_slice bytes =
     and_then (map_err (\<lambda>error. ''llama.cpp helper emitted malformed NVIDIA metadata: '' @ error)
       (from_slice bytes)) (\<lambda>r. let gpu = nm_nvidia r in
     if nm_format r \<noteq> NVIDIA_METADATA_FORMAT \<or> nv_vendor gpu \<noteq> ''NVIDIA''
       \<or> \<not> metadata_bounded (nv_device_name gpu) \<or> nv_logical_device_index gpu \<noteq> 0
       \<or> nv_total_vram_bytes gpu = 0 \<or> \<not> metadata_bounded (nv_nvidia_driver_version gpu)
       \<or> \<not> nvidia_driver_version_supported (nv_nvidia_driver_version gpu)
       \<or> \<not> metadata_bounded (nv_cuda_driver_version gpu) \<or> \<not> metadata_bounded (nv_cuda_runtime_version gpu)
       \<or> \<not> metadata_bounded (nv_cuda_toolkit_version gpu)
       \<or> \<not> compute_capability_valid (nv_compute_capability gpu)
       \<or> no_policy (nv_offload gpu) \<noteq> ''singleDeviceAllLayers'' \<or> no_total_layers (nv_offload gpu) = 0
       \<or> no_offloaded_layers (nv_offload gpu) \<noteq> no_total_layers (nv_offload gpu)
     then Err ''llama.cpp helper NVIDIA metadata is inconsistent with the fixed target''
     else Ok gpu)"

definition llama_expected_record_count :: "LlamaCppConfig \<Rightarrow> FailureRecord + usize" where
  "llama_expected_record_count config =
     and_then (ok_or (llama_protocol_failure ''llama.cpp requested excessive measurement records'')
       (opt_filter (\<lambda>count. count \<le> MAX_LLAMA_CPP_RECORDS)
         (checked_add (lm_warmup_runs config) (lm_repetitions config)))) (\<lambda>count.
     and_then (ok_or (llama_protocol_failure ''llama.cpp requested excessive request observations'')
       (opt_filter (\<lambda>observations. observations \<le> MAX_LLAMA_CPP_REQUEST_OBSERVATIONS)
         (checked_mul (ucast count :: u64) (ucast (lm_requests config))))) (\<lambda>_.
     and_then (ok_or (llama_protocol_failure ''llama.cpp measurement count is not representable'')
       (try_into count)) (\<lambda>count.
     and_then (ok_or (llama_protocol_failure ''llama.cpp requested output exceeds its transport bound'')
       (opt_filter (\<lambda>bytes. bytes \<le> llama_MAX_STDOUT_BYTES)
         (checked_mul count llama_MAX_SERIALIZED_RECORD_BYTES))) (\<lambda>_.
     Ok count))))"

definition observations_valid :: "RequestObservation list \<Rightarrow> bool" where
  "observations_valid obs \<longleftrightarrow> list_all (\<lambda>(position, observation).
     ro_request_index observation = of_nat position + 1 \<and> ro_latency_micros observation > 0
     \<and> ro_time_to_first_token_micros observation > 0
     \<and> ro_time_to_first_token_micros observation \<le> ro_latency_micros observation)
     (zip [0..<length obs] obs)"

definition llama_validate_record :: "LlamaCppConfig \<Rightarrow> validator" where
  "llama_validate_record config r position = (let
       (phase, repetition_index) = (if position < unat (lm_warmup_runs config)
         then (Warmup, of_nat position + 1)
         else (Measured, of_nat position - lm_warmup_runs config + 1));
       valid = (mr_generator r = LLAMA_CPP_GENERATOR_VERSION \<and> mr_attempt_number r = 1
         \<and> mr_phase r = phase \<and> mr_repetition_index r = repetition_index \<and> mr_sample_index r = 1
         \<and> mr_latency_micros r > 0 \<and> mr_time_to_first_token_micros r > 0
         \<and> mr_time_to_first_token_micros r \<le> mr_latency_micros r
         \<and> mr_throughput_milli_requests_per_second r > 0
         \<and> mr_successful_requests r = lm_requests config \<and> mr_failed_requests r = 0
         \<and> length (mr_request_observations r) = unat (lm_requests config)
         \<and> observations_valid (mr_request_observations r))
     in if valid then Ok ()
        else Err (''llama.cpp record '' @ show_nat (position + 1) @ '' does not match the requested execution''))"

definition llama_arguments :: "LlamaCppConfig \<Rightarrow> string list" where
  "llama_arguments config =
     [''--requests'', show_word (lm_requests config), ''--warmup-runs'', show_word (lm_warmup_runs config),
      ''--repetitions'', show_word (lm_repetitions config),
      ''--output-tokens'', show_word (lm_output_tokens config)]"

definition llama_protocol :: "LlamaCppConfig \<Rightarrow> usize \<Rightarrow> ChildProtocol" where
  "llama_protocol config expected_records = \<lparr>cq_runtime_name = ''llama.cpp SmolLM2'',
     cq_expected_metadata_records = (if lm_target config = TargetNvidiaCuda then 1 else 0),
     cq_expected_records = expected_records,
     cq_max_record_bytes = llama_MAX_SERIALIZED_RECORD_BYTES,
     cq_max_stdout_bytes = llama_MAX_STDOUT_BYTES,
     cq_maximum_runtime_seconds = lm_maximum_runtime_seconds config,
     cq_spawn_failure_code = ERROR_LLAMA_CPP_SPAWN_FAILED,
     cq_exit_failure_code = ERROR_LLAMA_CPP_EXIT_FAILED,
     cq_output_failure_code = ERROR_LLAMA_CPP_OUTPUT_INVALID,
     cq_deadline_failure_code = ERROR_LLAMA_CPP_DEADLINE_EXCEEDED,
     cq_resource_failure_code = ERROR_LLAMA_CPP_RESOURCE_ACCOUNTING_FAILED,
     cq_special_exit_codes = SPECIAL_EXIT_CODES\<rparr>"

definition llama_execute_command ::
  "(wait_status \<Rightarrow> string) \<Rightarrow> json_reader \<Rightarrow> LlamaCppConfig \<Rightarrow> system \<Rightarrow> ChildExecution option" where
  "llama_execute_command show_status fs config system = (case llama_expected_record_count config of
     Inl f \<Rightarrow> Some (child_failed f None)
   | Inr expected_records \<Rightarrow> child_execute show_status fs (llama_protocol config expected_records)
       (llama_validate_record config) (system (llama_arguments config)))"

definition llama_rejected :: "ProcessResources option \<Rightarrow> string \<Rightarrow> ExecutionOutput" where
  "llama_rejected resources message = \<lparr>eo_measurements = [], eo_resources = resources,
     eo_nvidia_gpu = None, eo_terminal_state = Failed, eo_failure = Some (llama_protocol_failure message)\<rparr>"

definition llama_into_execution_output ::
  "(bytes \<Rightarrow> string + NvidiaMetadataRecord) \<Rightarrow> ChildExecution \<Rightarrow> LlamaCppConfig \<Rightarrow> ExecutionOutput" where
  "llama_into_execution_output from_slice result config = (case ce_failure result of
     None \<Rightarrow> (let
         mismatch = llama_rejected (ce_resources result)
           ''llama.cpp helper metadata does not match the requested target'';
         succeeded = (\<lambda>nvidia_gpu. \<lparr>eo_measurements = ce_measurements result,
           eo_resources = ce_resources result, eo_nvidia_gpu = nvidia_gpu,
           eo_terminal_state = Succeeded, eo_failure = None\<rparr>)
       in case lm_target config of
         TargetCpu \<Rightarrow> if ce_metadata result = [] then succeeded None else mismatch
       | TargetNvidiaCuda \<Rightarrow> (case ce_metadata result of
           [bytes] \<Rightarrow> (case parse_nvidia_metadata from_slice bytes of
               Inr metadata \<Rightarrow> succeeded (Some metadata)
             | Inl message \<Rightarrow> llama_rejected (ce_resources result) message)
         | _ \<Rightarrow> mismatch))
   | Some f \<Rightarrow> \<lparr>eo_measurements = ce_measurements result, eo_resources = ce_resources result,
       eo_nvidia_gpu = None, eo_terminal_state = Failed, eo_failure = Some f\<rparr>)"

definition llama_execute ::
  "(wait_status \<Rightarrow> string) \<Rightarrow> json_reader \<Rightarrow> (bytes \<Rightarrow> string + NvidiaMetadataRecord) \<Rightarrow> LlamaCppConfig
     \<Rightarrow> system \<Rightarrow> ExecutionOutput option" where
  "llama_execute show_status fs metadata_from_slice config system =
     map_option (\<lambda>x. llama_into_execution_output metadata_from_slice x config)
       (llama_execute_command show_status fs config system)"

subsection \<open>The adapter meets its contracts\<close>

definition llama_count :: "LlamaCppConfig \<Rightarrow> usize" where
  "llama_count config = ucast (lm_warmup_runs config + lm_repetitions config)"

lemma llama_observation_limit: "unat MAX_LLAMA_CPP_REQUEST_OBSERVATIONS = 84"
  by (simp add: MAX_LLAMA_CPP_REQUEST_OBSERVATIONS_def limit_defs)

lemma llama_expected_record_count_Ok:
  "llama_expected_record_count config = Ok n \<longleftrightarrow>
     unat (lm_warmup_runs config) + unat (lm_repetitions config) \<le> 16
     \<and> (unat (lm_warmup_runs config) + unat (lm_repetitions config)) * unat (lm_requests config) \<le> 84
     \<and> n = llama_count config"
proof -
  let ?s = "unat (lm_warmup_runs config) + unat (lm_repetitions config)"
    and ?c = "lm_warmup_runs config + lm_repetitions config" and ?q = "lm_requests config"
  show ?thesis
  proof (cases "?s \<le> 16")
    case True
    then have c: "checked_add (lm_warmup_runs config) (lm_repetitions config) = Some ?c" "unat ?c = ?s"
      by (simp_all add: checked_add_def)
    have "unat ?c * unat ?q \<le> 16 * 4294967296"
      using True c(2) by (intro mult_le_mono less_imp_le [OF unat_u32_bound]) simp
    then have m: "checked_mul (ucast ?c :: u64) (ucast ?q) = Some (ucast ?c * ucast ?q)"
      "unat (ucast ?c * ucast ?q :: u64) = ?s * unat ?q"
      using c(2) by (simp_all add: checked_mul_def)
    have "unat (ucast ?c :: usize) * 16384 \<le> 262144" using True c(2) by simp
    then have t: "checked_mul (ucast ?c :: usize) 16384 = Some (ucast ?c * 16384)"
      "(ucast ?c * 16384 :: usize) \<le> 278528"
      by (simp_all add: checked_mul_def word_le_nat_alt)
    show ?thesis
      using True c m t llama_observation_limit
      by (auto simp: llama_expected_record_count_def try_into_u32_usize llama_limit_defs llama_count_def
          MAX_LLAMA_CPP_RECORDS_def word_le_nat_alt)
  next
    case False
    then show ?thesis
      by (auto simp: llama_expected_record_count_def result_simps checked_simps word_le_nat_alt
          MAX_LLAMA_CPP_RECORDS_def)
  qed
qed

definition llama_slot :: "LlamaCppConfig \<Rightarrow> nat \<Rightarrow> MeasurementRecord \<Rightarrow> bool" where
  "llama_slot config i r \<longleftrightarrow>
     slot_record LLAMA_CPP_GENERATOR_VERSION (lm_requests config) (lm_warmup_runs config) i r
     \<and> length (mr_request_observations r) = unat (lm_requests config)
     \<and> observations_valid (mr_request_observations r)"

lemma llama_validate_iff:
  assumes "i < 2 ^ 32 - 1"
  shows "llama_validate_record config r i = Ok () \<longleftrightarrow> llama_slot config i r"
  using slot_index_eq_iff [OF assms, of "mr_repetition_index r" "lm_warmup_runs config"]
  by (auto simp: llama_validate_record_def slot_record_def slot_phase_def llama_slot_def Let_def)

interpretation llama_records: record_protocol
  "\<lambda>config. llama_protocol config (llama_count config)" llama_validate_record llama_slot
proof
  fix config r i u
  assume ok: "llama_validate_record config r i = Ok u"
    and "i < unat (cq_expected_records (llama_protocol config (llama_count config)))"
  then have "i < unat (llama_count config)" by (simp add: llama_protocol_def)
  moreover have "unat (llama_count config) < 2 ^ 32" unfolding llama_count_def by simp
  ultimately have "i < 2 ^ 32 - 1" by linarith
  then show "llama_slot config i r" using ok llama_validate_iff by simp
qed

lemma llama_execute_command_cases:
  assumes "llama_execute_command show_status fs config system = Some x"
  shows "if ce_failure x = None
    then length (ce_measurements x) = unat (lm_warmup_runs config) + unat (lm_repetitions config)
      \<and> (\<forall>i < length (ce_measurements x). llama_slot config i (ce_measurements x ! i)) \<and> length (ce_measurements x) \<le> 16
    else ce_measurements x = []"
proof (cases "llama_expected_record_count config")
  case (Inl f)
  then have "x = child_failed f None" using assms by (simp add: llama_execute_command_def)
  then show ?thesis by (simp add: child_failed_def)
next
  case (Inr n)
  then have n: "unat (lm_warmup_runs config) + unat (lm_repetitions config) \<le> 16" "n = llama_count config"
    by (auto simp: llama_expected_record_count_Ok)
  then have ex: "child_execute show_status fs (llama_protocol config (llama_count config))
      (llama_validate_record config) (system (llama_arguments config)) = Some x"
    using assms Inr by (simp add: llama_execute_command_def)
  have "unat (llama_count config) = unat (lm_warmup_runs config) + unat (lm_repetitions config)"
    using n(1) by (simp add: llama_count_def)
  then show ?thesis
    using llama_records.records_as_expected [OF ex] llama_records.failure_discards [OF ex] n(1)
    by (simp add: llama_protocol_def)
qed

lemma llama_output_cases:
  "eo_failure (llama_into_execution_output mfs x config) = None \<longleftrightarrow>
     eo_terminal_state (llama_into_execution_output mfs x config) = Succeeded"
  "eo_terminal_state (llama_into_execution_output mfs x config) \<in> set terminal_states"
  "eo_measurements (llama_into_execution_output mfs x config) \<in> {[], ce_measurements x}"
  by (auto simp: llama_into_execution_output_def llama_rejected_def terminal_states_def Let_def
      split: option.splits LlamaCppTarget.splits list.splits sum.splits)

lemma llama_output_succeeded:
  assumes "eo_terminal_state (llama_into_execution_output mfs x config) = Succeeded"
  shows "ce_failure x = None \<and> eo_measurements (llama_into_execution_output mfs x config) = ce_measurements x
    \<and> (case eo_nvidia_gpu (llama_into_execution_output mfs x config) of
        None \<Rightarrow> lm_target config = TargetCpu
      | Some gpu \<Rightarrow> lm_target config = TargetNvidiaCuda \<and> (\<exists>b. parse_nvidia_metadata mfs b = Ok gpu))"
  using assms by (auto simp: llama_into_execution_output_def llama_rejected_def Let_def
      split: option.splits LlamaCppTarget.splits list.splits sum.splits if_splits)

definition llama_run ::
  "((wait_status \<Rightarrow> string) \<times> json_reader \<times> (bytes \<Rightarrow> string + NvidiaMetadataRecord) \<times> LlamaCppConfig)
     \<Rightarrow> system \<Rightarrow> ExecutionOutput option" where
  "llama_run c system = (case c of (ss, fs, mfs, config) \<Rightarrow> llama_execute ss fs mfs config system)"

interpretation llama: runtime_adapter llama_run
proof
  fix c system out assume run: "llama_run c system = Some out"
  obtain ss fs mfs config where c: "c = (ss, fs, mfs, config)" by (metis prod_cases4)
  then obtain x where x: "llama_execute_command ss fs config system = Some x"
    "out = llama_into_execution_output mfs x config"
    using run by (auto simp: llama_run_def llama_execute_def)
  show "eo_terminal_state out \<in> set terminal_states" "eo_failure out = None \<longleftrightarrow> eo_terminal_state out = Succeeded"
    unfolding x(2) by (rule llama_output_cases)+
  have "length (ce_measurements x) \<le> 16" using llama_execute_command_cases [OF x(1)] by (simp split: if_splits)
  then have "length (eo_measurements out) \<le> 16" using llama_output_cases(3) [of mfs x config] unfolding x(2) by auto
  moreover have "length (measured_records (eo_measurements out)) \<le> length (eo_measurements out)" by (simp add: measured_records_def)
  ultimately show "length (measured_records (eo_measurements out)) < 2 ^ 32" by simp
qed

text \<open>
  C39. A llama.cpp execution that succeeds has one record for every warmup and measured repetition,
  in order, each with one valid observation per request; it carries verified NVIDIA facts exactly
  when the document asked for the NVIDIA target.
\<close>

theorem llama_execute_succeeded:
  assumes "llama_execute show_status fs mfs config system = Some out" and "eo_terminal_state out = Succeeded"
  shows "length (eo_measurements out) = unat (lm_warmup_runs config) + unat (lm_repetitions config)
    \<and> (\<forall>i < length (eo_measurements out). let r = eo_measurements out ! i in
        slot_record LLAMA_CPP_GENERATOR_VERSION (lm_requests config) (lm_warmup_runs config) i r
        \<and> length (mr_request_observations r) = unat (lm_requests config)
        \<and> observations_valid (mr_request_observations r))
    \<and> (eo_nvidia_gpu out \<noteq> None \<longleftrightarrow> lm_target config = TargetNvidiaCuda)"
proof -
  obtain x where x: "llama_execute_command show_status fs config system = Some x"
    "out = llama_into_execution_output mfs x config"
    using assms(1) by (auto simp: llama_execute_def)
  note s = llama_output_succeeded [OF assms(2) [unfolded x(2)]]
  show ?thesis using llama_execute_command_cases [OF x(1)] s
    by (auto simp: x(2) llama_slot_def Let_def split: option.splits)
qed

text \<open>One measured repetition of one request on the CPU target.\<close>

definition one_llama_config :: LlamaCppConfig where
  "one_llama_config = \<lparr>lm_target = TargetCpu, lm_requests = 1, lm_warmup_runs = 0, lm_repetitions = 1,
     lm_output_tokens = 4, lm_maximum_runtime_seconds = 5\<rparr>"

definition one_llama_record :: MeasurementRecord where
  "one_llama_record = \<lparr>mr_generator = LLAMA_CPP_GENERATOR_VERSION, mr_attempt_number = 1, mr_phase = Measured,
     mr_repetition_index = 1, mr_sample_index = 1, mr_latency_micros = 2,
     mr_time_to_first_token_micros = 1, mr_throughput_milli_requests_per_second = 5,
     mr_successful_requests = 1, mr_failed_requests = 0,
     mr_request_observations = [\<lparr>ro_request_index = 1, ro_latency_micros = 2,
       ro_time_to_first_token_micros = 1\<rparr>]\<rparr>"

definition one_llama_system :: system where
  "one_llama_system arguments = sample_environment
     [sample_poll 1 (Received (Line ''r'')) None, sample_poll 2 (Received Done) (Some sample_reaped)]"

lemma one_llama_execute:
  "\<exists>out. llama_execute (\<lambda>_. []) (\<lambda>_. Ok one_llama_record) (\<lambda>_. Err []) one_llama_config one_llama_system
     = Some out \<and> eo_terminal_state out = Succeeded"
proof -
  have c: "llama_expected_record_count one_llama_config = Ok 1"
    by (simp add: llama_expected_record_count_Ok one_llama_config_def llama_count_def)
  have b: "accepted_bytes (llama_protocol one_llama_config 1) = Ok 16384"
    by (simp add: accepted_bytes_def llama_protocol_def one_llama_config_def checked_add_def checked_mul_def
        llama_limit_defs)
  have env: "en_spawn (one_llama_system a) = Ok ()" "en_started (one_llama_system a) = 0"
    "en_stdout_joined (one_llama_system a) acts" "en_stderr (one_llama_system a) acts = Some []" for a acts
    by (simp_all add: one_llama_system_def sample_environment_def)
  have secs: "unat (cq_maximum_runtime_seconds (llama_protocol one_llama_config 1)) = 5"
    by (simp add: llama_protocol_def one_llama_config_def)
  have sup: "supervise (\<lambda>_. Ok one_llama_record) (llama_validate_record one_llama_config)
      (llama_protocol one_llama_config 1) 5000000000 (en_polls (one_llama_system a)) =
      Some (Ok \<lparr>cc_reaped = sample_reaped, cc_metadata = [], cc_measurements = [one_llama_record]\<rparr>)" for a
    by (simp add: one_llama_system_def sample_defs supervise_eval llama_protocol_def llama_limit_defs
        word_le_nat_alt llama_validate_record_def one_llama_record_def one_llama_config_def
        observations_valid_def)
  have "child_execute (\<lambda>_. []) (\<lambda>_. Ok one_llama_record) (llama_protocol one_llama_config 1)
      (llama_validate_record one_llama_config) (one_llama_system a) = Some \<lparr>ce_metadata = [],
        ce_measurements = [one_llama_record],
        ce_resources = Some \<lparr>pr_cpu_time_micros = 7, pr_peak_rss_bytes = 1024\<rparr>, ce_failure = None\<rparr>" for a
    unfolding child_execute_def b env(1,2) secs Let_def using sup [of a]
    by (simp add: env settle_child_def conclude_def sample_reaped_def status_success_def completed_success_def len_def llama_protocol_def
        one_llama_config_def)
  moreover have "lm_target one_llama_config = TargetCpu" by (simp add: one_llama_config_def)
  ultimately show ?thesis
    by (simp add: llama_execute_def llama_execute_command_def c llama_into_execution_output_def Let_def)
qed

theorem llama_execute_succeeded_witness:
  "\<exists>out. llama_execute (\<lambda>_. []) (\<lambda>_. Ok one_llama_record) (\<lambda>_. Err []) one_llama_config one_llama_system
     = Some out \<and> length (eo_measurements out) = 1 \<and> eo_nvidia_gpu out = None"
proof -
  obtain out where out: "llama_execute (\<lambda>_. []) (\<lambda>_. Ok one_llama_record) (\<lambda>_. Err []) one_llama_config
      one_llama_system = Some out" "eo_terminal_state out = Succeeded" using one_llama_execute by blast
  from llama_execute_succeeded [OF this] have "length (eo_measurements out) = 1" "eo_nvidia_gpu out = None"
    by (auto simp: one_llama_config_def)
  then show ?thesis using out(1) by blast
qed

end
