(* ===== verification/Evidence.thy ===== *)
theory Evidence
  imports LlamaCpp
begin

text \<open>
  Validation of the records of an evidence bundle, the second half of
  \<open>src/crates/benchplane-core/src/evidence.rs\<close>: the manifest, the resolved plan, the measurement
  sequence, provenance and resources. The crates that read JSON, YAML and UUIDs, and SHA-256 and hex,
  are the fields of \<open>Codecs\<close>.
\<close>

definition MAX_CHECKSUM_FILE_BYTES :: nat where "MAX_CHECKSUM_FILE_BYTES = 4 * 1024 * 1024"
definition MAX_CHECKSUM_LINE_BYTES :: nat where "MAX_CHECKSUM_LINE_BYTES = 4 * 1024"
definition MAX_CHECKSUM_ENTRIES :: nat where "MAX_CHECKSUM_ENTRIES = 10000"
definition MAX_MANIFEST_BYTES :: nat where "MAX_MANIFEST_BYTES = 64 * 1024"
definition MAX_IDENTITY_RECORD_BYTES :: nat where "MAX_IDENTITY_RECORD_BYTES = 1024 * 1024"
definition MAX_ATTEMPT_PROVENANCE_BYTES :: nat where "MAX_ATTEMPT_PROVENANCE_BYTES = 16 * 1024"
definition MAX_ATTEMPT_RESOURCES_BYTES :: nat where "MAX_ATTEMPT_RESOURCES_BYTES = 4 * 1024"
definition MAX_RESOLVED_PLAN_BYTES :: nat where "MAX_RESOLVED_PLAN_BYTES = 64 * 1024"
definition MAX_EXPERIMENT_BYTES :: nat where "MAX_EXPERIMENT_BYTES = 64 * 1024"
definition MAX_MEASUREMENTS_BYTES :: nat where "MAX_MEASUREMENTS_BYTES = 8 * 1024 * 1024"
definition MAX_MEASUREMENT_LINE_BYTES :: nat where "MAX_MEASUREMENT_LINE_BYTES = 64 * 1024"
definition MAX_PROVENANCE_VALUE_BYTES :: nat where "MAX_PROVENANCE_VALUE_BYTES = 256"
definition MAX_NIX_STORE_PATH_BYTES :: nat where "MAX_NIX_STORE_PATH_BYTES = 512"

datatype EvidenceError =
    ReadError_at string string
  | WriteError_at string string
  | InvalidChecksumFileEncoding
  | ChecksumFileTooLarge
  | ChecksumLineTooLong
  | TooManyChecksumEntries
  | ManifestTooLarge
  | Manifest string
  | InvalidRecord string string
  | InvalidChecksumLine string
  | InvalidChecksum string
  | UnsafePath string
  | DuplicatePath string
  | PathEscape string
  | BundleRootNotDirectory string
  | NonRegularFile string
  | NonUtf8Path string
  | MissingManifestChecksum
  | MissingPayloadChecksum string
  | DeclaredPayloadMissing string
  | MissingRequiredPayload string
  | ChecksumMismatch string
  | UnsupportedFormat string
  | EmptyManifestField string
  | InvalidRunId
  | NonTerminalRunStatus
  | InvalidAttemptCount
  | InvalidExperimentDigest
  | InvalidResolvedPlanDigest
  | AlreadyFinalized
  | BundleRunIdMismatch
  | InconsistentRecord string
  | InvalidAttemptProvenance string
  | InvalidAttemptResources string
  | InvalidResolvedPlan string
  | InvalidOriginalExperiment string
  | InvalidMeasurements string

type_synonym 'a verdict = "EvidenceError + 'a"

text \<open>
  \<open>cd_uuid\<close> is \<open>Uuid::parse_str\<close> followed by the three observations the source makes of the result:
  its hyphenated text, its version number and whether its variant is RFC 4122.
\<close>

record Codecs =
  cd_sha256 :: sha256_fn
  cd_hex :: hex_fn
  cd_uuid :: "string \<Rightarrow> (string \<times> nat \<times> bool) option"
  cd_yaml :: "string \<Rightarrow> string + Experiment"
  cd_utf8_error :: "bytes \<Rightarrow> string"
  cd_experiment_to_vec :: "Experiment \<Rightarrow> string + bytes"
  cd_content_to_vec :: "ResolvedPlanContent \<Rightarrow> string + bytes"
  cd_manifest :: "bytes \<Rightarrow> string + EvidenceManifest"
  cd_plan :: "bytes \<Rightarrow> string + ResolvedExperiment"
  cd_run :: "bytes \<Rightarrow> string + RunRecord"
  cd_attempt :: "bytes \<Rightarrow> string + AttemptRecord"
  cd_provenance :: "bytes \<Rightarrow> string + AttemptProvenance"
  cd_resources :: "bytes \<Rightarrow> string + AttemptResources"
  cd_validity :: "bytes \<Rightarrow> string + ValidityResult"
  cd_summary :: "bytes \<Rightarrow> string + RunSummary"
  cd_event :: "bytes \<Rightarrow> string + LifecycleEvent"
  cd_measurement :: "bytes \<Rightarrow> string + MeasurementRecord"

definition cd_resolve :: "Codecs \<Rightarrow> Experiment \<Rightarrow> string ResolutionError + ResolvedExperiment" where
  "cd_resolve c = resolve_experiment (cd_sha256 c) (cd_hex c) (cd_experiment_to_vec c) (cd_content_to_vec c)"

definition invalid_provenance :: "string \<Rightarrow> 'a verdict" where
  "invalid_provenance message = Err (InvalidAttemptProvenance message)"

definition invalid_resources :: "string \<Rightarrow> 'a verdict" where
  "invalid_resources message = Err (InvalidAttemptResources message)"

definition invalid_measurements :: "string \<Rightarrow> 'a verdict" where
  "invalid_measurements message = Err (InvalidMeasurements message)"

lemmas invalid_defs = invalid_provenance_def invalid_resources_def invalid_measurements_def

subsection \<open>The manifest\<close>

definition is_run_id :: "Codecs \<Rightarrow> string \<Rightarrow> bool" where
  "is_run_id c value = (case strip_prefix ''run-'' value of
     None \<Rightarrow> False
   | Some uuid_text \<Rightarrow> (case cd_uuid c uuid_text of
       None \<Rightarrow> False
     | Some (hyphenated, version, rfc4122) \<Rightarrow> uuid_text = hyphenated \<and> version = 7 \<and> rfc4122))"

definition validate_manifest :: "Codecs \<Rightarrow> EvidenceManifest \<Rightarrow> unit verdict" where
  "validate_manifest c m =
     (if em_format m \<noteq> EVIDENCE_FORMAT_V1 then Err (UnsupportedFormat (em_format m))
      else if trim (em_run_id m) = [] then Err (EmptyManifestField ''runId'')
      else if \<not> is_run_id c (em_run_id m) then Err InvalidRunId
      else if \<not> is_terminal (em_run_status m) then Err NonTerminalRunStatus
      else if em_attempt_count m \<noteq> 1 then Err InvalidAttemptCount
      else if \<not> is_sha256_digest (em_experiment_digest m) then Err InvalidExperimentDigest
      else if \<not> is_sha256_digest (em_resolved_plan_digest m) then Err InvalidResolvedPlanDigest
      else Ok ())"

definition required_payloads :: "string list" where
  "required_payloads = [''experiment.yaml'', ''resolved-plan.json'', ''run.json'', ''events.jsonl'',
     ''validity.json'', ''summary.json'', ''manifest.json'', ''attempts/0001/attempt.json'',
     ''attempts/0001/measurements.jsonl'']"

definition validate_required_payloads :: "string list \<Rightarrow> unit verdict" where
  "validate_required_payloads names = (case List.find (\<lambda>p. p \<notin> set names) required_payloads of
     Some p \<Rightarrow> Err (MissingRequiredPayload p) | None \<Rightarrow> Ok ())"

definition retained_limit :: "string \<Rightarrow> nat option" where
  "retained_limit relative =
     (if relative = ''manifest.json'' then Some MAX_MANIFEST_BYTES
      else if relative \<in> set [''run.json'', ''attempts/0001/attempt.json'', ''validity.json'',
        ''summary.json'', ''events.jsonl''] then Some MAX_IDENTITY_RECORD_BYTES
      else if relative = ''attempts/0001/provenance.json'' then Some MAX_ATTEMPT_PROVENANCE_BYTES
      else if relative = ''attempts/0001/resources.json'' then Some MAX_ATTEMPT_RESOURCES_BYTES
      else if relative = ''experiment.yaml'' then Some MAX_EXPERIMENT_BYTES
      else if relative = ''resolved-plan.json'' then Some MAX_RESOLVED_PLAN_BYTES
      else None)"

subsection \<open>Measurements\<close>

definition ceil_div_u128 :: "u128 \<Rightarrow> u128 \<Rightarrow> u128" where
  "ceil_div_u128 dividend divisor = dividend div divisor + (if dividend mod divisor \<noteq> 0 then 1 else 0)"

fun fold_count :: "u64 list \<Rightarrow> u128 \<times> u128 \<Rightarrow> (u128 \<times> u128) option" where
  "fold_count [] acc = Some acc"
| "fold_count (v # vs) (n, t) = Option.bind (checked_add n 1) (\<lambda>n'.
     Option.bind (checked_add t (ucast v)) (\<lambda>t'. fold_count vs (n', t')))"

definition rounded_request_mean_bounds :: "u64 list \<Rightarrow> (u64 \<times> u64) option" where
  "rounded_request_mean_bounds values = Option.bind (fold_count values (0, 0)) (\<lambda>(n, rounded_micros).
     if n = 0 \<or> rounded_micros < n then None
     else Option.bind (checked_sub rounded_micros n) (\<lambda>d.
       Option.bind (checked_mul d 1000) (\<lambda>dm.
       Option.bind (checked_add dm n) (\<lambda>minimum_raw_nanos.
       Option.bind (checked_mul rounded_micros 1000) (\<lambda>maximum_raw_nanos.
       Option.bind (checked_mul n 1000) (\<lambda>divisor.
       Option.bind (try_into (ceil_div_u128 minimum_raw_nanos divisor)) (\<lambda>lo.
       Option.bind (try_into (ceil_div_u128 maximum_raw_nanos divisor)) (\<lambda>hi. Some (lo, hi)))))))))"

definition validate_llama_v2_aggregate_consistency :: "MeasurementRecord \<Rightarrow> unit verdict" where
  "validate_llama_v2_aggregate_consistency r =
     and_then (ok_or (InvalidMeasurements ''llamaCpp v2 latency aggregate bounds are not representable'')
       (rounded_request_mean_bounds (map ro_latency_micros (mr_request_observations r)))) (\<lambda>latency_bounds.
     and_then (ok_or (InvalidMeasurements ''llamaCpp v2 TTFT aggregate bounds are not representable'')
       (rounded_request_mean_bounds (map ro_time_to_first_token_micros (mr_request_observations r)))) (\<lambda>ttft_bounds.
     if \<not> (fst latency_bounds \<le> mr_latency_micros r \<and> mr_latency_micros r \<le> snd latency_bounds)
       \<or> \<not> (fst ttft_bounds \<le> mr_time_to_first_token_micros r
            \<and> mr_time_to_first_token_micros r \<le> snd ttft_bounds)
     then invalid_measurements ''llamaCpp v2 aggregate latency or TTFT contradicts its request observations''
     else Ok ()))"

definition aggregate_mismatch ::
  "MeasurementRecord \<Rightarrow> u32 \<Rightarrow> u32 \<Rightarrow> ResolvedExperiment \<Rightarrow> string option \<Rightarrow> bool" where
  "aggregate_mismatch r position warmup_count plan prior_generator = (let
       (phase, repetition_index) = (if position < warmup_count then (Warmup, position + 1)
         else (Measured, position - warmup_count + 1))
     in mr_attempt_number r \<noteq> 1 \<or> mr_phase r \<noteq> phase \<or> mr_repetition_index r \<noteq> repetition_index
       \<or> mr_sample_index r \<noteq> 1 \<or> mr_latency_micros r = 0 \<or> mr_time_to_first_token_micros r = 0
       \<or> mr_time_to_first_token_micros r > mr_latency_micros r
       \<or> mr_throughput_milli_requests_per_second r = 0
       \<or> mr_successful_requests r \<noteq> wl_requests (sp_workload (ex_spec (re_experiment plan)))
       \<or> mr_failed_requests r \<noteq> 0 \<or> is_some_and (\<lambda>g. g \<noteq> mr_generator r) prior_generator)"

definition observation_invalid :: "nat \<Rightarrow> RequestObservation \<Rightarrow> bool" where
  "observation_invalid index observation \<longleftrightarrow> ro_request_index observation \<noteq> of_nat index + 1
     \<or> ro_latency_micros observation = 0 \<or> ro_time_to_first_token_micros observation = 0
     \<or> ro_time_to_first_token_micros observation > ro_latency_micros observation"

definition validate_llama_record :: "MeasurementRecord \<Rightarrow> ResolvedExperiment \<Rightarrow> LlamaCppTarget \<Rightarrow> unit verdict" where
  "validate_llama_record r plan target =
     (if mr_generator r = LLAMA_CPP_GENERATOR_VERSION_V1 \<and> target = TargetCpu \<and> mr_request_observations r = []
      then Ok ()
      else if mr_generator r = LLAMA_CPP_GENERATOR_VERSION
      then (if length (mr_request_observations r) \<noteq> unat (wl_requests (sp_workload (ex_spec (re_experiment plan))))
        then invalid_measurements ''llamaCpp v2 request-observation cardinality does not match workload.requests''
        else if list_ex (\<lambda>(index, observation). observation_invalid index observation)
          (zip [0..<length (mr_request_observations r)] (mr_request_observations r))
        then invalid_measurements ''llamaCpp v2 request observation is out of order or invalid''
        else validate_llama_v2_aggregate_consistency r)
      else invalid_measurements ''llamaCpp measurement generator is not supported'')"

definition validate_measurement_record ::
  "MeasurementRecord \<Rightarrow> u32 \<Rightarrow> u32 \<Rightarrow> ResolvedExperiment \<Rightarrow> string option \<Rightarrow> unit verdict" where
  "validate_measurement_record r position warmup_count plan prior_generator =
     (if aggregate_mismatch r position warmup_count plan prior_generator
      then invalid_measurements (''aggregate record '' @ show_word (position + 1)
        @ '' does not match the resolved execution'')
      else case sp_runtime (ex_spec (re_experiment plan)) of
        RuntimeLocalFake _ _ \<Rightarrow>
          if mr_generator r \<noteq> LOCAL_FAKE_GENERATOR_VERSION \<or> mr_request_observations r \<noteq> []
          then invalid_measurements ''localFake measurement contract is not supported'' else Ok ()
      | RuntimeCpuProbe _ _ \<Rightarrow>
          if mr_generator r \<noteq> CPU_PROBE_GENERATOR_VERSION \<or> mr_request_observations r \<noteq> []
          then invalid_measurements ''cpuProbe measurement contract is not supported'' else Ok ()
      | RuntimeLlamaCpp target _ _ \<Rightarrow> validate_llama_record r plan target
      | RuntimeVllm _ _ _ \<Rightarrow> invalid_measurements ''vLLM execution evidence is not supported'')"

definition expected_measurement_counts :: "ResolvedExperiment \<Rightarrow> RunState \<Rightarrow> (u32 \<times> u32) verdict" where
  "expected_measurement_counts plan run_status = (let
       m = sp_measurement (ex_spec (re_experiment plan));
       helper = (case run_status of
           Succeeded \<Rightarrow> Ok (ms_warmup_runs m, ms_repetitions m)
         | Failed \<Rightarrow> Ok (0, 0)
         | _ \<Rightarrow> invalid_measurements ''helper-backed run has an unsupported terminal status'')
     in case (sp_provider (ex_spec (re_experiment plan)), sp_runtime (ex_spec (re_experiment plan))) of
       (ProviderLocalFake, RuntimeLocalFake _ scenario) \<Rightarrow> (let
           (expected_status, measured) = (case scenario of
               ScenarioSuccess \<Rightarrow> (Succeeded, ms_repetitions m)
             | ScenarioInsufficientMeasurements \<Rightarrow> (Succeeded, saturating_sub (ms_repetitions m) 1)
             | ScenarioRuntimeFailure \<Rightarrow> (Failed, min (saturating_sub (ms_repetitions m) 1) 1)
             | ScenarioInterrupted \<Rightarrow> (Interrupted, min (saturating_sub (ms_repetitions m) 1) 1))
         in if run_status \<noteq> expected_status
            then invalid_measurements ''localFake scenario does not match run status''
            else Ok (ms_warmup_runs m, measured))
     | (ProviderLocal, RuntimeCpuProbe _ _) \<Rightarrow> helper
     | (ProviderLocal, RuntimeLlamaCpp _ _ _) \<Rightarrow> helper
     | _ \<Rightarrow> invalid_measurements ''resolved provider/runtime combination is not executable'')"

record MeasurementValidation =
  mv_measured_records :: u32
  mv_generator :: "string option"
  mv_records :: "MeasurementRecord list"

definition measurements_path :: string where "measurements_path = ''attempts/0001/measurements.jsonl''"

text \<open>A line without its line feed and an optional carriage return.\<close>

definition strip_line_end :: "bytes \<Rightarrow> bytes" where
  "strip_line_end line = strip_cr (butlast line)"

record MeasurementScan =
  sn_seen :: bytes
  sn_position :: u32
  sn_generator :: "string option"
  sn_records :: "MeasurementRecord list"

definition scan_line ::
  "Codecs \<Rightarrow> ResolvedExperiment \<Rightarrow> u32 \<Rightarrow> u32 \<Rightarrow> bytes \<Rightarrow> MeasurementScan \<Rightarrow> MeasurementScan verdict" where
  "scan_line c plan expected_warmups expected_total line s =
     (if length (sn_seen s) + length line > MAX_MEASUREMENTS_BYTES
      then invalid_measurements ''measurement payload exceeds its parsing limit''
      else if length line > MAX_MEASUREMENT_LINE_BYTES
      then invalid_measurements ''measurement record exceeds its line bound''
      else if last line \<noteq> CHR 0x0A
      then invalid_measurements ''measurement JSONL ends with a truncated record''
      else if strip_line_end line = [] \<or> sn_position s \<ge> expected_total
      then invalid_measurements ''measurement sequence has an empty or extra record''
      else and_then (map_err (InvalidRecord measurements_path) (cd_measurement c (strip_line_end line))) (\<lambda>r.
        and_then (validate_measurement_record r (sn_position s) expected_warmups plan (sn_generator s)) (\<lambda>_.
        Ok \<lparr>sn_seen = sn_seen s @ line, sn_position = sn_position s + 1,
          sn_generator = (case sn_generator s of None \<Rightarrow> Some (mr_generator r) | g \<Rightarrow> g),
          sn_records = sn_records s @ [r]\<rparr>)))"

function scan_measurements ::
  "Codecs \<Rightarrow> ResolvedExperiment \<Rightarrow> u32 \<Rightarrow> u32 \<Rightarrow> bytes \<Rightarrow> MeasurementScan \<Rightarrow> MeasurementScan verdict" where
  "scan_measurements c plan w n bs s = (if bs = [] then Ok s
     else case scan_line c plan w n (fst (read_until bs)) s of
       Inl e \<Rightarrow> Err e
     | Inr s' \<Rightarrow> scan_measurements c plan w n (snd (read_until bs)) s')"
  by pat_completeness auto
termination
  by (relation "measure (\<lambda>(_, _, _, _, bs, _). length bs)") (auto simp: read_until_rest)

declare scan_measurements.simps [simp del]

definition validate_measurements ::
  "Codecs \<Rightarrow> bytes verdict \<Rightarrow> string \<Rightarrow> ResolvedExperiment \<Rightarrow> RunState \<Rightarrow> MeasurementValidation verdict" where
  "validate_measurements c file expected_digest plan run_status = and_then file (\<lambda>content.
     if length content > MAX_MEASUREMENTS_BYTES
     then invalid_measurements (measurements_path @ '' exceeds the '' @ show_nat MAX_MEASUREMENTS_BYTES
       @ ''-byte parsing limit'')
     else and_then (expected_measurement_counts plan run_status) (\<lambda>(expected_warmups, expected_measured).
     and_then (ok_or (InvalidMeasurements ''record count overflowed'')
       (checked_add expected_warmups expected_measured)) (\<lambda>expected_total.
     and_then (scan_measurements c plan expected_warmups expected_total content
       \<lparr>sn_seen = [], sn_position = 0, sn_generator = None, sn_records = []\<rparr>) (\<lambda>s.
     if cd_hex c (cd_sha256 c (sn_seen s)) \<noteq> expected_digest then Err (ChecksumMismatch measurements_path)
     else if sn_position s \<noteq> expected_total
     then invalid_measurements (''measurement sequence has '' @ show_word (sn_position s)
       @ '' records; expected '' @ show_word expected_total)
     else Ok \<lparr>mv_measured_records = expected_measured, mv_generator = sn_generator s,
       mv_records = sn_records s\<rparr>))))"

end
