(* ===== verification/MeanBounds.thy ===== *)
theory MeanBounds
  imports Evidence
begin

text \<open>
  The bounds the verifier puts on an aggregate: a helper measures in nanoseconds and reports each
  request, and the mean over the requests, rounded up to microseconds. The verifier sees only the
  rounded values. The theorem shows that \<open>rounded_request_mean_bounds\<close> is exactly the set of aggregates
  that some raw measurement explains.
\<close>

subsection \<open>Sums between bounds\<close>

text \<open>A raw measurement that rounds up to \<open>m\<close> microseconds.\<close>

definition rounds_to :: "nat \<Rightarrow> nat \<Rightarrow> bool" where
  "rounds_to m raw \<longleftrightarrow> ceil_div raw 1000 = m"

lemma rounds_to_iff: "0 < m \<Longrightarrow> rounds_to m raw \<longleftrightarrow> (m - 1) * 1000 + 1 \<le> raw \<and> raw \<le> m * 1000"
  using ceil_div_le_iff [of 1000 raw m] ceil_div_le_iff [of 1000 raw "m - 1"] by (auto simp: rounds_to_def)

text \<open>The possible sums of raw measurements are the whole interval between the extreme ones.\<close>

lemma sum_between:
  assumes "\<forall>m \<in> set ms. 0 < m"
  shows "(\<exists>raws. list_all2 rounds_to ms raws \<and> sum_list raws = s) \<longleftrightarrow>
    sum_list (map (\<lambda>m. (m - 1) * 1000 + 1) ms) \<le> s \<and> s \<le> sum_list (map (\<lambda>m. m * 1000) ms)"
  using assms
proof (induction ms arbitrary: s)
  case (Cons m ms)
  let ?lo = "\<lambda>ms. sum_list (map (\<lambda>m. (m - 1) * 1000 + 1) ms)" and ?hi = "\<lambda>ms. sum_list (map (\<lambda>m. m * 1000) ms)"
  have m: "0 < m" using Cons.prems by simp
  have IH: "\<And>s. (\<exists>raws. list_all2 rounds_to ms raws \<and> sum_list raws = s) \<longleftrightarrow> ?lo ms \<le> s \<and> s \<le> ?hi ms"
    using Cons by simp
  have "(\<exists>raws. list_all2 rounds_to (m # ms) raws \<and> sum_list raws = s)
      \<longleftrightarrow> (\<exists>r t. rounds_to m r \<and> (\<exists>raws. list_all2 rounds_to ms raws \<and> sum_list raws = t) \<and> r + t = s)"
  proof
    assume "\<exists>r t. rounds_to m r \<and> (\<exists>raws. list_all2 rounds_to ms raws \<and> sum_list raws = t) \<and> r + t = s"
    then obtain r raws where "rounds_to m r" "list_all2 rounds_to ms raws" "r + sum_list raws = s" by blast
    then show "\<exists>raws. list_all2 rounds_to (m # ms) raws \<and> sum_list raws = s" by (intro exI [of _ "r # raws"]) simp
  next
    assume "\<exists>raws. list_all2 rounds_to (m # ms) raws \<and> sum_list raws = s"
    then obtain r raws where "rounds_to m r" "list_all2 rounds_to ms raws" "r + sum_list raws = s"
      by (auto simp: list_all2_Cons1)
    then show "\<exists>r t. rounds_to m r \<and> (\<exists>raws. list_all2 rounds_to ms raws \<and> sum_list raws = t) \<and> r + t = s" by blast
  qed
  also have "\<dots> \<longleftrightarrow> (\<exists>r t. (m - 1) * 1000 + 1 \<le> r \<and> r \<le> m * 1000 \<and> ?lo ms \<le> t \<and> t \<le> ?hi ms \<and> r + t = s)"
    unfolding IH rounds_to_iff [OF m] by blast
  also have "\<dots> \<longleftrightarrow> ?lo (m # ms) \<le> s \<and> s \<le> ?hi (m # ms)"
  proof
    assume *: "?lo (m # ms) \<le> s \<and> s \<le> ?hi (m # ms)"
    have lohi: "?lo ms \<le> ?hi ms" by (rule sum_list_mono) (use Cons.prems in auto)
    define t where "t = max (?lo ms) (s - m * 1000)"
    have "?lo ms \<le> t \<and> t \<le> ?hi ms \<and> t \<le> s \<and> (m - 1) * 1000 + 1 \<le> s - t \<and> s - t \<le> m * 1000"
      using * lohi m unfolding t_def by (simp add: max_def) linarith
    then show "\<exists>r t. (m - 1) * 1000 + 1 \<le> r \<and> r \<le> m * 1000 \<and> ?lo ms \<le> t \<and> t \<le> ?hi ms \<and> r + t = s"
      by (intro exI [of _ "s - t"] exI [of _ t]) simp
  qed auto
  finally show ?case .
qed simp

lemma sum_micros:
  "sum_list (map (\<lambda>m. m * 1000) ms) = sum_list ms * 1000"
  "\<forall>m \<in> set ms. 0 < m \<Longrightarrow> sum_list (map (\<lambda>m. (m - 1) * 1000 + 1) ms) = (sum_list ms - length ms) * 1000 + length ms"
  "\<forall>m \<in> set ms. 0 < m \<Longrightarrow> length ms \<le> sum_list ms"
proof (induction ms)
  case (Cons m ms)
  { case 1 then show ?case using Cons by simp }
  { case 2
    then have "length ms \<le> sum_list ms" "0 < m" using Cons by simp_all
    then show ?case using Cons 2 by (simp add: algebra_simps) }
  { case 3 then show ?case using Cons by fastforce }
qed simp_all

subsection \<open>The computed bounds\<close>

lemma fold_count_value:
  assumes "unat n + length xs < 2 ^ 128" and "unat t + sum_list (map unat xs) < 2 ^ 128"
  shows "\<exists>n' t'. fold_count xs (n, t) = Some (n', t') \<and> unat n' = unat n + length xs
    \<and> unat t' = unat t + sum_list (map unat xs)"
  using assms
proof (induction xs arbitrary: n t)
  case (Cons x xs)
  have n: "unat (n + 1) = unat n + 1" and t: "unat (t + ucast x) = unat t + unat x"
    using Cons.prems by simp_all
  have "checked_add n 1 = Some (n + 1)" "checked_add t (ucast x) = Some (t + ucast x)"
    using Cons.prems by (simp_all add: checked_add_def)
  then show ?case using Cons.IH [of "n + 1" "t + ucast x"] Cons.prems n t by (simp add: add.assoc)
qed simp

lemma unat_ceil_div_u128: "0 < unat b \<Longrightarrow> unat (ceil_div_u128 a b) = ceil_div (unat a) (unat b)"
proof -
  assume "0 < unat b"
  moreover have "ceil_div_u128 a b = div_ceil a b" by (simp add: ceil_div_u128_def div_ceil_def)
  ultimately show ?thesis by (simp add: unat_div_ceil)
qed

lemma sum_list_u64: "sum_list (map unat (xs :: u64 list)) \<le> length xs * (2 ^ 64 - 1)"
proof (induction xs)
  case (Cons x xs)
  have "(2 :: nat) ^ 64 - 1 = 18446744073709551615" by simp
  then have "unat x \<le> 2 ^ 64 - 1" using unat_u64_bound [of x] by linarith
  then show ?case using Cons by simp
qed simp

lemma try_into_fits: "unat a < 2 ^ 64 \<Longrightarrow> \<exists>b. try_into (a :: u128) = Some (b :: u64) \<and> unat b = unat a"
proof -
  assume "unat a < 2 ^ 64"
  then have "unat (of_nat (unat a) :: u64) = unat a" by (intro unat_of_nat_small) simp
  then show ?thesis by (metis try_into_eq_Some)
qed

lemma rounded_request_mean_bounds_value:
  assumes ne: "xs \<noteq> []" and pos: "\<forall>x \<in> set xs. 0 < x" and len: "length xs < 2 ^ 32"
  defines "n \<equiv> length xs" and "t \<equiv> sum_list (map unat xs)"
  shows "\<exists>lo hi. rounded_request_mean_bounds xs = Some (lo, hi)
    \<and> unat lo = ceil_div ((t - n) * 1000 + n) (n * 1000) \<and> unat hi = ceil_div (t * 1000) (n * 1000)"
proof -
  have n: "0 < n" "n < 2 ^ 32" using ne len by (simp_all add: n_def)
  have "\<forall>m \<in> set (map unat xs). 0 < m" using pos by (auto simp: word_less_nat_alt)
  from sum_micros(3) [OF this] have nt: "n \<le> t" by (simp add: n_def t_def)
  have t: "t \<le> n * (2 ^ 64 - 1)" unfolding n_def t_def by (rule sum_list_u64)
  then have "t \<le> 2 ^ 32 * (2 ^ 64 - 1)" using n(2) by (meson le_trans less_imp_le mult_le_mono1)
  then have small: "t * 1000 < 2 ^ 128" "n * 1000 < 2 ^ 128" using n(2) by simp_all
  have "(t - n) * 1000 + n \<le> (t - n) * 1000 + n * 1000" by simp
  also have "\<dots> = t * 1000" using nt by (simp add: diff_mult_distrib)
  finally have low: "(t - n) * 1000 + n \<le> t * 1000" .
  obtain c r where cr: "fold_count xs (0, 0) = Some (c, r)" "unat c = n" "unat r = t"
    using fold_count_value [of 0 xs 0] small nt by (auto simp: n_def t_def)
  define e where "e = r - c"
  have d: "unat e = t - n" using cr nt by (simp add: e_def unat_sub word_le_nat_alt)
  have dm: "unat (e * 1000) = (t - n) * 1000" using small low d by simp
  have mn: "unat (e * 1000 + c) = (t - n) * 1000 + n" using small low dm cr(2) by simp
  have mx: "unat (r * 1000) = t * 1000" "unat (c * 1000) = n * 1000" using small cr by simp_all
  have hi: "ceil_div (t * 1000) (n * 1000) < 2 ^ 64"
  proof -
    have "t * 1000 \<le> (2 ^ 64 - 1) * (n * 1000)" using t by (simp add: mult.commute mult.left_commute)
    then have "ceil_div (t * 1000) (n * 1000) \<le> 2 ^ 64 - 1" using n(1) by (simp add: ceil_div_le_iff)
    then show ?thesis by simp
  qed
  have lo: "ceil_div ((t - n) * 1000 + n) (n * 1000) < 2 ^ 64" using ceil_div_mono [OF low] hi by (rule le_less_trans)
  obtain l h :: u64 where l: "try_into (ceil_div_u128 (e * 1000 + c) (c * 1000)) = Some l"
      "unat l = ceil_div ((t - n) * 1000 + n) (n * 1000)"
    and h: "try_into (ceil_div_u128 (r * 1000) (c * 1000)) = Some h" "unat h = ceil_div (t * 1000) (n * 1000)"
    using try_into_fits [of "ceil_div_u128 (e * 1000 + c) (c * 1000)"]
      try_into_fits [of "ceil_div_u128 (r * 1000) (c * 1000)"] hi lo mn mx n(1)
    by (auto simp: unat_ceil_div_u128)
  have "c \<noteq> 0" "\<not> r < c" using cr n(1) nt by (auto simp: word_less_nat_alt unat_eq_0)
  then have "rounded_request_mean_bounds xs = Some (l, h)"
    using cr small low d dm mn nt l(1) h(1)
    by (simp add: rounded_request_mean_bounds_def checked_sub_def checked_mul_def checked_add_def flip: e_def)
  then show ?thesis using l(2) h(2) by blast
qed

text \<open>
  C16. The verifier's bounds on a reported mean are sound and tight: for positive request values, an
  aggregate lies between the bounds exactly if there are raw nanosecond measurements that round up to
  the reported request values and whose mean rounds up to the aggregate. The 128-bit arithmetic does not
  overflow and both bounds fit into 64 bits.
\<close>

theorem rounded_request_mean_bounds_tight:
  assumes "xs \<noteq> []" and "\<forall>x \<in> set xs. 0 < x" and "length xs < 2 ^ 32"
  shows "\<exists>lo hi. rounded_request_mean_bounds xs = Some (lo, hi)
    \<and> (\<forall>m. unat lo \<le> m \<and> m \<le> unat hi \<longleftrightarrow>
      (\<exists>raws. list_all2 rounds_to (map unat xs) raws \<and> m = ceil_div (sum_list raws) (length xs * 1000)))"
proof -
  let ?n = "length xs" and ?t = "sum_list (map unat xs)"
  let ?min = "(?t - ?n) * 1000 + ?n" and ?max = "?t * 1000" and ?d = "?n * 1000"
  have pos: "\<forall>m \<in> set (map unat xs). 0 < m" using assms(2) by (auto simp: word_less_nat_alt)
  have d: "0 < ?d" using assms(1) by simp
  have sums: "(\<exists>raws. list_all2 rounds_to (map unat xs) raws \<and> sum_list raws = s) \<longleftrightarrow> ?min \<le> s \<and> s \<le> ?max" for s
    using sum_between [OF pos] sum_micros(1,2) [of "map unat xs"] pos by simp
  have "ceil_div ?min ?d \<le> m \<and> m \<le> ceil_div ?max ?d \<longleftrightarrow> (\<exists>s. ?min \<le> s \<and> s \<le> ?max \<and> m = ceil_div s ?d)" for m
  proof
    assume *: "ceil_div ?min ?d \<le> m \<and> m \<le> ceil_div ?max ?d"
    have "ceil_div (min (m * ?d) ?max) ?d = m"
    proof (cases "m * ?d \<le> ?max")
      case True
      then show ?thesis using d by (simp add: ceil_div_eq)
    next
      case False
      then have "ceil_div ?max ?d \<le> m" using d by (simp add: ceil_div_le_iff)
      then show ?thesis using False * by simp
    qed
    moreover have "?min \<le> m * ?d" using * d ceil_div_le_iff by blast
    moreover have "?min \<le> ?max" using sum_micros(3) [OF pos] by simp
    ultimately show "\<exists>s. ?min \<le> s \<and> s \<le> ?max \<and> m = ceil_div s ?d"
      by (intro exI [of _ "min (m * ?d) ?max"]) simp
  qed (auto intro: ceil_div_mono)
  then show ?thesis
    using rounded_request_mean_bounds_value [OF assms] sums by metis
qed

theorem rounded_request_mean_bounds_tight_witness:
  "\<exists>lo hi. rounded_request_mean_bounds [3, 4] = Some (lo, hi) \<and> unat lo \<le> 4 \<and> 4 \<le> unat hi"
proof -
  obtain lo hi where b: "rounded_request_mean_bounds [3, 4] = Some (lo, hi)"
    "\<forall>m. unat lo \<le> m \<and> m \<le> unat hi \<longleftrightarrow>
      (\<exists>raws. list_all2 rounds_to (map unat [3, 4 :: u64]) raws \<and> m = ceil_div (sum_list raws) (length [3, 4 :: u64] * 1000))"
    using rounded_request_mean_bounds_tight [of "[3, 4]"] by auto
  have "list_all2 rounds_to (map unat [3, 4 :: u64]) [2900, 3800] \<and> 4 = ceil_div (sum_list [2900, 3800]) (2 * 1000)"
    by (simp add: rounds_to_def ceil_div_def)
  then have "unat lo \<le> 4 \<and> 4 \<le> unat hi" using b(2) by fastforce
  then show ?thesis using b(1) by blast
qed

end
