(* ===== verification/Lifecycle.thy ===== *)
theory Lifecycle
  imports EvidenceSchema
begin

text \<open>
  The run's state machine, \<open>src/crates/benchplane-core/src/lifecycle.rs\<close>: the \<open>Lifecycle\<close> struct,
  its constructor and its only mutating operation, \<open>transition\<close>. The lifecycles a
  sequence of accepted transitions leads to are the inductive predicate \<open>reachable_from_new\<close>. The
  lemmas show that a journal written by any sequence of
  transition requests is a gap-free chain over the documented graph with at most six events, so the
  64-bit sequence counter never wraps, and that a terminal state is final.
\<close>

datatype LifecycleError = InvalidTransition RunState RunState

record Lifecycle =
  lf_run_id :: string
  lf_state :: RunState
  lf_next_sequence :: u64
  lf_attempt_number :: u32

definition lifecycle_new :: "string \<Rightarrow> string \<Rightarrow> u32 \<Rightarrow> Lifecycle \<times> LifecycleEvent" where
  "lifecycle_new run_id recorded_at attempt_number =
     (\<lparr>lf_run_id = run_id, lf_state = Created, lf_next_sequence = 2,
        lf_attempt_number = attempt_number\<rparr>,
      \<lparr>le_run_id = run_id, le_sequence = 1, le_recorded_at = recorded_at, le_from_state = None,
        le_to_state = Created, le_attempt_number = attempt_number, le_failure = None\<rparr>)"

fun is_valid_transition :: "RunState \<Rightarrow> RunState \<Rightarrow> bool" where
  "is_valid_transition Created Preparing = True"
| "is_valid_transition Preparing Running = True"
| "is_valid_transition Preparing Finalizing = True"
| "is_valid_transition Running Collecting = True"
| "is_valid_transition Running Finalizing = True"
| "is_valid_transition Collecting Finalizing = True"
| "is_valid_transition Finalizing Succeeded = True"
| "is_valid_transition Finalizing Failed = True"
| "is_valid_transition Finalizing Interrupted = True"
| "is_valid_transition _ _ = False"

definition transition ::
  "Lifecycle \<Rightarrow> RunState \<Rightarrow> string \<Rightarrow> FailureRecord option
     \<Rightarrow> (LifecycleError + LifecycleEvent) \<times> Lifecycle" where
  "transition lc to recorded_at failure =
     (if \<not> is_valid_transition (lf_state lc) to then (Err (InvalidTransition (lf_state lc) to), lc)
      else (Ok \<lparr>le_run_id = lf_run_id lc, le_sequence = lf_next_sequence lc,
                le_recorded_at = recorded_at, le_from_state = Some (lf_state lc), le_to_state = to,
                le_attempt_number = lf_attempt_number lc, le_failure = failure\<rparr>,
            lc\<lparr>lf_state := to, lf_next_sequence := lf_next_sequence lc + 1\<rparr>))"

subsection \<open>Interface: a journaled machine\<close>

text \<open>
  What the run driver relies on: every accepted request emits one event and brings the machine
  strictly closer to its end, and a refused request changes nothing.
\<close>

locale journaled_machine =
  fixes apply_request :: "'s \<Rightarrow> 'r \<Rightarrow> ('e + 'ev) \<times> 's"
    and remaining :: "'s \<Rightarrow> nat"
  assumes accepted_decreases: "apply_request s r = (Ok ev, s') \<Longrightarrow> remaining s' < remaining s"
    and refused_unchanged: "apply_request s r = (Err e, s') \<Longrightarrow> s' = s"
begin

fun drive :: "'s \<Rightarrow> 'r list \<Rightarrow> 's \<times> 'ev list" where
  "drive s [] = (s, [])"
| "drive s (r # rs) = (case apply_request s r of
     (Inl _, s') \<Rightarrow> drive s' rs
   | (Inr ev, s') \<Rightarrow> (case drive s' rs of (t, evs) \<Rightarrow> (t, ev # evs)))"

lemma drive_bounded: "drive s rs = (t, evs) \<Longrightarrow> length evs + remaining t \<le> remaining s"
proof (induction rs arbitrary: s t evs)
  case Nil
  then show ?case by simp
next
  case (Cons r rs)
  show ?case
  proof (cases "apply_request s r")
    case (Pair res s')
    show ?thesis
    proof (cases res)
      case (Inl e)
      then have "s' = s" using Pair refused_unchanged by blast
      then show ?thesis using Cons.IH [of s t evs] Cons.prems Inl Pair by simp
    next
      case (Inr ev)
      then obtain evs' where rest: "drive s' rs = (t, evs')" and evs: "evs = ev # evs'"
        using Cons.prems Pair by (auto split: prod.splits)
      have "remaining s' < remaining s" using Inr Pair accepted_decreases by blast
      then show ?thesis using Cons.IH [OF rest] evs by simp
    qed
  qed
qed

lemma exhausted_refuses: "remaining s = 0 \<Longrightarrow> drive s rs = (s, [])"
proof (induction rs)
  case (Cons r rs)
  obtain res s' where res: "apply_request s r = (res, s')" by (cases "apply_request s r")
  show ?case
  proof (cases res)
    case (Inl e)
    then show ?thesis using res refused_unchanged [of s r e s'] Cons by simp
  next
    case (Inr ev)
    then show ?thesis using res accepted_decreases [of s r ev s'] Cons.prems by simp
  qed
qed simp

end

subsection \<open>The lifecycle as a journaled machine\<close>

type_synonym transition_request = "RunState \<times> string \<times> FailureRecord option"

definition request_transition ::
  "Lifecycle \<Rightarrow> transition_request \<Rightarrow> (LifecycleError + LifecycleEvent) \<times> Lifecycle" where
  "request_transition lc r = (case r of (to, recorded_at, failure) \<Rightarrow> transition lc to recorded_at failure)"

text \<open>The length of the longest path to a terminal state.\<close>

fun steps_left :: "RunState \<Rightarrow> nat" where
  "steps_left Created = 5"
| "steps_left Preparing = 4"
| "steps_left Running = 3"
| "steps_left Collecting = 2"
| "steps_left Finalizing = 1"
| "steps_left _ = 0"

lemma valid_transition_decreases: "is_valid_transition a b \<Longrightarrow> steps_left b < steps_left a"
  by (cases a; cases b) simp_all

lemma valid_transition_increases: "is_valid_transition a b \<Longrightarrow> a < b"
  by (cases a; cases b) (simp_all add: less_RunState_def)

lemma terminal_iff_steps_left: "is_terminal s \<longleftrightarrow> steps_left s = 0"
  by (cases s) simp_all

lemma transition_Ok_iff:
  "transition lc to at f = (Ok ev, lc') \<longleftrightarrow> is_valid_transition (lf_state lc) to \<and>
     lc' = lc\<lparr>lf_state := to, lf_next_sequence := lf_next_sequence lc + 1\<rparr> \<and>
     ev = \<lparr>le_run_id = lf_run_id lc, le_sequence = lf_next_sequence lc, le_recorded_at = at,
       le_from_state = Some (lf_state lc), le_to_state = to,
       le_attempt_number = lf_attempt_number lc, le_failure = f\<rparr>"
  by (auto simp: transition_def)

lemma transition_Err_iff:
  "transition lc to at f = (Err e, lc') \<longleftrightarrow> \<not> is_valid_transition (lf_state lc) to \<and>
     lc' = lc \<and> e = InvalidTransition (lf_state lc) to"
  by (auto simp: transition_def)

interpretation lifecycle_machine: journaled_machine request_transition "\<lambda>lc. steps_left (lf_state lc)"
  by unfold_locales
    (auto simp: request_transition_def transition_Ok_iff transition_Err_iff
      valid_transition_decreases split: prod.splits)

fun drive_lifecycle :: "Lifecycle \<Rightarrow> transition_request list \<Rightarrow> Lifecycle \<times> LifecycleEvent list" where
  "drive_lifecycle lc [] = (lc, [])"
| "drive_lifecycle lc ((to, at, f) # rs) = (case transition lc to at f of
     (Inl _, lc') \<Rightarrow> drive_lifecycle lc' rs
   | (Inr ev, lc') \<Rightarrow> (case drive_lifecycle lc' rs of (t, evs) \<Rightarrow> (t, ev # evs)))"

lemma request_transition_eq [simp]: "request_transition lc (to, at, f) = transition lc to at f"
  by (simp add: request_transition_def)

lemma drive_lifecycle_eq: "drive_lifecycle lc rs = lifecycle_machine.drive lc rs"
  by (induction lc rs rule: drive_lifecycle.induct) (auto split: prod.splits sum.splits)

subsection \<open>Well-formed journals\<close>

text \<open>
  A journal is well-formed from sequence number \<open>n\<close> and state \<open>s\<close> when its events carry one run
  and attempt, consecutive numbers, and states that chain along the transition graph.
\<close>

fun journal_from :: "string \<Rightarrow> u32 \<Rightarrow> nat \<Rightarrow> RunState \<Rightarrow> LifecycleEvent list \<Rightarrow> bool" where
  "journal_from run a n s [] = True"
| "journal_from run a n s (ev # evs) =
     (le_run_id ev = run \<and> le_attempt_number ev = a \<and> unat (le_sequence ev) = n
      \<and> le_from_state ev = Some s \<and> is_valid_transition s (le_to_state ev)
      \<and> journal_from run a (Suc n) (le_to_state ev) evs)"

fun final_state :: "RunState \<Rightarrow> LifecycleEvent list \<Rightarrow> RunState" where
  "final_state s [] = s"
| "final_state s (ev # evs) = final_state (le_to_state ev) evs"

lemma drive_journal_from:
  assumes "drive_lifecycle lc rs = (t, evs)"
    and "unat (lf_next_sequence lc) + steps_left (lf_state lc) < 2 ^ 64"
  shows "journal_from (lf_run_id lc) (lf_attempt_number lc) (unat (lf_next_sequence lc)) (lf_state lc) evs
    \<and> final_state (lf_state lc) evs = lf_state t
    \<and> unat (lf_next_sequence t) = unat (lf_next_sequence lc) + length evs"
  using assms
proof (induction lc rs arbitrary: t evs rule: drive_lifecycle.induct)
  case (1 lc)
  then show ?case by simp
next
  case (2 lc to at f rs)
  show ?case
  proof (cases "is_valid_transition (lf_state lc) to")
    case False
    then show ?thesis using 2 by (simp add: transition_def)
  next
    case True
    define lc' where "lc' = lc\<lparr>lf_state := to, lf_next_sequence := lf_next_sequence lc + 1\<rparr>"
    obtain ev where tr: "transition lc to at f = (Ok ev, lc')"
      and ev: "le_run_id ev = lf_run_id lc" "le_attempt_number ev = lf_attempt_number lc"
        "le_sequence ev = lf_next_sequence lc" "le_from_state ev = Some (lf_state lc)" "le_to_state ev = to"
      using True by (simp add: transition_def lc'_def)
    obtain evs' where rest: "drive_lifecycle lc' rs = (t, evs')" and evs: "evs = ev # evs'"
      using "2.prems"(1) tr by (auto split: prod.splits)
    have "steps_left to < steps_left (lf_state lc)" using True by (rule valid_transition_decreases)
    then have seq': "unat (lf_next_sequence lc') = Suc (unat (lf_next_sequence lc))"
      and small: "unat (lf_next_sequence lc') + steps_left (lf_state lc') < 2 ^ 64"
      using "2.prems"(2) by (simp_all add: lc'_def)
    show ?thesis using "2.IH"(2) [OF tr [symmetric] refl rest small] seq' ev evs True by (simp add: lc'_def)
  qed
qed

text \<open>
  The journal of a run: the creation event, then what the accepted requests emit.
\<close>

definition journal :: "string \<Rightarrow> string \<Rightarrow> u32 \<Rightarrow> transition_request list \<Rightarrow> LifecycleEvent list" where
  "journal run_id at a rs = (case lifecycle_new run_id at a of (lc, ev) \<Rightarrow> ev # snd (drive_lifecycle lc rs))"

text \<open>
  C26. Whatever transitions are requested of a new lifecycle, its journal starts with the creation
  event numbered 1, continues with consecutive numbers along valid edges of the graph, and has at
  most six events.
\<close>

theorem journal_well_formed:
  "\<exists>ev evs. journal run_id at a rs = ev # evs \<and> le_sequence ev = 1 \<and> le_from_state ev = None
     \<and> le_to_state ev = Created \<and> journal_from run_id a 2 Created evs \<and> length evs \<le> 5"
proof -
  define lc where "lc = fst (lifecycle_new run_id at a)"
  obtain t evs where d: "drive_lifecycle lc rs = (t, evs)" by (cases "drive_lifecycle lc rs")
  have lc: "lf_run_id lc = run_id" "lf_state lc = Created" "lf_next_sequence lc = 2"
    "lf_attempt_number lc = a"
    by (simp_all add: lc_def lifecycle_new_def)
  have "journal_from run_id a 2 Created evs" using drive_journal_from [OF d] lc by simp
  moreover have "length evs \<le> 5"
    using lifecycle_machine.drive_bounded [of lc rs t evs] d lc by (simp add: drive_lifecycle_eq)
  ultimately show ?thesis
    using d by (simp add: journal_def lc_def lifecycle_new_def)
qed

text \<open>
  C27. A terminal run state is final: every later request is refused and leaves the lifecycle as it
  is, so no event is ever journaled after a terminal one.
\<close>

theorem terminal_is_final: "is_terminal (lf_state lc) \<Longrightarrow> drive_lifecycle lc rs = (lc, [])"
  by (simp add: drive_lifecycle_eq lifecycle_machine.exhausted_refuses terminal_iff_steps_left)

theorem terminal_is_final_witness:
  "drive_lifecycle \<lparr>lf_run_id = ''run-1'', lf_state = Failed, lf_next_sequence = 5, lf_attempt_number = 1\<rparr>
     [(Finalizing, ''t'', None), (Succeeded, ''t'', None)]
   = (\<lparr>lf_run_id = ''run-1'', lf_state = Failed, lf_next_sequence = 5, lf_attempt_number = 1\<rparr>, [])"
  by (rule terminal_is_final) simp

subsection \<open>Reachable lifecycles\<close>

inductive reachable_from_new :: "string \<Rightarrow> u32 \<Rightarrow> Lifecycle \<Rightarrow> RunState list \<Rightarrow> bool"
  for run a where
  new: "reachable_from_new run a (fst (lifecycle_new run at a)) [Created]"
| step: "reachable_from_new run a lc path \<Longrightarrow> transition lc to at f = (Ok ev, lc') \<Longrightarrow>
    reachable_from_new run a lc' (path @ [to])"

text \<open>
  The visited states increase strictly, and a lifecycle past \<open>Preparing\<close> has been prepared.
\<close>

lemma strict_sorted_le_last:
  assumes "sorted_wrt (<) (xs :: 'a::linorder list)" and "x \<in> set xs"
  shows "x \<le> last xs"
proof -
  have "xs \<noteq> []" using assms(2) by auto
  then have eq: "xs = butlast xs @ [last xs]" by simp
  then have "\<forall>y\<in>set (butlast xs). y < last xs"
    using assms(1) by (metis sorted_wrt_append list.set_intros(1))
  moreover have "x \<in> set (butlast xs) \<or> x = last xs" using assms(2) eq by (metis Un_iff empty_iff
        empty_set insert_iff list.simps(15) set_append)
  ultimately show ?thesis by auto
qed

lemma reachable_invariant:
  "reachable_from_new run a lc path \<Longrightarrow> path \<noteq> [] \<and> last path = lf_state lc \<and> sorted_wrt (<) path
     \<and> hd path = Created \<and> (lf_state lc \<noteq> Created \<longrightarrow> Preparing \<in> set path)
     \<and> (is_terminal (lf_state lc) \<longrightarrow> Finalizing \<in> set path)"
proof (induction rule: reachable_from_new.induct)
  case (new at)
  then show ?case by (simp add: lifecycle_new_def)
next
  case (step lc path to at f ev lc')
  then have edge: "is_valid_transition (lf_state lc) to" and lc': "lf_state lc' = to"
    by (auto simp: transition_Ok_iff)
  have less: "lf_state lc < to" using edge by (rule valid_transition_increases)
  have "\<forall>s\<in>set path. s \<le> lf_state lc" using step.IH strict_sorted_le_last by metis
  then have "sorted_wrt (<) (path @ [to])" using step.IH less by (auto simp: sorted_wrt_append)
  moreover have "lf_state lc = Created \<Longrightarrow> to = Preparing" using edge by (cases to) auto
  moreover have "is_terminal to \<Longrightarrow> lf_state lc = Finalizing"
    using edge by (cases "lf_state lc"; cases to) auto
  ultimately show ?case using step.IH lc' last_in_set by fastforce
qed

text \<open>
  C28. A run that reached a terminal state was created, prepared and finalized first, in that
  order and visiting no state twice.
\<close>

theorem terminal_path:
  assumes "reachable_from_new run a lc path" and "is_terminal (lf_state lc)"
  shows "distinct path \<and> hd path = Created \<and> Preparing \<in> set path \<and> Finalizing \<in> set path
    \<and> last path = lf_state lc \<and> sorted path"
proof -
  have "sorted_wrt (<) path" using reachable_invariant [OF assms(1)] by simp
  then have "distinct path \<and> sorted path" by (simp add: strict_sorted_iff)
  then show ?thesis using reachable_invariant [OF assms(1)] assms(2) by auto
qed

theorem terminal_path_witness:
  "distinct [Created, Preparing, Finalizing, Failed] \<and> sorted [Created, Preparing, Finalizing, Failed]"
proof -
  let ?lc = "\<lambda>s n. \<lparr>lf_run_id = ''run-1'', lf_state = s, lf_next_sequence = n, lf_attempt_number = 1\<rparr>"
  have "reachable_from_new ''run-1'' 1 (?lc Created 2) [Created]"
    using reachable_from_new.new [of "''run-1''" 1 "''t''"] by (simp add: lifecycle_new_def)
  then have "reachable_from_new ''run-1'' 1 (?lc Preparing 3) ([Created] @ [Preparing])"
    by (rule reachable_from_new.step [where at = "''t''" and f = None]) (simp add: transition_def)
  then have "reachable_from_new ''run-1'' 1 (?lc Finalizing 4) (([Created] @ [Preparing]) @ [Finalizing])"
    by (rule reachable_from_new.step [where at = "''t''" and f = None]) (simp add: transition_def)
  then have "reachable_from_new ''run-1'' 1 (?lc Failed 5)
      ((([Created] @ [Preparing]) @ [Finalizing]) @ [Failed])"
    by (rule reachable_from_new.step [where at = "''t''" and f = None]) (simp add: transition_def)
  from terminal_path [OF this] show ?thesis by simp
qed

end
