(* ===== verification/EvidenceBundle.thy ===== *)
theory EvidenceBundle
  imports Evidence
begin

text \<open>
  The remaining record checks of \<open>src/crates/benchplane-core/src/evidence.rs\<close>: resources, provenance,
  the original document and the consistency of every record of a bundle with its manifest.
\<close>

subsection \<open>Resources and provenance\<close>

definition is_helper_runtime :: "ResolvedExperiment \<Rightarrow> bool" where
  "is_helper_runtime plan = (case (sp_provider (ex_spec (re_experiment plan)), sp_runtime (ex_spec (re_experiment plan))) of
     (ProviderLocal, RuntimeCpuProbe _ _) \<Rightarrow> True
   | (ProviderLocal, RuntimeLlamaCpp _ _ _) \<Rightarrow> True
   | _ \<Rightarrow> False)"

definition validate_attempt_resources ::
  "AttemptResources \<Rightarrow> EvidenceManifest \<Rightarrow> ResolvedExperiment \<Rightarrow> unit verdict" where
  "validate_attempt_resources r manifest plan =
     (if at_format r \<noteq> ATTEMPT_RESOURCES_FORMAT_V1 then invalid_resources ''unsupported format''
      else if at_run_id r \<noteq> em_run_id manifest \<or> at_attempt_number r \<noteq> 1
      then invalid_resources ''runId or attemptNumber does not match the bundle''
      else if at_peak_rss_bytes r mod 1024 \<noteq> 0
      then invalid_resources ''peakRssBytes is not an exact Linux KiB-to-byte conversion''
      else if at_scope r \<noteq> HelperProcessLifetime \<or> \<not> is_helper_runtime plan
      then invalid_resources ''resource scope does not apply to the resolved runtime''
      else Ok ())"

definition require_provenance_value :: "string \<Rightarrow> string \<Rightarrow> unit verdict" where
  "require_provenance_value value field =
     (if value = [] \<or> trim value \<noteq> value \<or> length value > MAX_PROVENANCE_VALUE_BYTES \<or> any_control value
      then invalid_provenance (field @ '' is empty, oversized, or contains controls'') else Ok ())"

definition optional_provenance_value :: "string option \<Rightarrow> string \<Rightarrow> unit verdict" where
  "optional_provenance_value value field =
     (case value of Some v \<Rightarrow> require_provenance_value v field | None \<Rightarrow> Ok ())"

definition NIX_BASE32 :: string where "NIX_BASE32 = ''0123456789abcdfghijklmnpqrsvwxyz''"

definition nix_store_path_ok :: "string \<Rightarrow> string \<Rightarrow> bool" where
  "nix_store_path_ok value entry = (let
       (hash, name) = (case split_once CHR ''-'' entry of None \<Rightarrow> ([], []) | Some p \<Rightarrow> p)
     in length value \<le> MAX_NIX_STORE_PATH_BYTES \<and> CHR ''/'' \<notin> set entry \<and> length hash = 32
       \<and> list_all (\<lambda>ch. ch \<in> set NIX_BASE32) hash \<and> name \<noteq> []
       \<and> list_all (\<lambda>ch. is_ascii_alphanumeric ch \<or> ch \<in> set ''+-._?='') name)"

definition optional_nix_store_path :: "string option \<Rightarrow> string \<Rightarrow> unit verdict" where
  "optional_nix_store_path value field = (case value of
     None \<Rightarrow> Ok ()
   | Some v \<Rightarrow> (case strip_prefix ''/nix/store/'' v of
       None \<Rightarrow> invalid_provenance (field @ '' is not a Nix store object path'')
     | Some entry \<Rightarrow> if nix_store_path_ok v entry then Ok ()
         else invalid_provenance (field @ '' is not a bounded Nix store object path'')))"

definition require_matching_generator :: "string \<Rightarrow> string option \<Rightarrow> unit verdict" where
  "require_matching_generator provenance_generator measurement_generator =
     (if is_some_and (\<lambda>g. g \<noteq> provenance_generator) measurement_generator
      then invalid_provenance ''runtime generator does not match measurements'' else Ok ())"

fun require_all :: "(string \<times> string) list \<Rightarrow> unit verdict" where
  "require_all [] = Ok ()"
| "require_all ((value, field) # rest) = and_then (require_provenance_value value field) (\<lambda>_. require_all rest)"

definition validate_nvidia_provenance :: "NvidiaGpuProvenance \<Rightarrow> unit verdict" where
  "validate_nvidia_provenance n =
     (if nv_vendor n \<noteq> ''NVIDIA'' \<or> nv_logical_device_index n \<noteq> 0 \<or> nv_total_vram_bytes n = 0
        \<or> \<not> nvidia_driver_version_supported (nv_nvidia_driver_version n)
        \<or> no_policy (nv_offload n) \<noteq> ''singleDeviceAllLayers'' \<or> no_total_layers (nv_offload n) = 0
        \<or> no_offloaded_layers (nv_offload n) \<noteq> no_total_layers (nv_offload n)
      then invalid_provenance ''NVIDIA device or offload proof is not supported''
      else and_then (require_all
        [(nv_device_name n, ''runtime.backend.nvidia.deviceName''),
         (nv_nvidia_driver_version n, ''runtime.backend.nvidia.nvidiaDriverVersion''),
         (nv_cuda_driver_version n, ''runtime.backend.nvidia.cudaDriverVersion''),
         (nv_cuda_runtime_version n, ''runtime.backend.nvidia.cudaRuntimeVersion''),
         (nv_cuda_toolkit_version n, ''runtime.backend.nvidia.cudaToolkitVersion''),
         (nv_compute_capability n, ''runtime.backend.nvidia.computeCapability'')]) (\<lambda>_.
        if \<not> compute_capability_valid (nv_compute_capability n)
        then invalid_provenance ''NVIDIA compute capability is malformed'' else Ok ()))"

definition validate_backend ::
  "LlamaCppTarget \<Rightarrow> BackendProvenance \<Rightarrow> EvidenceManifest \<Rightarrow> unit verdict" where
  "validate_backend target b manifest =
     (if target = TargetCpu \<and> bp_identity b = LLAMA_CPP_BACKEND_IDENTITY \<and> bp_device_class b = DeviceCpu
        \<and> bp_nvidia b = None
      then Ok ()
      else if target = TargetNvidiaCuda \<and> bp_identity b = LLAMA_CPP_CUDA_BACKEND_IDENTITY
        \<and> bp_device_class b = DeviceNvidiaCuda
      then (case bp_nvidia b of
          Some nvidia \<Rightarrow> validate_nvidia_provenance nvidia
        | None \<Rightarrow> if em_run_status manifest = Succeeded
            then invalid_provenance ''successful nvidiaCuda execution requires NVIDIA provenance'' else Ok ())
      else invalid_provenance ''llamaCpp backend does not match the resolved execution target'')"

definition validate_llama_lineage ::
  "string option \<Rightarrow> string option \<Rightarrow> string option \<Rightarrow> unit verdict" where
  "validate_llama_lineage engine model backend =
     and_then (optional_nix_store_path engine ''runtime.engine.nixStorePath'') (\<lambda>_.
     and_then (optional_nix_store_path model ''runtime.model.nixStorePath'') (\<lambda>_.
     and_then (optional_nix_store_path backend ''runtime.backend.nixStorePath'') (\<lambda>_. let
       present = [engine \<noteq> None, model \<noteq> None, backend \<noteq> None]
     in if list_ex id present \<and> \<not> list_all id present
        then invalid_provenance ''llamaCpp Nix store lineage must be wholly present or absent''
        else if engine \<noteq> backend
        then invalid_provenance ''llamaCpp engine and backend must identify the same Nix store object''
        else Ok ())))"

definition validate_runtime_provenance ::
  "RuntimeProvenance \<Rightarrow> RuntimeSpec \<Rightarrow> EvidenceManifest \<Rightarrow> string option \<Rightarrow> unit verdict" where
  "validate_runtime_provenance provenance runtime manifest measurement_generator = (case (provenance, runtime) of
     (ProvLocalFake generator, RuntimeLocalFake _ _) \<Rightarrow>
       if generator \<noteq> LOCAL_FAKE_GENERATOR_VERSION
       then invalid_provenance ''localFake generator identity is not supported''
       else require_matching_generator generator measurement_generator
   | (ProvCpuProbe generator, RuntimeCpuProbe _ _) \<Rightarrow>
       if generator \<noteq> CPU_PROBE_GENERATOR_VERSION
       then invalid_provenance ''cpuProbe generator identity is not supported''
       else require_matching_generator generator measurement_generator
   | (ProvLlamaCpp generator engine model backend, RuntimeLlamaCpp target resolved_model _) \<Rightarrow>
       if generator \<notin> set [LLAMA_CPP_GENERATOR_VERSION_V1, LLAMA_CPP_GENERATOR_VERSION]
         \<or> sc_name engine \<noteq> LLAMA_CPP_ENGINE_NAME \<or> sc_version engine \<noteq> LLAMA_CPP_ENGINE_VERSION
         \<or> mp_identity model \<noteq> LLAMA_CPP_MODEL_IDENTITY \<or> mp_identity model \<noteq> resolved_model
         \<or> mp_sha256 model \<noteq> LLAMA_CPP_MODEL_SHA256
         \<or> (target = TargetNvidiaCuda \<and> generator \<noteq> LLAMA_CPP_GENERATOR_VERSION)
       then invalid_provenance ''llamaCpp software lineage is not supported''
       else and_then (validate_backend target backend manifest) (\<lambda>_.
         and_then (require_matching_generator generator measurement_generator) (\<lambda>_.
         validate_llama_lineage (sc_nix_store_path engine) (mp_nix_store_path model)
           (bp_nix_store_path backend)))
   | _ \<Rightarrow> invalid_provenance ''runtime kind does not match the resolved plan'')"

definition validate_platform :: "PlatformProvenance \<Rightarrow> unit verdict" where
  "validate_platform p =
     and_then (require_provenance_value (os_family (pp_operating_system p)) ''operatingSystem.family'') (\<lambda>_.
     and_then (optional_provenance_value (os_distribution (pp_operating_system p)) ''operatingSystem.distribution'') (\<lambda>_.
     and_then (optional_provenance_value (os_version (pp_operating_system p)) ''operatingSystem.version'') (\<lambda>_.
     and_then (require_provenance_value (kp_name (pp_kernel p)) ''kernel.name'') (\<lambda>_.
     and_then (optional_provenance_value (kp_release (pp_kernel p)) ''kernel.release'') (\<lambda>_.
     and_then (require_provenance_value (pp_architecture p) ''architecture'') (\<lambda>_.
     and_then (optional_provenance_value (cp_model (pp_cpu p)) ''cpu.model'') (\<lambda>_.
     if cp_logical_cpu_count (pp_cpu p) = Some 0
     then invalid_provenance ''cpu.logicalCpuCount must be positive when present'' else Ok ())))))))"

definition validate_attempt_provenance ::
  "AttemptProvenance \<Rightarrow> EvidenceManifest \<Rightarrow> ResolvedExperiment \<Rightarrow> string option \<Rightarrow> unit verdict" where
  "validate_attempt_provenance p manifest plan measurement_generator =
     (if ap_format p \<noteq> ATTEMPT_PROVENANCE_FORMAT_V1 then invalid_provenance ''unsupported format''
      else if ap_run_id p \<noteq> em_run_id manifest \<or> ap_attempt_number p \<noteq> 1
      then invalid_provenance ''runId or attemptNumber does not match the bundle''
      else and_then (validate_platform (ap_platform p)) (\<lambda>_. let b = sw_benchplane (ap_software p) in
        if sc_name b \<noteq> BENCHPLANE_SOFTWARE_NAME
        then invalid_provenance ''software.benchplane.name is not supported''
        else and_then (require_provenance_value (sc_version b) ''software.benchplane.version'') (\<lambda>_.
          and_then (optional_nix_store_path (sc_nix_store_path b) ''software.benchplane.nixStorePath'') (\<lambda>_.
          validate_runtime_provenance (sw_runtime (ap_software p)) (sp_runtime (ex_spec (re_experiment plan)))
            manifest measurement_generator))))"

subsection \<open>The plan and the document\<close>

text \<open>
  \<open>ResolvedExperiment\<close> derives \<open>PartialEq\<close>: equality of every field, with the IEEE comparison on the
  budget.
\<close>

definition set_cost :: "f64 \<Rightarrow> ResolvedExperiment \<Rightarrow> ResolvedExperiment" where
  "set_cost v p = p\<lparr>re_experiment := (re_experiment p)\<lparr>ex_spec := (ex_spec (re_experiment p))
     \<lparr>sp_budget := \<lparr>bs_maximum_cost_usd = v\<rparr>\<rparr>\<rparr>\<rparr>"

definition cost_of :: "ResolvedExperiment \<Rightarrow> f64" where
  "cost_of p = bs_maximum_cost_usd (sp_budget (ex_spec (re_experiment p)))"

definition resolved_eq :: "ResolvedExperiment \<Rightarrow> ResolvedExperiment \<Rightarrow> bool" where
  "resolved_eq a b \<longleftrightarrow> set_cost 0 a = set_cost 0 b \<and> f64_eq (cost_of a) (cost_of b)"

definition show_resolution_error :: "string ResolutionError \<Rightarrow> string" where
  "show_resolution_error e = (case e of
     Validation _ \<Rightarrow> ''experiment validation failed''
   | DeterministicSerialization source \<Rightarrow>
       ''failed to deterministically serialize the typed experiment: '' @ source)"

definition show_parse_error :: "Codecs \<Rightarrow> bytes \<Rightarrow> string ParseError \<Rightarrow> string" where
  "show_parse_error c bs e = (case e of
     Utf8 \<Rightarrow> ''experiment YAML is not valid UTF-8: '' @ cd_utf8_error c bs
   | Yaml source \<Rightarrow> ''could not parse experiment YAML: '' @ source)"

definition validate_resolved_plan :: "Codecs \<Rightarrow> ResolvedExperiment \<Rightarrow> EvidenceManifest \<Rightarrow> unit verdict" where
  "validate_resolved_plan c plan manifest =
     and_then (map_err (\<lambda>e. InvalidResolvedPlan (show_resolution_error e)) (cd_resolve c (re_experiment plan))) (\<lambda>expected.
     if \<not> resolved_eq expected plan \<or> re_experiment_digest plan \<noteq> em_experiment_digest manifest
       \<or> re_resolved_plan_digest plan \<noteq> em_resolved_plan_digest manifest
     then Err (InvalidResolvedPlan ''typed content or deterministic digests do not match the bundle'')
     else Ok ())"

type_synonym retained = "string \<rightharpoonup> bytes"

definition validate_original_experiment :: "Codecs \<Rightarrow> retained \<Rightarrow> ResolvedExperiment \<Rightarrow> unit verdict" where
  "validate_original_experiment c payloads plan =
     and_then (ok_or (MissingRequiredPayload ''experiment.yaml'') (payloads ''experiment.yaml'')) (\<lambda>bytes.
     and_then (map_err (\<lambda>e. InvalidOriginalExperiment (show_parse_error c bytes e))
       (parse_experiment (cd_yaml c) bytes)) (\<lambda>experiment.
     and_then (map_err (\<lambda>e. InvalidOriginalExperiment (show_resolution_error e))
       (cd_resolve c experiment)) (\<lambda>resolved.
     if \<not> resolved_eq resolved plan
     then Err (InvalidOriginalExperiment
       ''experiment.yaml does not deterministically reproduce resolved-plan.json'')
     else Ok ())))"

definition parse_record :: "(bytes \<Rightarrow> string + 'a) \<Rightarrow> retained \<Rightarrow> string \<Rightarrow> 'a verdict" where
  "parse_record reader payloads path =
     and_then (ok_or (MissingRequiredPayload path) (payloads path)) (\<lambda>bytes.
     map_err (InvalidRecord path) (reader bytes))"

subsection \<open>Consistency\<close>

text \<open>
  Checks in code that may also panic: \<open>and_check\<close> is the question mark operator on a check that cannot, and
  \<open>chain\<close> before it on one that can.
\<close>

definition and_check :: "'e + 'a \<Rightarrow> ('a \<Rightarrow> ('e + 'b) outcome) \<Rightarrow> ('e + 'b) outcome" where
  "and_check r f = (case r of Inl e \<Rightarrow> Return (Err e) | Inr x \<Rightarrow> f x)"

lemma and_check_simps [simp]: "and_check (Ok x) f = f x" "and_check (Err e) f = Return (Err e)"
  by (simp_all add: and_check_def)

lemma and_check_eq_Ok [result_simps]:
  "and_check r f = Return (Ok y) \<longleftrightarrow> (\<exists>x. r = Ok x \<and> f x = Return (Ok y))"
  by (cases r) simp_all

lemma and_check_returns: "(\<And>x. r = Ok x \<Longrightarrow> \<exists>v. f x = Return v) \<Longrightarrow> \<exists>v. and_check r f = Return v"
  by (cases r) simp_all

fun attempt_status_of :: "RunState \<Rightarrow> AttemptStatus outcome" where
  "attempt_status_of Succeeded = Return AttemptSucceeded"
| "attempt_status_of Failed = Return AttemptFailed"
| "attempt_status_of Interrupted = Return AttemptInterrupted"
| "attempt_status_of _ = Panic"

definition check_run :: "EvidenceManifest \<Rightarrow> RunRecord \<Rightarrow> unit verdict" where
  "check_run m run = (if rr_run_id run \<noteq> em_run_id m \<or> rr_run_status run \<noteq> em_run_status m
       \<or> rr_attempt_count run \<noteq> 1 \<or> rr_experiment_digest run \<noteq> em_experiment_digest m
       \<or> rr_resolved_plan_digest run \<noteq> em_resolved_plan_digest m
     then Err (InconsistentRecord ''run.json'') else Ok ())"

definition check_attempt :: "EvidenceManifest \<Rightarrow> AttemptRecord \<Rightarrow> unit verdict outcome" where
  "check_attempt m a = chain (attempt_status_of (em_run_status m)) (\<lambda>expected. Return
     (if ar_run_id a \<noteq> em_run_id m \<or> ar_attempt_number a \<noteq> 1 \<or> ar_status a \<noteq> expected
      then Err (InconsistentRecord ''attempts/0001/attempt.json'') else Ok ()))"

definition optional_record ::
  "(bytes \<Rightarrow> string + 'a) \<Rightarrow> retained \<Rightarrow> string \<Rightarrow> ('a \<Rightarrow> unit verdict) \<Rightarrow> 'a option verdict" where
  "optional_record reader payloads path check = (case payloads path of
     None \<Rightarrow> Ok None
   | Some bytes \<Rightarrow> and_then (map_err (InvalidRecord path) (reader bytes)) (\<lambda>r.
       and_then (check r) (\<lambda>_. Ok (Some r))))"

definition expected_validity :: "EvidenceManifest \<Rightarrow> u32 \<Rightarrow> u32 \<Rightarrow> ValidityStatus outcome" where
  "expected_validity m measured_total repetitions = (case em_run_status m of
     Succeeded \<Rightarrow> Return (if measured_total \<ge> repetitions then Valid else Invalid)
   | Failed \<Rightarrow> Return Indeterminate
   | Interrupted \<Rightarrow> Return Indeterminate
   | _ \<Rightarrow> Panic)"

definition check_validity ::
  "EvidenceManifest \<Rightarrow> ResolvedExperiment \<Rightarrow> u32 \<Rightarrow> ValidityResult \<Rightarrow> unit verdict outcome" where
  "check_validity m plan measured_total v = (let
       repetitions = ms_repetitions (sp_measurement (ex_spec (re_experiment plan)))
     in chain (expected_validity m measured_total repetitions) (\<lambda>expected. Return
       (if vy_run_id v \<noteq> em_run_id m \<or> vy_status v \<noteq> em_validity_status m \<or> vy_status v \<noteq> expected
          \<or> vy_required_samples v \<noteq> repetitions \<or> vy_observed_samples v \<noteq> measured_total
        then Err (InconsistentRecord ''validity.json'') else Ok ())))"

definition expected_statistics ::
  "EvidenceManifest \<Rightarrow> MeasurementRecord list \<Rightarrow> (LatencySummary option \<times> u64 option) outcome" where
  "expected_statistics m rs = (let measured = measured_records rs in
     if measured = [] \<or> em_validity_status m = Indeterminate then Return (None, None)
     else chain (describe_micros (map mr_latency_micros measured)) (\<lambda>latency.
       Return (latency, mean_u64 (map mr_throughput_milli_requests_per_second measured))))"

definition check_summary ::
  "EvidenceManifest \<Rightarrow> u32 \<Rightarrow> MeasurementRecord list \<Rightarrow> RunSummary \<Rightarrow> unit verdict outcome" where
  "check_summary m measured_total rs s = chain (expected_statistics m rs) (\<lambda>(latency, throughput). Return
     (if su_run_id s \<noteq> em_run_id m \<or> su_run_status s \<noteq> em_run_status m
        \<or> su_validity_status s \<noteq> em_validity_status m \<or> su_attempt_count s \<noteq> 1
        \<or> su_sample_count s \<noteq> measured_total \<or> su_experiment_digest s \<noteq> em_experiment_digest m
        \<or> su_resolved_plan_digest s \<noteq> em_resolved_plan_digest m
        \<or> su_latency s \<noteq> latency \<or> su_mean_throughput_milli_requests_per_second s \<noteq> throughput
      then Err (InconsistentRecord ''summary.json'') else Ok ()))"

fun check_events :: "Codecs \<Rightarrow> EvidenceManifest \<Rightarrow> bytes list \<Rightarrow> unit verdict" where
  "check_events c m [] = Ok ()"
| "check_events c m (line # lines) = (if line = [] then check_events c m lines
     else and_then (map_err (InvalidRecord ''events.jsonl'') (cd_event c line)) (\<lambda>event.
       if le_run_id event \<noteq> em_run_id m \<or> le_attempt_number event \<noteq> 1
       then Err (InconsistentRecord ''events.jsonl'') else check_events c m lines))"

record VerifiedEvidenceBundle =
  vb_root :: string
  vb_manifest :: EvidenceManifest
  vb_plan :: ResolvedExperiment
  vb_provenance :: "AttemptProvenance option"
  vb_resources :: "AttemptResources option"
  vb_measurements :: "MeasurementRecord list"

text \<open>\<open>root_name\<close> is the last component of the bundle's directory.\<close>

definition validate_record_consistency ::
  "Codecs \<Rightarrow> string \<Rightarrow> string option \<Rightarrow> bytes verdict \<Rightarrow> EvidenceManifest \<Rightarrow> retained
     \<Rightarrow> (string \<rightharpoonup> string) \<Rightarrow> VerifiedEvidenceBundle verdict outcome" where
  "validate_record_consistency c root root_name measurements_file m payloads verified_digests =
     (if root_name \<noteq> Some (em_run_id m) then Return (Err BundleRunIdMismatch)
      else and_check (parse_record (cd_plan c) payloads ''resolved-plan.json'') (\<lambda>plan.
      and_check (validate_resolved_plan c plan m) (\<lambda>_.
      and_check (validate_original_experiment c payloads plan) (\<lambda>_.
      and_check (ok_or (MissingRequiredPayload measurements_path) (verified_digests measurements_path)) (\<lambda>digest.
      and_check (validate_measurements c measurements_file digest plan (em_run_status m)) (\<lambda>mv.
      and_check (parse_record (cd_run c) payloads ''run.json'') (\<lambda>run.
      and_check (check_run m run) (\<lambda>_.
      and_check (parse_record (cd_attempt c) payloads ''attempts/0001/attempt.json'') (\<lambda>attempt.
      chain (check_attempt m attempt) (\<lambda>checked. and_check checked (\<lambda>_.
      and_check (optional_record (cd_provenance c) payloads ''attempts/0001/provenance.json''
        (\<lambda>p. validate_attempt_provenance p m plan (mv_generator mv))) (\<lambda>provenance.
      and_check (optional_record (cd_resources c) payloads ''attempts/0001/resources.json''
        (\<lambda>r. validate_attempt_resources r m plan)) (\<lambda>resources.
      and_check (parse_record (cd_validity c) payloads ''validity.json'') (\<lambda>validity.
      chain (check_validity m plan (mv_measured_records mv) validity) (\<lambda>checked. and_check checked (\<lambda>_.
      and_check (parse_record (cd_summary c) payloads ''summary.json'') (\<lambda>summary.
      chain (check_summary m (mv_measured_records mv) (mv_records mv) summary) (\<lambda>checked. and_check checked (\<lambda>_.
      and_check (ok_or (MissingRequiredPayload ''events.jsonl'') (payloads ''events.jsonl'')) (\<lambda>events.
      and_check (check_events c m (split_on CHR 0x0A events)) (\<lambda>_.
      Return (Ok \<lparr>vb_root = root, vb_manifest = m, vb_plan = plan, vb_provenance = provenance,
        vb_resources = resources, vb_measurements = mv_records mv\<rparr>))))))))))))))))))))))"

text \<open>A bundle passes only if every check passes.\<close>

lemma consistency_Ok:
  assumes "validate_record_consistency c root rname mfile m payloads verified_digests = Return (Ok b)"
  obtains plan digest mv run attempt provenance resources validity summary events where
    "rname = Some (em_run_id m)"
    "parse_record (cd_plan c) payloads ''resolved-plan.json'' = Ok plan" "validate_resolved_plan c plan m = Ok ()"
    "validate_original_experiment c payloads plan = Ok ()"
    "verified_digests measurements_path = Some digest"
    "validate_measurements c mfile digest plan (em_run_status m) = Ok mv"
    "parse_record (cd_run c) payloads ''run.json'' = Ok run" "check_run m run = Ok ()"
    "parse_record (cd_attempt c) payloads ''attempts/0001/attempt.json'' = Ok attempt"
    "check_attempt m attempt = Return (Ok ())"
    "optional_record (cd_provenance c) payloads ''attempts/0001/provenance.json''
        (\<lambda>p. validate_attempt_provenance p m plan (mv_generator mv)) = Ok provenance"
    "optional_record (cd_resources c) payloads ''attempts/0001/resources.json''
        (\<lambda>r. validate_attempt_resources r m plan) = Ok resources"
    "parse_record (cd_validity c) payloads ''validity.json'' = Ok validity"
    "check_validity m plan (mv_measured_records mv) validity = Return (Ok ())"
    "parse_record (cd_summary c) payloads ''summary.json'' = Ok summary"
    "check_summary m (mv_measured_records mv) (mv_records mv) summary = Return (Ok ())"
    "payloads ''events.jsonl'' = Some events" "check_events c m (split_on CHR 0x0A events) = Ok ()"
    "b = \<lparr>vb_root = root, vb_manifest = m, vb_plan = plan, vb_provenance = provenance,
        vb_resources = resources, vb_measurements = mv_records mv\<rparr>"
proof -
  have name: "rname = Some (em_run_id m)"
    using assms by (cases "rname = Some (em_run_id m)") (simp_all add: validate_record_consistency_def)
  note run = assms [unfolded validate_record_consistency_def,
    simplified name not_True_eq_False simp_thms if_False, simplified,
    simplified and_check_eq_Ok chain_eq_Return ok_or_eq_Ok, simplified]
  then show thesis by (elim exE conjE) (rule that [OF name], (assumption | rule sym)+)
qed

text \<open>
  The verifier does not panic: its status matches are reached with a terminal status only, and the
  statistics are those of a representable number of records.
\<close>

lemma expected_statistics_returns:
  assumes "length rs < 2 ^ 57"
  shows "\<exists>v. expected_statistics m rs = Return v"
proof (cases "measured_records rs = []")
  case False
  have "length (measured_records rs) \<le> length rs" by (simp add: measured_records_def)
  then have "length (map mr_latency_micros (measured_records rs)) < 2 ^ 57" using assms by simp
  from describe_micros_value [OF _ this] False show ?thesis
    by (auto simp: expected_statistics_def Let_def)
qed (simp add: expected_statistics_def)

lemma check_attempt_returns: "is_terminal (em_run_status m) \<Longrightarrow> \<exists>v. check_attempt m a = Return v"
  by (cases "em_run_status m") (simp_all add: check_attempt_def)

lemma check_validity_returns: "is_terminal (em_run_status m) \<Longrightarrow> \<exists>v. check_validity m plan n y = Return v"
  by (cases "em_run_status m") (simp_all add: check_validity_def expected_validity_def Let_def)

lemma check_summary_returns: "length rs < 2 ^ 57 \<Longrightarrow> \<exists>v. check_summary m n rs su = Return v"
  using expected_statistics_returns [of rs m] by (auto simp: check_summary_def)

lemma chain_check_returns:
  assumes "\<exists>v. r = Return v" and "\<And>x. r = Return (Ok x) \<Longrightarrow> \<exists>v. f x = Return v"
  shows "\<exists>v. chain r (\<lambda>checked. and_check checked f) = Return v"
  using assms by (auto intro!: and_check_returns)

lemma consistency_returns:
  assumes "is_terminal (em_run_status m)"
    and "\<And>digest plan mv. validate_measurements c mfile digest plan (em_run_status m) = Ok mv
      \<Longrightarrow> length (mv_records mv) < 2 ^ 57"
  shows "\<exists>v. validate_record_consistency c root rname mfile m payloads verified_digests = Return v"
proof (cases "rname = Some (em_run_id m)")
  case True
  then have name: "\<not> rname \<noteq> Some (em_run_id m)" by simp
  show ?thesis
    unfolding validate_record_consistency_def if_not_P [OF name]
    by (intro and_check_returns chain_check_returns check_attempt_returns [OF assms(1)]
        check_validity_returns [OF assms(1)] check_summary_returns)
      (erule assms(2), rule exI, rule refl)
qed (simp add: validate_record_consistency_def)

end
