(* ===== verification/Checksums.thy ===== *)
theory Checksums
  imports EvidenceBundle "HOL-Library.Char_ord" "HOL-Library.List_Lexorder" "HOL-Library.Sublist"
begin

text \<open>
  The checksum file of an evidence bundle, the first half of
  \<open>src/crates/benchplane-core/src/evidence.rs\<close>: the walk over the payloads, \<open>SHA256SUMS\<close> as it is
  written and as it is verified.

  A bundle is a snapshot of a directory tree (\<open>node\<close>): nothing changes it while it is read, and a read
  fails only because a path does not lead to a file. A path is its bytes, a canonical path its list of
  components. An error that names a path keeps the path's bytes.
\<close>

subsection \<open>Directory trees\<close>

text \<open>
  A \<open>Link\<close> carries the canonical path of what it leads to and the node there; a link to nothing, or to
  itself, is a \<open>BrokenLink\<close>; sockets, pipes and devices are \<open>Special\<close>. The entries of a \<open>Dir\<close> are in the
  order \<open>read_dir\<close> gives them.
\<close>

datatype node =
    FileNode bytes
  | Dir "(string \<times> node) list"
  | Link "string list" node
  | BrokenLink
  | Special

type_synonym entries = "(string \<times> node) list"

definition ENOENT :: string where "ENOENT = ''No such file or directory (os error 2)''"
definition ENOTDIR :: string where "ENOTDIR = ''Not a directory (os error 20)''"
definition EISDIR :: string where "EISDIR = ''Is a directory (os error 21)''"

definition path_display :: "string list \<Rightarrow> string" where
  "path_display p = (if p = [] then ''/'' else concat (map (\<lambda>c. CHR ''/'' # c) p))"

text \<open>\<open>symlink_metadata\<close> of a path below a directory: every link but the last component is followed.\<close>

fun walk :: "string list \<Rightarrow> node \<Rightarrow> string list \<Rightarrow> string + (string list \<times> node)" where
  "walk here n [] = Ok (here, n)"
| "walk here n (c # cs) = (case n of
     Dir es \<Rightarrow> (case map_of es c of
         None \<Rightarrow> Err ENOENT
       | Some m \<Rightarrow> if cs = [] then Ok (here @ [c], m)
           else (case m of
               Link p t \<Rightarrow> walk p t cs
             | BrokenLink \<Rightarrow> Err ENOENT
             | _ \<Rightarrow> walk (here @ [c]) m cs))
   | _ \<Rightarrow> Err ENOTDIR)"

subsection \<open>Relative paths\<close>

datatype Component = RootDir | CurDir | ParentDir | Normal string

text \<open>
  \<open>Path::components\<close> on Unix: repeated separators count once, and a dot is a component only at the
  start of a relative path.
\<close>

definition component_of :: "string \<Rightarrow> Component" where
  "component_of s = (if s = ''..'' then ParentDir else Normal s)"

definition path_components :: "string \<Rightarrow> Component list" where
  "path_components path = (let
       parts = split_on CHR ''/'' path;
       body = map component_of (filter (\<lambda>p. p \<noteq> [] \<and> p \<noteq> ''.'') parts)
     in if path \<noteq> [] \<and> hd path = CHR ''/'' then RootDir # body
        else if parts \<noteq> [] \<and> hd parts = ''.'' then CurDir # body else body)"

definition is_absolute :: "string \<Rightarrow> bool" where
  "is_absolute path \<longleftrightarrow> path \<noteq> [] \<and> hd path = CHR ''/''"

fun is_normal :: "Component \<Rightarrow> bool" where
  "is_normal (Normal _) = True"
| "is_normal _ = False"

fun component_text :: "Component \<Rightarrow> string" where
  "component_text RootDir = ''/''"
| "component_text CurDir = ''.''"
| "component_text ParentDir = ''..''"
| "component_text (Normal s) = s"

definition join_path :: "string list \<Rightarrow> string" where
  "join_path cs = (if cs = [] then [] else hd cs @ concat (map (\<lambda>c. CHR ''/'' # c) (tl cs)))"

definition normalized_relative_path :: "string \<Rightarrow> string verdict" where
  "normalized_relative_path path =
     (if path = [] \<or> is_absolute path \<or> \<not> list_all is_normal (path_components path)
      then Err (UnsafePath path)
      else if list_ex (\<lambda>c. from_utf8 (component_text c) = None) (path_components path)
      then Err (NonUtf8Path path)
      else Ok (join_path (map component_text (path_components path))))"

definition validate_relative_path :: "string \<Rightarrow> string verdict" where
  "validate_relative_path relative =
     (if relative = [] \<or> relative = ''SHA256SUMS'' \<or> is_absolute relative
        \<or> \<not> list_all is_normal (path_components relative)
      then Err (UnsafePath relative) else Ok relative)"

subsection \<open>The payloads of a bundle\<close>

text \<open>A \<open>BTreeMap\<close> is the list of its bindings in the order of the keys.\<close>

fun btree_insert :: "'k::linorder \<Rightarrow> 'v \<Rightarrow> ('k \<times> 'v) list \<Rightarrow> ('k \<times> 'v) list" where
  "btree_insert k v [] = [(k, v)]"
| "btree_insert k v ((k', v') # rest) =
     (if k < k' then (k, v) # (k', v') # rest
      else if k = k' then (k, v) # rest else (k', v') # btree_insert k v rest)"

record Gathering =
  ga_payloads :: "(string \<times> string) list"
  ga_entries_seen :: nat

text \<open>\<open>below\<close> is the path of the directory relative to the root, empty at the root itself.\<close>

definition child_path :: "string \<Rightarrow> string \<Rightarrow> string" where
  "child_path below name = (if below = [] then name else below @ CHR ''/'' # name)"

function gather_directory :: "string \<Rightarrow> entries \<Rightarrow> Gathering \<Rightarrow> Gathering verdict" where
  "gather_directory below [] g = Ok g"
| "gather_directory below ((name, n) # es) g =
     (if ga_entries_seen g + 1 > MAX_CHECKSUM_ENTRIES then Err TooManyChecksumEntries
      else let g' = g\<lparr>ga_entries_seen := ga_entries_seen g + 1\<rparr>; relative = child_path below name in
        case normalized_relative_path relative of
          Inl e \<Rightarrow> Err e
        | Inr display \<Rightarrow>
            if display = ''SHA256SUMS'' then gather_directory below es g'
            else (case n of
                Dir sub \<Rightarrow> and_then (gather_directory relative sub g') (\<lambda>g''. gather_directory below es g'')
              | FileNode _ \<Rightarrow> gather_directory below es
                  (g'\<lparr>ga_payloads := btree_insert display relative (ga_payloads g')\<rparr>)
              | _ \<Rightarrow> Err (NonRegularFile display)))"
  by pat_completeness auto
termination
  by (relation "measure (\<lambda>(_, es, _). size (Dir es))") auto

declare gather_directory.simps(2) [simp del]

definition gather_payload_paths :: "entries \<Rightarrow> (string \<times> string) list verdict" where
  "gather_payload_paths es = and_then (gather_directory [] es \<lparr>ga_payloads = [], ga_entries_seen = 0\<rparr>)
     (\<lambda>g. Ok (ga_payloads g))"

subsection \<open>Reading a file of the bundle\<close>

text \<open>
  \<open>fs::canonicalize\<close> is an argument: it gives the canonical path of a root and the node there, or the
  text of its error.
\<close>

type_synonym canonicalizer = "string \<Rightarrow> string + (string list \<times> node)"

definition canonical_bundle_root :: "canonicalizer \<Rightarrow> string \<Rightarrow> (string list \<times> entries) verdict" where
  "canonical_bundle_root canonicalize root =
     and_then (map_err (ReadError_at root) (canonicalize root)) (\<lambda>(canonical, n).
     case n of Dir es \<Rightarrow> Ok (canonical, es) | _ \<Rightarrow> Err (BundleRootNotDirectory root))"

definition path_parts :: "string \<Rightarrow> string list" where
  "path_parts path = map component_text (path_components path)"

definition checked_regular_path ::
  "string list \<Rightarrow> entries \<Rightarrow> string \<Rightarrow> string \<Rightarrow> (string list \<times> bytes) verdict" where
  "checked_regular_path root es relative display =
     and_then (map_err (ReadError_at (path_display (root @ [relative]))) (walk root (Dir es) (path_parts relative)))
       (\<lambda>(canonical, n). case n of
          FileNode content \<Rightarrow> if prefix root canonical then Ok (canonical, content) else Err (PathEscape display)
        | _ \<Rightarrow> Err (NonRegularFile display))"

definition HASH_BUFFER_BYTES :: nat where "HASH_BUFFER_BYTES = 64 * 1024"

definition over_limit :: "string \<Rightarrow> EvidenceError" where
  "over_limit display = (if display = ''manifest.json'' then ManifestTooLarge
     else InconsistentRecord (display @ '' exceeds its parsing limit''))"

text \<open>
  The loop that reads a file in blocks: the hasher is the bytes it was fed, and a retained payload keeps
  its limit beside its bytes.
\<close>

function hash_loop :: "string \<Rightarrow> bytes \<Rightarrow> bytes \<Rightarrow> (bytes \<times> nat) option \<Rightarrow> (bytes \<times> bytes option) verdict" where
  "hash_loop display rest hasher retained =
     (if rest = [] then Ok (hasher, map_option fst retained)
      else let buffer = take HASH_BUFFER_BYTES rest in case retained of
          None \<Rightarrow> hash_loop display (drop HASH_BUFFER_BYTES rest) (hasher @ buffer) None
        | Some (kept, limit) \<Rightarrow> if length kept + length buffer > limit then Err (over_limit display)
            else hash_loop display (drop HASH_BUFFER_BYTES rest) (hasher @ buffer) (Some (kept @ buffer, limit)))"
  by pat_completeness auto
termination
  by (relation "measure (\<lambda>(_, rest, _, _). length rest)") (auto simp: HASH_BUFFER_BYTES_def)

declare hash_loop.simps [simp del]

definition hash_regular_file ::
  "Codecs \<Rightarrow> string list \<Rightarrow> entries \<Rightarrow> string \<Rightarrow> string \<Rightarrow> nat option
     \<Rightarrow> (string list \<times> string \<times> bytes option) verdict" where
  "hash_regular_file c root es relative display retain_limit =
     and_then (checked_regular_path root es relative display) (\<lambda>(canonical, content).
     if is_some_and (\<lambda>limit. length content > limit) retain_limit then Err (over_limit display)
     else and_then (hash_loop display content [] (map_option (Pair []) retain_limit)) (\<lambda>(hasher, retained).
       Ok (canonical, cd_hex c (cd_sha256 c hasher), retained)))"

subsection \<open>Writing the checksum file\<close>

definition set_entry :: "string \<Rightarrow> node \<Rightarrow> entries \<Rightarrow> entries" where
  "set_entry name n es = (if name \<in> fst ` set es
     then map (\<lambda>(k, v). if k = name then (k, n) else (k, v)) es else es @ [(name, n)])"

definition remove_entry :: "string \<Rightarrow> entries \<Rightarrow> entries" where
  "remove_entry name es = filter (\<lambda>(k, v). k \<noteq> name) es"

text \<open>\<open>Path::exists\<close> for an entry of the root: a link counts when it leads somewhere.\<close>

definition entry_exists :: "canonicalizer \<Rightarrow> string \<Rightarrow> string \<Rightarrow> bool" where
  "entry_exists canonicalize root name = (case canonicalize root of
     Inr (_, Dir es) \<Rightarrow> (case map_of es name of None \<Rightarrow> False | Some BrokenLink \<Rightarrow> False | Some _ \<Rightarrow> True)
   | _ \<Rightarrow> False)"

text \<open>\<open>BufWriter\<close> with its default capacity: what has reached the file and what is still buffered.\<close>

definition BUF_WRITER_CAPACITY :: nat where "BUF_WRITER_CAPACITY = 8 * 1024"

record ChecksumWriter =
  cw_flushed :: bytes
  cw_buffered :: bytes
  cw_hasher :: bytes

definition write_all :: "bytes \<Rightarrow> ChecksumWriter \<Rightarrow> ChecksumWriter" where
  "write_all line w =
     (if length line < BUF_WRITER_CAPACITY - length (cw_buffered w)
      then w\<lparr>cw_buffered := cw_buffered w @ line\<rparr>
      else let w' = (if length line > BUF_WRITER_CAPACITY - length (cw_buffered w)
          then w\<lparr>cw_flushed := cw_flushed w @ cw_buffered w, cw_buffered := []\<rparr> else w)
        in if length line \<ge> BUF_WRITER_CAPACITY then w'\<lparr>cw_flushed := cw_flushed w' @ line\<rparr>
           else w'\<lparr>cw_buffered := cw_buffered w' @ line\<rparr>)"

definition checksum_line :: "string \<Rightarrow> string \<Rightarrow> bytes" where
  "checksum_line digest relative = digest @ ''  '' @ relative @ [CHR 0x0A]"

fun write_lines ::
  "Codecs \<Rightarrow> string list \<Rightarrow> entries \<Rightarrow> (string \<times> string) list \<Rightarrow> ChecksumWriter \<Rightarrow> ChecksumWriter verdict" where
  "write_lines c root es [] w = Ok w"
| "write_lines c root es ((relative, path) # rest) w =
     and_then (hash_regular_file c root (set_entry ''SHA256SUMS.tmp'' (FileNode (cw_flushed w)) es) path relative None)
       (\<lambda>(_, digest, _). let line = checksum_line digest relative; w' = write_all line w in
          write_lines c root es rest (w'\<lparr>cw_hasher := cw_hasher w' @ line\<rparr>))"

text \<open>
  The result is the directory afterwards and the bytes the pending digest was fed. Creating the
  temporary file fails on a directory of its name.
\<close>

definition write_checksum_file ::
  "Codecs \<Rightarrow> canonicalizer \<Rightarrow> string \<Rightarrow> (entries \<times> bytes) verdict" where
  "write_checksum_file c canonicalize root =
     (if entry_exists canonicalize root ''SHA256SUMS'' then Err AlreadyFinalized
      else and_then (canonical_bundle_root canonicalize root) (\<lambda>(canonical, es).
        and_then (gather_payload_paths es) (\<lambda>payloads.
        case map_of es ''SHA256SUMS.tmp'' of
          Some (Dir _) \<Rightarrow> Err (WriteError_at (path_display (canonical @ [''SHA256SUMS.tmp''])) EISDIR)
        | _ \<Rightarrow> and_then (write_lines c canonical es payloads
            \<lparr>cw_flushed = [], cw_buffered = [], cw_hasher = []\<rparr>) (\<lambda>w.
            Ok (set_entry ''SHA256SUMS'' (FileNode (cw_flushed w @ cw_buffered w))
                  (remove_entry ''SHA256SUMS.tmp'' es), cw_hasher w)))))"

definition pending_digest_finish :: "Codecs \<Rightarrow> bytes \<Rightarrow> string" where
  "pending_digest_finish c hasher = ''sha256:'' @ cd_hex c (cd_sha256 c hasher)"

subsection \<open>Verifying the checksum file\<close>

definition trim_line_end :: "string \<Rightarrow> string" where
  "trim_line_end line = rev (dropWhile (\<lambda>ch. ch = CHR 0x0D \<or> ch = CHR 0x0A) (rev line))"

fun split_two_spaces :: "string \<Rightarrow> (string \<times> string) option" where
  "split_two_spaces (x # y # rest) = (if x = CHR '' '' \<and> y = CHR '' '' then Some ([], rest)
     else map_option (\<lambda>(a, b). (x # a, b)) (split_two_spaces (y # rest)))"
| "split_two_spaces _ = None"

record ChecksumScan =
  ck_names :: "string list"
  ck_targets :: "string list list"
  ck_digests :: "string \<rightharpoonup> string"
  ck_retained :: retained
  ck_total :: nat

definition check_entry ::
  "Codecs \<Rightarrow> string list \<Rightarrow> entries \<Rightarrow> (string \<times> string) list \<Rightarrow> string \<Rightarrow> string \<Rightarrow> ChecksumScan
     \<Rightarrow> ChecksumScan verdict" where
  "check_entry c root es payloads expected relative s =
     (if length expected \<noteq> 64 \<or> \<not> list_all is_lower_hex expected then Err (InvalidChecksum relative)
      else and_then (validate_relative_path relative) (\<lambda>relative_path.
        and_then (normalized_relative_path relative_path) (\<lambda>normalized.
        if normalized \<noteq> relative then Err (UnsafePath relative)
        else if relative \<in> set (ck_names s) then Err (DuplicatePath relative)
        else if relative \<notin> fst ` set payloads then Err (DeclaredPayloadMissing relative)
        else and_then (hash_regular_file c root es relative_path relative (retained_limit relative))
          (\<lambda>(canonical_path, actual, bs).
          if canonical_path \<in> set (ck_targets s) then Err (DuplicatePath relative)
          else if actual \<noteq> expected then Err (ChecksumMismatch relative)
          else Ok (s\<lparr>ck_names := ck_names s @ [relative], ck_targets := ck_targets s @ [canonical_path],
            ck_digests := (ck_digests s)(relative \<mapsto> actual),
            ck_retained := (case bs of Some b \<Rightarrow> (ck_retained s)(relative \<mapsto> b) | None \<Rightarrow> ck_retained s)\<rparr>)))))"

definition check_line ::
  "Codecs \<Rightarrow> string list \<Rightarrow> entries \<Rightarrow> (string \<times> string) list \<Rightarrow> bytes \<Rightarrow> ChecksumScan \<Rightarrow> ChecksumScan verdict" where
  "check_line c root es payloads raw s0 = (case from_utf8 raw of
     None \<Rightarrow> Err InvalidChecksumFileEncoding
   | Some text \<Rightarrow> (let s = s0\<lparr>ck_total := ck_total s0 + length text\<rparr>; line = trim_line_end text in
       if ck_total s > MAX_CHECKSUM_FILE_BYTES then Err ChecksumFileTooLarge
       else if length text > MAX_CHECKSUM_LINE_BYTES then Err ChecksumLineTooLong
       else if trim line = [] then Ok s
       else if length (ck_names s) \<ge> MAX_CHECKSUM_ENTRIES then Err TooManyChecksumEntries
       else (case split_two_spaces line of
           None \<Rightarrow> Err (InvalidChecksumLine line)
         | Some (expected, relative) \<Rightarrow> check_entry c root es payloads expected relative s)))"

function check_lines ::
  "Codecs \<Rightarrow> string list \<Rightarrow> entries \<Rightarrow> (string \<times> string) list \<Rightarrow> bytes \<Rightarrow> ChecksumScan \<Rightarrow> ChecksumScan verdict" where
  "check_lines c root es payloads bs s = (if bs = [] then Ok s
     else case check_line c root es payloads (fst (read_until bs)) s of
       Inl e \<Rightarrow> Err e
     | Inr s' \<Rightarrow> check_lines c root es payloads (snd (read_until bs)) s')"
  by pat_completeness auto
termination
  by (relation "measure (\<lambda>(_, _, _, _, bs, _). length bs)") (auto simp: read_until_rest)

declare check_lines.simps [simp del]

definition empty_scan :: ChecksumScan where
  "empty_scan = \<lparr>ck_names = [], ck_targets = [], ck_digests = Map.empty, ck_retained = Map.empty, ck_total = 0\<rparr>"

definition verify_payloads ::
  "Codecs \<Rightarrow> string list \<Rightarrow> entries \<Rightarrow> (ChecksumScan \<times> bytes) verdict" where
  "verify_payloads c root es =
     and_then (gather_payload_paths es) (\<lambda>payloads.
     and_then (checked_regular_path root es ''SHA256SUMS'' ''SHA256SUMS'') (\<lambda>(_, sums).
     if length sums > MAX_CHECKSUM_FILE_BYTES then Err ChecksumFileTooLarge
     else and_then (check_lines c root es payloads sums empty_scan) (\<lambda>s.
       and_then (ok_or MissingManifestChecksum (ck_retained s ''manifest.json'')) (\<lambda>manifest_bytes.
       case List.find (\<lambda>(relative, _). relative \<notin> set (ck_names s)) payloads of
         Some (relative, _) \<Rightarrow> Err (MissingPayloadChecksum relative)
       | None \<Rightarrow> Ok (s, manifest_bytes)))))"

text \<open>\<open>root.file_name()\<close>, when it is UTF-8.\<close>

definition root_name :: "string list \<Rightarrow> string option" where
  "root_name root = (if root = [] then None else from_utf8 (last root))"

definition measurements_file :: "string list \<Rightarrow> entries \<Rightarrow> bytes verdict" where
  "measurements_file root es = and_then (checked_regular_path root es measurements_path measurements_path)
     (\<lambda>(_, content). Ok content)"

definition verify_evidence_bundle_data ::
  "Codecs \<Rightarrow> canonicalizer \<Rightarrow> string \<Rightarrow> VerifiedEvidenceBundle verdict outcome" where
  "verify_evidence_bundle_data c canonicalize path =
     and_check (canonical_bundle_root canonicalize path) (\<lambda>(root, es).
     and_check (verify_payloads c root es) (\<lambda>(s, manifest_bytes).
     and_check (map_err Manifest (cd_manifest c manifest_bytes)) (\<lambda>manifest.
     and_check (validate_manifest c manifest) (\<lambda>_.
     and_check (validate_required_payloads (ck_names s)) (\<lambda>_.
     validate_record_consistency c (path_display root) (root_name root) (measurements_file root es)
       manifest (ck_retained s) (ck_digests s))))))"

definition verify_evidence_bundle ::
  "Codecs \<Rightarrow> canonicalizer \<Rightarrow> string \<Rightarrow> EvidenceManifest verdict outcome" where
  "verify_evidence_bundle c canonicalize path = chain (verify_evidence_bundle_data c canonicalize path)
     (\<lambda>verified. Return (and_then verified (\<lambda>bundle. Ok (vb_manifest bundle))))"

end
