(* ===== verification/ChecksumFacts.thy ===== *)
theory ChecksumFacts
  imports Checksums
begin

text \<open>
  What the checksum file promises: a bundle verifies only if \<open>SHA256SUMS\<close> lists exactly its files with
  their digests, and a checksum file that was written over a directory verifies.
\<close>

subsection \<open>Well-formed trees and their leaves\<close>

text \<open>What a file system guarantees of the names in a directory.\<close>

definition good_name :: "string \<Rightarrow> bool" where
  "good_name name \<longleftrightarrow> name \<noteq> [] \<and> CHR ''/'' \<notin> set name \<and> name \<noteq> ''.'' \<and> name \<noteq> ''..''"

function wf_entries :: "entries \<Rightarrow> bool" where
  "wf_entries es \<longleftrightarrow> distinct (map fst es)
     \<and> (\<forall>(name, n) \<in> set es. good_name name \<and> (case n of Dir sub \<Rightarrow> wf_entries sub | _ \<Rightarrow> True))"
  by pat_completeness auto
termination
proof (relation "measure (\<lambda>es. size (Dir es))", goal_cases)
  case (2 es x name n sub)
  then have "x \<in> set es" by simp
  then have "size_prod (\<lambda>_. 0) size x \<le> size_list (size_prod (\<lambda>_. 0) size) es"
    by (rule size_list_estimation') simp
  then show ?case using 2 by (cases x) simp
qed simp

declare wf_entries.simps [simp del]

text \<open>The leaves of a tree, by their components, without the checksum file of the root.\<close>

function payload_leaves :: "string list \<Rightarrow> entries \<Rightarrow> (string list \<times> node) list" where
  "payload_leaves below [] = []"
| "payload_leaves below ((name, n) # es) =
     (if below = [] \<and> name = ''SHA256SUMS'' then [] else case n of
        Dir sub \<Rightarrow> payload_leaves (below @ [name]) sub
      | _ \<Rightarrow> [(below @ [name], n)]) @ payload_leaves below es"
  by pat_completeness auto
termination
  by (relation "measure (\<lambda>(_, es). size (Dir es))") auto

text \<open>The number of directory entries the walk visits.\<close>

function entry_count :: "string list \<Rightarrow> entries \<Rightarrow> nat" where
  "entry_count below [] = 0"
| "entry_count below ((name, n) # es) = 1 + entry_count below es +
     (if below = [] \<and> name = ''SHA256SUMS'' then 0
      else case n of Dir sub \<Rightarrow> entry_count (below @ [name]) sub | _ \<Rightarrow> 0)"
  by pat_completeness auto
termination
  by (relation "measure (\<lambda>(_, es). size (Dir es))") auto

subsection \<open>Paths\<close>

lemma join_path_simps [simp]:
  "join_path [] = []" "join_path [a] = a" "join_path (a # b # cs) = a @ CHR ''/'' # join_path (b # cs)"
  by (simp_all add: join_path_def)

lemma join_path_snoc: "cs \<noteq> [] \<Longrightarrow> join_path (cs @ [name]) = join_path cs @ CHR ''/'' # name"
  by (simp add: join_path_def)

lemma join_path_Nil_iff: "list_all good_name cs \<Longrightarrow> join_path cs = [] \<longleftrightarrow> cs = []"
  by (cases cs) (auto simp: join_path_def good_name_def)

lemma child_path_join:
  "list_all good_name cs \<Longrightarrow> child_path (join_path cs) name = join_path (cs @ [name])"
  by (cases "cs = []") (simp_all add: child_path_def join_path_Nil_iff join_path_snoc)

lemma split_on_join_path:
  "cs \<noteq> [] \<Longrightarrow> list_all good_name cs \<Longrightarrow> split_on CHR ''/'' (join_path cs) = cs"
proof (induction cs rule: induct_list012)
  case (3 a b cs)
  then show ?case by (simp add: split_on_join good_name_def)
qed (simp_all add: split_on_none good_name_def)

lemma path_components_join:
  assumes "cs \<noteq> []" and "list_all good_name cs"
  shows "path_components (join_path cs) = map Normal cs"
proof -
  obtain a r where cs: "cs = a # r" using assms(1) by (cases cs) auto
  have a: "good_name a" using assms(2) cs by simp
  then have "hd (join_path cs) = hd a" "join_path cs \<noteq> []" using cs by (simp_all add: join_path_def good_name_def)
  moreover have "hd a \<noteq> CHR ''/''" using a by (cases a) (auto simp: good_name_def)
  moreover have "filter (\<lambda>p. p \<noteq> [] \<and> p \<noteq> ''.'') cs = cs"
    using assms(2) by (induction cs) (auto simp: good_name_def)
  moreover have "map component_of cs = map Normal cs"
    using assms(2) by (induction cs) (auto simp: good_name_def component_of_def)
  ultimately show ?thesis
    using a cs split_on_join_path [OF assms] by (simp add: path_components_def good_name_def Let_def)
qed

lemma path_parts_join:
  "cs \<noteq> [] \<Longrightarrow> list_all good_name cs \<Longrightarrow> path_parts (join_path cs) = cs"
  by (simp add: path_parts_def path_components_join comp_def)

definition utf8_name :: "string \<Rightarrow> bool" where
  "utf8_name name \<longleftrightarrow> from_utf8 name \<noteq> None"

lemma not_absolute_join: "cs \<noteq> [] \<Longrightarrow> list_all good_name cs \<Longrightarrow> \<not> is_absolute (join_path cs)"
proof (cases cs)
  case (Cons a r)
  assume "list_all good_name cs"
  then show ?thesis using Cons by (cases a) (auto simp: is_absolute_def join_path_def good_name_def)
qed simp

lemma all_normal [simp]: "list_all is_normal (map Normal cs)"
  by (induction cs) simp_all

lemma normalized_join:
  assumes "cs \<noteq> []" and "list_all good_name cs"
  shows "normalized_relative_path (join_path cs) =
    (if list_all utf8_name cs then Ok (join_path cs) else Err (NonUtf8Path (join_path cs)))"
proof -
  have "list_ex (\<lambda>c. from_utf8 (component_text c) = None) (map Normal cs) \<longleftrightarrow> \<not> list_all utf8_name cs"
    by (induction cs) (auto simp: utf8_name_def)
  then show ?thesis
    by (simp add: normalized_relative_path_def path_components_join assms not_absolute_join
        join_path_Nil_iff comp_def)
qed

lemma join_path_inject:
  assumes "list_all good_name cs" "list_all good_name ds" "join_path cs = join_path ds"
  shows "cs = ds"
  using assms by (metis join_path_Nil_iff path_parts_join)

lemma join_path_single: "list_all good_name cs \<Longrightarrow> join_path cs = name \<Longrightarrow> good_name name \<Longrightarrow> cs = [name]"
  by (rule join_path_inject) simp_all

lemma join_path_sums_iff:
  assumes "list_all good_name cs"
  shows "join_path cs = ''SHA256SUMS'' \<longleftrightarrow> cs = [''SHA256SUMS'']"
  using join_path_inject [OF assms, of "[''SHA256SUMS'']"] by (auto simp: good_name_def)

subsection \<open>The walk over the payloads\<close>

lemma btree_insert_keys: "fst ` set (btree_insert k v m) = insert k (fst ` set m)"
proof (induction m)
  case (Cons p m)
  then show ?case by (cases p) (simp add: insert_commute)
qed simp

lemma btree_insert_sorted:
  "sorted_wrt (<) (map fst m) \<Longrightarrow> sorted_wrt (<) (map fst (btree_insert k v m))"
proof (induction m)
  case (Cons p m)
  obtain a b where p: "p = (a, b)" by (cases p)
  have keys: "\<And>x. x \<in> fst ` set (btree_insert k v m) \<Longrightarrow> x = k \<or> x \<in> fst ` set m"
    by (simp add: btree_insert_keys)
  have "a < x" if "\<not> k < a" "k \<noteq> a" "x \<in> fst ` set (btree_insert k v m)" for x
    using keys [OF that(3)] that(1,2) Cons.prems p by auto
  then show ?case using Cons p by (fastforce dest: less_trans)
qed simp

lemma btree_insert_diag:
  "\<forall>p \<in> set m. fst p = snd p \<Longrightarrow> \<forall>p \<in> set (btree_insert k k m). fst p = snd p"
proof (induction m)
  case (Cons p m)
  then show ?case by (cases p) simp
qed simp

lemma wf_entries_Cons:
  "wf_entries ((name, n) # es) \<longleftrightarrow> name \<notin> fst ` set es \<and> good_name name
     \<and> (case n of Dir sub \<Rightarrow> wf_entries sub | _ \<Rightarrow> True) \<and> wf_entries es"
  by (simp only: wf_entries.simps [of "(name, n) # es"] wf_entries.simps [of es]) auto

text \<open>What the walk inserts, leaf by leaf.\<close>

definition insert_leaf :: "string list \<times> node \<Rightarrow> (string \<times> string) list \<Rightarrow> (string \<times> string) list" where
  "insert_leaf l m = btree_insert (join_path (fst l)) (join_path (fst l)) m"

definition leaf_ok :: "string list \<times> node \<Rightarrow> bool" where
  "leaf_ok l \<longleftrightarrow> list_all utf8_name (fst l) \<and> (\<exists>content. snd l = FileNode content)"

text \<open>One entry of the walk, below the directory with components \<open>bl\<close>.\<close>

lemma gather_Cons:
  assumes "list_all good_name (bl @ [name])"
  shows "gather_directory (join_path bl) ((name, n) # es) g =
    (let g' = g\<lparr>ga_entries_seen := ga_entries_seen g + 1\<rparr>; cs = bl @ [name] in
     if ga_entries_seen g + 1 > MAX_CHECKSUM_ENTRIES then Err TooManyChecksumEntries
     else if \<not> list_all utf8_name cs then Err (NonUtf8Path (join_path cs))
     else if bl = [] \<and> name = ''SHA256SUMS'' then gather_directory (join_path bl) es g'
     else case n of Dir sub \<Rightarrow> and_then (gather_directory (join_path cs) sub g') (gather_directory (join_path bl) es)
       | FileNode _ \<Rightarrow> gather_directory (join_path bl) es (g'\<lparr>ga_payloads := insert_leaf (cs, n) (ga_payloads g')\<rparr>)
       | _ \<Rightarrow> Err (NonRegularFile (join_path cs)))"
proof -
  have "child_path (join_path bl) name = join_path (bl @ [name])" using assms by (simp add: child_path_join)
  moreover have "join_path (bl @ [name]) = ''SHA256SUMS'' \<longleftrightarrow> bl = [] \<and> name = ''SHA256SUMS''"
    using join_path_sums_iff [OF assms] by auto
  ultimately show ?thesis
    using normalized_join [OF _ assms] by (cases n) (simp_all add: gather_directory.simps(2) Let_def insert_leaf_def)
qed

lemma gather_directory_leaves:
  "gather_directory (join_path bl) es g = Ok g' \<Longrightarrow> list_all good_name bl \<Longrightarrow> wf_entries es
     \<Longrightarrow> list_all leaf_ok (payload_leaves bl es)
       \<and> ga_payloads g' = fold insert_leaf (payload_leaves bl es) (ga_payloads g)
       \<and> ga_entries_seen g' = ga_entries_seen g + entry_count bl es"
proof (induction bl es arbitrary: g g' rule: payload_leaves.induct)
  case (2 bl name n es)
  let ?g = "g\<lparr>ga_entries_seen := ga_entries_seen g + 1\<rparr>"
  have good: "list_all good_name (bl @ [name])" and es: "wf_entries es" using "2.prems" by (auto simp: wf_entries_Cons)
  note run = "2.prems"(1) [unfolded gather_Cons [OF good] Let_def]
  have utf8: "list_all utf8_name (bl @ [name])" using run by (auto split: if_splits)
  show ?case
  proof (cases "bl = [] \<and> name = ''SHA256SUMS''")
    case True
    then have "gather_directory (join_path bl) es ?g = Ok g'" using run by (auto split: if_splits)
    from "2.IH"(2) [OF this "2.prems"(2) es] show ?thesis using True by simp
  next
    case False
    show ?thesis
    proof (cases n)
      case (Dir s)
      then obtain h where h: "gather_directory (join_path (bl @ [name])) s ?g = Ok h" "gather_directory (join_path bl) es h = Ok g'"
        using run False by (auto simp: result_simps split: if_splits)
      have "wf_entries s" using "2.prems"(3) Dir by (simp add: wf_entries_Cons)
      from "2.IH"(1) [OF False Dir h(1) good this] "2.IH"(2) [OF h(2) "2.prems"(2) es] show ?thesis using False Dir by auto
    next
      case (FileNode content)
      then have "gather_directory (join_path bl) es (?g\<lparr>ga_payloads := insert_leaf (bl @ [name], n) (ga_payloads ?g)\<rparr>) = Ok g'"
        using run False by (auto split: if_splits)
      from "2.IH"(2) [OF this "2.prems"(2) es] show ?thesis using False FileNode utf8 by (auto simp: leaf_ok_def)
    qed (use run False in \<open>auto split: if_splits\<close>)
  qed
qed simp

lemmas gather_root_leaves = gather_directory_leaves [of "[]", simplified]

lemma fold_insert_leaf:
  "fst ` set (fold insert_leaf ls m) = join_path ` fst ` set ls \<union> fst ` set m"
  "sorted_wrt (<) (map fst m) \<Longrightarrow> sorted_wrt (<) (map fst (fold insert_leaf ls m))"
  "\<forall>p \<in> set m. fst p = snd p \<Longrightarrow> \<forall>p \<in> set (fold insert_leaf ls m). fst p = snd p"
proof (induction ls arbitrary: m)
  case (Cons l ls)
  { case 1 then show ?case using Cons(1) [of "insert_leaf l m"] by (auto simp: insert_leaf_def btree_insert_keys) }
  { case 2 then show ?case using Cons(2) [of "insert_leaf l m"] by (simp add: insert_leaf_def btree_insert_sorted) }
  { case 3
    then have "\<forall>p \<in> set (insert_leaf l m). fst p = snd p" by (simp add: insert_leaf_def btree_insert_diag)
    then show ?case using Cons(3) by simp }
qed simp_all

lemma gather_payload_paths_Ok:
  assumes "gather_payload_paths es = Ok ps" and "wf_entries es"
  shows "list_all leaf_ok (payload_leaves [] es)"
    and "fst ` set ps = join_path ` fst ` set (payload_leaves [] es)"
    and "sorted_wrt (<) (map fst ps)" and "\<forall>p \<in> set ps. fst p = snd p"
proof -
  obtain g' where "gather_directory [] es \<lparr>ga_payloads = [], ga_entries_seen = 0\<rparr> = Ok g'"
    "ps = ga_payloads g'" using assms(1) by (auto simp: gather_payload_paths_def result_simps)
  with gather_root_leaves [OF this(1)] assms(2)
  have *: "list_all leaf_ok (payload_leaves [] es)" "ps = fold insert_leaf (payload_leaves [] es) []" by simp_all
  then show "list_all leaf_ok (payload_leaves [] es)"
    "fst ` set ps = join_path ` fst ` set (payload_leaves [] es)"
    "sorted_wrt (<) (map fst ps)" "\<forall>p \<in> set ps. fst p = snd p"
    using fold_insert_leaf(2,3) [of "[]" "payload_leaves [] es"] by (simp_all only: fold_insert_leaf(1)) simp_all
qed

subsection \<open>Reading a leaf\<close>

lemma payload_leaves_below:
  "(cs, n) \<in> set (payload_leaves below es) \<Longrightarrow> wf_entries es \<Longrightarrow> list_all good_name below \<Longrightarrow>
     list_all good_name cs \<and> (\<exists>rest. rest \<noteq> [] \<and> cs = below @ rest
       \<and> (\<forall>here. walk here (Dir es) rest = Ok (here @ rest, n)))"
proof (induction below es rule: payload_leaves.induct)
  case (2 below name m es)
  have wf: "good_name name" "wf_entries es" "name \<notin> fst ` set es" "\<And>sub. m = Dir sub \<Longrightarrow> wf_entries sub"
    using "2.prems"(2) by (auto simp: wf_entries_Cons)
  show ?case
  proof (cases "(cs, n) \<in> set (payload_leaves below es)")
    case True
    then obtain rest where r: "list_all good_name cs" "rest \<noteq> []" "cs = below @ rest"
      "\<And>here. walk here (Dir es) rest = Ok (here @ rest, n)"
      using "2.IH"(2) wf(2) "2.prems"(3) by blast
    obtain c cs' where c: "rest = c # cs'" using r(2) by (cases rest) auto
    have "map_of es c \<noteq> None" using r(4) [of "[]"] c by (auto split: option.splits)
    then have "c \<noteq> name" using wf(3) by (auto simp: map_of_eq_None_iff)
    then have "walk here (Dir ((name, m) # es)) rest = walk here (Dir es) rest" for here
      by (simp add: c)
    then show ?thesis using r by auto
  next
    case False
    then have ns: "\<not> (below = [] \<and> name = ''SHA256SUMS'')" using "2.prems"(1) by (auto split: if_splits)
    show ?thesis
    proof (cases "\<exists>s. m = Dir s")
      case True
      then obtain s where s: "m = Dir s" by blast
      then have "(cs, n) \<in> set (payload_leaves (below @ [name]) s)" using "2.prems"(1) False ns by (auto split: if_splits)
      from "2.IH"(1) [OF ns s this wf(4) [OF s]] obtain rest where
        r: "list_all good_name cs" "rest \<noteq> []" "cs = below @ name # rest"
        "\<And>here. walk here (Dir s) rest = Ok (here @ rest, n)" using "2.prems"(3) wf(1) by auto
      have "walk here (Dir ((name, m) # es)) (name # rest) = Ok (here @ name # rest, n)" for here
        using r(2,4) s by simp
      then show ?thesis using r by blast
    next
      case leaf: False
      then have "cs = below @ [name]" "n = m" using "2.prems"(1) False ns by (cases m; auto split: if_splits)+
      then show ?thesis using "2.prems"(3) wf(1) by auto
    qed
  qed
qed simp

lemma payload_leaf_walk:
  assumes "(cs, n) \<in> set (payload_leaves [] es)" and "wf_entries es"
  shows "cs \<noteq> []" "list_all good_name cs" "path_parts (join_path cs) = cs"
    "walk root (Dir es) cs = Ok (root @ cs, n)"
  using payload_leaves_below [OF assms] by (auto simp: path_parts_join)

lemma checked_regular_path_leaf:
  assumes "(cs, FileNode content) \<in> set (payload_leaves [] es)" and "wf_entries es"
  shows "checked_regular_path root es (join_path cs) display = Ok (root @ cs, content)"
  using payload_leaf_walk [OF assms] by (simp add: checked_regular_path_def)

lemma hash_loop_None: "hash_loop display rest h None = Ok (h @ rest, None)"
  by (induction "length rest" arbitrary: rest h rule: less_induct)
    (subst hash_loop.simps, auto simp: HASH_BUFFER_BYTES_def Let_def)

lemma hash_loop_Some:
  "length kept + length rest \<le> limit \<Longrightarrow>
     hash_loop display rest h (Some (kept, limit)) = Ok (h @ rest, Some (kept @ rest))"
proof (induction "length rest" arbitrary: rest h kept rule: less_induct)
  case less
  have "rest = take HASH_BUFFER_BYTES rest @ drop HASH_BUFFER_BYTES rest" by simp
  show ?case
    using less by (subst hash_loop.simps) (auto simp: HASH_BUFFER_BYTES_def Let_def)
qed

lemma hash_regular_file_leaf:
  assumes "(cs, FileNode content) \<in> set (payload_leaves [] es)" and "wf_entries es"
  shows "hash_regular_file c root es (join_path cs) display limit =
    (if is_some_and (\<lambda>l. length content > l) limit then Err (over_limit display)
     else Ok (root @ cs, cd_hex c (cd_sha256 c content), map_option (\<lambda>_. content) limit))"
  by (cases limit)
    (simp_all add: hash_regular_file_def checked_regular_path_leaf [OF assms] hash_loop_None hash_loop_Some)

subsection \<open>The entries of a checksum file\<close>

text \<open>The pairs of digest and path that the lines of a checksum file declare.\<close>

definition line_entry :: "bytes \<Rightarrow> (string \<times> string) list" where
  "line_entry raw = (let line = trim_line_end raw in if trim line = [] then []
     else case split_two_spaces line of None \<Rightarrow> [] | Some p \<Rightarrow> [p])"

definition declared :: "bytes \<Rightarrow> (string \<times> string) list" where
  "declared sums = concat (map line_entry (split_on CHR 0x0A sums))"

text \<open>The payloads of a tree with their digests.\<close>

definition digests_of :: "Codecs \<Rightarrow> entries \<Rightarrow> (string \<times> string) set" where
  "digests_of c es = {(cd_hex c (cd_sha256 c content), join_path cs) | cs content.
     (cs, FileNode content) \<in> set (payload_leaves [] es)}"

lemma trim_line_end_snoc [simp]: "trim_line_end (line @ [CHR 0x0A]) = trim_line_end line"
  by (simp add: trim_line_end_def)

lemma line_entry_snoc [simp]: "line_entry (line @ [CHR 0x0A]) = line_entry line"
  by (simp add: line_entry_def)

lemma line_entry_Nil [simp]: "line_entry [] = []"
  by (simp add: line_entry_def trim_line_end_def trim_def trim_chars_def)

lemma takeWhile_line:
  assumes "c \<notin> set line"
  shows "takeWhile (\<lambda>b. b \<noteq> c) line = line" "takeWhile (\<lambda>b. b \<noteq> c) (line @ c # rest) = line"
  using assms by (induction line) auto

lemma read_until_last: "CHR 0x0A \<notin> set line \<Longrightarrow> read_until line = (line, [])"
  by (simp add: read_until_def takeWhile_line Let_def)

lemma read_until_line: "CHR 0x0A \<notin> set line \<Longrightarrow> read_until (line @ CHR 0x0A # rest) = (line @ [CHR 0x0A], rest)"
  by (simp add: read_until_def takeWhile_line Let_def)

lemma declared_Nil [simp]: "declared [] = []"
  by (simp add: declared_def)

lemma declared_read_until:
  "declared bs = line_entry (fst (read_until bs)) @ declared (snd (read_until bs))"
proof (cases "CHR 0x0A \<in> set bs")
  case True
  then obtain line rest where bs: "bs = line @ CHR 0x0A # rest" "CHR 0x0A \<notin> set line"
    by (metis split_list_first)
  then show ?thesis by (simp add: declared_def read_until_line split_on_join)
next
  case False
  then show ?thesis by (simp add: declared_def read_until_last split_on_none)
qed

lemma payload_leaves_not_sums:
  "(cs, n) \<in> set (payload_leaves below es) \<Longrightarrow> length below < length cs \<and> cs \<noteq> [''SHA256SUMS'']"
proof (induction below es rule: payload_leaves.induct)
  case (2 below name m es)
  show ?case
  proof (cases "(cs, n) \<in> set (payload_leaves below es)")
    case False
    then have ns: "\<not> (below = [] \<and> name = ''SHA256SUMS'')" using "2.prems"(1) by (auto split: if_splits)
    show ?thesis
    proof (cases m)
      case (Dir s)
      then have "(cs, n) \<in> set (payload_leaves (below @ [name]) s)" using "2.prems" False ns by (auto split: if_splits)
      from "2.IH"(1) [OF ns Dir this] show ?thesis by auto
    qed (use "2.prems" False ns in \<open>auto split: if_splits\<close>)
  qed (use "2.IH" in blast)
qed simp

definition record_entry :: "Codecs \<Rightarrow> string list \<Rightarrow> string list \<Rightarrow> bytes \<Rightarrow> ChecksumScan \<Rightarrow> ChecksumScan" where
  "record_entry c root cs content s = s\<lparr>ck_names := ck_names s @ [join_path cs],
     ck_targets := ck_targets s @ [root @ cs],
     ck_digests := (ck_digests s)(join_path cs \<mapsto> cd_hex c (cd_sha256 c content)),
     ck_retained := (case retained_limit (join_path cs) of Some _ \<Rightarrow> (ck_retained s)(join_path cs \<mapsto> content)
       | None \<Rightarrow> ck_retained s)\<rparr>"

definition within_limit :: "string \<Rightarrow> bytes \<Rightarrow> bool" where
  "within_limit relative content \<longleftrightarrow> \<not> is_some_and (\<lambda>l. length content > l) (retained_limit relative)"

lemma check_entry_leaf:
  assumes leaf: "(cs, FileNode content) \<in> set (payload_leaves [] es)" and wf: "wf_entries es"
    and ps: "gather_payload_paths es = Ok ps"
  shows "check_entry c root es ps d (join_path cs) s = Ok s' \<longleftrightarrow>
    length d = 64 \<and> list_all is_lower_hex d \<and> join_path cs \<notin> set (ck_names s) \<and> root @ cs \<notin> set (ck_targets s)
    \<and> within_limit (join_path cs) content \<and> d = cd_hex c (cd_sha256 c content)
    \<and> s' = record_entry c root cs content s"
proof -
  note cs = payload_leaf_walk [OF leaf wf] and paths = gather_payload_paths_Ok [OF ps wf]
  have utf8: "list_all utf8_name cs" using paths(1) leaf by (auto simp: list_all_iff leaf_ok_def)
  have key: "join_path cs \<in> fst ` set ps" using paths(2) leaf by force
  have valid: "validate_relative_path (join_path cs) = Ok (join_path cs)"
    using cs(1,2) payload_leaves_not_sums [OF leaf]
    by (simp add: validate_relative_path_def join_path_Nil_iff join_path_sums_iff not_absolute_join path_components_join)
  show ?thesis
    by (auto simp: check_entry_def valid normalized_join [OF cs(1,2)] utf8 key hash_regular_file_leaf [OF leaf wf]
        within_limit_def record_entry_def split: option.splits)
qed

lemma check_entry_Ok:
  assumes "check_entry c root es ps d p s = Ok s'" and wf: "wf_entries es" and ps: "gather_payload_paths es = Ok ps"
  obtains cs content where "(cs, FileNode content) \<in> set (payload_leaves [] es)" "p = join_path cs"
    "d = cd_hex c (cd_sha256 c content)" "p \<notin> set (ck_names s)" "s' = record_entry c root cs content s"
proof -
  have "p \<in> fst ` set ps" using assms(1) by (auto simp: check_entry_def result_simps split: if_splits)
  then obtain cs n where leaf: "(cs, n) \<in> set (payload_leaves [] es)" "p = join_path cs"
    using gather_payload_paths_Ok(2) [OF ps wf] by auto
  moreover obtain content where "n = FileNode content"
    using gather_payload_paths_Ok(1) [OF ps wf] leaf(1) by (auto simp: list_all_iff leaf_ok_def)
  ultimately show thesis using that check_entry_leaf [OF _ wf ps] assms(1) by blast
qed

definition scans ::
  "Codecs \<Rightarrow> entries \<Rightarrow> (string \<times> string) list \<Rightarrow> ChecksumScan \<Rightarrow> ChecksumScan \<Rightarrow> bool" where
  "scans c es ents s s' \<longleftrightarrow> set ents \<subseteq> digests_of c es \<and> ck_names s' = ck_names s @ map snd ents
     \<and> (distinct (ck_names s) \<longrightarrow> distinct (ck_names s'))
     \<and> (\<forall>p b. ck_retained s' p = Some b \<longrightarrow> ck_retained s p = Some b
       \<or> (\<exists>cs. (cs, FileNode b) \<in> set (payload_leaves [] es) \<and> p = join_path cs))"

lemma scans_refl: "scans c es [] s s"
  by (simp add: scans_def)

lemma scans_trans: "scans c es e1 s s1 \<Longrightarrow> scans c es e2 s1 s2 \<Longrightarrow> scans c es (e1 @ e2) s s2"
  unfolding scans_def by (elim conjE, intro conjI) (simp, simp, blast, blast)

lemma check_line_scans:
  assumes "check_line c root es ps raw s = Ok s'" and wf: "wf_entries es" and ps: "gather_payload_paths es = Ok ps"
  shows "scans c es (line_entry raw) s s'"
proof (cases "trim (trim_line_end raw) = []")
  case True
  then have "s' = s\<lparr>ck_total := ck_total s + length raw\<rparr>" "line_entry raw = []"
    using assms(1) by (auto simp: check_line_def from_utf8_def line_entry_def Let_def split: if_splits)
  then show ?thesis by (simp add: scans_def)
next
  case False
  let ?s = "s\<lparr>ck_total := ck_total s + length raw\<rparr>"
  obtain d p where dp: "split_two_spaces (trim_line_end raw) = Some (d, p)"
    "check_entry c root es ps d p ?s = Ok s'"
    using assms(1) False by (auto simp: check_line_def from_utf8_def Let_def split: if_splits option.splits)
  obtain cs content where leaf: "(cs, FileNode content) \<in> set (payload_leaves [] es)" "p = join_path cs"
    "d = cd_hex c (cd_sha256 c content)" "p \<notin> set (ck_names ?s)" "s' = record_entry c root cs content ?s"
    using check_entry_Ok [OF dp(2) wf ps] by blast
  have "line_entry raw = [(d, p)]" using False dp(1) by (simp add: line_entry_def)
  then show ?thesis
    using leaf by (auto simp: scans_def digests_of_def record_entry_def split: option.splits if_splits)
qed

lemma check_lines_scans:
  "check_lines c root es ps bs s = Ok s' \<Longrightarrow> wf_entries es \<Longrightarrow> gather_payload_paths es = Ok ps
     \<Longrightarrow> scans c es (declared bs) s s'"
proof (induction c root es ps bs s rule: check_lines.induct)
  case (1 c root es ps bs s)
  show ?case
  proof (cases "bs = []")
    case True
    then show ?thesis using "1.prems"(1) by (simp add: check_lines.simps scans_refl)
  next
    case False
    then obtain s1 where step: "check_line c root es ps (fst (read_until bs)) s = Ok s1"
      "check_lines c root es ps (snd (read_until bs)) s1 = Ok s'"
      using "1.prems"(1) by (subst (asm) check_lines.simps) (auto split: sum.splits)
    then show ?thesis
      using scans_trans check_line_scans [OF step(1) "1.prems"(2,3)] "1.IH" [OF False step "1.prems"(2,3)]
      by (subst declared_read_until) blast
  qed
qed

lemma leaf_unique:
  assumes "(cs, n) \<in> set (payload_leaves [] es)" "(cs', n') \<in> set (payload_leaves [] es)" "wf_entries es"
    and "join_path cs = join_path cs'"
  shows "cs = cs' \<and> n = n'"
proof -
  have "cs = cs'" using assms payload_leaf_walk(2) join_path_inject by metis
  moreover have "walk [] (Dir es) cs = Ok ([] @ cs, n)" "walk [] (Dir es) cs' = Ok ([] @ cs', n')"
    using payload_leaf_walk(4) assms by blast+
  ultimately show ?thesis by simp
qed

lemma checked_sums:
  assumes "checked_regular_path root es ''SHA256SUMS'' display = Ok (canonical, sums)"
  shows "map_of es ''SHA256SUMS'' = Some (FileNode sums)"
proof -
  have "path_parts ''SHA256SUMS'' = [''SHA256SUMS'']" by code_simp
  then show ?thesis using assms
    by (auto simp: checked_regular_path_def result_simps map_err_def split: option.splits node.splits if_splits)
qed

lemma verify_payloads_Ok:
  assumes run: "verify_payloads c root es = Ok (s, m)" and wf: "wf_entries es"
  shows "\<exists>sums. map_of es ''SHA256SUMS'' = Some (FileNode sums) \<and> set (declared sums) = digests_of c es
      \<and> distinct (map snd (declared sums)) \<and> ck_names s = map snd (declared sums)"
    and "list_all leaf_ok (payload_leaves [] es)"
    and "ck_retained s ''manifest.json'' = Some m"
    and "\<And>p b. ck_retained s p = Some b \<Longrightarrow> \<exists>cs. (cs, FileNode b) \<in> set (payload_leaves [] es) \<and> p = join_path cs"
proof -
  obtain ps canonical sums where ps: "gather_payload_paths es = Ok ps"
    and sums: "checked_regular_path root es ''SHA256SUMS'' ''SHA256SUMS'' = Ok (canonical, sums)"
    and scan: "check_lines c root es ps sums empty_scan = Ok s"
    and m: "ck_retained s ''manifest.json'' = Some m"
    and all: "List.find (\<lambda>(relative, _). relative \<notin> set (ck_names s)) ps = None"
    using run by (fastforce simp: verify_payloads_def result_simps split: if_splits option.splits)
  have sc: "scans c es (declared sums) empty_scan s" by (rule check_lines_scans [OF scan wf ps])
  then have names: "ck_names s = map snd (declared sums)" and dist: "distinct (ck_names s)"
    and sub: "set (declared sums) \<subseteq> digests_of c es"
    unfolding scans_def by (elim conjE; simp add: empty_scan_def; fail)+
  have "digests_of c es \<subseteq> set (declared sums)"
  proof
    fix e assume "e \<in> digests_of c es"
    then obtain cs content where leaf: "(cs, FileNode content) \<in> set (payload_leaves [] es)"
      and e: "e = (cd_hex c (cd_sha256 c content), join_path cs)" by (auto simp: digests_of_def)
    then have "join_path cs \<in> fst ` set ps" using gather_payload_paths_Ok(2) [OF ps wf] by force
    then have "join_path cs \<in> set (ck_names s)" using all by (auto simp: find_None_iff)
    then obtain d where d: "(d, join_path cs) \<in> set (declared sums)" using names by auto
    then obtain cs' content' where "(cs', FileNode content') \<in> set (payload_leaves [] es)"
      "join_path cs = join_path cs'" "d = cd_hex c (cd_sha256 c content')"
      using sub by (auto simp: digests_of_def)
    then show "e \<in> set (declared sums)" using leaf_unique [OF leaf _ wf] d e by fastforce
  qed
  then show "\<exists>sums. map_of es ''SHA256SUMS'' = Some (FileNode sums) \<and> set (declared sums) = digests_of c es
      \<and> distinct (map snd (declared sums)) \<and> ck_names s = map snd (declared sums)"
    using checked_sums [OF sums] sub names dist by auto
  show "list_all leaf_ok (payload_leaves [] es)" by (rule gather_payload_paths_Ok(1) [OF ps wf])
  show "ck_retained s ''manifest.json'' = Some m" by (rule m)
  show "\<exists>cs. (cs, FileNode b) \<in> set (payload_leaves [] es) \<and> p = join_path cs" if "ck_retained s p = Some b" for p b
    using sc that by (simp add: scans_def empty_scan_def)
qed

subsection \<open>What verification shows of the files\<close>

text \<open>
  C9. A bundle verifies only if its \<open>SHA256SUMS\<close> declares exactly the files of the directory tree,
  each once and with the SHA-256 digest of its content: nothing is left out, nothing extra is
  declared, and no link, socket or device is among the payloads. The manifest that is returned was read
  from the bundle's \<open>manifest.json\<close>, the run id is the name of the directory and the run has ended.
\<close>

theorem verified_bundle_integrity:
  assumes "canonicalize path = Ok (root, Dir es)" and "wf_entries es"
    and "verify_evidence_bundle_data c canonicalize path = Return (Ok b)"
  shows "(\<exists>sums. map_of es ''SHA256SUMS'' = Some (FileNode sums) \<and> set (declared sums) = digests_of c es
      \<and> distinct (map snd (declared sums)))
    \<and> (\<forall>(cs, n) \<in> set (payload_leaves [] es). \<exists>content. n = FileNode content)
    \<and> (\<exists>m. ([''manifest.json''], FileNode m) \<in> set (payload_leaves [] es) \<and> cd_manifest c m = Ok (vb_manifest b))
    \<and> root_name root = Some (em_run_id (vb_manifest b)) \<and> is_terminal (em_run_status (vb_manifest b))"
proof -
  obtain s mb m where v: "verify_payloads c root es = Ok (s, mb)" and m: "cd_manifest c mb = Ok m"
    and valid: "validate_manifest c m = Ok ()"
    and rest: "validate_record_consistency c (path_display root) (root_name root) (measurements_file root es) m
      (ck_retained s) (ck_digests s) = Return (Ok b)"
    using assms(3) by (auto simp: verify_evidence_bundle_data_def canonical_bundle_root_def assms(1) result_simps)
  note ok = verify_payloads_Ok [OF v assms(2)]
  obtain cs where leaf: "(cs, FileNode mb) \<in> set (payload_leaves [] es)" and cs: "''manifest.json'' = join_path cs"
    using ok(4) [OF ok(3)] by blast
  have "cs = [''manifest.json'']"
    by (rule join_path_single [OF payload_leaf_walk(2) [OF leaf assms(2)] cs [symmetric]]) (simp add: good_name_def)
  moreover have "vb_manifest b = m" "root_name root = Some (em_run_id m)"
    by (rule consistency_Ok [OF rest], simp)+
  moreover have "is_terminal (em_run_status m)"
    using valid by (auto simp: validate_manifest_def split: if_splits)
  ultimately show ?thesis using ok(1,2) leaf m by (auto simp: list_all_iff leaf_ok_def)
qed

subsection \<open>Writing and verifying\<close>

lemma length_payload_leaves: "length (payload_leaves below es) \<le> entry_count below es"
  by (induction below es rule: payload_leaves.induct) (auto split: node.splits)

lemma fold_insert_leaf_length: "length (fold insert_leaf ls m) \<le> length ls + length m"
proof -
  have "length (btree_insert k v m) \<le> Suc (length m)" for k v and m :: "(string \<times> string) list"
    by (induction m) auto
  then have "length (insert_leaf l m) \<le> Suc (length m)" for l m by (simp add: insert_leaf_def)
  then show ?thesis
  proof (induction ls arbitrary: m)
    case (Cons l ls)
    have "length (fold insert_leaf ls (insert_leaf l m)) \<le> length ls + length (insert_leaf l m)"
      by (rule Cons.IH) (rule Cons.prems)
    then show ?case using Cons.prems [of l m] by simp
  qed simp
qed

lemma gather_append:
  "gather_directory below (es @ fs) g = and_then (gather_directory below es g) (gather_directory below fs)"
  by (induction below es g rule: gather_directory.induct)
    (auto simp: gather_directory.simps(2) Let_def and_then_def split: sum.splits node.splits)

lemma utf8_char_start: "is_utf8_char (b # t) \<Longrightarrow> \<not> is_continuation b"
  by (auto simp: is_utf8_char_def is_continuation_def split: list.splits)

lemma from_utf8_append:
  assumes "from_utf8 a \<noteq> None" and "from_utf8 b \<noteq> None"
  shows "from_utf8 (a @ b) = Some (a @ b)"
proof -
  have ok: "list_all is_utf8_char (utf8_chars a)" "list_all is_utf8_char (utf8_chars b)"
    using assms by (auto simp: from_utf8_def split: if_splits)
  have "wf_tail (utf8_chars b)"
  proof (cases b)
    case (Cons x t)
    then have "\<not> is_continuation x" using ok(2) utf8_char_start [of x "takeWhile is_continuation t"] by simp
    then have "dropWhile is_continuation b = b" using Cons by simp
    then show ?thesis using wf_chars_utf8_chars_dropWhile [of b] by simp
  qed simp
  then have "wf_chars (utf8_chars a @ utf8_chars b)"
    using wf_chars_utf8_chars [of a] by (cases "utf8_chars a") (auto simp: wf_tail_append wf_tail_wf_chars)
  then have "utf8_chars (a @ b) = utf8_chars a @ utf8_chars b"
    using utf8_chars_concat by (metis concat_append concat_utf8_chars)
  then show ?thesis using ok by (simp add: from_utf8_def)
qed

lemma from_utf8_ascii: "list_all (\<lambda>b. byte_of b < 128) s \<Longrightarrow> from_utf8 s \<noteq> None"
proof (induction s)
  case (Cons b s)
  have "from_utf8 [b] \<noteq> None" using Cons.prems by (simp add: from_utf8_def is_utf8_char_def)
  then show ?case using from_utf8_append [of "[b]" s] Cons by simp
qed (simp add: from_utf8_def)

lemma from_utf8_join: "list_all utf8_name cs \<Longrightarrow> from_utf8 (join_path cs) \<noteq> None"
proof (induction cs rule: induct_list012)
  case (3 a b cs)
  have "from_utf8 (CHR ''/'' # join_path (b # cs)) \<noteq> None"
    using from_utf8_append [of "''/''" "join_path (b # cs)"] from_utf8_ascii [of "''/''"] 3
    by (simp add: byte_of_def)
  then show ?case using from_utf8_append [of a] 3 by (simp add: utf8_name_def)
qed (simp_all add: from_utf8_def utf8_name_def)

lemma split_two_spaces_digest:
  "CHR '' '' \<notin> set d \<Longrightarrow> split_two_spaces (d @ CHR '' '' # CHR '' '' # p) = Some (d, p)"
proof (induction d)
  case (Cons x d)
  then show ?case by (cases d) auto
qed simp

text \<open>The bundle after the checksum file is set: the same leaves and the same payloads.\<close>

lemma set_entry_cases:
  "set_entry name n es = es @ [(name, n)] \<and> name \<notin> fst ` set es
   \<or> set_entry name n es = map (\<lambda>(k, v). if k = name then (k, n) else (k, v)) es"
  by (simp add: set_entry_def)

lemma payload_leaves_append: "payload_leaves below (es @ fs) = payload_leaves below es @ payload_leaves below fs"
  by (induction es) (auto split: node.splits)

lemma payload_leaves_set_sums: "payload_leaves [] (set_entry ''SHA256SUMS'' n es) = payload_leaves [] es"
proof -
  have "payload_leaves [] (map (\<lambda>(k, v). if k = ''SHA256SUMS'' then (k, n) else (k, v)) es) = payload_leaves [] es"
    by (induction es) (auto split: node.splits)
  then show ?thesis
    using set_entry_cases [of "''SHA256SUMS''" n es] by (auto simp: payload_leaves_append)
qed

lemma wf_entries_append_single:
  assumes "wf_entries es" and "name \<notin> fst ` set es" and "good_name name"
  shows "wf_entries (es @ [(name, FileNode content)])"
  using assms by (simp only: wf_entries.simps [of "es @ _"] wf_entries.simps [of es]) auto

lemma wf_entries_set_file:
  assumes "wf_entries es" and "good_name name"
  shows "wf_entries (set_entry name (FileNode content) es)"
proof -
  have "map fst (map (\<lambda>(k, v). if k = name then (k, FileNode content) else (k, v)) es) = map fst es"
    by auto
  then have "wf_entries (map (\<lambda>(k, v). if k = name then (k, FileNode content) else (k, v)) es)"
    using assms(1) by (simp only: wf_entries.simps [of "map _ es"] wf_entries.simps [of es]) (auto split: if_splits)
  then show ?thesis
    using wf_entries_append_single [OF assms(1) _ assms(2)] by (simp add: set_entry_def)
qed

lemma normalized_sums: "normalized_relative_path ''SHA256SUMS'' = Ok ''SHA256SUMS''"
  by code_simp

lemma gather_skip_sums:
  "gather_directory [] ((''SHA256SUMS'', n) # es) g = (if ga_entries_seen g + 1 > MAX_CHECKSUM_ENTRIES
     then Err TooManyChecksumEntries else gather_directory [] es (g\<lparr>ga_entries_seen := ga_entries_seen g + 1\<rparr>))"
  by (simp add: gather_directory.simps(2) child_path_def normalized_sums)

lemma gather_replace_sums:
  "gather_directory [] (map (\<lambda>(k, v). if k = ''SHA256SUMS'' then (k, n) else (k, v)) es) g = gather_directory [] es g"
proof (induction es arbitrary: g)
  case (Cons e es)
  obtain k v where e: "e = (k, v)" by (cases e)
  show ?case
  proof (cases "k = ''SHA256SUMS''")
    case True
    then show ?thesis using Cons e by (simp add: gather_skip_sums)
  next
    case False
    then show ?thesis using Cons e
      by (auto simp: gather_directory.simps(2) Let_def and_then_def split: sum.splits node.splits)
  qed
qed simp

lemma gather_set_sums:
  assumes ps: "gather_payload_paths es = Ok ps" and wf: "wf_entries es" and few: "entry_count [] es < MAX_CHECKSUM_ENTRIES"
  shows "gather_payload_paths (set_entry ''SHA256SUMS'' n es) = Ok ps" and "length ps < MAX_CHECKSUM_ENTRIES"
proof -
  let ?g = "\<lparr>ga_payloads = [], ga_entries_seen = 0\<rparr>"
  obtain g' where g': "gather_directory [] es ?g = Ok g'" "ps = ga_payloads g'"
    using ps by (auto simp: gather_payload_paths_def result_simps)
  have seen: "ga_entries_seen g' = entry_count [] es" using gather_root_leaves [OF g'(1)] wf by simp
  have "ps = fold insert_leaf (payload_leaves [] es) []"
    using gather_root_leaves [OF g'(1)] wf g'(2) by simp
  then show "length ps < MAX_CHECKSUM_ENTRIES"
    using fold_insert_leaf_length [of "payload_leaves [] es" "[]"] length_payload_leaves [of "[]" es] few by simp
  show "gather_payload_paths (set_entry ''SHA256SUMS'' n es) = Ok ps"
    using set_entry_cases [of "''SHA256SUMS''" n es] g' seen few
    by (auto simp: gather_payload_paths_def gather_replace_sums gather_append gather_skip_sums)
qed

lemma write_all_bytes:
  "cw_flushed (write_all line w) @ cw_buffered (write_all line w) = cw_flushed w @ cw_buffered w @ line"
  "cw_hasher (write_all line w) = cw_hasher w"
proof -
  have "cw_buffered w = []" if "BUF_WRITER_CAPACITY \<le> length line"
    "\<not> length line > BUF_WRITER_CAPACITY - length (cw_buffered w)"
    using that by (cases "cw_buffered w") (simp_all add: BUF_WRITER_CAPACITY_def)
  then show "cw_flushed (write_all line w) @ cw_buffered (write_all line w) = cw_flushed w @ cw_buffered w @ line"
    by (auto simp: write_all_def Let_def)
qed (simp add: write_all_def Let_def)

text \<open>The content of a payload and the line that declares it.\<close>

definition content_at :: "entries \<Rightarrow> string \<Rightarrow> bytes" where
  "content_at es p = (case List.find (\<lambda>l. join_path (fst l) = p) (payload_leaves [] es) of
     Some (_, FileNode content) \<Rightarrow> content | _ \<Rightarrow> [])"

definition digest_at :: "Codecs \<Rightarrow> entries \<Rightarrow> string \<Rightarrow> string" where
  "digest_at c es p = cd_hex c (cd_sha256 c (content_at es p))"

definition sums_of :: "Codecs \<Rightarrow> entries \<Rightarrow> string list \<Rightarrow> bytes" where
  "sums_of c es ps = concat (map (\<lambda>p. checksum_line (digest_at c es p) p) ps)"

lemma content_at_leaf:
  assumes "(cs, FileNode content) \<in> set (payload_leaves [] es)" and "wf_entries es"
  shows "content_at es (join_path cs) = content"
proof -
  obtain l where l: "List.find (\<lambda>l. join_path (fst l) = join_path cs) (payload_leaves [] es) = Some l"
    using assms(1) by (cases "List.find (\<lambda>l. join_path (fst l) = join_path cs) (payload_leaves [] es)")
      (auto simp: find_None_iff)
  then have "l \<in> set (payload_leaves [] es)" "join_path (fst l) = join_path cs"
    by (auto simp: find_Some_iff)
  then have "l = (cs, FileNode content)" using leaf_unique [OF _ assms(1,2), of "fst l" "snd l"] by (metis prod.collapse)
  then show ?thesis using l by (simp add: content_at_def)
qed

text \<open>A path is the path of a file of the tree.\<close>

definition payload :: "entries \<Rightarrow> string \<Rightarrow> bool" where
  "payload es p \<longleftrightarrow> (\<exists>cs content. (cs, FileNode content) \<in> set (payload_leaves [] es) \<and> p = join_path cs)"

lemma payloadE:
  assumes "payload es p" and "wf_entries es"
  obtains cs where "(cs, FileNode (content_at es p)) \<in> set (payload_leaves [] es)" "p = join_path cs"
  using assms content_at_leaf by (fastforce simp: payload_def)

lemma write_lines_Ok:
  assumes wf: "wf_entries es" and tmp: "''SHA256SUMS.tmp'' \<notin> fst ` set es"
  shows "\<forall>(p, q) \<in> set ps. payload es p \<and> q = p \<Longrightarrow> \<exists>w'. write_lines c root es ps w = Ok w'
    \<and> cw_flushed w' @ cw_buffered w' = cw_flushed w @ cw_buffered w @ sums_of c es (map fst ps)
    \<and> cw_hasher w' = cw_hasher w @ sums_of c es (map fst ps)"
proof (induction ps arbitrary: w)
  case (Cons pq ps)
  then obtain p where pq: "pq = (p, p)" "payload es p" by auto
  obtain cs where cs: "(cs, FileNode (content_at es p)) \<in> set (payload_leaves [] es)" "p = join_path cs"
    using payloadE [OF pq(2) wf] .
  let ?es = "set_entry ''SHA256SUMS.tmp'' (FileNode (cw_flushed w)) es"
  have es: "?es = es @ [(''SHA256SUMS.tmp'', FileNode (cw_flushed w))]" using tmp by (simp add: set_entry_def)
  have "wf_entries ?es" by (rule wf_entries_set_file [OF wf]) (simp add: good_name_def)
  moreover have "(cs, FileNode (content_at es p)) \<in> set (payload_leaves [] ?es)"
    using cs(1) by (simp add: es payload_leaves_append)
  ultimately have hash: "hash_regular_file c root ?es p p None = Ok (root @ cs, digest_at c es p, None)"
    using hash_regular_file_leaf [of cs "content_at es p" ?es c root p None] cs(2) by (simp add: digest_at_def)
  let ?line = "checksum_line (digest_at c es p) p"
  let ?w = "(write_all ?line w)\<lparr>cw_hasher := cw_hasher w @ ?line\<rparr>"
  obtain w' where "write_lines c root es ps ?w = Ok w'"
    "cw_flushed w' @ cw_buffered w' = cw_flushed ?w @ cw_buffered ?w @ sums_of c es (map fst ps)"
    "cw_hasher w' = cw_hasher ?w @ sums_of c es (map fst ps)"
    using Cons.IH [of ?w] Cons.prems by auto
  then show ?case
    using hash write_all_bytes [of ?line w] by (simp add: pq(1) sums_of_def Let_def flip: append_assoc)
qed (simp add: sums_of_def)

text \<open>A path a line of the checksum file can hold.\<close>

definition listable :: "string \<Rightarrow> bool" where
  "listable p \<longleftrightarrow> CHR 0x0D \<notin> set p \<and> CHR 0x0A \<notin> set p \<and> length p + 67 \<le> MAX_CHECKSUM_LINE_BYTES"

lemma trim_line_end_id: "xs = [] \<or> last xs \<notin> {CHR 0x0D, CHR 0x0A} \<Longrightarrow> trim_line_end xs = xs"
  by (cases xs rule: rev_cases) (auto simp: trim_line_end_def)

lemma lower_hex_bytes:
  assumes "is_lower_hex ch"
  shows "33 \<le> byte_of ch" "byte_of ch < 127" "ch \<noteq> CHR '' ''" "ch \<noteq> CHR 0x0A"
  using assms by (auto simp: is_lower_hex_def is_ascii_digit_def byte_of_def)

lemma digest_line:
  assumes sha: "sha256_contract (cd_sha256 c)" and hex: "hex_contract (cd_hex c)"
  shows "length (digest_at c es p) = 64" "list_all is_lower_hex (digest_at c es p)"
    "CHR '' '' \<notin> set (digest_at c es p)" "CHR 0x0A \<notin> set (digest_at c es p)"
    "from_utf8 (digest_at c es p) \<noteq> None"
proof -
  show hexs: "length (digest_at c es p) = 64" "list_all is_lower_hex (digest_at c es p)"
    using assms by (simp_all add: digest_at_def sha256_contract_def hex_contract_def)
  show "CHR '' '' \<notin> set (digest_at c es p)" "CHR 0x0A \<notin> set (digest_at c es p)"
    using hexs(2) lower_hex_bytes(3,4) by (auto simp: list_all_iff)
  have "list_all (\<lambda>b. byte_of b < 128) (digest_at c es p)"
    using hexs(2) lower_hex_bytes(2) by (force simp: list_all_iff)
  then show "from_utf8 (digest_at c es p) \<noteq> None" by (rule from_utf8_ascii)
qed

lemma from_utf8_line:
  assumes "from_utf8 d \<noteq> None" and "from_utf8 p \<noteq> None"
  shows "from_utf8 (checksum_line d p) = Some (checksum_line d p)"
proof -
  have ascii: "from_utf8 ''  '' \<noteq> None" "from_utf8 [CHR 0x0A] \<noteq> None"
    by (rule from_utf8_ascii; simp add: byte_of_def)+
  have "from_utf8 (p @ [CHR 0x0A]) \<noteq> None" using from_utf8_append [OF assms(2) ascii(2)] by simp
  then have "from_utf8 (''  '' @ p @ [CHR 0x0A]) \<noteq> None" using from_utf8_append [OF ascii(1)] by simp
  then show ?thesis using from_utf8_append [OF assms(1)] unfolding checksum_line_def by simp
qed

lemma check_line_written:
  assumes wf: "wf_entries es" and ps: "gather_payload_paths es = Ok ps"
    and sha: "sha256_contract (cd_sha256 c)" and hex: "hex_contract (cd_hex c)"
    and p: "(cs, FileNode (content_at es p)) \<in> set (payload_leaves [] es)" "p = join_path cs" "listable p"
      "within_limit p (content_at es p)"
    and s: "p \<notin> set (ck_names s)" "root @ cs \<notin> set (ck_targets s)" "length (ck_names s) < MAX_CHECKSUM_ENTRIES"
    and n: "ck_total s + length (checksum_line (digest_at c es p) p) \<le> MAX_CHECKSUM_FILE_BYTES"
  shows "check_line c root es ps (checksum_line (digest_at c es p) p) s =
    Ok (record_entry c root cs (content_at es p)
      (s\<lparr>ck_total := ck_total s + length (checksum_line (digest_at c es p) p)\<rparr>))"
proof -
  let ?d = "digest_at c es p" and ?l = "checksum_line (digest_at c es p) p"
  note d = digest_line [OF sha hex, of es p]
  have "list_all utf8_name cs"
    using gather_payload_paths_Ok(1) [OF ps wf] p(1) by (auto simp: list_all_iff leaf_ok_def)
  then have utf8: "from_utf8 ?l = Some ?l" using from_utf8_line [OF d(5)] from_utf8_join p(2) by blast
  have ne: "p \<noteq> []" using payload_leaf_walk(1,2) [OF p(1) wf] p(2) by (simp add: join_path_Nil_iff)
  have "last p \<noteq> CHR 0x0D" "last p \<noteq> CHR 0x0A"
    using p(3) last_in_set [OF ne] unfolding listable_def by metis+
  then have "last (?d @ ''  '' @ p) \<notin> {CHR 0x0D, CHR 0x0A}" using ne by simp
  then have "trim_line_end (?d @ ''  '' @ p) = ?d @ ''  '' @ p" by (rule trim_line_end_id [OF disjI2])
  then have trimmed: "trim_line_end ?l = ?d @ ''  '' @ p"
    using trim_line_end_snoc [of "?d @ ''  '' @ p"] by (simp add: checksum_line_def)
  obtain x r where x: "?d = x # r" using d(1) by (cases ?d) auto
  then have "is_lower_hex x" using d(2) by simp
  then have blank: "trim (?d @ ''  '' @ p) \<noteq> []" using trim_graphic [of x] lower_hex_bytes(1,2) x by simp
  have entry: "check_entry c root es ps ?d p (s\<lparr>ck_total := ck_total s + length ?l\<rparr>) =
      Ok (record_entry c root cs (content_at es p) (s\<lparr>ck_total := ck_total s + length ?l\<rparr>))"
    using check_entry_leaf [OF p(1) wf ps] p(2,4) s d(1,2) by (auto simp: digest_at_def)
  have "length ?l \<le> MAX_CHECKSUM_LINE_BYTES" using p(3) d(1) by (simp add: listable_def checksum_line_def)
  then show ?thesis
    using utf8 trimmed blank entry n s(3) split_two_spaces_digest [OF d(3), of p]
    by (simp add: check_line_def Let_def)
qed

lemma check_lines_step:
  assumes "CHR 0x0A \<notin> set line" and "check_line c root es ps (line @ [CHR 0x0A]) s = Ok s1"
  shows "check_lines c root es ps (line @ CHR 0x0A # rest) s = check_lines c root es ps rest s1"
  by (subst check_lines.simps) (simp add: read_until_line [OF assms(1)] assms(2))

text \<open>The state after the lines of some paths have been checked.\<close>

definition checked_paths ::
  "Codecs \<Rightarrow> entries \<Rightarrow> string list \<Rightarrow> ChecksumScan \<Rightarrow> ChecksumScan \<Rightarrow> bool" where
  "checked_paths c es qs s s' \<longleftrightarrow> ck_names s' = ck_names s @ qs
     \<and> (\<forall>p. ck_digests s' p = (if p \<in> set qs then Some (digest_at c es p) else ck_digests s p))
     \<and> (\<forall>p. ck_retained s' p = (if p \<in> set qs \<and> retained_limit p \<noteq> None then Some (content_at es p)
         else ck_retained s p))"

lemma check_lines_written:
  assumes wf: "wf_entries es" and ps: "gather_payload_paths es = Ok ps"
    and sha: "sha256_contract (cd_sha256 c)" and hex: "hex_contract (cd_hex c)"
  shows "\<lbrakk>\<forall>p \<in> set qs. payload es p \<and> listable p \<and> within_limit p (content_at es p);
     distinct (ck_names s @ qs); ck_targets s = map (\<lambda>p. root @ path_parts p) (ck_names s);
     \<forall>p \<in> set (ck_names s). payload es p; length (ck_names s @ qs) \<le> MAX_CHECKSUM_ENTRIES;
     ck_total s + length (sums_of c es qs) \<le> MAX_CHECKSUM_FILE_BYTES\<rbrakk>
   \<Longrightarrow> \<exists>s'. check_lines c root es ps (sums_of c es qs) s = Ok s' \<and> checked_paths c es qs s s'"
proof (induction qs arbitrary: s)
  case Nil
  then show ?case by (simp add: sums_of_def check_lines.simps checked_paths_def)
next
  case (Cons p qs)
  let ?l = "checksum_line (digest_at c es p) p"
  obtain cs where leaf: "(cs, FileNode (content_at es p)) \<in> set (payload_leaves [] es)" "p = join_path cs"
    using payloadE [of es p] wf Cons.prems(1) by auto
  note cs = payload_leaf_walk [OF leaf(1) wf]
  have inj: "path_parts q \<noteq> cs" if "q \<in> set (ck_names s)" for q
  proof
    assume "path_parts q = cs"
    moreover have "payload es q" using Cons.prems(4) that by blast
    then obtain ds where "(ds, FileNode (content_at es q)) \<in> set (payload_leaves [] es)" "q = join_path ds"
      using payloadE wf by blast
    ultimately have "q = p" using payload_leaf_walk(3) wf leaf(2) by metis
    then show False using that Cons.prems(2) by simp
  qed
  let ?s = "record_entry c root cs (content_at es p) (s\<lparr>ck_total := ck_total s + length ?l\<rparr>)"
  have sums: "sums_of c es (p # qs) = ?l @ sums_of c es qs" by (simp add: sums_of_def)
  have "check_line c root es ps ?l s = Ok ?s"
    by (rule check_line_written [OF wf ps sha hex leaf]) (use Cons.prems inj sums in auto)
  moreover have "CHR 0x0A \<notin> set (digest_at c es p @ ''  '' @ p)"
    using digest_line(4) [OF sha hex] Cons.prems(1) by (simp add: listable_def)
  ultimately have step: "check_lines c root es ps (sums_of c es (p # qs)) s = check_lines c root es ps (sums_of c es qs) ?s"
    unfolding sums checksum_line_def using check_lines_step [of "digest_at c es p @ ''  '' @ p"] by simp
  have "\<exists>s'. check_lines c root es ps (sums_of c es qs) ?s = Ok s' \<and> checked_paths c es qs ?s s'"
    by (rule Cons.IH) (use Cons.prems leaf(2) cs(3) sums in \<open>auto simp: record_entry_def payload_def\<close>)
  moreover have "checked_paths c es (p # qs) s s'" if "checked_paths c es qs ?s s'" for s'
    using that leaf(2) by (auto simp: checked_paths_def record_entry_def digest_at_def split: option.splits)
  ultimately show ?case using step by auto
qed

lemma map_of_replaced: "map_of (map (\<lambda>(i, v). if i = k then (i, n) else (i, v)) es) j = (if j = k \<and> k \<in> fst ` set es then Some n else map_of es j)"
proof (induction es)
  case (Cons e es)
  obtain i v where "e = (i, v)" by (cases e)
  then show ?case by (cases "i = k"; cases "i = j") (simp_all add: Cons.IH)
qed simp

lemma map_of_set_entry: "map_of (set_entry k n es) j = (if j = k then Some n else map_of es j)"
proof (cases "k \<in> fst ` set es")
  case False
  then have "map_of es k = None" by (simp add: map_of_eq_None_iff)
  with False show ?thesis by (simp add: set_entry_def map_add_def split: option.splits)
qed (simp add: set_entry_def map_of_replaced)

lemma checked_sums_set:
  "checked_regular_path root (set_entry ''SHA256SUMS'' (FileNode sums) es) ''SHA256SUMS'' ''SHA256SUMS'' =
     Ok (root @ [''SHA256SUMS''], sums)"
proof -
  have "path_parts ''SHA256SUMS'' = [''SHA256SUMS'']" by code_simp
  then show ?thesis by (simp add: checked_regular_path_def map_of_set_entry)
qed

lemma content_at_set_sums: "content_at (set_entry ''SHA256SUMS'' n es) = content_at es"
  by (simp add: content_at_def payload_leaves_set_sums fun_eq_iff)

text \<open>What a directory must hold for its checksum file to be within the limits of verification.\<close>

definition checksum_limits :: "entries \<Rightarrow> bool" where
  "checksum_limits es \<longleftrightarrow> entry_count [] es < MAX_CHECKSUM_ENTRIES
     \<and> (\<forall>(cs, n) \<in> set (payload_leaves [] es). listable (join_path cs)
       \<and> (case n of FileNode content \<Rightarrow> within_limit (join_path cs) content | _ \<Rightarrow> True))"

lemma gathered_payloads:
  assumes "gather_payload_paths es = Ok ps" and "wf_entries es"
  shows "\<forall>(p, q) \<in> set ps. payload es p \<and> q = p"
proof -
  note paths = gather_payload_paths_Ok [OF assms]
  have "payload es p" if p: "p \<in> fst ` set ps" for p
  proof -
    obtain cs n where leaf: "(cs, n) \<in> set (payload_leaves [] es)" "p = join_path cs" using p paths(2) by auto
    moreover from this obtain content where "n = FileNode content"
      using paths(1) by (auto simp: list_all_iff leaf_ok_def)
    ultimately show ?thesis unfolding payload_def by blast
  qed
  then have "\<forall>x \<in> set ps. payload es (fst x)" by simp
  then show ?thesis using paths(4) by (auto dest!: bspec)
qed

lemma remove_entry_absent: "name \<notin> fst ` set es \<Longrightarrow> remove_entry name es = es"
  by (force simp: remove_entry_def filter_id_conv)

lemma write_checksum_file_Ok:
  assumes wf: "wf_entries es" and root: "canonicalize path = Ok (root, Dir es)"
    and tmp: "''SHA256SUMS.tmp'' \<notin> fst ` set es" and run: "write_checksum_file c canonicalize path = Ok (es', hashed)"
  obtains ps where "gather_payload_paths es = Ok ps" "\<forall>p \<in> fst ` set ps. payload es p"
    "hashed = sums_of c es (map fst ps)" "es' = set_entry ''SHA256SUMS'' (FileNode hashed) es"
proof -
  let ?w = "\<lparr>cw_flushed = [], cw_buffered = [], cw_hasher = []\<rparr>"
  have none: "map_of es ''SHA256SUMS.tmp'' = None" using tmp by (simp add: map_of_eq_None_iff)
  note removed = remove_entry_absent [OF tmp]
  obtain ps w where ps: "gather_payload_paths es = Ok ps" and w: "write_lines c root es ps ?w = Ok w"
    and es': "es' = set_entry ''SHA256SUMS'' (FileNode (cw_flushed w @ cw_buffered w)) es" "hashed = cw_hasher w"
    using run by (auto simp: write_checksum_file_def canonical_bundle_root_def root none removed result_simps
        split: if_splits)
  note pay = gathered_payloads [OF ps wf]
  from write_lines_Ok [OF wf tmp pay, of c root ?w] w
  have "cw_flushed w @ cw_buffered w = sums_of c es (map fst ps)" "cw_hasher w = sums_of c es (map fst ps)" by auto
  moreover have "\<forall>p \<in> fst ` set ps. payload es p" using pay by auto
  ultimately show thesis using that ps es' by simp
qed

lemma written_verifies:
  assumes wf: "wf_entries es" and root: "canonicalize path = Ok (root, Dir es)"
    and tmp: "''SHA256SUMS.tmp'' \<notin> fst ` set es"
    and sha: "sha256_contract (cd_sha256 c)" and hex: "hex_contract (cd_hex c)"
    and run: "write_checksum_file c canonicalize path = Ok (es', hashed)"
    and limits: "checksum_limits es" and size: "length hashed \<le> MAX_CHECKSUM_FILE_BYTES"
    and manifest: "([''manifest.json''], FileNode m) \<in> set (payload_leaves [] es)"
  obtains s where "map_of es' ''SHA256SUMS'' = Some (FileNode hashed)" "payload_leaves [] es' = payload_leaves [] es"
    "wf_entries es'" "verify_payloads c root es' = Ok (s, m)"
    "set (ck_names s) = join_path ` fst ` set (payload_leaves [] es)"
    "\<And>cs content. (cs, FileNode content) \<in> set (payload_leaves [] es) \<Longrightarrow>
       ck_digests s (join_path cs) = Some (cd_hex c (cd_sha256 c content))
       \<and> (retained_limit (join_path cs) \<noteq> None \<longrightarrow> ck_retained s (join_path cs) = Some content)"
    "\<And>p. p \<notin> join_path ` fst ` set (payload_leaves [] es) \<Longrightarrow> ck_retained s p = None"
proof -
  obtain ps where ps: "gather_payload_paths es = Ok ps" "\<forall>p \<in> fst ` set ps. payload es p"
    and hashed: "hashed = sums_of c es (map fst ps)" and es': "es' = set_entry ''SHA256SUMS'' (FileNode hashed) es"
    using write_checksum_file_Ok [OF wf root tmp run] .
  have leaves: "payload_leaves [] es' = payload_leaves [] es" unfolding es' by (rule payload_leaves_set_sums)
  have wf': "wf_entries es'" unfolding es' by (rule wf_entries_set_file [OF wf]) (simp add: good_name_def)
  have ps': "gather_payload_paths es' = Ok ps" and few: "length ps < MAX_CHECKSUM_ENTRIES"
    unfolding es' using gather_set_sums [OF ps(1) wf] limits by (simp_all add: checksum_limits_def)
  note paths = gather_payload_paths_Ok [OF ps(1) wf]
  have contents: "content_at es' = content_at es" unfolding es' by (rule content_at_set_sums)
  then have sums: "hashed = sums_of c es' (map fst ps)" using hashed by (simp add: sums_of_def digest_at_def)
  have ok: "payload es' p \<and> listable p \<and> within_limit p (content_at es' p)" if "p \<in> fst ` set ps" for p
  proof -
    have "payload es p" using ps(2) that by (rule bspec)
    then obtain cs where cs: "(cs, FileNode (content_at es p)) \<in> set (payload_leaves [] es)" "p = join_path cs"
      using payloadE wf by blast
    then have "listable p" "within_limit p (content_at es p)"
      using limits by (auto simp: checksum_limits_def dest!: bspec [OF _ cs(1)])
    then show ?thesis using cs leaves contents by (auto simp: payload_def)
  qed
  have "distinct (map fst ps)" using paths(3) by (simp add: strict_sorted_iff)
  then obtain s where s: "check_lines c root es' ps hashed empty_scan = Ok s" "checked_paths c es' (map fst ps) empty_scan s"
    using check_lines_written [OF wf' ps' sha hex, of "map fst ps" empty_scan root] ok size few sums
    by (auto simp: empty_scan_def)
  have member: "join_path cs \<in> set (map fst ps)" if "(cs, n) \<in> set (payload_leaves [] es)" for cs n
    using paths(2) that by force
  have at: "content_at es' (join_path cs) = content" if "(cs, FileNode content) \<in> set (payload_leaves [] es)" for cs content
    using content_at_leaf [OF that wf] contents by simp
  have "ck_retained s ''manifest.json'' = Some m"
    using s(2) member [OF manifest] at [OF manifest] by (simp add: checked_paths_def retained_limit_def)
  moreover have "List.find (\<lambda>(relative, _). relative \<notin> set (ck_names s)) ps = None"
    using s(2) by (force simp: find_None_iff checked_paths_def empty_scan_def)
  ultimately have "verify_payloads c root es' = Ok (s, m)"
    using ps' s(1) size by (simp add: verify_payloads_def es' checked_sums_set)
  moreover have "ck_digests s (join_path cs) = Some (cd_hex c (cd_sha256 c content))
      \<and> (retained_limit (join_path cs) \<noteq> None \<longrightarrow> ck_retained s (join_path cs) = Some content)"
    if "(cs, FileNode content) \<in> set (payload_leaves [] es)" for cs content
    using s(2) member [OF that] at [OF that] by (simp add: checked_paths_def digest_at_def)
  moreover have "set (ck_names s) = join_path ` fst ` set (payload_leaves [] es)"
    and "\<And>p. p \<notin> join_path ` fst ` set (payload_leaves [] es) \<Longrightarrow> ck_retained s p = None"
    using s(2) paths(2) by (simp_all add: checked_paths_def empty_scan_def)
  ultimately show thesis using that leaves wf' by (simp add: es' map_of_set_entry)
qed


text \<open>
  C10. The checksum file that finalization writes verifies: over a directory within the documented limits
  that has a manifest and no left-over temporary file, the written bytes are the ones the pending digest
  was computed from, the payloads are unchanged, and verification accepts every line, hands the manifest
  on, and retains each record with its digest.
\<close>

theorem write_then_verify:
  assumes wf: "wf_entries es" and root: "canonicalize path = Ok (root, Dir es)"
    and tmp: "''SHA256SUMS.tmp'' \<notin> fst ` set es"
    and sha: "sha256_contract (cd_sha256 c)" and hex: "hex_contract (cd_hex c)"
    and run: "write_checksum_file c canonicalize path = Ok (es', hashed)"
    and limits: "checksum_limits es" and size: "length hashed \<le> MAX_CHECKSUM_FILE_BYTES"
    and manifest: "([''manifest.json''], FileNode m) \<in> set (payload_leaves [] es)"
  shows "map_of es' ''SHA256SUMS'' = Some (FileNode hashed) \<and> payload_leaves [] es' = payload_leaves [] es
    \<and> (\<exists>s. verify_payloads c root es' = Ok (s, m)
      \<and> (\<forall>cs content. (cs, FileNode content) \<in> set (payload_leaves [] es) \<longrightarrow>
          ck_digests s (join_path cs) = Some (cd_hex c (cd_sha256 c content))
          \<and> (retained_limit (join_path cs) \<noteq> None \<longrightarrow> ck_retained s (join_path cs) = Some content)))"
  by (rule written_verifies [OF assms]) blast

lemma length_sums_of:
  assumes "sha256_contract (cd_sha256 c)" and "hex_contract (cd_hex c)"
  shows "length (sums_of c es ps) = sum_list (map (\<lambda>p. length p + 67) ps)"
  using digest_line(1) [OF assms] by (induction ps) (simp_all add: sums_of_def checksum_line_def)

text \<open>Writing the checksum file cannot fail once the payloads have been gathered.\<close>

lemma write_checksum_file_runs:
  assumes wf: "wf_entries es" and root: "canonicalize path = Ok (root, Dir es)"
    and tmp: "''SHA256SUMS.tmp'' \<notin> fst ` set es" and fresh: "''SHA256SUMS'' \<notin> fst ` set es"
    and ps: "gather_payload_paths es = Ok ps"
  shows "write_checksum_file c canonicalize path =
    Ok (set_entry ''SHA256SUMS'' (FileNode (sums_of c es (map fst ps))) es, sums_of c es (map fst ps))"
proof -
  let ?w = "\<lparr>cw_flushed = [], cw_buffered = [], cw_hasher = []\<rparr>"
  have none: "map_of es ''SHA256SUMS.tmp'' = None" "map_of es ''SHA256SUMS'' = None"
    using tmp fresh by (simp_all add: map_of_eq_None_iff)
  obtain w where "write_lines c root es ps ?w = Ok w"
    "cw_flushed w @ cw_buffered w = sums_of c es (map fst ps)" "cw_hasher w = sums_of c es (map fst ps)"
    using write_lines_Ok [OF wf tmp gathered_payloads [OF ps wf], of c root ?w] by auto
  then show ?thesis
    using none ps by (simp add: write_checksum_file_def entry_exists_def canonical_bundle_root_def root
        remove_entry_absent [OF tmp])
qed

subsection \<open>Plain trees\<close>

text \<open>A tree of directories and regular files with UTF-8 names.\<close>

function plain_entries :: "entries \<Rightarrow> bool" where
  "plain_entries [] = True"
| "plain_entries ((name, n) # es) = (utf8_name name
     \<and> (case n of Dir sub \<Rightarrow> plain_entries sub | FileNode _ \<Rightarrow> True | _ \<Rightarrow> False) \<and> plain_entries es)"
  by pat_completeness auto
termination
  by (relation "measure (\<lambda>es. size (Dir es))") auto

lemma gather_directory_plain:
  "plain_entries es \<Longrightarrow> wf_entries es \<Longrightarrow> list_all good_name bl \<Longrightarrow> list_all utf8_name bl
     \<Longrightarrow> ga_entries_seen g + entry_count bl es \<le> MAX_CHECKSUM_ENTRIES \<Longrightarrow> is_ok (gather_directory (join_path bl) es g)"
proof (induction bl es arbitrary: g rule: payload_leaves.induct)
  case (2 bl name n es)
  let ?g = "g\<lparr>ga_entries_seen := ga_entries_seen g + 1\<rparr>"
  have good: "list_all good_name (bl @ [name])" "list_all utf8_name (bl @ [name])" and es: "plain_entries es" "wf_entries es"
    using "2.prems" by (auto simp: wf_entries_Cons)
  have cnt: "\<not> ga_entries_seen g + 1 > MAX_CHECKSUM_ENTRIES" using "2.prems"(5) by simp
  note run = gather_Cons [OF good(1), of n es g, unfolded Let_def if_not_P [OF cnt]]
  note IH = "2.IH"(2) [OF es "2.prems"(3,4)]
  show ?case
  proof (cases "bl = [] \<and> name = ''SHA256SUMS''")
    case True
    then show ?thesis using IH [of ?g] run good "2.prems"(5) by simp
  next
    case False
    show ?thesis
    proof (cases n)
      case (Dir s)
      have s: "plain_entries s" "wf_entries s" using "2.prems"(1,2) Dir by (simp_all add: wf_entries_Cons)
      have "is_ok (gather_directory (join_path (bl @ [name])) s ?g)"
        using "2.IH"(1) [OF False Dir s good, of ?g] "2.prems"(5) False Dir by simp
      then obtain h where h: "gather_directory (join_path (bl @ [name])) s ?g = Ok h" by (auto simp: is_ok_iff)
      have "ga_entries_seen h = ga_entries_seen ?g + entry_count (bl @ [name]) s"
        using gather_directory_leaves [OF h good(1) s(2)] by simp
      then show ?thesis unfolding run using IH [of h] good h False Dir "2.prems"(5) by auto
    next
      case (FileNode content)
      then show ?thesis
        unfolding run using IH [of "?g\<lparr>ga_payloads := insert_leaf (bl @ [name], n) (ga_payloads ?g)\<rparr>"] good False "2.prems"(5) by auto
    qed (use "2.prems"(1) in simp_all)
  qed
qed simp

lemma gather_plain:
  assumes "plain_entries es" and "wf_entries es" and "entry_count [] es \<le> MAX_CHECKSUM_ENTRIES"
  shows "gather_payload_paths es = Ok (fold insert_leaf (payload_leaves [] es) [])"
proof -
  obtain g' where "gather_directory [] es \<lparr>ga_payloads = [], ga_entries_seen = 0\<rparr> = Ok g'"
    using gather_directory_plain [OF assms(1,2), of "[]" "\<lparr>ga_payloads = [], ga_entries_seen = 0\<rparr>"] assms(3)
    by (auto simp: is_ok_iff)
  then show ?thesis
    using gather_root_leaves [of es _ g'] assms(2) by (simp add: gather_payload_paths_def)
qed

lemma utf8_name_ascii: "list_all (\<lambda>b. byte_of b < 128) s \<Longrightarrow> utf8_name s"
  by (simp add: utf8_name_def from_utf8_ascii)

subsection \<open>Tampering\<close>

lemma same_digests_subset:
  assumes "wf_entries es" and "wf_entries es'" and "digests_of c es = digests_of c es'"
    and "list_all leaf_ok (payload_leaves [] es)"
    and "\<And>cs x y. (cs, FileNode x) \<in> set (payload_leaves [] es) \<Longrightarrow> (cs, FileNode y) \<in> set (payload_leaves [] es')
      \<Longrightarrow> cd_hex c (cd_sha256 c x) = cd_hex c (cd_sha256 c y) \<Longrightarrow> x = y"
  shows "set (payload_leaves [] es) \<subseteq> set (payload_leaves [] es')"
proof clarify
  fix cs n assume leaf: "(cs, n) \<in> set (payload_leaves [] es)"
  then obtain x where x: "n = FileNode x" using assms(4) by (auto simp: list_all_iff leaf_ok_def)
  then have "(cd_hex c (cd_sha256 c x), join_path cs) \<in> digests_of c es"
    using leaf by (auto simp: digests_of_def)
  then have "(cd_hex c (cd_sha256 c x), join_path cs) \<in> digests_of c es'" using assms(3) by simp
  then obtain cs' y where y: "(cs', FileNode y) \<in> set (payload_leaves [] es')" "join_path cs = join_path cs'"
    "cd_hex c (cd_sha256 c x) = cd_hex c (cd_sha256 c y)" by (auto simp: digests_of_def)
  then have "cs = cs'"
    using join_path_inject payload_leaf_walk(2) [OF leaf assms(1)] payload_leaf_walk(2) [OF y(1) assms(2)] by blast
  then show "(cs, n) \<in> set (payload_leaves [] es')" using assms(5) leaf x y by metis
qed

text \<open>
  C18. A checksum file fixes the bundle: two directories that verify with the same \<open>SHA256SUMS\<close> have the
  same files with the same content, unless two contents of one path have the same digest.
\<close>

theorem same_checksum_file_same_payloads:
  assumes "canonicalize path = Ok (root, Dir es)" and "canonicalize' path' = Ok (root', Dir es')"
    and "wf_entries es" and "wf_entries es'"
    and "verify_evidence_bundle_data c canonicalize path = Return (Ok b)"
    and "verify_evidence_bundle_data c canonicalize' path' = Return (Ok b')"
    and "map_of es ''SHA256SUMS'' = map_of es' ''SHA256SUMS''"
    and "\<And>cs x y. (cs, FileNode x) \<in> set (payload_leaves [] es) \<Longrightarrow> (cs, FileNode y) \<in> set (payload_leaves [] es')
      \<Longrightarrow> cd_hex c (cd_sha256 c x) = cd_hex c (cd_sha256 c y) \<Longrightarrow> x = y"
  shows "set (payload_leaves [] es) = set (payload_leaves [] es')"
proof -
  have run: "\<exists>s m. verify_payloads c root es = Ok (s, m)" "\<exists>s m. verify_payloads c root' es' = Ok (s, m)"
    using assms(5,6) by (auto simp: verify_evidence_bundle_data_def canonical_bundle_root_def assms(1,2) result_simps)
  then have digests: "digests_of c es = digests_of c es'"
    using verify_payloads_Ok(1) [OF _ assms(3)] verify_payloads_Ok(1) [OF _ assms(4)] assms(7)
    by (metis node.inject(1) option.inject)
  have leaves: "list_all leaf_ok (payload_leaves [] es)" "list_all leaf_ok (payload_leaves [] es')"
    using run verify_payloads_Ok(2) assms(3,4) by blast+
  show ?thesis
  proof
    show "set (payload_leaves [] es) \<subseteq> set (payload_leaves [] es')"
      by (rule same_digests_subset [OF assms(3,4) digests leaves(1) assms(8)])
    show "set (payload_leaves [] es') \<subseteq> set (payload_leaves [] es)"
      by (rule same_digests_subset [OF assms(4,3) digests [symmetric] leaves(2)]) (metis assms(8))
  qed
qed

lemma scan_measurements_step:
  assumes "CHR 0x0A \<notin> set line" and "scan_line c plan w n (line @ [CHR 0x0A]) s = Ok s1"
  shows "scan_measurements c plan w n (line @ CHR 0x0A # rest) s = scan_measurements c plan w n rest s1"
  by (subst scan_measurements.simps) (simp add: read_until_line [OF assms(1)] assms(2))

end
