(* ===== verification/EvidenceFacts.thy ===== *)
theory EvidenceFacts
  imports ChecksumFacts
begin

text \<open>
  What the record checks of verification mean: which records they accept, how they relate to the checks of
  the runtimes that produced them, and what a verified bundle is known to hold.
\<close>

subsection \<open>One record\<close>

abbreviation plan_requests :: "ResolvedExperiment \<Rightarrow> u32" where
  "plan_requests plan \<equiv> wl_requests (sp_workload (ex_spec (re_experiment plan)))"

abbreviation plan_runtime :: "ResolvedExperiment \<Rightarrow> RuntimeSpec" where
  "plan_runtime plan \<equiv> sp_runtime (ex_spec (re_experiment plan))"

abbreviation plan_measurement :: "ResolvedExperiment \<Rightarrow> MeasurementSpec" where
  "plan_measurement plan \<equiv> sp_measurement (ex_spec (re_experiment plan))"

definition prior_ok :: "string option \<Rightarrow> MeasurementRecord \<Rightarrow> bool" where
  "prior_ok g r \<longleftrightarrow> (case g of None \<Rightarrow> True | Some x \<Rightarrow> x = mr_generator r)"

lemma aggregate_mismatch_iff:
  assumes "i < 2 ^ 32 - 1"
  shows "\<not> aggregate_mismatch r (of_nat i) w plan g \<longleftrightarrow>
    slot_record (mr_generator r) (plan_requests plan) w i r \<and> prior_ok g r"
proof -
  have "i < 2 ^ LENGTH(32)" using assms by simp
  then have i: "unat (of_nat i :: u32) = i" by (rule unat_of_nat_small)
  then have "(of_nat i :: u32) < w \<longleftrightarrow> i < unat w" by (simp only: word_less_nat_alt)
  then show ?thesis
    using slot_index_eq_iff [OF assms, of "mr_repetition_index r" w]
    by (cases g) (auto simp: aggregate_mismatch_def slot_record_def slot_phase_def prior_ok_def Let_def
        word_gt_0)
qed

text \<open>The request observations of a current llama.cpp record.\<close>

lemma observation_invalid_iff:
  "list_ex (\<lambda>(index, observation). observation_invalid index observation) (zip [0..<length obs] obs) \<longleftrightarrow>
     \<not> observations_valid obs"
proof -
  have "observation_invalid p o' \<longleftrightarrow> \<not> (ro_request_index o' = of_nat p + 1 \<and> ro_latency_micros o' > 0
     \<and> ro_time_to_first_token_micros o' > 0 \<and> ro_time_to_first_token_micros o' \<le> ro_latency_micros o')" for p o'
    by (auto simp: observation_invalid_def word_gt_0)
  then show ?thesis by (simp only: observations_valid_def list_ex_iff list_all_iff case_prod_beta) blast
qed

definition accepted_record :: "ResolvedExperiment \<Rightarrow> u32 \<Rightarrow> nat \<Rightarrow> MeasurementRecord \<Rightarrow> bool" where
  "accepted_record plan w i r \<longleftrightarrow> slot_record (mr_generator r) (plan_requests plan) w i r
     \<and> (case plan_runtime plan of
         RuntimeLocalFake _ _ \<Rightarrow> mr_generator r = LOCAL_FAKE_GENERATOR_VERSION \<and> mr_request_observations r = []
       | RuntimeCpuProbe _ _ \<Rightarrow> mr_generator r = CPU_PROBE_GENERATOR_VERSION \<and> mr_request_observations r = []
       | RuntimeLlamaCpp target _ _ \<Rightarrow>
           mr_generator r = LLAMA_CPP_GENERATOR_VERSION_V1 \<and> target = TargetCpu \<and> mr_request_observations r = []
           \<or> mr_generator r = LLAMA_CPP_GENERATOR_VERSION
             \<and> length (mr_request_observations r) = unat (plan_requests plan)
             \<and> observations_valid (mr_request_observations r)
             \<and> validate_llama_v2_aggregate_consistency r = Ok ()
       | RuntimeVllm _ _ _ \<Rightarrow> False)"

lemma validate_measurement_record_iff:
  assumes "i < 2 ^ 32 - 1"
  shows "validate_measurement_record r (of_nat i) w plan g = Ok () \<longleftrightarrow> accepted_record plan w i r \<and> prior_ok g r"
proof -
  have "LLAMA_CPP_GENERATOR_VERSION_V1 \<noteq> LLAMA_CPP_GENERATOR_VERSION"
    by (simp add: LLAMA_CPP_GENERATOR_VERSION_V1_def LLAMA_CPP_GENERATOR_VERSION_def)
  then show ?thesis
    using aggregate_mismatch_iff [OF assms, of r w plan g] observation_invalid_iff [of "mr_request_observations r"]
    by (cases "plan_runtime plan")
      (auto simp: validate_measurement_record_def accepted_record_def validate_llama_record_def
        invalid_defs)
qed

text \<open>
  C14. The verifier and the adapters agree on records. For the CPU probe the verifier accepts a record
  exactly if the adapter accepts it and it has no request observations; for current llama.cpp
  records, exactly if the adapter accepts it and its aggregates are consistent with its observations.
  So among these records the verifier never accepts one the adapter would have refused.
\<close>

theorem verifier_refines_adapters:
  assumes "i < 2 ^ 32 - 1"
  shows "(plan_runtime plan = RuntimeCpuProbe t k \<and> cf_requests cpu = plan_requests plan \<longrightarrow>
      (validate_measurement_record r (of_nat i) (cf_warmup_runs cpu) plan None = Ok () \<longleftrightarrow>
        cpu_validate_record cpu r i = Ok () \<and> mr_request_observations r = []))
    \<and> (plan_runtime plan = RuntimeLlamaCpp target m k \<and> lm_requests llama = plan_requests plan
        \<and> mr_generator r = LLAMA_CPP_GENERATOR_VERSION \<longrightarrow>
      (validate_measurement_record r (of_nat i) (lm_warmup_runs llama) plan None = Ok () \<longleftrightarrow>
        llama_validate_record llama r i = Ok () \<and> validate_llama_v2_aggregate_consistency r = Ok ()))"
proof -
  have "LLAMA_CPP_GENERATOR_VERSION_V1 \<noteq> LLAMA_CPP_GENERATOR_VERSION"
    by (simp add: LLAMA_CPP_GENERATOR_VERSION_V1_def LLAMA_CPP_GENERATOR_VERSION_def)
  then show ?thesis
    unfolding validate_measurement_record_iff [OF assms] cpu_validate_iff [OF assms] llama_validate_iff [OF assms]
    by (auto simp: accepted_record_def prior_ok_def llama_slot_def slot_record_def)
qed

subsection \<open>The measurement sequence\<close>

lemma read_until_append: "fst (read_until bs) @ snd (read_until bs) = bs"
proof (cases "CHR 0x0A \<in> set bs")
  case True
  then obtain line rest where "bs = line @ CHR 0x0A # rest" "CHR 0x0A \<notin> set line" by (metis split_list_first)
  then show ?thesis by (simp add: read_until_line)
qed (simp add: read_until_last)

lemma scan_line_Ok:
  assumes "scan_line c plan w n line s = Ok s'" and "unat (sn_position s) = i" and "i < 2 ^ 32 - 1"
  obtains r where "cd_measurement c (strip_line_end line) = Ok r" "accepted_record plan w i r"
    "prior_ok (sn_generator s) r" "sn_position s < n" "sn_position s' = sn_position s + 1"
    "sn_records s' = sn_records s @ [r]" "sn_generator s' = Some (mr_generator r)" "sn_seen s' = sn_seen s @ line"
proof -
  have pos: "sn_position s = of_nat i" by (simp flip: assms(2))
  obtain r where r: "cd_measurement c (strip_line_end line) = Ok r"
    "validate_measurement_record r (sn_position s) w plan (sn_generator s) = Ok ()" "sn_position s < n"
    "s' = \<lparr>sn_seen = sn_seen s @ line, sn_position = sn_position s + 1,
      sn_generator = (case sn_generator s of None \<Rightarrow> Some (mr_generator r) | g \<Rightarrow> g), sn_records = sn_records s @ [r]\<rparr>"
    using assms(1) by (auto simp: scan_line_def result_simps invalid_defs split: if_splits)
  have ok: "accepted_record plan w i r" "prior_ok (sn_generator s) r"
    using r(2) validate_measurement_record_iff [OF assms(3)] by (simp_all add: pos)
  moreover have "sn_generator s' = Some (mr_generator r)"
    using r(4) ok(2) by (cases "sn_generator s") (simp_all add: prior_ok_def)
  ultimately show thesis using that r by simp
qed

text \<open>The records from position \<open>i\<close> on are accepted, and share their generator with \<open>g\<close>.\<close>

fun accepted_from :: "ResolvedExperiment \<Rightarrow> u32 \<Rightarrow> nat \<Rightarrow> string option \<Rightarrow> MeasurementRecord list \<Rightarrow> bool" where
  "accepted_from plan w i g [] = True"
| "accepted_from plan w i g (r # rs) = (accepted_record plan w i r \<and> prior_ok g r
     \<and> accepted_from plan w (Suc i) (Some (mr_generator r)) rs)"

lemma accepted_from_nth:
  "accepted_from plan w i g rs \<Longrightarrow> j < length rs \<Longrightarrow> accepted_record plan w (i + j) (rs ! j)"
proof (induction rs arbitrary: i g j)
  case (Cons r rs)
  show ?case
  proof (cases j)
    case (Suc k)
    then show ?thesis using Cons.IH [of "Suc i" "Some (mr_generator r)" k] Cons.prems by simp
  qed (use Cons.prems in simp)
qed simp

lemma accepted_from_generator:
  "accepted_from plan w i (Some g) rs \<Longrightarrow> r \<in> set rs \<Longrightarrow> mr_generator r = g"
  by (induction rs arbitrary: i g) (auto simp: prior_ok_def)

lemma scan_measurements_Ok:
  "scan_measurements c plan w n bs s = Ok s' \<Longrightarrow> unat (sn_position s) = i \<Longrightarrow> i \<le> unat n \<Longrightarrow>
   \<exists>rs. sn_records s' = sn_records s @ rs \<and> unat (sn_position s') = i + length rs \<and> i + length rs \<le> unat n
     \<and> accepted_from plan w i (sn_generator s) rs
     \<and> sn_generator s' = (if rs = [] then sn_generator s else Some (mr_generator (hd rs)))
     \<and> sn_seen s' = sn_seen s @ bs"
proof (induction c plan w n bs s arbitrary: i rule: scan_measurements.induct)
  case (1 c plan w n bs s)
  show ?case
  proof (cases "bs = []")
    case True
    then show ?thesis using "1.prems" by (simp add: scan_measurements.simps)
  next
    case False
    then obtain s1 where s1: "scan_line c plan w n (fst (read_until bs)) s = Ok s1"
      "scan_measurements c plan w n (snd (read_until bs)) s1 = Ok s'"
      using "1.prems"(1) by (subst (asm) scan_measurements.simps) (auto split: sum.splits)
    have bound: "sn_position s < n" using s1(1) by (auto simp: scan_line_def invalid_defs split: if_splits)
    then have i: "i < unat n" using "1.prems"(2) by (simp add: word_less_nat_alt)
    moreover have "(2 :: nat) ^ 32 - 1 = 4294967295" by simp
    ultimately have i32: "i < 2 ^ 32 - 1" using unat_u32_bound [of n] by linarith
    obtain r where r: "accepted_record plan w i r" "prior_ok (sn_generator s) r" "sn_position s1 = sn_position s + 1"
      "sn_records s1 = sn_records s @ [r]" "sn_generator s1 = Some (mr_generator r)"
      "sn_seen s1 = sn_seen s @ fst (read_until bs)"
      using scan_line_Ok [OF s1(1) "1.prems"(2) i32] .
    have pos: "unat (sn_position s1) = Suc i" using r(3) "1.prems"(2) i32 by simp
    obtain rs where rs: "sn_records s' = sn_records s1 @ rs" "unat (sn_position s') = Suc i + length rs"
      "Suc i + length rs \<le> unat n" "accepted_from plan w (Suc i) (sn_generator s1) rs"
      "sn_generator s' = (if rs = [] then sn_generator s1 else Some (mr_generator (hd rs)))"
      "sn_seen s' = sn_seen s1 @ snd (read_until bs)"
      using "1.IH" [OF False s1 pos] i by auto
    have gen: "sn_generator s' = Some (mr_generator r)"
      using rs(4,5) r(5) by (cases rs) (auto simp: prior_ok_def)
    have "fst (read_until bs) @ snd (read_until bs) = bs" by (rule read_until_append)
    then show ?thesis
      using r rs gen by (intro exI [of _ "r # rs"]) auto
  qed
qed

text \<open>In an accepted sequence the measured records follow the warmup records.\<close>

lemma accepted_phase:
  "accepted_record plan w i r \<Longrightarrow> mr_phase r = (if i < unat w then Warmup else Measured)"
  by (simp add: accepted_record_def slot_record_def slot_phase_def)

lemma accepted_measured:
  "accepted_from plan w i g rs \<Longrightarrow> measured_records rs = drop (unat w - i) rs"
proof (induction rs arbitrary: i g)
  case (Cons r rs)
  have "measured_records rs = drop (unat w - Suc i) rs"
    using Cons.IH [of "Suc i" "Some (mr_generator r)"] Cons.prems by simp
  moreover have "mr_phase r = (if i < unat w then Warmup else Measured)"
    using accepted_phase [of plan w i r] Cons.prems by simp
  ultimately show ?case
    by (cases "i < unat w") (simp_all add: measured_records_def Suc_diff_Suc [symmetric])
qed (simp add: measured_records_def)

lemma validate_measurements_Ok:
  assumes "validate_measurements c content_of digest plan st = Ok mv"
  obtains content w n where "content_of = Ok content" "expected_measurement_counts plan st = Ok (w, n)"
    "unat w + unat n < 2 ^ 32" "mv_measured_records mv = n" "length (mv_records mv) = unat w + unat n"
    "accepted_from plan w 0 None (mv_records mv)" "digest = cd_hex c (cd_sha256 c content)"
    "mv_generator mv = (if mv_records mv = [] then None else Some (mr_generator (hd (mv_records mv))))"
proof -
  let ?s = "\<lparr>sn_seen = [], sn_position = 0, sn_generator = None, sn_records = []\<rparr>"
  obtain content w n t s where *: "content_of = Ok content" "expected_measurement_counts plan st = Ok (w, n)"
    "checked_add w n = Some t" "scan_measurements c plan w t content ?s = Ok s"
    "cd_hex c (cd_sha256 c (sn_seen s)) = digest" "sn_position s = t"
    "mv = \<lparr>mv_measured_records = n, mv_generator = sn_generator s, mv_records = sn_records s\<rparr>"
    using assms by (auto simp: validate_measurements_def result_simps invalid_defs split: if_splits)
  have t: "unat w + unat n < 2 ^ 32" "unat t = unat w + unat n"
    using *(3) by (auto simp: checked_simps)
  obtain rs where "sn_records s = rs" "unat (sn_position s) = length rs" "accepted_from plan w 0 None rs"
    "sn_generator s = (if rs = [] then None else Some (mr_generator (hd rs)))" "sn_seen s = content"
    using scan_measurements_Ok [OF *(4), of 0] by auto
  then show thesis using that * t by simp
qed

subsection \<open>A verified bundle\<close>

lemma resolved_eq_digests:
  assumes "resolved_eq a b"
  shows "re_experiment_digest a = re_experiment_digest b" "re_resolved_plan_digest a = re_resolved_plan_digest b"
  using assms by (auto simp: resolved_eq_def set_cost_def dest: arg_cong [of _ _ re_experiment_digest]
      arg_cong [of _ _ re_resolved_plan_digest])

lemma validate_resolved_plan_Ok:
  assumes "validate_resolved_plan c plan m = Ok ()"
  shows "admissible (re_experiment plan)" "re_experiment_digest plan = em_experiment_digest m"
    "re_resolved_plan_digest plan = em_resolved_plan_digest m"
  using assms by (auto simp: validate_resolved_plan_def cd_resolve_def result_simps resolve_Ok_iff split: if_splits)

lemma expected_counts_bound:
  assumes "expected_measurement_counts plan st = Ok (w, n)"
  shows "w = ms_warmup_runs (plan_measurement plan) \<or> w = 0" "n \<le> ms_repetitions (plan_measurement plan)"
    "st \<in> set terminal_states"
  using assms unfolding expected_measurement_counts_def
  by (auto simp: Let_def invalid_defs terminal_states_def word_le_nat_alt checked_simps min_def
      split: ProviderSpec.splits RuntimeSpec.splits RunState.splits LocalFakeScenario.splits if_splits)

lemma verified_consistency:
  assumes "verify_evidence_bundle_data c canonicalize path = Return (Ok b)"
  obtains root es s mb where "canonical_bundle_root canonicalize path = Ok (root, es)"
    "verify_payloads c root es = Ok (s, mb)" "cd_manifest c mb = Ok (vb_manifest b)"
    "validate_manifest c (vb_manifest b) = Ok ()"
    "validate_record_consistency c (path_display root) (root_name root) (measurements_file root es)
      (vb_manifest b) (ck_retained s) (ck_digests s) = Return (Ok b)"
proof -
  obtain root es s mb m where *: "canonical_bundle_root canonicalize path = Ok (root, es)"
    "verify_payloads c root es = Ok (s, mb)" "cd_manifest c mb = Ok m" "validate_manifest c m = Ok ()"
    "validate_record_consistency c (path_display root) (root_name root) (measurements_file root es)
      m (ck_retained s) (ck_digests s) = Return (Ok b)"
    using assms by (auto simp: verify_evidence_bundle_data_def result_simps)
  moreover have "vb_manifest b = m" by (rule consistency_Ok [OF *(5)]) simp
  ultimately show thesis using that by blast
qed

text \<open>
  The verifier returns a verdict on every directory and does not panic: it reads the records only after it has
  checked that the manifest's status is a terminal one, and it has counted the measurements in 32 bits before
  it describes them.
\<close>

lemma validate_manifest_terminal: "validate_manifest c m = Ok () \<Longrightarrow> is_terminal (em_run_status m)"
  by (auto simp: validate_manifest_def split: if_splits)

lemma validate_measurements_length:
  assumes "validate_measurements c file digest plan st = Ok mv"
  shows "length (mv_records mv) < 2 ^ 32"
  by (rule validate_measurements_Ok [OF assms]) simp

lemma verify_returns: "\<exists>v. verify_evidence_bundle_data c canonicalize path = Return v"
  unfolding verify_evidence_bundle_data_def
  by (intro and_check_returns, clarsimp, intro and_check_returns, clarsimp)
    (intro and_check_returns consistency_returns,
     auto dest: validate_manifest_terminal validate_measurements_length)

lemma verify_evidence_bundle_returns: "\<exists>v. verify_evidence_bundle c canonicalize path = Return v"
  using verify_returns [of c canonicalize path] by (auto simp: verify_evidence_bundle_def)

lemma verify_evidence_bundle_Ok:
  "verify_evidence_bundle c canonicalize path = Return (Ok m)
    \<longleftrightarrow> (\<exists>b. verify_evidence_bundle_data c canonicalize path = Return (Ok b) \<and> vb_manifest b = m)"
  by (auto simp: verify_evidence_bundle_def result_simps)

text \<open>The facts of a verified bundle that its users rely on.\<close>

definition sound_bundle :: "VerifiedEvidenceBundle \<Rightarrow> bool" where
  "sound_bundle b \<longleftrightarrow> (let m = vb_manifest b; plan = vb_plan b; ms = vb_measurements b in
     admissible (re_experiment plan) \<and> em_run_status m \<in> set terminal_states
     \<and> re_experiment_digest plan = em_experiment_digest m \<and> re_resolved_plan_digest plan = em_resolved_plan_digest m
     \<and> (\<exists>w n. expected_measurement_counts plan (em_run_status m) = Ok (w, n) \<and> length ms = unat w + unat n
        \<and> accepted_from plan w 0 None ms \<and> length (measured_records ms) = unat n
        \<and> expected_validity m n (ms_repetitions (plan_measurement plan)) = Return (em_validity_status m))
     \<and> (\<forall>p. vb_provenance b = Some p \<longrightarrow> validate_attempt_provenance p m plan
           (if ms = [] then None else Some (mr_generator (hd ms))) = Ok ())
     \<and> (\<forall>r. vb_resources b = Some r \<longrightarrow> validate_attempt_resources r m plan = Ok ()))"

lemma verified_sound:
  assumes "verify_evidence_bundle_data c canonicalize path = Return (Ok b)"
  shows "sound_bundle b"
proof -
  obtain root es and s :: ChecksumScan where manifest: "validate_manifest c (vb_manifest b) = Ok ()"
    and rest: "validate_record_consistency c (path_display root) (root_name root) (measurements_file root es)
      (vb_manifest b) (ck_retained s) (ck_digests s) = Return (Ok b)"
    by (rule verified_consistency [OF assms]) blast
  show ?thesis
  proof (rule consistency_Ok [OF rest])
    fix plan digest mv run attempt provenance resources validity summary events
    assume plan: "validate_resolved_plan c plan (vb_manifest b) = Ok ()"
      and mv: "validate_measurements c (measurements_file root es) digest plan (em_run_status (vb_manifest b)) = Ok mv"
      and prov: "optional_record (cd_provenance c) (ck_retained s) ''attempts/0001/provenance.json''
        (\<lambda>p. validate_attempt_provenance p (vb_manifest b) plan (mv_generator mv)) = Ok provenance"
      and res: "optional_record (cd_resources c) (ck_retained s) ''attempts/0001/resources.json''
        (\<lambda>r. validate_attempt_resources r (vb_manifest b) plan) = Ok resources"
      and validity: "check_validity (vb_manifest b) plan (mv_measured_records mv) validity = Return (Ok ())"
      and b: "b = \<lparr>vb_root = path_display root, vb_manifest = vb_manifest b, vb_plan = plan, vb_provenance = provenance,
        vb_resources = resources, vb_measurements = mv_records mv\<rparr>"
    have bs: "vb_plan b = plan" "vb_provenance b = provenance" "vb_resources b = resources"
      "vb_measurements b = mv_records mv" by (subst b, simp)+
    obtain w n where counts: "expected_measurement_counts plan (em_run_status (vb_manifest b)) = Ok (w, n)"
      and n: "mv_measured_records mv = n" "length (mv_records mv) = unat w + unat n"
      "accepted_from plan w 0 None (mv_records mv)"
      and gen: "mv_generator mv = (if mv_records mv = [] then None else Some (mr_generator (hd (mv_records mv))))"
      using validate_measurements_Ok [OF mv] by metis
    have "length (measured_records (mv_records mv)) = unat n" using accepted_measured [OF n(3)] n(2) by simp
    moreover have "expected_validity (vb_manifest b) n (ms_repetitions (plan_measurement plan)) = Return (em_validity_status (vb_manifest b))"
      using validity n(1) by (auto simp: check_validity_def Let_def result_simps split: if_splits)
    moreover have "\<forall>p. provenance = Some p \<longrightarrow> validate_attempt_provenance p (vb_manifest b) plan (mv_generator mv) = Ok ()"
      using prov by (auto simp: optional_record_def result_simps split: option.splits)
    moreover have "\<forall>r. resources = Some r \<longrightarrow> validate_attempt_resources r (vb_manifest b) plan = Ok ()"
      using res by (auto simp: optional_record_def result_simps split: option.splits)
    ultimately show ?thesis
      using validate_resolved_plan_Ok [OF plan] counts n expected_counts_bound(3) [OF counts]
      by (auto simp: sound_bundle_def Let_def bs gen)
  qed
qed

text \<open>
  C11. What a verified bundle holds: its plan is admissible and has the digests of the manifest; its
  measurements are exactly the number the plan and the terminal status call for, each the record
  expected at its position; and the recorded validity is the one that follows from them, so that a
  \<open>Valid\<close> bundle comes from a succeeded run with every measured repetition present.
\<close>

theorem verified_bundle_consistent:
  assumes "verify_evidence_bundle_data c canonicalize path = Return (Ok b)"
  shows "admissible (re_experiment (vb_plan b))
    \<and> re_experiment_digest (vb_plan b) = em_experiment_digest (vb_manifest b)
    \<and> re_resolved_plan_digest (vb_plan b) = em_resolved_plan_digest (vb_manifest b)
    \<and> (\<exists>w n. expected_measurement_counts (vb_plan b) (em_run_status (vb_manifest b)) = Ok (w, n)
      \<and> length (vb_measurements b) = unat w + unat n \<and> length (measured_records (vb_measurements b)) = unat n
      \<and> (\<forall>i < length (vb_measurements b). accepted_record (vb_plan b) w i (vb_measurements b ! i)))
    \<and> (em_validity_status (vb_manifest b) = Valid \<longleftrightarrow> em_run_status (vb_manifest b) = Succeeded
      \<and> length (measured_records (vb_measurements b)) = unat (ms_repetitions (plan_measurement (vb_plan b))))"
proof -
  obtain w n where sound: "expected_measurement_counts (vb_plan b) (em_run_status (vb_manifest b)) = Ok (w, n)"
      "length (vb_measurements b) = unat w + unat n" "accepted_from (vb_plan b) w 0 None (vb_measurements b)"
      "length (measured_records (vb_measurements b)) = unat n"
    and validity: "expected_validity (vb_manifest b) n (ms_repetitions (plan_measurement (vb_plan b)))
        = Return (em_validity_status (vb_manifest b))"
    and plan: "admissible (re_experiment (vb_plan b))"
      "re_experiment_digest (vb_plan b) = em_experiment_digest (vb_manifest b)"
      "re_resolved_plan_digest (vb_plan b) = em_resolved_plan_digest (vb_manifest b)"
    using verified_sound [OF assms] by (auto simp: sound_bundle_def Let_def)
  have "n \<le> ms_repetitions (plan_measurement (vb_plan b))" by (rule expected_counts_bound(2) [OF sound(1)])
  then have "em_validity_status (vb_manifest b) = Valid \<longleftrightarrow> em_run_status (vb_manifest b) = Succeeded
      \<and> unat n = unat (ms_repetitions (plan_measurement (vb_plan b)))"
    using validity unfolding expected_validity_def
    by (auto simp: word_unat_eq_iff [symmetric] split: RunState.splits if_splits)
  then show ?thesis using sound plan accepted_from_nth [OF sound(3)] by auto
qed

subsection \<open>Written measurements\<close>

text \<open>The measurement file a run writes: one serialized record per line.\<close>

definition jsonl :: "('a \<Rightarrow> bytes) \<Rightarrow> 'a list \<Rightarrow> bytes" where
  "jsonl ser rs = concat (map (\<lambda>r. ser r @ [CHR 0x0A]) rs)"

definition readable :: "Codecs \<Rightarrow> (MeasurementRecord \<Rightarrow> bytes) \<Rightarrow> MeasurementRecord \<Rightarrow> bool" where
  "readable c ser r \<longleftrightarrow> cd_measurement c (ser r) = Ok r \<and> ser r \<noteq> [] \<and> CHR 0x0A \<notin> set (ser r)
     \<and> last (ser r) \<noteq> CHR 0x0D \<and> length (ser r) < MAX_MEASUREMENT_LINE_BYTES"

lemma scan_line_written:
  assumes r: "readable c ser r" and rec: "accepted_record plan w i r" "prior_ok (sn_generator s) r"
    and pos: "unat (sn_position s) = i" "i < unat n"
    and size: "length (sn_seen s) + length (ser r @ [CHR 0x0A]) \<le> MAX_MEASUREMENTS_BYTES"
  shows "scan_line c plan w n (ser r @ [CHR 0x0A]) s = Ok \<lparr>sn_seen = sn_seen s @ ser r @ [CHR 0x0A],
    sn_position = sn_position s + 1, sn_generator = Some (mr_generator r), sn_records = sn_records s @ [r]\<rparr>"
proof -
  have "(2 :: nat) ^ 32 - 1 = 4294967295" by simp
  then have i: "i < 2 ^ 32 - 1" using pos(2) unat_u32_bound [of n] by linarith
  have "sn_position s = of_nat i" by (simp flip: pos(1))
  then have "validate_measurement_record r (sn_position s) w plan (sn_generator s) = Ok ()"
    using validate_measurement_record_iff [OF i] rec by simp
  moreover have "(case sn_generator s of None \<Rightarrow> Some (mr_generator r) | g \<Rightarrow> g) = Some (mr_generator r)"
    using rec(2) by (cases "sn_generator s") (simp_all add: prior_ok_def)
  moreover have "\<not> sn_position s \<ge> n" using pos by (simp add: word_le_nat_alt)
  ultimately show ?thesis
    using r size by (simp add: scan_line_def readable_def strip_line_end_def strip_cr_def)
qed

lemma scan_written:
  "\<lbrakk>\<forall>r \<in> set rs. readable c ser r; accepted_from plan w i (sn_generator s) rs; unat (sn_position s) = i;
    i + length rs \<le> unat n; length (sn_seen s) + length (jsonl ser rs) \<le> MAX_MEASUREMENTS_BYTES\<rbrakk>
   \<Longrightarrow> \<exists>s'. scan_measurements c plan w n (jsonl ser rs) s = Ok s' \<and> sn_seen s' = sn_seen s @ jsonl ser rs
     \<and> unat (sn_position s') = i + length rs \<and> sn_records s' = sn_records s @ rs
     \<and> sn_generator s' = (if rs = [] then sn_generator s else Some (mr_generator (hd rs)))"
proof (induction rs arbitrary: i s)
  case Nil
  then show ?case by (simp add: jsonl_def scan_measurements.simps)
next
  case (Cons r rs)
  let ?s = "\<lparr>sn_seen = sn_seen s @ ser r @ [CHR 0x0A], sn_position = sn_position s + 1,
    sn_generator = Some (mr_generator r), sn_records = sn_records s @ [r]\<rparr>"
  have bytes: "jsonl ser (r # rs) = ser r @ CHR 0x0A # jsonl ser rs" by (simp add: jsonl_def)
  have "Suc i < 4294967296" using Cons.prems(4) unat_u32_bound [of n] unfolding list.size by linarith
  then have pos: "unat (sn_position ?s) = Suc i" using Cons.prems(3) by simp
  have "scan_line c plan w n (ser r @ [CHR 0x0A]) s = Ok ?s"
    by (rule scan_line_written) (use Cons.prems bytes in auto)
  then have step: "scan_measurements c plan w n (jsonl ser (r # rs)) s = scan_measurements c plan w n (jsonl ser rs) ?s"
    unfolding bytes using Cons.prems(1) by (intro scan_measurements_step) (simp_all add: readable_def)
  have "\<exists>s'. scan_measurements c plan w n (jsonl ser rs) ?s = Ok s' \<and> sn_seen s' = sn_seen ?s @ jsonl ser rs
     \<and> unat (sn_position s') = Suc i + length rs \<and> sn_records s' = sn_records ?s @ rs
     \<and> sn_generator s' = (if rs = [] then sn_generator ?s else Some (mr_generator (hd rs)))"
    by (rule Cons.IH) (use Cons.prems bytes pos in auto)
  moreover have "mr_generator (hd rs) = mr_generator r" if "rs \<noteq> []"
    using accepted_from_generator [of plan w "Suc i" "mr_generator r" rs "hd rs"] Cons.prems(2) that by simp
  ultimately show ?case unfolding step by (auto simp: bytes)
qed

lemma written_measurements_accepted:
  assumes "expected_measurement_counts plan st = Ok (w, n)" and "unat w + unat n < 2 ^ 32"
    and "length rs = unat w + unat n" and "accepted_from plan w 0 None rs"
    and "\<forall>r \<in> set rs. readable c ser r" and "length (jsonl ser rs) \<le> MAX_MEASUREMENTS_BYTES"
  shows "validate_measurements c (Ok (jsonl ser rs)) (cd_hex c (cd_sha256 c (jsonl ser rs))) plan st =
    Ok \<lparr>mv_measured_records = n, mv_generator = (if rs = [] then None else Some (mr_generator (hd rs))), mv_records = rs\<rparr>"
proof -
  let ?s = "\<lparr>sn_seen = [], sn_position = 0, sn_generator = None, sn_records = []\<rparr>"
  have t: "checked_add w n = Some (w + n)" "unat (w + n) = unat w + unat n"
    using assms(2) by (simp_all add: checked_add_def)
  have "\<exists>s'. scan_measurements c plan w (w + n) (jsonl ser rs) ?s = Ok s' \<and> sn_seen s' = sn_seen ?s @ jsonl ser rs
     \<and> unat (sn_position s') = 0 + length rs \<and> sn_records s' = sn_records ?s @ rs
     \<and> sn_generator s' = (if rs = [] then sn_generator ?s else Some (mr_generator (hd rs)))"
  proof (rule scan_written [OF assms(5)])
    show "accepted_from plan w 0 (sn_generator ?s) rs" using assms(4) by simp
    show "unat (sn_position ?s) = 0" by simp
    show "0 + length rs \<le> unat (w + n)" unfolding t(2) assms(3) by simp
    show "length (sn_seen ?s) + length (jsonl ser rs) \<le> MAX_MEASUREMENTS_BYTES" using assms(6) by simp
  qed
  then obtain s' where s': "scan_measurements c plan w (w + n) (jsonl ser rs) ?s = Ok s'"
    "sn_seen s' = sn_seen ?s @ jsonl ser rs" "unat (sn_position s') = 0 + length rs" "sn_records s' = sn_records ?s @ rs"
    "sn_generator s' = (if rs = [] then sn_generator ?s else Some (mr_generator (hd rs)))" by (elim exE conjE)
  have "unat (sn_position s') = unat (w + n)" unfolding s'(3) t(2) assms(3) by simp
  then have pos: "sn_position s' = w + n" by (simp only: word_unat_eq_iff)
  have "\<not> MAX_MEASUREMENTS_BYTES < length (jsonl ser rs)" using assms(6) by simp
  then show ?thesis
    by (simp add: validate_measurements_def assms(1) t(1) s' pos)
qed

subsection \<open>The measurements of the local fake runtime\<close>

lemma accepted_fromI:
  "(\<And>j. j < length rs \<Longrightarrow> accepted_record plan w (i + j) (rs ! j) \<and> mr_generator (rs ! j) = g) \<Longrightarrow>
   h = None \<or> h = Some g \<Longrightarrow> accepted_from plan w i h rs"
proof (induction rs arbitrary: i h)
  case (Cons r rs)
  have "accepted_record plan w (Suc i + j) (rs ! j) \<and> mr_generator (rs ! j) = g" if "j < length rs" for j
    using Cons.prems(1) [of "Suc j"] that by simp
  then have "accepted_from plan w (Suc i) (Some g) rs" using Cons.IH by blast
  then show ?case using Cons.prems(1) [of 0] Cons.prems(2) by (auto simp: prior_ok_def)
qed simp

lemma local_fake_accepted:
  assumes "plan_runtime plan = RuntimeLocalFake seed sc"
  shows "accepted_from plan (ms_warmup_runs (plan_measurement plan)) 0 None
    (eo_measurements (local_fake_execute sha plan seed sc))"
  using local_fake_slots [of _ sha plan seed sc]
  by (intro accepted_fromI [where g = LOCAL_FAKE_GENERATOR_VERSION])
    (auto simp: accepted_record_def slot_record_def assms)

lemma local_fake_counts:
  assumes "plan_runtime plan = RuntimeLocalFake seed sc"
    and "sp_provider (ex_spec (re_experiment plan)) = ProviderLocalFake"
  shows "expected_measurement_counts plan (eo_terminal_state (local_fake_execute sha plan seed sc)) =
    Ok (ms_warmup_runs (plan_measurement plan), measured_count (ms_repetitions (plan_measurement plan)) sc)"
  using assms by (cases sc) (simp_all add: expected_measurement_counts_def local_fake_execute_def Let_def measured_count_def)

lemma local_fake_written_accepted:
  fixes sha plan seed sc ser
  assumes "admissible (re_experiment plan)" and "plan_runtime plan = RuntimeLocalFake seed sc"
    and "sp_provider (ex_spec (re_experiment plan)) = ProviderLocalFake"
  defines "out \<equiv> local_fake_execute sha plan seed sc"
  defines "content \<equiv> jsonl ser (eo_measurements out)"
  assumes "\<forall>r \<in> set (eo_measurements out). readable c ser r" and "length content \<le> MAX_MEASUREMENTS_BYTES"
  shows "\<exists>mv. validate_measurements c (Ok content) (cd_hex c (cd_sha256 c content)) plan (eo_terminal_state out) = Ok mv
    \<and> mv_records mv = eo_measurements out
    \<and> mv_measured_records mv = measured_count (ms_repetitions (plan_measurement plan)) sc
    \<and> mv_generator mv \<in> {None, Some LOCAL_FAKE_GENERATOR_VERSION}"
proof -
  let ?w = "ms_warmup_runs (plan_measurement plan)" and ?r = "ms_repetitions (plan_measurement plan)"
  let ?n = "measured_count ?r sc"
  have len: "length (eo_measurements out) = unat ?w + unat ?n"
    by (simp add: out_def local_fake_measurements)
  have "unat ?w + unat ?r \<le> 10000"
    using assms(1,2) by (simp add: admissible_def runtime_admissible_def Let_def records_def)
  moreover have "unat ?n \<le> unat ?r" by (cases sc) (simp_all add: unat_measured_count)
  ultimately have "unat ?w + unat ?n < 2 ^ 32" by simp
  note written_measurements_accepted [OF local_fake_counts [OF assms(2,3), of sha, folded out_def] this len
      local_fake_accepted [OF assms(2), of sha, folded out_def] assms(6) assms(7) [unfolded content_def]]
  moreover have "\<forall>r \<in> set (eo_measurements out). mr_generator r = LOCAL_FAKE_GENERATOR_VERSION"
    by (auto simp: out_def local_fake_measurements measurement_def Let_def)
  ultimately show ?thesis unfolding content_def by (cases "eo_measurements out") auto
qed

text \<open>
  C12. What the local fake runtime produces is what the verifier expects: for an admissible local-fake
  plan, whatever the scenario, the measurement file written from the output of the runtime passes
  the verifier's measurement check under the terminal state of the output, and the verifier reads
  back exactly the records of the output. The writer and the reader of a record are parameters;
  the hypothesis is that the reader inverts the writer and a record is one line within the limits.
\<close>

theorem local_fake_evidence_accepted:
  fixes sha plan seed sc ser
  assumes "admissible (re_experiment plan)" and "plan_runtime plan = RuntimeLocalFake seed sc"
    and "sp_provider (ex_spec (re_experiment plan)) = ProviderLocalFake"
  defines "out \<equiv> local_fake_execute sha plan seed sc"
  defines "content \<equiv> jsonl ser (eo_measurements out)"
  assumes "\<forall>r \<in> set (eo_measurements out). readable c ser r" and "length content \<le> MAX_MEASUREMENTS_BYTES"
  shows "\<exists>mv. validate_measurements c (Ok content) (cd_hex c (cd_sha256 c content)) plan (eo_terminal_state out) = Ok mv
    \<and> mv_records mv = eo_measurements out
    \<and> mv_measured_records mv = measured_count (ms_repetitions (plan_measurement plan)) sc"
  using local_fake_written_accepted [OF assms(1-3), of sha c ser, folded out_def content_def] assms(6,7) by blast

end
