(* ===== verification/SampleBundle.thy ===== *)
theory SampleBundle
  imports EvidenceFacts
begin

text \<open>
  A concrete bundle: the local fake fixture after a successful run, with readers that map the sample's
  payloads to their records. The properties of verification, comparison and the command line are
  evaluated on it.
\<close>

definition sample_run_id :: string where "sample_run_id = ''run-0''"

definition sample_plan :: ResolvedExperiment where "sample_plan = resolved_fixture minimal_local_fake"

definition bundle_record :: "MeasurementPhase \<Rightarrow> u32 \<Rightarrow> MeasurementRecord" where
  "bundle_record phase i = \<lparr>mr_generator = LOCAL_FAKE_GENERATOR_VERSION, mr_attempt_number = 1, mr_phase = phase,
     mr_repetition_index = i, mr_sample_index = 1, mr_latency_micros = 10, mr_time_to_first_token_micros = 4,
     mr_throughput_milli_requests_per_second = 7, mr_successful_requests = 1, mr_failed_requests = 0,
     mr_request_observations = []\<rparr>"

definition sample_measurements :: "MeasurementRecord list" where
  "sample_measurements = [bundle_record Warmup 1, bundle_record Measured 1, bundle_record Measured 2,
     bundle_record Measured 3]"

definition read_sample :: "bytes \<Rightarrow> string + MeasurementRecord" where
  "read_sample line = (if line = ''w1'' then Ok (bundle_record Warmup 1)
     else if line = ''m1'' then Ok (bundle_record Measured 1)
     else if line = ''m2'' then Ok (bundle_record Measured 2)
     else if line = ''m3'' then Ok (bundle_record Measured 3) else Err ''not a record'')"

definition sample_manifest :: EvidenceManifest where
  "sample_manifest = \<lparr>em_format = EVIDENCE_FORMAT_V1, em_run_id = sample_run_id, em_run_status = Succeeded,
     em_validity_status = Valid, em_experiment_digest = zero_digest, em_resolved_plan_digest = zero_digest,
     em_attempt_count = 1\<rparr>"

definition sample_run :: RunRecord where
  "sample_run = \<lparr>rr_run_id = sample_run_id, rr_run_status = Succeeded, rr_created_at = ''t'',
       rr_updated_at = ''t'', rr_completed_at = Some ''t'', rr_experiment_digest = zero_digest,
       rr_resolved_plan_digest = zero_digest, rr_attempt_count = 1, rr_failure = None\<rparr>"

definition sample_attempt :: AttemptRecord where
  "sample_attempt = \<lparr>ar_run_id = sample_run_id, ar_attempt_number = 1, ar_status = AttemptSucceeded,
       ar_started_at = ''t'', ar_updated_at = ''t'', ar_completed_at = Some ''t'', ar_failure = None\<rparr>"

definition sample_validity :: ValidityResult where
  "sample_validity = \<lparr>vy_run_id = sample_run_id, vy_status = Valid, vy_required_samples = 3,
       vy_observed_samples = 3, vy_reasons = []\<rparr>"

definition sample_summary :: RunSummary where
  "sample_summary = \<lparr>su_run_id = sample_run_id, su_run_status = Succeeded, su_attempt_count = 1,
       su_sample_count = 3, su_validity_status = Valid,
       su_latency = Some \<lparr>lat_mean_micros = 10, lat_p50_micros = 10, lat_p95_micros = 10\<rparr>,
       su_mean_throughput_milli_requests_per_second = Some 7, su_experiment_digest = zero_digest,
       su_resolved_plan_digest = zero_digest\<rparr>"

definition sample_event :: LifecycleEvent where
  "sample_event = \<lparr>le_run_id = sample_run_id, le_sequence = 1, le_recorded_at = ''t'',
       le_from_state = None, le_to_state = Created, le_attempt_number = 1, le_failure = None\<rparr>"

definition sample_codecs :: Codecs where
  "sample_codecs = \<lparr>cd_sha256 = zero_sha256, cd_hex = zero_hex, cd_uuid = (\<lambda>s. Some (s, 7, True)),
     cd_yaml = (\<lambda>_. Ok minimal_local_fake), cd_utf8_error = (\<lambda>_. []),
     cd_experiment_to_vec = (\<lambda>_. Ok ''e''), cd_content_to_vec = (\<lambda>_. Ok ''p''),
     cd_manifest = (\<lambda>_. Ok sample_manifest), cd_plan = (\<lambda>_. Ok sample_plan),
     cd_run = (\<lambda>_. Ok sample_run),
     cd_attempt = (\<lambda>_. Ok sample_attempt),
     cd_provenance = (\<lambda>_. Err ''absent''), cd_resources = (\<lambda>_. Err ''absent''),
     cd_validity = (\<lambda>_. Ok sample_validity),
     cd_summary = (\<lambda>_. Ok sample_summary),
     cd_event = (\<lambda>_. Ok sample_event),
     cd_measurement = read_sample\<rparr>"

definition sample_file :: bytes where
  "sample_file = concat (map (\<lambda>l. l @ [CHR 0x0A]) [''w1'', ''m1'', ''m2'', ''m3''])"

definition sample_entries :: entries where
  "sample_entries = [(''experiment.yaml'', FileNode ''x''), (''resolved-plan.json'', FileNode ''p''),
     (''run.json'', FileNode ''r''),
     (''attempts'', Dir [(''0001'', Dir [(''attempt.json'', FileNode ''a''),
        (''measurements.jsonl'', FileNode sample_file)])]),
     (''events.jsonl'', FileNode ''e''), (''validity.json'', FileNode ''v''), (''summary.json'', FileNode ''s''),
     (''manifest.json'', FileNode ''m'')]"

definition sample_root :: "string list" where "sample_root = [''runs'', sample_run_id]"

definition at_root :: "entries \<Rightarrow> canonicalizer" where
  "at_root es path = (if path = ''b'' then Ok (sample_root, Dir es) else Err ENOENT)"

lemmas sample_defs = sample_run_id_def sample_plan_def sample_manifest_def sample_codecs_def sample_root_def

lemma sample_wf: "wf_entries sample_entries"
  by (simp add: sample_entries_def wf_entries_Cons good_name_def wf_entries.simps [of "[]"])

lemma sample_leaves: "payload_leaves [] sample_entries =
   [([''experiment.yaml''], FileNode ''x''), ([''resolved-plan.json''], FileNode ''p''), ([''run.json''], FileNode ''r''),
    ([''attempts'', ''0001'', ''attempt.json''], FileNode ''a''),
    ([''attempts'', ''0001'', ''measurements.jsonl''], FileNode sample_file),
    ([''events.jsonl''], FileNode ''e''), ([''validity.json''], FileNode ''v''), ([''summary.json''], FileNode ''s''),
    ([''manifest.json''], FileNode ''m'')]"
  by (simp add: sample_entries_def)

definition sample_paths :: "string list" where
  "sample_paths = [''attempts/0001/attempt.json'', ''attempts/0001/measurements.jsonl'', ''events.jsonl'',
     ''experiment.yaml'', ''manifest.json'', ''resolved-plan.json'', ''run.json'', ''summary.json'', ''validity.json'']"

lemma sample_plain: "plain_entries sample_entries"
  by (simp add: sample_entries_def plain_entries.simps utf8_name_ascii byte_of_def)

lemma sample_gathered: "gather_payload_paths sample_entries = Ok (map (\<lambda>p. (p, p)) sample_paths)"
proof -
  have "fold insert_leaf (payload_leaves [] sample_entries) [] = map (\<lambda>p. (p, p)) sample_paths"
    unfolding sample_leaves sample_paths_def
    by (simp add: insert_leaf_def less_char_def)
  moreover have "entry_count [] sample_entries \<le> MAX_CHECKSUM_ENTRIES"
    by (simp add: sample_entries_def MAX_CHECKSUM_ENTRIES_def)
  ultimately show ?thesis using gather_plain [OF sample_plain sample_wf] by simp
qed

lemma sample_limits: "checksum_limits sample_entries"
proof -
  have "entry_count [] sample_entries = 11" by (simp add: sample_entries_def)
  moreover have "\<forall>(cs, n) \<in> set (payload_leaves [] sample_entries). listable (join_path cs)
       \<and> (case n of FileNode content \<Rightarrow> within_limit (join_path cs) content | _ \<Rightarrow> True)"
    unfolding sample_leaves by (simp add: listable_def within_limit_def retained_limit_def
        MAX_CHECKSUM_LINE_BYTES_def MAX_MANIFEST_BYTES_def MAX_IDENTITY_RECORD_BYTES_def MAX_EXPERIMENT_BYTES_def
        MAX_RESOLVED_PLAN_BYTES_def)
  ultimately show ?thesis by (simp add: checksum_limits_def MAX_CHECKSUM_ENTRIES_def)
qed

lemma sample_contracts: "sha256_contract (cd_sha256 sample_codecs)" "hex_contract (cd_hex sample_codecs)"
  by (simp_all add: sample_codecs_def zero_contracts)

definition sample_sums :: bytes where
  "sample_sums = sums_of sample_codecs sample_entries sample_paths"

definition sample_bundle :: entries where
  "sample_bundle = set_entry ''SHA256SUMS'' (FileNode sample_sums) sample_entries"

lemma sample_written:
  "write_checksum_file sample_codecs (at_root sample_entries) ''b'' = Ok (sample_bundle, sample_sums)"
proof -
  have "''SHA256SUMS'' \<notin> fst ` set sample_entries" "''SHA256SUMS.tmp'' \<notin> fst ` set sample_entries"
    by (simp_all add: sample_entries_def)
  then show ?thesis
    using write_checksum_file_runs [OF sample_wf _ _ _ sample_gathered, of "at_root sample_entries" "''b''" sample_root]
    by (simp add: at_root_def sample_bundle_def sample_sums_def comp_def)
qed

lemma sample_sums_length: "length sample_sums \<le> MAX_CHECKSUM_FILE_BYTES"
  using length_sums_of [OF sample_contracts] by (simp add: sample_sums_def sample_paths_def MAX_CHECKSUM_FILE_BYTES_def)

lemma sample_payloads:
  obtains s where "wf_entries sample_bundle" "payload_leaves [] sample_bundle = payload_leaves [] sample_entries"
    "verify_payloads sample_codecs sample_root sample_bundle = Ok (s, ''m'')"
    "set (ck_names s) = join_path ` fst ` set (payload_leaves [] sample_entries)"
    "\<And>cs content. (cs, FileNode content) \<in> set (payload_leaves [] sample_entries) \<Longrightarrow>
       ck_digests s (join_path cs) = Some (replicate 64 CHR ''0'')
       \<and> (retained_limit (join_path cs) \<noteq> None \<longrightarrow> ck_retained s (join_path cs) = Some content)"
    "\<And>p. p \<notin> join_path ` fst ` set (payload_leaves [] sample_entries) \<Longrightarrow> ck_retained s p = None"
proof (rule written_verifies [OF sample_wf _ _ sample_contracts sample_written sample_limits sample_sums_length])
  show "at_root sample_entries ''b'' = Ok (sample_root, Dir sample_entries)" by (simp add: at_root_def)
  show "''SHA256SUMS.tmp'' \<notin> fst ` set sample_entries" by (simp add: sample_entries_def)
  show "([''manifest.json''], FileNode ''m'') \<in> set (payload_leaves [] sample_entries)" by (simp add: sample_leaves)
qed (use that in \<open>simp add: sample_codecs_def zero_sha256_def zero_hex_def\<close>)

lemma sample_hash: "cd_hex sample_codecs (cd_sha256 sample_codecs b) = replicate 64 CHR ''0''"
  by (simp add: sample_codecs_def zero_sha256_def zero_hex_def)

lemma sample_plan_simps:
  "sp_runtime (ex_spec (re_experiment sample_plan)) = RuntimeLocalFake 0 ScenarioSuccess"
  "sp_provider (ex_spec (re_experiment sample_plan)) = ProviderLocalFake"
  "wl_requests (sp_workload (ex_spec (re_experiment sample_plan))) = 1"
  "ms_warmup_runs (sp_measurement (ex_spec (re_experiment sample_plan))) = 1"
  "ms_repetitions (sp_measurement (ex_spec (re_experiment sample_plan))) = 3"
  by (simp_all add: sample_plan_def fixture_defs)

lemma sample_step:
  assumes "read_sample line = Ok r" and "validate_measurement_record r (sn_position s) 1 sample_plan (sn_generator s) = Ok ()"
    and "length (sn_seen s) \<le> 100" and "sn_position s < 4"
  shows "scan_measurements sample_codecs sample_plan 1 4 (line @ CHR 0x0A # rest) s =
    scan_measurements sample_codecs sample_plan 1 4 rest \<lparr>sn_seen = sn_seen s @ line @ [CHR 0x0A],
      sn_position = sn_position s + 1,
      sn_generator = (case sn_generator s of None \<Rightarrow> Some (mr_generator r) | g \<Rightarrow> g),
      sn_records = sn_records s @ [r]\<rparr>"
proof (rule scan_measurements_step)
  have line: "line \<in> {''w1'', ''m1'', ''m2'', ''m3''}" using assms(1) by (auto simp: read_sample_def split: if_splits)
  then show "CHR 0x0A \<notin> set line" by auto
  show "scan_line sample_codecs sample_plan 1 4 (line @ [CHR 0x0A]) s = Ok \<lparr>sn_seen = sn_seen s @ line @ [CHR 0x0A],
      sn_position = sn_position s + 1,
      sn_generator = (case sn_generator s of None \<Rightarrow> Some (mr_generator r) | g \<Rightarrow> g),
      sn_records = sn_records s @ [r]\<rparr>"
    using assms line by (auto simp: scan_line_def MAX_MEASUREMENTS_BYTES_def MAX_MEASUREMENT_LINE_BYTES_def
        strip_line_end_def strip_cr_def sample_codecs_def)
qed

lemma bundle_record_valid:
  "position < 4 \<Longrightarrow> g \<in> {None, Some LOCAL_FAKE_GENERATOR_VERSION} \<Longrightarrow>
   validate_measurement_record (bundle_record (if position < 1 then Warmup else Measured)
     (if position < 1 then position + 1 else position - 1 + 1)) position 1 sample_plan g = Ok ()"
  by (auto simp: validate_measurement_record_def aggregate_mismatch_def sample_plan_simps bundle_record_def)

lemma sample_measurements_valid:
  "validate_measurements sample_codecs (Ok sample_file) (replicate 64 CHR ''0'') sample_plan Succeeded =
     Ok \<lparr>mv_measured_records = 3, mv_generator = Some LOCAL_FAKE_GENERATOR_VERSION, mv_records = sample_measurements\<rparr>"
proof -
  let ?s = "\<lparr>sn_seen = [], sn_position = 0, sn_generator = None, sn_records = []\<rparr>"
  let ?g = "Some LOCAL_FAKE_GENERATOR_VERSION"
  have read_bundle: "read_sample ''w1'' = Ok (bundle_record Warmup 1)" "read_sample ''m1'' = Ok (bundle_record Measured 1)"
    "read_sample ''m2'' = Ok (bundle_record Measured 2)" "read_sample ''m3'' = Ok (bundle_record Measured 3)"
    "mr_generator (bundle_record phase i) = LOCAL_FAKE_GENERATOR_VERSION" for phase i
    by (simp_all add: read_sample_def bundle_record_def)
  have bytes: "sample_file = ''w1'' @ CHR 0x0A # ''m1'' @ CHR 0x0A # ''m2'' @ CHR 0x0A # ''m3'' @ CHR 0x0A # []"
    by (simp add: sample_file_def)
  have valid: "validate_measurement_record (bundle_record Warmup 1) 0 1 sample_plan None = Ok ()"
    "validate_measurement_record (bundle_record Measured 1) 1 1 sample_plan ?g = Ok ()"
    "validate_measurement_record (bundle_record Measured 2) 2 1 sample_plan ?g = Ok ()"
    "validate_measurement_record (bundle_record Measured 3) 3 1 sample_plan ?g = Ok ()"
    using bundle_record_valid [of 0 None] bundle_record_valid [of 1 ?g] bundle_record_valid [of 2 ?g]
      bundle_record_valid [of 3 ?g] by simp_all
  have "scan_measurements sample_codecs sample_plan 1 4 sample_file ?s = Ok \<lparr>sn_seen = sample_file, sn_position = 4,
      sn_generator = ?g, sn_records = sample_measurements\<rparr>"
    by (simp add: bytes sample_step [of "''w1''", simplified] sample_step [of "''m1''", simplified]
        sample_step [of "''m2''", simplified] sample_step [of "''m3''", simplified] read_bundle valid
        scan_measurements.simps [of _ _ _ _ "[]"] sample_measurements_def)
  then show ?thesis
    by (simp add: validate_measurements_def expected_measurement_counts_def sample_plan_simps
        checked_add_def bytes MAX_MEASUREMENTS_BYTES_def sample_hash)
qed

lemma sample_resolves: "cd_resolve sample_codecs minimal_local_fake = Ok sample_plan"
  unfolding cd_resolve_def resolve_Ok_iff
  by (simp add: local_fake_admissible sample_codecs_def sample_plan_def resolved_fixture_def sha256_digest_def
      zero_sha256_def zero_hex_def zero_digest_def)

lemma sample_resolved_eq: "resolved_eq sample_plan sample_plan"
  by (simp add: resolved_eq_def cost_of_def sample_plan_def fixture_defs f64_eq_def f64_is_nan_def f64_exponent_def
      drop_bit_eq_div take_bit_eq_mod)

definition sample_verified :: VerifiedEvidenceBundle where
  "sample_verified = \<lparr>vb_root = ''/runs/run-0'', vb_manifest = sample_manifest, vb_plan = sample_plan,
     vb_provenance = None, vb_resources = None, vb_measurements = sample_measurements\<rparr>"

lemma sample_statistics: "expected_statistics sample_manifest sample_measurements =
   Return (Some \<lparr>lat_mean_micros = 10, lat_p50_micros = 10, lat_p95_micros = 10\<rparr>, Some 7)"
  by (simp add: expected_statistics_def sample_measurements_def measured_records_def bundle_record_def
      sample_manifest_def describe_micros_def mean_u64_def nearest_rank_def div_ceil_def saturating_sub_def index_at_def
      try_into_def unat_div_distrib)

lemma sample_consistent:
  assumes "\<And>p b. (p, b) \<in> set [(''experiment.yaml'', ''x''), (''resolved-plan.json'', ''p''), (''run.json'', ''r''),
      (''attempts/0001/attempt.json'', ''a''), (''events.jsonl'', ''e''), (''validity.json'', ''v''),
      (''summary.json'', ''s'')] \<Longrightarrow> payloads p = Some b"
    and "payloads ''attempts/0001/provenance.json'' = None" and "payloads ''attempts/0001/resources.json'' = None"
    and "digests measurements_path = Some (replicate 64 CHR ''0'')"
  shows "validate_record_consistency sample_codecs ''/runs/run-0'' (Some sample_run_id) (Ok sample_file)
    sample_manifest payloads digests = Return (Ok sample_verified)"
proof -
  have p: "payloads ''experiment.yaml'' = Some ''x''" "payloads ''resolved-plan.json'' = Some ''p''"
    "payloads ''run.json'' = Some ''r''" "payloads ''attempts/0001/attempt.json'' = Some ''a''"
    "payloads ''events.jsonl'' = Some ''e''" "payloads ''validity.json'' = Some ''v''" "payloads ''summary.json'' = Some ''s''"
    using assms(1) by simp_all
  have plan: "parse_record (cd_plan sample_codecs) payloads ''resolved-plan.json'' = Ok sample_plan"
    "re_experiment sample_plan = minimal_local_fake"
    by (simp_all add: parse_record_def p sample_codecs_def sample_plan_def resolved_fixture_def resolved_with_def)
  have resolved: "validate_resolved_plan sample_codecs sample_plan sample_manifest = Ok ()"
    using sample_resolved_eq by (simp add: validate_resolved_plan_def plan(2) sample_resolves sample_manifest_def)
      (simp add: sample_plan_def resolved_fixture_def resolved_with_def)
  have original: "validate_original_experiment sample_codecs payloads sample_plan = Ok ()"
    using sample_resolved_eq sample_resolves
    by (simp add: validate_original_experiment_def p parse_experiment_def from_utf8_def is_utf8_char_def byte_of_def)
      (simp add: sample_codecs_def)
  have reads: "parse_record (cd_run sample_codecs) payloads ''run.json'' = Ok sample_run"
    "parse_record (cd_attempt sample_codecs) payloads ''attempts/0001/attempt.json'' = Ok sample_attempt"
    "parse_record (cd_validity sample_codecs) payloads ''validity.json'' = Ok sample_validity"
    "parse_record (cd_summary sample_codecs) payloads ''summary.json'' = Ok sample_summary"
    by (simp_all add: parse_record_def p sample_codecs_def)
  have "check_run sample_manifest sample_run = Ok ()" "check_attempt sample_manifest sample_attempt = Return (Ok ())"
    "check_validity sample_manifest sample_plan 3 sample_validity = Return (Ok ())"
    "check_summary sample_manifest 3 sample_measurements sample_summary = Return (Ok ())"
    "check_events sample_codecs sample_manifest [''e''] = Ok ()"
    by (simp_all add: check_run_def check_attempt_def check_validity_def check_summary_def sample_statistics
        sample_plan_simps expected_validity_def sample_codecs_def sample_run_def sample_attempt_def sample_validity_def
        sample_summary_def sample_event_def) (simp_all add: sample_manifest_def)
  moreover have "em_run_id sample_manifest = sample_run_id" "em_run_status sample_manifest = Succeeded"
    by (simp_all add: sample_manifest_def)
  ultimately show ?thesis
    by (simp add: validate_record_consistency_def plan(1) resolved original assms(2-4) sample_measurements_valid
        optional_record_def reads p sample_verified_def)
qed

lemma sample_verifies:
  "verify_evidence_bundle_data sample_codecs (at_root sample_bundle) ''b'' = Return (Ok sample_verified)"
proof -
  obtain s where wf: "wf_entries sample_bundle" and leaves: "payload_leaves [] sample_bundle = payload_leaves [] sample_entries"
    and v: "verify_payloads sample_codecs sample_root sample_bundle = Ok (s, ''m'')"
    and names: "set (ck_names s) = join_path ` fst ` set (payload_leaves [] sample_entries)"
    and ret: "\<And>cs content. (cs, FileNode content) \<in> set (payload_leaves [] sample_entries) \<Longrightarrow>
       ck_digests s (join_path cs) = Some (replicate 64 CHR ''0'')
       \<and> (retained_limit (join_path cs) \<noteq> None \<longrightarrow> ck_retained s (join_path cs) = Some content)"
    and none: "\<And>p. p \<notin> join_path ` fst ` set (payload_leaves [] sample_entries) \<Longrightarrow> ck_retained s p = None"
    by (rule sample_payloads) blast
  have manifest: "validate_manifest sample_codecs sample_manifest = Ok ()"
    by (simp add: validate_manifest_def sample_manifest_def sample_run_id_def trim_graphic byte_of_def is_run_id_def
        strip_prefix_def sample_codecs_def is_sha256_digest_def zero_digest_def list_all_iff is_ascii_digit_def)
  have required: "validate_required_payloads (ck_names s) = Ok ()"
    by (simp add: validate_required_payloads_def required_payloads_def names sample_leaves)
  have "([''attempts'', ''0001'', ''measurements.jsonl''], FileNode sample_file) \<in> set (payload_leaves [] sample_bundle)"
    by (simp add: leaves sample_leaves)
  from checked_regular_path_leaf [OF this wf] have file_ok: "measurements_file sample_root sample_bundle = Ok sample_file"
    by (simp add: measurements_file_def measurements_path_def)
  have "validate_record_consistency sample_codecs ''/runs/run-0'' (Some sample_run_id) (Ok sample_file)
      sample_manifest (ck_retained s) (ck_digests s) = Return (Ok sample_verified)"
  proof (rule sample_consistent)
    show "ck_retained s p = Some b" if "(p, b) \<in> set [(''experiment.yaml'', ''x''), (''resolved-plan.json'', ''p''),
      (''run.json'', ''r''), (''attempts/0001/attempt.json'', ''a''), (''events.jsonl'', ''e''), (''validity.json'', ''v''),
      (''summary.json'', ''s'')]" for p b
      using that ret [of "[''experiment.yaml'']"] ret [of "[''resolved-plan.json'']"] ret [of "[''run.json'']"]
        ret [of "[''attempts'', ''0001'', ''attempt.json'']"] ret [of "[''events.jsonl'']"] ret [of "[''validity.json'']"]
        ret [of "[''summary.json'']"] by (auto simp: sample_leaves retained_limit_def)
    show "ck_retained s ''attempts/0001/provenance.json'' = None" "ck_retained s ''attempts/0001/resources.json'' = None"
      by (rule none, simp add: sample_leaves)+
    show "ck_digests s measurements_path = Some (replicate 64 CHR ''0'')"
      using ret [of "[''attempts'', ''0001'', ''measurements.jsonl'']" sample_file]
      by (simp add: sample_leaves measurements_path_def)
  qed
  moreover have "path_display sample_root = ''/runs/run-0''" "root_name sample_root = Some sample_run_id"
    by (simp_all add: path_display_def root_name_def sample_root_def sample_run_id_def from_utf8_def is_utf8_char_def
        is_continuation_def byte_of_def)
  ultimately show ?thesis
    using manifest required file_ok v
    by (simp add: verify_evidence_bundle_data_def canonical_bundle_root_def at_root_def) (simp add: sample_codecs_def)
qed

lemma sample_bundle_wf: "wf_entries sample_bundle"
  by (rule sample_payloads) blast

lemma sample_at_root: "at_root sample_bundle ''b'' = Ok (sample_root, Dir sample_bundle)"
  by (simp add: at_root_def)

theorem verified_bundle_integrity_witness:
  "(\<exists>sums. map_of sample_bundle ''SHA256SUMS'' = Some (FileNode sums)
      \<and> set (declared sums) = digests_of sample_codecs sample_bundle)
    \<and> root_name sample_root = Some (em_run_id (vb_manifest sample_verified))"
  using verified_bundle_integrity [OF sample_at_root sample_bundle_wf sample_verifies] by blast

theorem same_checksum_file_same_payloads_witness:
  "set (payload_leaves [] sample_bundle) = set (payload_leaves [] sample_bundle)
   \<and> verify_evidence_bundle_data sample_codecs (at_root sample_bundle) ''b'' = Return (Ok sample_verified)"
proof
  show "set (payload_leaves [] sample_bundle) = set (payload_leaves [] sample_bundle)"
    by (rule same_checksum_file_same_payloads [OF sample_at_root sample_at_root sample_bundle_wf sample_bundle_wf
        sample_verifies sample_verifies refl]) (use leaf_unique sample_bundle_wf in blast)
qed (rule sample_verifies)

theorem write_then_verify_witness:
  "write_checksum_file sample_codecs (at_root sample_entries) ''b'' = Ok (sample_bundle, sample_sums)
   \<and> map_of sample_bundle ''SHA256SUMS'' = Some (FileNode sample_sums)
   \<and> (\<exists>s. verify_payloads sample_codecs sample_root sample_bundle = Ok (s, ''m''))"
proof -
  have "at_root sample_entries ''b'' = Ok (sample_root, Dir sample_entries)"
    "''SHA256SUMS.tmp'' \<notin> fst ` set sample_entries"
    "([''manifest.json''], FileNode ''m'') \<in> set (payload_leaves [] sample_entries)"
    by (simp add: at_root_def, simp add: sample_entries_def, simp add: sample_leaves)
  from write_then_verify [OF sample_wf this(1,2) sample_contracts sample_written sample_limits sample_sums_length this(3)]
  show ?thesis using sample_written by blast
qed

theorem verified_bundle_consistent_witness:
  "verify_evidence_bundle_data sample_codecs (at_root sample_bundle) ''b'' = Return (Ok sample_verified)
   \<and> admissible (re_experiment (vb_plan sample_verified))
   \<and> (em_validity_status (vb_manifest sample_verified) = Valid \<longleftrightarrow> em_run_status (vb_manifest sample_verified) = Succeeded
      \<and> length (measured_records (vb_measurements sample_verified)) =
        unat (ms_repetitions (plan_measurement (vb_plan sample_verified))))"
  using verified_bundle_consistent [OF sample_verifies] sample_verifies by blast

text \<open>Two records that an adapter accepts and verification refuses.\<close>

definition probe_config :: CpuProbeConfig where
  "probe_config = \<lparr>cf_requests = 1, cf_warmup_runs = 0, cf_repetitions = 1, cf_output_tokens = 8,
     cf_work_units_per_token = 1000, cf_maximum_runtime_seconds = 5\<rparr>"

definition observed_probe_record :: MeasurementRecord where
  "observed_probe_record = one_llama_record\<lparr>mr_generator := CPU_PROBE_GENERATOR_VERSION\<rparr>"

definition inconsistent_llama_record :: MeasurementRecord where
  "inconsistent_llama_record = one_llama_record\<lparr>mr_latency_micros := 50\<rparr>"

lemmas odd_record_defs = observed_probe_record_def inconsistent_llama_record_def one_llama_record_def
  one_llama_config_def probe_config_def

theorem verifier_refines_adapters_witness:
  "cpu_validate_record probe_config observed_probe_record 0 = Ok ()
   \<and> validate_measurement_record observed_probe_record 0 0 (resolved_fixture minimal_cpu_probe) None \<noteq> Ok ()
   \<and> llama_validate_record one_llama_config inconsistent_llama_record 0 = Ok ()
   \<and> validate_measurement_record inconsistent_llama_record 0 0 (resolved_fixture minimal_llama_cpp) None \<noteq> Ok ()
   \<and> validate_measurement_record one_llama_record 0 0 (resolved_fixture minimal_llama_cpp) None = Ok ()"
proof -
  have cpu: "cpu_validate_record probe_config observed_probe_record 0 = Ok ()"
    by (simp add: cpu_validate_iff slot_record_def slot_phase_def slot_index_def odd_record_defs)
  have llama: "llama_validate_record one_llama_config inconsistent_llama_record 0 = Ok ()"
    "llama_validate_record one_llama_config one_llama_record 0 = Ok ()"
    by (simp_all add: llama_validate_iff llama_slot_def observations_valid_def slot_record_def slot_phase_def
        slot_index_def odd_record_defs)
  have aggregates: "validate_llama_v2_aggregate_consistency inconsistent_llama_record \<noteq> Ok ()"
    "validate_llama_v2_aggregate_consistency one_llama_record = Ok ()"
    by (simp_all add: validate_llama_v2_aggregate_consistency_def rounded_request_mean_bounds_def odd_record_defs
        checked_add_def checked_sub_def checked_mul_def try_into_def ceil_div_u128_def unat_div_distrib invalid_defs)
  have probe: "plan_runtime (resolved_fixture minimal_cpu_probe) = RuntimeCpuProbe 8 1000"
    "cf_requests probe_config = plan_requests (resolved_fixture minimal_cpu_probe)"
    "mr_request_observations observed_probe_record \<noteq> []" "cf_warmup_runs probe_config = 0"
    by (simp_all add: fixture_defs odd_record_defs)
  have model: "plan_runtime (resolved_fixture minimal_llama_cpp) = RuntimeLlamaCpp default_llama_cpp_target
      default_llama_cpp_model default_llama_cpp_output_tokens"
    "lm_requests one_llama_config = plan_requests (resolved_fixture minimal_llama_cpp)"
    "mr_generator inconsistent_llama_record = LLAMA_CPP_GENERATOR_VERSION"
    "mr_generator one_llama_record = LLAMA_CPP_GENERATOR_VERSION" "lm_warmup_runs one_llama_config = 0"
    by (simp_all add: fixture_defs odd_record_defs)
  have "(0 :: nat) < 2 ^ 32 - 1" by simp
  from verifier_refines_adapters [OF this, of "resolved_fixture minimal_cpu_probe" 8 1000 probe_config
        observed_probe_record]
    verifier_refines_adapters [OF this, where plan = "resolved_fixture minimal_llama_cpp" and llama = one_llama_config
        and r = inconsistent_llama_record]
    verifier_refines_adapters [OF this, where plan = "resolved_fixture minimal_llama_cpp" and llama = one_llama_config
        and r = one_llama_record]
  show ?thesis using cpu llama aggregates probe model by simp
qed

definition short_line :: "MeasurementRecord \<Rightarrow> bytes" where
  "short_line r = phase_tag (mr_phase r) @ replicate (unat (mr_repetition_index r)) CHR ''x''"

definition read_among :: "MeasurementRecord list \<Rightarrow> bytes \<Rightarrow> string + MeasurementRecord" where
  "read_among rs line = ok_or ''not a record'' (find (\<lambda>r. short_line r = line) rs)"

lemma read_among:
  "distinct (map short_line rs) \<Longrightarrow> r \<in> set rs \<Longrightarrow> read_among rs (short_line r) = Ok r"
  by (induction rs) (auto simp: read_among_def)

text \<open>The output of the sample's execution, one short line per record.\<close>

definition sample_output :: ExecutionOutput where
  "sample_output = local_fake_execute zero_sha256 sample_plan 0 ScenarioSuccess"

lemma sample_output_lines:
  "map short_line (eo_measurements sample_output) = [''warmupx'', ''measuredx'', ''measuredxx'', ''measuredxxx'']"
proof -
  have line: "short_line (measurement zero_sha256 sample_plan 0 ph i 1) = phase_tag ph @ replicate (unat i) CHR ''x''" for ph i
    by (simp add: short_line_def measurement_def Let_def)
  have xs: "replicate 2 CHR ''x'' = ''xx''" "replicate 3 CHR ''x'' = ''xxx''" by (simp_all add: numeral_eq_Suc)
  show ?thesis
    by (simp add: sample_output_def local_fake_measurements sample_plan_simps one_to_def measured_count_def upt_rec line xs)
qed

lemma sample_output_readable:
  assumes "cd_measurement c = read_among (eo_measurements sample_output)"
  shows "\<forall>r \<in> set (eo_measurements sample_output). readable c short_line r"
    "length (jsonl short_line (eo_measurements sample_output)) \<le> MAX_MEASUREMENTS_BYTES"
proof -
  have "distinct (map short_line (eo_measurements sample_output))" unfolding sample_output_lines by simp
  from read_among [OF this] have "\<forall>r \<in> set (eo_measurements sample_output). cd_measurement c (short_line r) = Ok r"
    by (simp add: assms)
  moreover have "short_line r \<in> {''warmupx'', ''measuredx'', ''measuredxx'', ''measuredxxx''}"
    if "r \<in> set (eo_measurements sample_output)" for r
    using imageI [OF that, of short_line] unfolding set_map [symmetric] sample_output_lines by simp
  ultimately show "\<forall>r \<in> set (eo_measurements sample_output). readable c short_line r"
    by (fastforce simp: readable_def MAX_MEASUREMENT_LINE_BYTES_def)
  have "length (jsonl short_line (eo_measurements sample_output))
      = sum_list (map (\<lambda>l. length l + 1) (map short_line (eo_measurements sample_output)))"
    by (simp add: jsonl_def length_concat comp_def)
  also have "\<dots> = 41" unfolding sample_output_lines by simp
  finally show "length (jsonl short_line (eo_measurements sample_output)) \<le> MAX_MEASUREMENTS_BYTES"
    by (simp add: MAX_MEASUREMENTS_BYTES_def)
qed

lemma sample_plan_admissible: "admissible (re_experiment sample_plan)"
  using local_fake_admissible by (simp add: sample_plan_def resolved_fixture_def resolved_with_def)

theorem local_fake_evidence_accepted_witness:
  "\<exists>c ser mv. let out = local_fake_execute zero_sha256 sample_plan 0 ScenarioSuccess; content = jsonl ser (eo_measurements out)
     in validate_measurements c (Ok content) (cd_hex c (cd_sha256 c content)) sample_plan (eo_terminal_state out) = Ok mv
       \<and> mv_records mv = eo_measurements out \<and> mv_measured_records mv = 3"
proof -
  let ?c = "sample_codecs\<lparr>cd_measurement := read_among (eo_measurements sample_output)\<rparr>"
  have "cd_measurement ?c = read_among (eo_measurements sample_output)" by simp
  note readable = sample_output_readable [OF this, unfolded sample_output_def]
  from local_fake_evidence_accepted [OF sample_plan_admissible sample_plan_simps(1,2) readable]
  show ?thesis unfolding Let_def sample_plan_simps measured_count_def LocalFakeScenario.case by blast
qed

end
