(* ===== verification/ProvenanceFacts.thy ===== *)
theory ProvenanceFacts
  imports SampleBundle
begin

text \<open>
  The provenance captured before an attempt runs is the provenance verification accepts afterwards:
  the bounds of the capture imply the checks of the verifier, except for the names of Nix store
  objects, where the verifier asks for more than the capture ensures.
\<close>

lemma good_value_accepted: "good_value v \<Longrightarrow> require_provenance_value v field = Ok ()"
  by (simp add: good_value_def require_provenance_value_def MAX_PROVENANCE_VALUE_BYTES_def)

lemma optional_good_accepted: "(\<And>x. v = Some x \<Longrightarrow> good_value x) \<Longrightarrow> optional_provenance_value v field = Ok ()"
  by (cases v) (simp_all add: optional_provenance_value_def good_value_accepted)

text \<open>
  How Nix names an object of its store: \<open>/nix/store/\<close>, a hash of 32 digits of Nix's base 32, a hyphen and
  a name over Nix's alphabet. The capture cuts a path below \<open>/nix/store/\<close> down to its first component
  and looks at nothing else.
\<close>

definition nix_object :: "string \<Rightarrow> bool" where
  "nix_object s \<longleftrightarrow> (\<exists>hash name. s = ''/nix/store/'' @ hash @ ''-'' @ name \<and> length hash = 32
     \<and> set hash \<subseteq> set ''0123456789abcdfghijklmnpqrsvwxyz''
     \<and> name \<noteq> [] \<and> (\<forall>ch \<in> set name. is_ascii_alphanumeric ch \<or> ch \<in> set ''+-._?=''))"

fun captured_store_paths :: "Platform \<Rightarrow> RuntimeSpec \<Rightarrow> string option list" where
  "captured_store_paths pf (RuntimeLlamaCpp target _ _) =
     [current_executable_nix_store_path pf, llama_store_path pf target, compiled_nix_store_path (pf_model_path pf)]"
| "captured_store_paths pf _ = [current_executable_nix_store_path pf]"

text \<open>A llama.cpp helper and its model come from the store together or not at all.\<close>

fun same_lineage :: "Platform \<Rightarrow> RuntimeSpec \<Rightarrow> bool" where
  "same_lineage pf (RuntimeLlamaCpp target _ _) \<longleftrightarrow>
     (llama_store_path pf target = None \<longleftrightarrow> compiled_nix_store_path (pf_model_path pf) = None)"
| "same_lineage pf _ \<longleftrightarrow> True"

definition nix_installed :: "Platform \<Rightarrow> RuntimeSpec \<Rightarrow> bool" where
  "nix_installed pf runtime \<longleftrightarrow>
     (\<forall>s. Some s \<in> set (captured_store_paths pf runtime) \<longrightarrow> nix_object s) \<and> same_lineage pf runtime"

lemma split_once_eq: "split_once c xs = Some (a, b) \<longleftrightarrow> xs = a @ c # b \<and> c \<notin> set a"
proof (induction xs arbitrary: a)
  case (Cons x xs)
  then show ?case by (cases a) auto
qed simp

lemma alphabet_no_slash: "is_ascii_alphanumeric ch \<or> ch \<in> set ''+-._?='' \<Longrightarrow> ch \<noteq> CHR ''/''"
  by (auto simp: is_ascii_alphanumeric_def is_ascii_digit_def byte_of_def)

lemma nix_store_path_ok_iff:
  assumes "length (''/nix/store/'' @ entry) \<le> 512"
  shows "nix_store_path_ok (''/nix/store/'' @ entry) entry \<longleftrightarrow> nix_object (''/nix/store/'' @ entry)"
proof
  assume ok: "nix_store_path_ok (''/nix/store/'' @ entry) entry"
  show "nix_object (''/nix/store/'' @ entry)"
  proof (cases "split_once CHR ''-'' entry")
    case (Some pair)
    obtain hash name where pair: "pair = (hash, name)" by force
    then have "entry = hash @ CHR ''-'' # name" using Some split_once_eq by simp
    then show ?thesis
      using ok Some pair unfolding nix_object_def NIX_BASE32_def [symmetric]
      by (intro exI [of _ hash] exI [of _ name])
        (simp add: nix_store_path_ok_def list_all_iff subset_iff)
  qed (use ok in \<open>simp add: nix_store_path_ok_def\<close>)
next
  assume "nix_object (''/nix/store/'' @ entry)"
  then obtain hash name where entry: "entry = hash @ CHR ''-'' # name" and len: "length hash = 32"
    and hash: "set hash \<subseteq> set NIX_BASE32"
    and name: "name \<noteq> []" "\<forall>ch \<in> set name. is_ascii_alphanumeric ch \<or> ch \<in> set ''+-._?=''"
    unfolding nix_object_def NIX_BASE32_def [symmetric] by auto
  have no: "CHR ''-'' \<notin> set NIX_BASE32" "CHR ''/'' \<notin> set NIX_BASE32" by (simp_all add: NIX_BASE32_def)
  have "split_once CHR ''-'' entry = Some (hash, name)"
    unfolding split_once_eq using entry no hash by blast
  moreover have "CHR ''/'' \<notin> set entry" using entry hash no name(2) alphabet_no_slash by auto
  ultimately show "nix_store_path_ok (''/nix/store/'' @ entry) entry"
    using assms len hash name by (auto simp: nix_store_path_ok_def list_all_iff MAX_NIX_STORE_PATH_BYTES_def)
qed

lemma captured_object_accepted:
  assumes "nix_store_object path = Some s"
  shows "optional_nix_store_path (Some s) field = Ok () \<longleftrightarrow> nix_object s"
proof -
  obtain entry where s: "s = ''/nix/store/'' @ entry" and len: "length (''/nix/store/'' @ entry) \<le> 512"
    using assms by (auto simp: nix_store_object_def bind_eq_Some_conv Let_def pv_MAX_NIX_STORE_PATH_BYTES_def
        split: if_splits)
  have "strip_prefix ''/nix/store/'' s = Some entry" by (simp add: s strip_prefix_def)
  then show ?thesis
    using nix_store_path_ok_iff [OF len] by (simp add: optional_nix_store_path_def invalid_defs s)
qed

lemma captured_path_accepted:
  "optional_nix_store_path (Option.bind raw nix_store_object) field = Ok ()
     \<longleftrightarrow> (\<forall>s. Option.bind raw nix_store_object = Some s \<longrightarrow> nix_object s)"
proof (cases "Option.bind raw nix_store_object")
  case (Some s)
  then show ?thesis by (auto simp: bind_eq_Some_conv captured_object_accepted)
qed (simp add: optional_nix_store_path_def)

lemma captured_paths_accepted:
  "optional_nix_store_path (current_executable_nix_store_path pf) field = Ok ()
     \<longleftrightarrow> (\<forall>s. current_executable_nix_store_path pf = Some s \<longrightarrow> nix_object s)"
  "optional_nix_store_path (compiled_nix_store_path raw) field = Ok ()
     \<longleftrightarrow> (\<forall>s. compiled_nix_store_path raw = Some s \<longrightarrow> nix_object s)"
  "optional_nix_store_path (llama_store_path pf target) field = Ok ()
     \<longleftrightarrow> (\<forall>s. llama_store_path pf target = Some s \<longrightarrow> nix_object s)"
  unfolding current_executable_nix_store_path_def llama_store_path_def compiled_nix_store_path_def
  by (rule captured_path_accepted)+

definition host_ok :: "Platform \<Rightarrow> bool" where
  "host_ok pf \<longleftrightarrow> good_value (pf_os pf) \<and> good_value (pf_arch pf) \<and> good_value (pf_package_version pf)
     \<and> pf_parallelism pf \<noteq> Some 0"

fun runtime_generator :: "RuntimeSpec \<Rightarrow> string" where
  "runtime_generator (RuntimeLocalFake _ _) = LOCAL_FAKE_GENERATOR_VERSION"
| "runtime_generator (RuntimeCpuProbe _ _) = CPU_PROBE_GENERATOR_VERSION"
| "runtime_generator (RuntimeLlamaCpp _ _ _) = LLAMA_CPP_GENERATOR_VERSION"
| "runtime_generator (RuntimeVllm _ _ _) = []"

lemma captured_platform_accepted:
  assumes "host_ok pf" and "capture pf run_id plan = Return p"
  shows "validate_platform (ap_platform p) = Ok ()"
proof -
  have "try_into (x :: usize) \<noteq> Some (0 :: u32)" if "x \<noteq> 0" for x
    using that by (simp add: try_into_eq_Some unat_gt_0)
  then have count: "Option.bind (pf_parallelism pf) try_into \<noteq> Some (0 :: u32)"
    using assms(1) by (cases "pf_parallelism pf") (auto simp: host_ok_def)
  have release: "optional_provenance_value (release_value c k) field = Ok ()" for c k field
    by (rule optional_good_accepted) (rule release_value_good)
  have single: "optional_provenance_value (read_single_value f l) field = Ok ()" for f l field
    by (rule optional_good_accepted) (rule read_single_value_good)
  have model: "optional_provenance_value (read_cpu_model f) field = Ok ()" for f field
    by (rule optional_good_accepted) (auto simp: read_cpu_model_def cpu_model_from_reader_def bind_eq_Some_conv
        dest: cpu_model_scan_good split: option.splits)
  have kernel: "require_provenance_value (case read_single_value f l of None \<Rightarrow> pf_os pf | Some v \<Rightarrow> v) field = Ok ()" for f l field
    using assms(1) by (auto simp: host_ok_def split: option.splits intro!: good_value_accepted dest: read_single_value_good)
  have none: "optional_provenance_value None field = Ok ()" for field by (simp add: optional_provenance_value_def)
  show ?thesis
    using assms(2) count assms(1)
    by (cases "read_bounded (pf_os_release pf) MAX_OS_RELEASE_BYTES")
      (auto simp: capture_def Let_def result_simps validate_platform_def os_release_identity_def release single model
        kernel none host_ok_def good_value_accepted)
qed

text \<open>The CUDA target asks for the device once the run has succeeded, and the device is attached later.\<close>

fun awaits_device :: "RuntimeSpec \<Rightarrow> RunState \<Rightarrow> bool" where
  "awaits_device (RuntimeLlamaCpp TargetNvidiaCuda _ _) st \<longleftrightarrow> st = Succeeded"
| "awaits_device _ st \<longleftrightarrow> False"

lemma captured_runtime_accepted:
  assumes "admissible (re_experiment plan)" and "capture_runtime pf (plan_runtime plan) = Return runtime"
    and "g = None \<or> g = Some (runtime_generator (plan_runtime plan))"
    and "\<forall>s. current_executable_nix_store_path pf = Some s \<longrightarrow> nix_object s"
  shows "validate_runtime_provenance runtime (plan_runtime plan) m g = Ok ()
    \<longleftrightarrow> nix_installed pf (plan_runtime plan) \<and> \<not> awaits_device (plan_runtime plan) (em_run_status m)"
proof (cases "plan_runtime plan")
  case (RuntimeLlamaCpp target model tokens)
  have model: "model = LLAMA_CPP_MODEL_IDENTITY"
    using assms(1) RuntimeLlamaCpp by (auto simp: admissible_def runtime_admissible_def Let_def)
  have lineage: "validate_llama_lineage (llama_store_path pf target) (compiled_nix_store_path (pf_model_path pf))
      (llama_store_path pf target) = Ok () \<longleftrightarrow> nix_installed pf (plan_runtime plan)"
    using assms(4) by (auto simp: validate_llama_lineage_def nix_installed_def RuntimeLlamaCpp result_simps
        captured_paths_accepted invalid_defs Let_def split: if_splits)
  show ?thesis
    using assms(2,3) RuntimeLlamaCpp model lineage
    by (cases target) (auto simp: capture_runtime_def validate_runtime_provenance_def require_matching_generator_def
        validate_backend_def invalid_defs split: if_splits)
qed (use assms(2-4) in \<open>auto simp: capture_runtime_def validate_runtime_provenance_def require_matching_generator_def
    nix_installed_def\<close>)

lemma capture_accepted_iff:
  assumes "host_ok pf" and "admissible (re_experiment plan)" and "capture pf (em_run_id m) plan = Return p"
    and "g = None \<or> g = Some (runtime_generator (plan_runtime plan))"
  shows "validate_attempt_provenance p m plan g = Ok ()
    \<longleftrightarrow> nix_installed pf (plan_runtime plan) \<and> \<not> awaits_device (plan_runtime plan) (em_run_status m)"
proof -
  obtain runtime where rt: "capture_runtime pf (plan_runtime plan) = Return runtime"
    and p: "sw_runtime (ap_software p) = runtime" "ap_format p = ATTEMPT_PROVENANCE_FORMAT_V1"
      "ap_run_id p = em_run_id m" "ap_attempt_number p = 1"
      "sc_name (sw_benchplane (ap_software p)) = BENCHPLANE_SOFTWARE_NAME"
      "sc_version (sw_benchplane (ap_software p)) = pf_package_version pf"
      "sc_nix_store_path (sw_benchplane (ap_software p)) = current_executable_nix_store_path pf"
    using assms(3) by (auto simp: capture_def Let_def result_simps case_prod_beta)
  have own: "nix_installed pf (plan_runtime plan) \<Longrightarrow> \<forall>s. current_executable_nix_store_path pf = Some s \<longrightarrow> nix_object s"
    by (cases "plan_runtime plan") (auto simp: nix_installed_def)
  have "validate_attempt_provenance p m plan g = Ok ()
    \<longleftrightarrow> (\<forall>s. current_executable_nix_store_path pf = Some s \<longrightarrow> nix_object s)
      \<and> validate_runtime_provenance runtime (plan_runtime plan) m g = Ok ()"
    using p captured_platform_accepted [OF assms(1,3)] assms(1)
    by (simp add: validate_attempt_provenance_def host_ok_def good_value_accepted result_simps captured_paths_accepted)
  then show ?thesis using captured_runtime_accepted [OF assms(2) rt assms(4)] own by blast
qed

lemma capture_accepted:
  assumes "host_ok pf" and "admissible (re_experiment plan)" and "nix_installed pf (plan_runtime plan)"
    and "capture pf (em_run_id m) plan = Return p"
    and "\<forall>k t. plan_runtime plan = RuntimeLlamaCpp TargetNvidiaCuda k t \<longrightarrow> em_run_status m \<noteq> Succeeded"
    and "g = None \<or> g = Some (runtime_generator (plan_runtime plan))"
  shows "validate_attempt_provenance p m plan g = Ok ()"
  unfolding capture_accepted_iff [OF assms(1,2,4,6)]
  using assms(3,5) by (cases "(plan_runtime plan, em_run_status m)" rule: awaits_device.cases) auto

text \<open>
  C15. When captured provenance is accepted, exactly. On a host whose operating system, architecture and
  package version are presentable values, the provenance that \<open>capture\<close> records for an admissible
  plan passes the verifier's check against a manifest of that run and the runtime's measurements,
  whatever the files \<open>/etc/os-release\<close>, \<open>/proc\<close> and their like contained, if and only if three things hold:
  every store object that was captured has the name Nix gives its objects, which the capture does not ask
  for; a llama.cpp helper and its model are both inside the store or both outside; and the run is not
  a succeeded one on the CUDA target, for which the verifier asks for the device as well.
\<close>

theorem captured_provenance_accepted:
  assumes "host_ok pf" and "admissible (re_experiment plan)" and "capture pf (em_run_id m) plan = Return p"
    and "g = None \<or> g = Some (runtime_generator (plan_runtime plan))"
  shows "validate_attempt_provenance p m plan g = Ok ()
    \<longleftrightarrow> (\<forall>s. Some s \<in> set (captured_store_paths pf (plan_runtime plan)) \<longrightarrow> nix_object s)
      \<and> same_lineage pf (plan_runtime plan) \<and> \<not> awaits_device (plan_runtime plan) (em_run_status m)"
  unfolding capture_accepted_iff [OF assms] nix_installed_def by blast

text \<open>A host outside the Nix store that exposes nothing but its own identifiers.\<close>

definition bare_platform :: Platform where
  "bare_platform = \<lparr>pf_os = ''linux'', pf_arch = ''x86_64'', pf_package_version = ''0.1.0'', pf_os_release = None,
     pf_ostype = None, pf_osrelease = None, pf_cpuinfo = None, pf_parallelism = Some 8, pf_executable = None,
     pf_llama_path = None, pf_llama_cuda_path = None, pf_model_path = None\<rparr>"

lemma bare_host_ok: "host_ok bare_platform"
  by (simp add: host_ok_def bare_platform_def good_value_def any_control_def is_control_def trim_def trim_chars_def
      is_whitespace_def Let_def byte_of_def is_continuation_def)

lemma bare_installed: "nix_installed bare_platform runtime"
  by (cases runtime) (simp_all add: nix_installed_def bare_platform_def current_executable_nix_store_path_def
      llama_store_path_def compiled_nix_store_path_def split: LlamaCppTarget.splits)

text \<open>
  The same host with an executable directly below the store: \<open>/nix/store/short/bin/benchplane\<close> is captured as
  \<open>/nix/store/short\<close>, which is not a name of Nix.
\<close>

definition short_platform :: Platform where
  "short_platform = bare_platform\<lparr>pf_executable := Some ''/nix/store/short/bin/benchplane''\<rparr>"

lemma short_path: "current_executable_nix_store_path short_platform = Some ''/nix/store/short''"
  by (simp add: current_executable_nix_store_path_def short_platform_def nix_store_object_def from_utf8_def
      is_utf8_char_def is_continuation_def byte_of_def strip_prefix_def pv_MAX_NIX_STORE_PATH_BYTES_def
      any_control_def is_control_def)

lemma short_not_object: "\<not> nix_object ''/nix/store/short''"
proof
  assume "nix_object ''/nix/store/short''"
  then obtain hash name where "''short'' = hash @ ''-'' @ name" "length hash = 32" by (auto simp: nix_object_def)
  from arg_cong [OF this(1), of length] this(2) show False by simp
qed

theorem captured_provenance_accepted_witness:
  "(\<exists>p. capture bare_platform sample_run_id sample_plan = Return p
     \<and> validate_attempt_provenance p sample_manifest sample_plan (Some LOCAL_FAKE_GENERATOR_VERSION) = Ok ())
   \<and> (\<exists>p. capture short_platform sample_run_id sample_plan = Return p
     \<and> validate_attempt_provenance p sample_manifest sample_plan None \<noteq> Ok ())"
proof -
  have captured: "\<exists>p. capture pf (em_run_id sample_manifest) sample_plan = Return p" for pf
    by (simp add: capture_def capture_runtime_def Let_def sample_plan_simps case_prod_beta)
  have host: "host_ok short_platform"
    using bare_host_ok by (simp add: host_ok_def short_platform_def)
  have adm: "admissible (re_experiment sample_plan)"
    using local_fake_admissible by (simp add: sample_plan_def resolved_fixture_def resolved_with_def)
  have accepted: "validate_attempt_provenance p sample_manifest sample_plan (Some LOCAL_FAKE_GENERATOR_VERSION) = Ok ()"
    if "capture bare_platform (em_run_id sample_manifest) sample_plan = Return p" for p
    using captured_provenance_accepted [OF bare_host_ok adm that, of "Some LOCAL_FAKE_GENERATOR_VERSION"]
      bare_installed [of "plan_runtime sample_plan"] by (simp add: nix_installed_def sample_plan_simps)
  have refused: "validate_attempt_provenance p sample_manifest sample_plan None \<noteq> Ok ()"
    if "capture short_platform (em_run_id sample_manifest) sample_plan = Return p" for p
    using captured_provenance_accepted [OF host adm that, of None] short_path short_not_object
    by (simp add: sample_plan_simps)
  have "em_run_id sample_manifest = sample_run_id" by (simp add: sample_manifest_def)
  then show ?thesis using captured accepted refused by metis
qed

end
