(* ===== verification/RunFiles.thy ===== *)
theory RunFiles
  imports Lifecycle ProvenanceFacts
begin

text \<open>
  The file operations of a run, the second half of \<open>src/crates/benchplane-core/src/run.rs\<close>.

  A \<open>World\<close> holds what is at the run's staging path and at its publication path, and counts the I/O
  operations and clock readings so far. A \<open>Host\<close> is everything outside the program: its clock, the
  next run identity, the operations that fail, the writers and readers of records, the platform and the
  helper processes. A failing write may leave any prefix of its bytes behind; a rename happens or not.
  The staging directory is created by the run, so it holds only directories and files.
\<close>

subsection \<open>Errors\<close>

datatype RunError =
    Parse "string ParseError"
  | RunResolution "string ResolutionError"
  | UnsupportedCombination string string
  | Io string string
  | RunLifecycle LifecycleError
  | Serialization string string
  | RunEvidence EvidenceError
  | PublicationConflict string
  | Allocated string string string RunError

fun is_request_rejection :: "RunError \<Rightarrow> bool" where
  "is_request_rejection (Parse _) = True"
| "is_request_rejection (RunResolution _) = True"
| "is_request_rejection (UnsupportedCombination _ _) = True"
| "is_request_rejection _ = False"

fun is_finalization_failure :: "RunError \<Rightarrow> bool" where
  "is_finalization_failure (Allocated _ _ _ _) = True"
| "is_finalization_failure _ = False"

subsection \<open>The world of a run\<close>

datatype RunCheckpoint = MeasurementAppend | Checksum | Verification | Publication

record World =
  wd_staging :: "node option"
  wd_final :: "node option"
  wd_io :: nat
  wd_ticks :: nat

text \<open>The operating system's message, and how much of a write got through.\<close>

datatype Fault = Fault (fault_message: string) (fault_written: "nat option")

record Writers =
  wr_plan :: "ResolvedExperiment \<Rightarrow> string + bytes"
  wr_run :: "RunRecord \<Rightarrow> string + bytes"
  wr_attempt :: "AttemptRecord \<Rightarrow> string + bytes"
  wr_provenance :: "AttemptProvenance \<Rightarrow> string + bytes"
  wr_resources :: "AttemptResources \<Rightarrow> string + bytes"
  wr_validity :: "ValidityResult \<Rightarrow> string + bytes"
  wr_summary :: "RunSummary \<Rightarrow> string + bytes"
  wr_manifest :: "EvidenceManifest \<Rightarrow> string + bytes"
  wr_event :: "LifecycleEvent \<Rightarrow> string + bytes"
  wr_measurement :: "MeasurementRecord \<Rightarrow> string + bytes"

record Host =
  ho_clock :: "nat \<Rightarrow> string"
  ho_run_id :: string
  ho_hook :: "RunCheckpoint \<Rightarrow> World \<Rightarrow> (string + unit) \<times> World"
  ho_fault :: "nat \<Rightarrow> Fault option"
  ho_output_root :: string
  ho_canonical_root :: "string list"
  ho_codecs :: Codecs
  ho_writers :: Writers
  ho_platform :: Platform
  ho_current_exe :: "string list option"
  ho_cpu_probe_executable :: "string option"
  ho_llama_cpp_executable :: "string option"
  ho_llama_cpp_cuda_executable :: "string option"
  ho_cuda_package :: bool
  ho_spawn :: "string \<Rightarrow> system"
  ho_show_status :: "wait_status \<Rightarrow> string"
  ho_read_record :: json_reader
  ho_read_metadata :: "bytes \<Rightarrow> string + NvidiaMetadataRecord"
  ho_show_error :: "RunError \<Rightarrow> string"

type_synonym 'a fileop = "World \<Rightarrow> (RunError + 'a) \<times> World"

definition fs_then :: "'a fileop \<Rightarrow> ('a \<Rightarrow> 'b fileop) \<Rightarrow> 'b fileop" where
  "fs_then m f w = (case m w of (Inl e, w') \<Rightarrow> (Err e, w') | (Inr x, w') \<Rightarrow> f x w')"

text \<open>\<open>Path::join\<close> with a relative second path.\<close>

definition path_join :: "string \<Rightarrow> string \<Rightarrow> string" where
  "path_join a b = (if a = [] then b else if last a = CHR ''/'' then a @ b else a @ CHR ''/'' # b)"

definition staging_path :: "Host \<Rightarrow> string" where
  "staging_path h = path_join (path_join (ho_output_root h) ''staging'') (ho_run_id h)"

definition final_path :: "Host \<Rightarrow> string" where
  "final_path h = path_join (path_join (ho_output_root h) ''runs'') (ho_run_id h)"

text \<open>A path below the staging directory, as its components.\<close>

definition staged :: "Host \<Rightarrow> string list \<Rightarrow> string" where
  "staged h cs = foldl path_join (staging_path h) cs"

definition attempt_directory :: "string list" where "attempt_directory = [''attempts'', ''0001'']"

subsection \<open>Changing a directory tree\<close>

definition EEXIST :: string where "EEXIST = ''File exists (os error 17)''"
definition ENOTEMPTY :: string where "ENOTEMPTY = ''Directory not empty (os error 39)''"

fun update_dir :: "string list \<Rightarrow> (entries \<Rightarrow> string + entries) \<Rightarrow> node \<Rightarrow> string + node" where
  "update_dir cs f n = (case n of
     Dir es \<Rightarrow> (case cs of
         [] \<Rightarrow> and_then (f es) (\<lambda>es'. Ok (Dir es'))
       | c # rest \<Rightarrow> (case map_of es c of
           None \<Rightarrow> Err ENOENT
         | Some m \<Rightarrow> and_then (update_dir rest f m) (\<lambda>m'. Ok (Dir (set_entry c m' es)))))
   | _ \<Rightarrow> Err ENOTDIR)"

declare update_dir.simps [simp del]

definition put_file :: "string \<Rightarrow> bytes \<Rightarrow> entries \<Rightarrow> string + entries" where
  "put_file name content es = (case map_of es name of
     Some (Dir _) \<Rightarrow> Err EISDIR
   | _ \<Rightarrow> Ok (set_entry name (FileNode content) es))"

definition append_file :: "string \<Rightarrow> bytes \<Rightarrow> entries \<Rightarrow> string + entries" where
  "append_file name content es = (case map_of es name of
     Some (FileNode old) \<Rightarrow> Ok (set_entry name (FileNode (old @ content)) es)
   | Some (Dir _) \<Rightarrow> Err EISDIR
   | _ \<Rightarrow> Err ENOENT)"

definition rename_file :: "string \<Rightarrow> string \<Rightarrow> entries \<Rightarrow> string + entries" where
  "rename_file a b es = (case map_of es a of
     None \<Rightarrow> Err ENOENT
   | Some n \<Rightarrow> (case map_of es b of
       Some (Dir _) \<Rightarrow> Err EISDIR
     | _ \<Rightarrow> Ok (set_entry b n (remove_entry a es))))"

fun make_dirs :: "string list \<Rightarrow> node \<Rightarrow> string + node" where
  "make_dirs cs n = (case n of
     Dir es \<Rightarrow> (case cs of
         [] \<Rightarrow> Ok n
       | c # rest \<Rightarrow> and_then (make_dirs rest (case map_of es c of None \<Rightarrow> Dir [] | Some m \<Rightarrow> m))
           (\<lambda>m. Ok (Dir (set_entry c m es))))
   | _ \<Rightarrow> Err EEXIST)"

declare make_dirs.simps [simp del]

definition on_staging :: "(node \<Rightarrow> string + node) \<Rightarrow> World \<Rightarrow> string + World" where
  "on_staging f w = (case wd_staging w of
     None \<Rightarrow> Err ENOENT
   | Some n \<Rightarrow> and_then (f n) (\<lambda>n'. Ok (w\<lparr>wd_staging := Some n'\<rparr>)))"

text \<open>
  One system call: it fails as the host decides, leaving what \<open>partial\<close> says behind, or it fails or
  succeeds by what \<open>act\<close> finds in the world.
\<close>

definition system_call ::
  "Host \<Rightarrow> string \<Rightarrow> (World \<Rightarrow> string + World) \<Rightarrow> (nat \<Rightarrow> World \<Rightarrow> string + World) \<Rightarrow> unit fileop" where
  "system_call h path act partial w0 = (let w = w0\<lparr>wd_io := wd_io w0 + 1\<rparr> in
     case ho_fault h (wd_io w0) of
       Some (Fault message written) \<Rightarrow> (Err (Io path message),
         case written of None \<Rightarrow> w | Some k \<Rightarrow> (case partial k w of Inl _ \<Rightarrow> w | Inr w' \<Rightarrow> w'))
     | None \<Rightarrow> (case act w of Inl message \<Rightarrow> (Err (Io path message), w) | Inr w' \<Rightarrow> (Ok (), w')))"

definition no_partial :: "nat \<Rightarrow> World \<Rightarrow> string + World" where
  "no_partial k w = Ok w"

subsection \<open>The file operations\<close>

text \<open>The parents of the staging and the publication path lie outside the world: creating them only fails by fault.\<close>

definition create_parent_directory :: "Host \<Rightarrow> string \<Rightarrow> unit fileop" where
  "create_parent_directory h path = system_call h path Ok no_partial"

definition create_directory :: "Host \<Rightarrow> string list \<Rightarrow> unit fileop" where
  "create_directory h cs = system_call h (staged h cs) (on_staging (make_dirs cs)) no_partial"

definition create_new_directory :: "Host \<Rightarrow> unit fileop" where
  "create_new_directory h = system_call h (staging_path h)
     (\<lambda>w. if wd_staging w = None then Ok (w\<lparr>wd_staging := Some (Dir [])\<rparr>) else Err EEXIST) no_partial"

definition write_bytes :: "Host \<Rightarrow> string list \<Rightarrow> string \<Rightarrow> bytes \<Rightarrow> unit fileop" where
  "write_bytes h dir name content = system_call h (staged h (dir @ [name]))
     (on_staging (update_dir dir (put_file name content)))
     (\<lambda>k. on_staging (update_dir dir (put_file name (take k content))))"

definition create_empty_file :: "Host \<Rightarrow> string list \<Rightarrow> string \<Rightarrow> unit fileop" where
  "create_empty_file h dir name = write_bytes h dir name []"

definition json_bytes :: "('a \<Rightarrow> string + bytes) \<Rightarrow> 'a \<Rightarrow> string \<Rightarrow> RunError + bytes" where
  "json_bytes to_vec_pretty value record_name =
     and_then (map_err (Serialization record_name) (to_vec_pretty value)) (\<lambda>content. Ok (content @ [CHR 0x0A]))"

definition write_json_atomic ::
  "Host \<Rightarrow> string list \<Rightarrow> string \<Rightarrow> ('a \<Rightarrow> string + bytes) \<Rightarrow> 'a \<Rightarrow> string \<Rightarrow> unit fileop" where
  "write_json_atomic h dir name to_vec_pretty value record_name w =
     (case json_bytes to_vec_pretty value record_name of
        Inl e \<Rightarrow> (Err e, w)
      | Inr content \<Rightarrow> fs_then (write_bytes h dir (name @ ''.tmp'') content) (\<lambda>_.
          system_call h (staged h (dir @ [name]))
            (on_staging (update_dir dir (rename_file (name @ ''.tmp'') name))) no_partial) w)"

text \<open>Opening for appending finds an existing file; the record is serialized after it is open.\<close>

definition append_json_line ::
  "Host \<Rightarrow> string list \<Rightarrow> string \<Rightarrow> ('a \<Rightarrow> string + bytes) \<Rightarrow> 'a \<Rightarrow> string \<Rightarrow> unit fileop" where
  "append_json_line h dir name to_vec value record_name =
     fs_then (system_call h (staged h (dir @ [name])) (on_staging (update_dir dir (append_file name []))) no_partial) (\<lambda>_ w.
       case map_err (Serialization record_name) (to_vec value) of
         Inl e \<Rightarrow> (Err e, w)
       | Inr content \<Rightarrow> system_call h (staged h (dir @ [name]))
           (on_staging (update_dir dir (append_file name (content @ [CHR 0x0A]))))
           (\<lambda>k. on_staging (update_dir dir (append_file name (take k (content @ [CHR 0x0A]))))) w)"

end
