(* ===== verification/Run.thy ===== *)
theory Run
  imports RunFiles
begin

text \<open>
  One run from document to published bundle, \<open>src/crates/benchplane-core/src/run.rs\<close>. A \<open>Session\<close> is
  the mutable state of \<open>run_experiment_with_services\<close>; a step of it (\<open>'a step\<close>) returns, fails with the
  phase and the error, panics, or never returns because a helper never ends.
\<close>

subsection \<open>Steps\<close>

record Session =
  se_lifecycle :: Lifecycle
  se_run :: RunRecord
  se_attempt :: AttemptRecord
  se_world :: World

type_synonym AllocatedFailure = "string \<times> RunError"

type_synonym 'a step = "Session \<Rightarrow> ((AllocatedFailure + 'a) \<times> Session) outcome option"

definition done_with :: "'a \<Rightarrow> 'a step" where
  "done_with x s = Some (Return (Ok x, s))"

definition and_step :: "'a step \<Rightarrow> ('a \<Rightarrow> 'b step) \<Rightarrow> 'b step" where
  "and_step m f s = (case m s of
     None \<Rightarrow> None
   | Some Panic \<Rightarrow> Some Panic
   | Some (Return (Inl e, s')) \<Rightarrow> Some (Return (Err e, s'))
   | Some (Return (Inr x, s')) \<Rightarrow> f x s')"

definition at_phase :: "(Session \<Rightarrow> (RunError + 'a) \<times> Session) \<Rightarrow> string \<Rightarrow> 'a step" where
  "at_phase m phase s = (case m s of (r, s') \<Rightarrow> Some (Return (map_err (Pair phase) r, s')))"

text \<open>A call that may also panic.\<close>

definition at_checked :: "(World \<Rightarrow> ((RunError + 'a) \<times> World) outcome) \<Rightarrow> string \<Rightarrow> 'a step" where
  "at_checked m phase s = Some (chain (m (se_world s)) (\<lambda>(r, w). Return (map_err (Pair phase) r, s\<lparr>se_world := w\<rparr>)))"

definition with_world :: "'a fileop \<Rightarrow> Session \<Rightarrow> (RunError + 'a) \<times> Session" where
  "with_world m s = (case m (se_world s) of (r, w) \<Rightarrow> (r, s\<lparr>se_world := w\<rparr>))"

definition now :: "Host \<Rightarrow> Session \<Rightarrow> string \<times> Session" where
  "now h s = (ho_clock h (wd_ticks (se_world s)), s\<lparr>se_world := (se_world s)\<lparr>wd_ticks := wd_ticks (se_world s) + 1\<rparr>\<rparr>)"

definition or_panic :: "'a outcome \<Rightarrow> 'a step" where
  "or_panic r s = (case r of Panic \<Rightarrow> Some Panic | Return x \<Rightarrow> Some (Return (Ok x, s)))"

definition or_diverge :: "'a option \<Rightarrow> 'a step" where
  "or_diverge r s = (case r of None \<Rightarrow> None | Some x \<Rightarrow> Some (Return (Ok x, s)))"

subsection \<open>Recording the state of the run\<close>

definition persist_run_transition ::
  "Host \<Rightarrow> RunState \<Rightarrow> FailureRecord option \<Rightarrow> Session \<Rightarrow> (RunError + unit) \<times> Session" where
  "persist_run_transition h to cause s0 = (let (recorded_at, s1) = now h s0 in
     case transition (se_lifecycle s1) to recorded_at cause of
       (Inl e, lc) \<Rightarrow> (Err (RunLifecycle e), s1\<lparr>se_lifecycle := lc\<rparr>)
     | (Inr event, lc) \<Rightarrow>
         (case with_world (append_json_line h [] ''events.jsonl'' (wr_event (ho_writers h)) event ''lifecycle event'')
             (s1\<lparr>se_lifecycle := lc\<rparr>) of
            (Inl e, s2) \<Rightarrow> (Err e, s2)
          | (Inr _, s2) \<Rightarrow> (let
              run = (se_run s2)\<lparr>rr_run_status := to, rr_updated_at := le_recorded_at event\<rparr>;
              run' = (if is_terminal to then run\<lparr>rr_completed_at := Some (le_recorded_at event), rr_failure := cause\<rparr>
                else run)
            in with_world (write_json_atomic h [] ''run.json'' (wr_run (ho_writers h)) run' ''run record'')
              (s2\<lparr>se_run := run'\<rparr>))))"

definition attempt_is_terminal :: "AttemptStatus \<Rightarrow> bool" where
  "attempt_is_terminal status \<longleftrightarrow> status \<in> {AttemptSucceeded, AttemptFailed, AttemptInterrupted}"

definition persist_attempt_status ::
  "Host \<Rightarrow> AttemptStatus \<Rightarrow> FailureRecord option \<Rightarrow> Session \<Rightarrow> (RunError + unit) \<times> Session" where
  "persist_attempt_status h status cause s0 = (let
       (recorded_at, s1) = now h s0;
       attempt = (se_attempt s1)\<lparr>ar_status := status, ar_updated_at := recorded_at\<rparr>;
       attempt' = (if attempt_is_terminal status
         then attempt\<lparr>ar_completed_at := Some recorded_at, ar_failure := cause\<rparr> else attempt)
     in with_world (write_json_atomic h attempt_directory ''attempt.json'' (wr_attempt (ho_writers h)) attempt'
          ''attempt record'') (s1\<lparr>se_attempt := attempt'\<rparr>))"

definition write_snapshots :: "Host \<Rightarrow> RunRecord \<Rightarrow> AttemptRecord \<Rightarrow> unit fileop" where
  "write_snapshots h run_record attempt_record =
     fs_then (write_json_atomic h [] ''run.json'' (wr_run (ho_writers h)) run_record ''run record'') (\<lambda>_.
     write_json_atomic h attempt_directory ''attempt.json'' (wr_attempt (ho_writers h)) attempt_record ''attempt record'')"

definition check_hook :: "Host \<Rightarrow> RunCheckpoint \<Rightarrow> string \<Rightarrow> unit fileop" where
  "check_hook h checkpoint path w = (case ho_hook h checkpoint w of (r, w') \<Rightarrow> (map_err (Io path) r, w'))"

subsection \<open>The executable combinations\<close>

datatype ExecutionKind =
    KindLocalFake u64 LocalFakeScenario
  | KindCpuProbe CpuProbeConfig
  | KindLlamaCpp LlamaCppConfig

definition unsupported :: "string \<Rightarrow> RunError + 'a" where
  "unsupported message = Err (UnsupportedCombination ERROR_EXECUTION_UNSUPPORTED_COMBINATION message)"

definition execution_kind :: "bool \<Rightarrow> ResolvedExperiment \<Rightarrow> RunError + ExecutionKind" where
  "execution_kind cuda_package_available plan = (let spec = ex_spec (re_experiment plan) in
     case (sp_provider spec, sp_runtime spec) of
       (ProviderLocalFake, RuntimeLocalFake seed scenario) \<Rightarrow> Ok (KindLocalFake seed scenario)
     | (ProviderLocal, RuntimeCpuProbe output_tokens work_units_per_token) \<Rightarrow> Ok (KindCpuProbe
         \<lparr>cf_requests = wl_requests (sp_workload spec), cf_warmup_runs = ms_warmup_runs (sp_measurement spec),
          cf_repetitions = ms_repetitions (sp_measurement spec), cf_output_tokens = output_tokens,
          cf_work_units_per_token = work_units_per_token,
          cf_maximum_runtime_seconds = ls_maximum_runtime_seconds (sp_lifecycle spec)\<rparr>)
     | (ProviderLocal, RuntimeLlamaCpp target _ output_tokens) \<Rightarrow>
         if target = TargetNvidiaCuda \<and> \<not> cuda_package_available
         then unsupported (''runtime llamaCpp target nvidiaCuda requires the supported ''
           @ ''x86_64-linux CUDA package'')
         else Ok (KindLlamaCpp \<lparr>lm_target = target, lm_requests = wl_requests (sp_workload spec),
           lm_warmup_runs = ms_warmup_runs (sp_measurement spec), lm_repetitions = ms_repetitions (sp_measurement spec),
           lm_output_tokens = output_tokens,
           lm_maximum_runtime_seconds = ls_maximum_runtime_seconds (sp_lifecycle spec)\<rparr>)
     | _ \<Rightarrow> unsupported (''executable combinations are provider localFake with runtime localFake, provider local ''
         @ ''with runtime cpuProbe, and provider local with runtime llamaCpp''))"

text \<open>\<open>cfg!\<close> and \<open>option_env!\<close>: the target of the build and the value of the build variable, if any.\<close>

definition cuda_package_available :: "string \<Rightarrow> string \<Rightarrow> string option \<Rightarrow> bool" where
  "cuda_package_available target_os target_arch variable \<longleftrightarrow>
     target_os = ''linux'' \<and> target_arch = ''x86_64'' \<and> variable = Some ''1''"

definition packaged_executable :: "Host \<Rightarrow> string \<Rightarrow> string" where
  "packaged_executable h name = (case ho_current_exe h of
     Some executable \<Rightarrow> if executable = [] then ''/benchplane-package-missing/bin/'' @ name
       else path_display (butlast executable @ [name])
   | None \<Rightarrow> ''/benchplane-package-missing/bin/'' @ name)"

definition execute_kind :: "Host \<Rightarrow> ResolvedExperiment \<Rightarrow> ExecutionKind \<Rightarrow> ExecutionOutput option" where
  "execute_kind h plan kind = (case kind of
     KindLocalFake seed scenario \<Rightarrow> Some (local_fake_execute (cd_sha256 (ho_codecs h)) plan seed scenario)
   | KindCpuProbe config \<Rightarrow> (let
         executable = (case ho_cpu_probe_executable h of
           Some p \<Rightarrow> p | None \<Rightarrow> packaged_executable h ''benchplane-cpu-probe'')
       in cpu_execute (ho_show_status h) (ho_read_record h) config (ho_spawn h executable))
   | KindLlamaCpp config \<Rightarrow> (let
         executable = (case lm_target config of
           TargetCpu \<Rightarrow> (case ho_llama_cpp_executable h of
             Some p \<Rightarrow> p | None \<Rightarrow> packaged_executable h ''benchplane-llama-cpp'')
         | TargetNvidiaCuda \<Rightarrow> (case ho_llama_cpp_cuda_executable h of
             Some p \<Rightarrow> p | None \<Rightarrow> packaged_executable h ''benchplane-llama-cpp-nvidia-cuda''))
       in llama_execute (ho_show_status h) (ho_read_record h) (ho_read_metadata h) config (ho_spawn h executable)))"

subsection \<open>The phases of a run\<close>

definition initialize :: "Host \<Rightarrow> bytes \<Rightarrow> ResolvedExperiment \<Rightarrow> LifecycleEvent \<Rightarrow> unit step" where
  "initialize h experiment_bytes plan initial_event =
     and_step (at_phase (with_world (create_directory h attempt_directory)) ''initializing'') (\<lambda>_.
     and_step (at_phase (with_world (write_bytes h [] ''experiment.yaml'' experiment_bytes)) ''initializing'') (\<lambda>_.
     and_step (at_phase (with_world (write_json_atomic h [] ''resolved-plan.json'' (wr_plan (ho_writers h)) plan
       ''resolved plan'')) ''initializing'') (\<lambda>_.
     and_step (at_phase (with_world (create_empty_file h [] ''events.jsonl'')) ''initializing'') (\<lambda>_.
     and_step (at_phase (with_world (append_json_line h [] ''events.jsonl'' (wr_event (ho_writers h)) initial_event
       ''lifecycle event'')) ''initializing'') (\<lambda>_.
     and_step (at_phase (with_world (create_empty_file h attempt_directory ''measurements.jsonl'')) ''initializing'') (\<lambda>_.
     at_phase (\<lambda>s. with_world (write_snapshots h (se_run s) (se_attempt s)) s) ''initializing''))))))"

definition write_provenance :: "Host \<Rightarrow> AttemptProvenance \<Rightarrow> unit fileop" where
  "write_provenance h provenance = write_json_atomic h attempt_directory ''provenance.json''
     (wr_provenance (ho_writers h)) provenance ''attempt provenance''"

definition prepare :: "Host \<Rightarrow> ResolvedExperiment \<Rightarrow> AttemptProvenance step" where
  "prepare h plan =
     and_step (at_phase (persist_run_transition h Preparing None) ''preparing'') (\<lambda>_.
     and_step (at_phase (persist_attempt_status h AttemptPreparing None) ''preparing'') (\<lambda>_.
     and_step (or_panic (capture (ho_platform h) (ho_run_id h) plan)) (\<lambda>provenance.
     and_step (at_phase (with_world (write_provenance h provenance)) ''preparing'') (\<lambda>_.
     and_step (at_phase (persist_run_transition h Running None) ''running'') (\<lambda>_.
     and_step (at_phase (persist_attempt_status h AttemptRunning None) ''running'') (\<lambda>_.
     done_with provenance))))))"

definition record_nvidia :: "Host \<Rightarrow> AttemptProvenance \<Rightarrow> ExecutionOutput \<Rightarrow> unit step" where
  "record_nvidia h provenance execution = (case eo_nvidia_gpu execution of
     None \<Rightarrow> done_with ()
   | Some nvidia \<Rightarrow> (case attach_nvidia provenance nvidia of
       Inl _ \<Rightarrow> or_panic Panic
     | Inr enriched \<Rightarrow> at_phase (with_world (write_provenance h enriched)) ''recordingProvenance''))"

definition attempt_terminal :: "RunState \<Rightarrow> AttemptStatus outcome" where
  "attempt_terminal state = (case state of
     Succeeded \<Rightarrow> Return AttemptSucceeded
   | Failed \<Rightarrow> Return AttemptFailed
   | Interrupted \<Rightarrow> Return AttemptInterrupted
   | _ \<Rightarrow> Panic)"

definition record_resources :: "Host \<Rightarrow> ExecutionOutput \<Rightarrow> unit step" where
  "record_resources h execution = (case eo_resources execution of
     None \<Rightarrow> done_with ()
   | Some resources \<Rightarrow> at_phase (with_world (write_json_atomic h attempt_directory ''resources.json''
       (wr_resources (ho_writers h)) \<lparr>at_format = ATTEMPT_RESOURCES_FORMAT_V1, at_run_id = ho_run_id h,
         at_attempt_number = 1, at_scope = HelperProcessLifetime, at_cpu_time_micros = pr_cpu_time_micros resources,
         at_peak_rss_bytes = pr_peak_rss_bytes resources\<rparr> ''attempt resources'')) ''recordingResources'')"

fun record_measurements :: "Host \<Rightarrow> MeasurementRecord list \<Rightarrow> unit step" where
  "record_measurements h [] = done_with ()"
| "record_measurements h (r # rest) =
     and_step (at_phase (with_world (append_json_line h attempt_directory ''measurements.jsonl''
       (wr_measurement (ho_writers h)) r ''measurement'')) ''recordingMeasurements'') (\<lambda>_.
     record_measurements h rest)"

definition record_execution :: "Host \<Rightarrow> AttemptProvenance \<Rightarrow> ExecutionOutput \<Rightarrow> unit step" where
  "record_execution h provenance execution =
     and_step (record_nvidia h provenance execution) (\<lambda>_.
     and_step (or_panic (attempt_terminal (eo_terminal_state execution))) (\<lambda>status.
     and_step (at_phase (persist_attempt_status h status (eo_failure execution)) ''running'') (\<lambda>_.
     and_step (record_resources h execution) (\<lambda>_.
     and_step (at_phase (with_world (check_hook h MeasurementAppend
       (staged h (attempt_directory @ [''measurements.jsonl''])))) ''recordingMeasurements'') (\<lambda>_.
     record_measurements h (eo_measurements execution))))))"

definition manifest_of :: "Host \<Rightarrow> ResolvedExperiment \<Rightarrow> ExecutionOutput \<Rightarrow> ValidityResult \<Rightarrow> EvidenceManifest" where
  "manifest_of h plan execution validity = \<lparr>em_format = EVIDENCE_FORMAT_V1, em_run_id = ho_run_id h,
     em_run_status = eo_terminal_state execution, em_validity_status = vy_status validity,
     em_experiment_digest = re_experiment_digest plan, em_resolved_plan_digest = re_resolved_plan_digest plan,
     em_attempt_count = 1\<rparr>"

definition finalize :: "Host \<Rightarrow> ResolvedExperiment \<Rightarrow> ExecutionOutput \<Rightarrow> (ValidityResult \<times> RunSummary) step" where
  "finalize h plan execution =
     and_step (if eo_terminal_state execution = Succeeded
       then at_phase (persist_run_transition h Collecting None) ''collecting'' else done_with ()) (\<lambda>_.
     and_step (or_panic (evaluate_validity plan execution (ho_run_id h))) (\<lambda>validity.
     and_step (or_panic (summarize plan execution validity (ho_run_id h))) (\<lambda>summary.
     and_step (at_phase (persist_run_transition h Finalizing None) ''finalizing'') (\<lambda>_.
     and_step (at_phase (persist_run_transition h (eo_terminal_state execution) (eo_failure execution)) ''finalizing'') (\<lambda>_.
     and_step (at_phase (with_world (write_json_atomic h [] ''validity.json'' (wr_validity (ho_writers h)) validity
       ''validity result'')) ''finalizing'') (\<lambda>_.
     and_step (at_phase (with_world (write_json_atomic h [] ''summary.json'' (wr_summary (ho_writers h)) summary
       ''run summary'')) ''finalizing'') (\<lambda>_.
     and_step (at_phase (with_world (write_json_atomic h [] ''manifest.json'' (wr_manifest (ho_writers h))
       (manifest_of h plan execution validity) ''evidence manifest'')) ''finalizing'') (\<lambda>_.
     done_with (validity, summary)))))))))"

text \<open>The staging path as the evidence functions see it.\<close>

definition staging_root :: "Host \<Rightarrow> string list" where
  "staging_root h = ho_canonical_root h @ [''staging'', ho_run_id h]"

definition canonicalize_staging :: "Host \<Rightarrow> World \<Rightarrow> canonicalizer" where
  "canonicalize_staging h w path = (if path = staging_path h
     then (case wd_staging w of Some n \<Rightarrow> Ok (staging_root h, n) | None \<Rightarrow> Err ENOENT) else Err ENOENT)"

text \<open>
  The checksum file over the staging directory: a fault leaves a temporary file with what was written
  of it; otherwise the directory is as \<open>write_checksum_file\<close> leaves it.
\<close>

definition checksum_staging :: "Host \<Rightarrow> bytes fileop" where
  "checksum_staging h w0 = (let w = w0\<lparr>wd_io := wd_io w0 + 1\<rparr> in
     case ho_fault h (wd_io w0) of
       Some (Fault message written) \<Rightarrow> (Err (RunEvidence (WriteError_at (staged h [''SHA256SUMS.tmp'']) message)),
         case written of None \<Rightarrow> w
         | Some k \<Rightarrow> (case on_staging (update_dir [] (put_file ''SHA256SUMS.tmp''
               (case write_checksum_file (ho_codecs h) (canonicalize_staging h w) (staging_path h) of
                  Inl _ \<Rightarrow> [] | Inr (_, content) \<Rightarrow> take k content))) w of
             Inl _ \<Rightarrow> w | Inr w' \<Rightarrow> w'))
     | None \<Rightarrow> (case write_checksum_file (ho_codecs h) (canonicalize_staging h w) (staging_path h) of
         Inl e \<Rightarrow> (Err (RunEvidence e), w)
       | Inr (es, content) \<Rightarrow> (Ok content, w\<lparr>wd_staging := Some (Dir es)\<rparr>)))"

definition verify_staging :: "Host \<Rightarrow> World \<Rightarrow> ((RunError + unit) \<times> World) outcome" where
  "verify_staging h w0 = (let w = w0\<lparr>wd_io := wd_io w0 + 1\<rparr> in
     case ho_fault h (wd_io w0) of
       Some (Fault message _) \<Rightarrow> Return (Err (RunEvidence (ReadError_at (staging_path h) message)), w)
     | None \<Rightarrow> chain (verify_evidence_bundle (ho_codecs h) (canonicalize_staging h w) (staging_path h)) (\<lambda>verified.
         Return (map_err RunEvidence (and_then verified (\<lambda>_. Ok ())), w)))"

text \<open>\<open>Path::exists\<close> follows links: it does not see a link that leads nowhere.\<close>

definition publication_free :: "Host \<Rightarrow> unit fileop" where
  "publication_free h w = (case wd_final w of
     None \<Rightarrow> (Ok (), w)
   | Some BrokenLink \<Rightarrow> (Ok (), w)
   | Some _ \<Rightarrow> (Err (PublicationConflict (final_path h)), w))"

text \<open>\<open>rename\<close> of a directory replaces an empty directory and nothing else, and it does not follow links.\<close>

definition rename_staging :: "Host \<Rightarrow> unit fileop" where
  "rename_staging h = system_call h (final_path h) (\<lambda>w. case wd_staging w of
       None \<Rightarrow> Err ENOENT
     | Some n \<Rightarrow> (case wd_final w of
         None \<Rightarrow> Ok (w\<lparr>wd_staging := None, wd_final := Some n\<rparr>)
       | Some (Dir es) \<Rightarrow> if es = [] then Ok (w\<lparr>wd_staging := None, wd_final := Some n\<rparr>) else Err ENOTEMPTY
       | Some _ \<Rightarrow> Err ENOTDIR)) no_partial"

definition publish :: "Host \<Rightarrow> bytes step" where
  "publish h =
     and_step (at_phase (with_world (check_hook h Checksum (staging_path h))) ''checksumming'') (\<lambda>_.
     and_step (at_phase (with_world (checksum_staging h)) ''checksumming'') (\<lambda>pending.
     and_step (at_phase (with_world (check_hook h Verification (staging_path h))) ''verifying'') (\<lambda>_.
     and_step (at_checked (verify_staging h) ''verifying'') (\<lambda>_.
     and_step (at_phase (with_world (publication_free h)) ''publishing'') (\<lambda>_.
     and_step (at_phase (with_world (check_hook h Publication (final_path h))) ''publishing'') (\<lambda>_.
     and_step (at_phase (with_world (rename_staging h)) ''publishing'') (\<lambda>_.
     done_with pending)))))))"

definition allocated_run ::
  "Host \<Rightarrow> bytes \<Rightarrow> ResolvedExperiment \<Rightarrow> ExecutionKind \<Rightarrow> LifecycleEvent \<Rightarrow> RunResult step" where
  "allocated_run h experiment_bytes plan kind initial_event =
     and_step (initialize h experiment_bytes plan initial_event) (\<lambda>_.
     and_step (prepare h plan) (\<lambda>provenance.
     and_step (or_diverge (execute_kind h plan kind)) (\<lambda>execution.
     and_step (record_execution h provenance execution) (\<lambda>_.
     and_step (finalize h plan execution) (\<lambda>(validity, summary).
     and_step (publish h) (\<lambda>pending. done_with
       \<lparr>rs_run_id = ho_run_id h, rs_run_state = eo_terminal_state execution, rs_validity_status = vy_status validity,
        rs_attempt_count = 1, rs_sample_count = su_sample_count summary, rs_latency = su_latency summary,
        rs_mean_throughput_milli_requests_per_second = su_mean_throughput_milli_requests_per_second summary,
        rs_resources = eo_resources execution, rs_bundle_path = final_path h,
        rs_experiment_digest = re_experiment_digest plan, rs_resolved_plan_digest = re_resolved_plan_digest plan,
        rs_evidence_digest = pending_digest_finish (ho_codecs h) pending, rs_failure = eo_failure execution\<rparr>))))))"

subsection \<open>Failure after allocation\<close>

definition failure_record :: "string \<Rightarrow> string \<Rightarrow> FailureRecord" where
  "failure_record phase message = \<lparr>fr_phase = phase,
     fr_code = (if phase \<in> set [''finalizing'', ''checksumming'', ''verifying'', ''publishing'']
       then ERROR_EVIDENCE_FINALIZATION_FAILED else ERROR_IO_OPERATION_FAILED),
     fr_message = message, fr_retryable = False, fr_attempt_number = 1\<rparr>"

definition persist_allocated_failure :: "Host \<Rightarrow> string \<Rightarrow> string \<Rightarrow> Session \<Rightarrow> Session" where
  "persist_allocated_failure h phase message s0 = (let
       cause = failure_record phase message;
       s1 = (if lf_state (se_lifecycle s0) \<in> set [Preparing, Running, Collecting]
         then snd (persist_run_transition h Finalizing None s0) else s0);
       s2 = (if lf_state (se_lifecycle s1) = Finalizing
         then snd (persist_run_transition h Failed (Some cause) s1) else s1);
       (updated_at, s3) = now h s2;
       s4 = s3\<lparr>se_run := (se_run s3)\<lparr>rr_updated_at := updated_at, rr_failure := Some cause\<rparr>\<rparr>;
       s5 = snd (with_world (write_json_atomic h [] ''run.json'' (wr_run (ho_writers h)) (se_run s4) ''run record'') s4)
     in snd (with_world (write_json_atomic h attempt_directory ''attempt.json'' (wr_attempt (ho_writers h))
          (se_attempt s5) ''attempt record'') s5))"

subsection \<open>The run\<close>

definition new_run_record :: "string \<Rightarrow> ResolvedExperiment \<Rightarrow> string \<Rightarrow> RunRecord" where
  "new_run_record run_id plan created_at = \<lparr>rr_run_id = run_id, rr_run_status = Created,
     rr_created_at = created_at, rr_updated_at = created_at, rr_completed_at = None,
     rr_experiment_digest = re_experiment_digest plan, rr_resolved_plan_digest = re_resolved_plan_digest plan,
     rr_attempt_count = 1, rr_failure = None\<rparr>"

definition new_attempt_record :: "string \<Rightarrow> string \<Rightarrow> AttemptRecord" where
  "new_attempt_record run_id created_at = \<lparr>ar_run_id = run_id, ar_attempt_number = 1, ar_status = AttemptCreated,
     ar_started_at = created_at, ar_updated_at = created_at, ar_completed_at = None, ar_failure = None\<rparr>"

definition allocate :: "Host \<Rightarrow> unit fileop" where
  "allocate h =
     fs_then (create_parent_directory h (path_join (ho_output_root h) ''staging'')) (\<lambda>_.
     fs_then (create_parent_directory h (path_join (ho_output_root h) ''runs'')) (\<lambda>_.
     create_new_directory h))"

definition start_session :: "Host \<Rightarrow> ResolvedExperiment \<Rightarrow> World \<Rightarrow> LifecycleEvent \<times> Session" where
  "start_session h plan w = (let created_at = ho_clock h (wd_ticks w);
       (lifecycle, initial_event) = lifecycle_new (ho_run_id h) created_at 1
     in (initial_event, \<lparr>se_lifecycle = lifecycle, se_run = new_run_record (ho_run_id h) plan created_at,
       se_attempt = new_attempt_record (ho_run_id h) created_at, se_world = w\<lparr>wd_ticks := wd_ticks w + 1\<rparr>\<rparr>))"

definition settle :: "Host \<Rightarrow> (AllocatedFailure + RunResult) \<times> Session \<Rightarrow> (RunError + RunResult) \<times> Session" where
  "settle h rs = (case rs of
     (Inr result, s) \<Rightarrow> (Ok result, s)
   | (Inl (phase, source), s) \<Rightarrow>
       (Err (Allocated (ho_run_id h) phase (staging_path h) source),
        persist_allocated_failure h phase (ho_show_error h source) s))"

definition run_experiment_with_services ::
  "Host \<Rightarrow> bytes \<Rightarrow> World \<Rightarrow> ((RunError + RunResult) \<times> World) outcome option" where
  "run_experiment_with_services h experiment_bytes w =
     (case and_then (map_err Parse (parse_experiment (cd_yaml (ho_codecs h)) experiment_bytes)) (\<lambda>experiment.
        and_then (map_err RunResolution (cd_resolve (ho_codecs h) experiment)) (\<lambda>plan.
        and_then (execution_kind (ho_cuda_package h) plan) (\<lambda>kind. Ok (plan, kind)))) of
      Inl e \<Rightarrow> Some (Return (Err e, w))
    | Inr (plan, kind) \<Rightarrow> (case allocate h w of
        (Inl e, w') \<Rightarrow> Some (Return (Err e, w'))
      | (Inr _, w') \<Rightarrow> (case start_session h plan w' of (initial_event, s) \<Rightarrow>
          map_option (\<lambda>r. chain r (\<lambda>rs. Return (apsnd se_world (settle h rs))))
            (allocated_run h experiment_bytes plan kind initial_event s))))"

definition noop_hook :: "RunCheckpoint \<Rightarrow> World \<Rightarrow> (string + unit) \<times> World" where
  "noop_hook checkpoint w = (Ok (), w)"

definition run_experiment ::
  "Host \<Rightarrow> bytes \<Rightarrow> World \<Rightarrow> ((RunError + RunResult) \<times> World) outcome option" where
  "run_experiment h = run_experiment_with_services (h\<lparr>ho_hook := noop_hook, ho_cpu_probe_executable := None,
     ho_llama_cpp_executable := None, ho_llama_cpp_cuda_executable := None\<rparr>)"

end
