(* ===== verification/RunFacts.thy ===== *)
theory RunFacts
  imports Run
begin

text \<open>
  What holds of every run: nothing appears at the publication path but a verified bundle, a
  failure leaves the publication path as it was and keeps the staging directory, a rejected document
  leaves no trace, and no run panics.
\<close>

subsection \<open>Invariants of the world\<close>

definition keeps :: "(World \<Rightarrow> bool) \<Rightarrow> 'a fileop \<Rightarrow> bool" where
  "keeps I m \<longleftrightarrow> (\<forall>w r w'. m w = (r, w') \<longrightarrow> I w \<longrightarrow> I w')"

definition session_keeps :: "(World \<Rightarrow> bool) \<Rightarrow> (Session \<Rightarrow> 'a \<times> Session) \<Rightarrow> bool" where
  "session_keeps I m \<longleftrightarrow> (\<forall>s r s'. m s = (r, s') \<longrightarrow> I (se_world s) \<longrightarrow> I (se_world s'))"

definition step_keeps :: "(World \<Rightarrow> bool) \<Rightarrow> 'a step \<Rightarrow> bool" where
  "step_keeps I m \<longleftrightarrow> (\<forall>s r s'. m s = Some (Return (r, s')) \<longrightarrow> I (se_world s) \<longrightarrow> I (se_world s'))"

named_theorems keeps_intros \<open>operations that keep an invariant of the world\<close>
named_theorems step_simps \<open>the results of composed operations and steps\<close>

lemma fs_then_eq [step_simps]:
  "fs_then m f w = (r, w') \<longleftrightarrow> (\<exists>e. m w = (Err e, w') \<and> r = Err e) \<or> (\<exists>x w1. m w = (Ok x, w1) \<and> f x w1 = (r, w'))"
  by (cases "m w"; cases "fst (m w)") (auto simp: fs_then_def)

lemma with_world_eq [step_simps]:
  "with_world m s = (r, s') \<longleftrightarrow> (\<exists>w. m (se_world s) = (r, w) \<and> s' = s\<lparr>se_world := w\<rparr>)"
  by (cases "m (se_world s)") (auto simp: with_world_def)

lemma at_phase_eq:
  "at_phase m phase s = Some (Return (r, s')) \<longleftrightarrow> (\<exists>q. m s = (q, s') \<and> r = map_err (Pair phase) q)"
  by (cases "m s") (auto simp: at_phase_def)

lemma at_phase_Ok [step_simps]: "at_phase m phase s = Some (Return (Ok x, s')) \<longleftrightarrow> m s = (Ok x, s')"
  by (cases "m s") (auto simp: at_phase_def result_simps)

lemma at_phase_Err [step_simps]:
  "at_phase m phase s = Some (Return (Err e, s')) \<longleftrightarrow> (\<exists>c. m s = (Err c, s') \<and> e = (phase, c))"
  by (cases "m s"; cases "fst (m s)") (auto simp: at_phase_def)

lemma at_checked_eq:
  "at_checked m phase s = Some (Return (r, s'))
     \<longleftrightarrow> (\<exists>q w. m (se_world s) = Return (q, w) \<and> r = map_err (Pair phase) q \<and> s' = s\<lparr>se_world := w\<rparr>)"
  by (auto simp: at_checked_def result_simps)

lemma at_checked_Ok [step_simps]:
  "at_checked m phase s = Some (Return (Ok x, s'))
     \<longleftrightarrow> (\<exists>w. m (se_world s) = Return (Ok x, w) \<and> s' = s\<lparr>se_world := w\<rparr>)"
  by (auto simp: at_checked_def result_simps)

lemma at_checked_Err [step_simps]:
  "at_checked m phase s = Some (Return (Err e, s'))
     \<longleftrightarrow> (\<exists>c w. m (se_world s) = Return (Err c, w) \<and> e = (phase, c) \<and> s' = s\<lparr>se_world := w\<rparr>)"
proof -
  have "Err e = map_err (Pair phase) q \<longleftrightarrow> (\<exists>c. q = Err c \<and> e = (phase, c))" for q :: "RunError + 'a"
    by (cases q) auto
  then show ?thesis by (auto simp: at_checked_eq)
qed

lemma and_step_eq [step_simps]:
  "and_step m f s = Some (Return (r, s')) \<longleftrightarrow>
     (\<exists>e. m s = Some (Return (Err e, s')) \<and> r = Err e) \<or>
     (\<exists>x s1. m s = Some (Return (Ok x, s1)) \<and> f x s1 = Some (Return (r, s')))"
  by (auto simp: and_step_def split: option.splits outcome.splits prod.splits sum.splits)

lemma done_with_eq [step_simps]: "done_with x s = Some (Return (r, s')) \<longleftrightarrow> r = Ok x \<and> s' = s"
  by (auto simp: done_with_def)

lemma or_panic_eq [step_simps]: "or_panic q s = Some (Return (r, s')) \<longleftrightarrow> (\<exists>x. q = Return x \<and> r = Ok x \<and> s' = s)"
  by (cases q) (auto simp: or_panic_def)

lemma or_diverge_eq [step_simps]: "or_diverge q s = Some (Return (r, s')) \<longleftrightarrow> (\<exists>x. q = Some x \<and> r = Ok x \<and> s' = s)"
  by (cases q) (auto simp: or_diverge_def)

lemma keeps_fs_then [keeps_intros]: "keeps I m \<Longrightarrow> (\<And>x. keeps I (f x)) \<Longrightarrow> keeps I (fs_then m f)"
  unfolding keeps_def fs_then_eq by blast

lemma session_keeps_with_world [keeps_intros]: "keeps I m \<Longrightarrow> session_keeps I (with_world m)"
  unfolding keeps_def session_keeps_def with_world_eq by auto

lemma step_keeps_at_phase [keeps_intros]: "session_keeps I m \<Longrightarrow> step_keeps I (at_phase m phase)"
  unfolding session_keeps_def step_keeps_def at_phase_eq by blast

lemma step_keeps_at_checked [keeps_intros]:
  "(\<And>w r w'. m w = Return (r, w') \<Longrightarrow> I w \<Longrightarrow> I w') \<Longrightarrow> step_keeps I (at_checked m phase)"
  unfolding step_keeps_def at_checked_eq by auto

lemma step_keeps_basic [keeps_intros]:
  "step_keeps I (done_with x)" "step_keeps I (or_panic q)" "step_keeps I (or_diverge d)"
  by (auto simp: step_keeps_def step_simps)

lemma step_keeps_and_step [keeps_intros]:
  "step_keeps I m \<Longrightarrow> (\<And>x. step_keeps I (f x)) \<Longrightarrow> step_keeps I (and_step m f)"
  unfolding step_keeps_def and_step_eq by blast

text \<open>The ways a system call ends.\<close>

lemma system_call_cases:
  assumes "system_call h path act partial w0 = (r, w')"
  obtains (fault) message where "r = Err (Io path message)" "w' = w0\<lparr>wd_io := wd_io w0 + 1\<rparr>"
  | (partial) message k where "r = Err (Io path message)" "partial k (w0\<lparr>wd_io := wd_io w0 + 1\<rparr>) = Ok w'"
  | (ok) "r = Ok ()" "act (w0\<lparr>wd_io := wd_io w0 + 1\<rparr>) = Ok w'"
proof (cases "ho_fault h (wd_io w0)")
  case None
  then show thesis
    using assms fault ok by (cases "act (w0\<lparr>wd_io := wd_io w0 + 1\<rparr>)") (auto simp: system_call_def)
next
  case (Some f)
  obtain message written where f: "f = Fault message written" by (cases f)
  show thesis
  proof (cases written)
    case None
    then show thesis using assms Some f fault by (auto simp: system_call_def)
  next
    case (Some k)
    then show thesis
      using assms \<open>ho_fault h (wd_io w0) = Some f\<close> f fault partial
      by (cases "partial k (w0\<lparr>wd_io := wd_io w0 + 1\<rparr>)") (auto simp: system_call_def)
  qed
qed

text \<open>
  The interfaces between the world and the steps of a run. A \<open>ticking\<close> invariant survives the clock;
  then it survives a change of the run's state if it survives the writes of that change. A
  \<open>recording\<close> invariant of a host survives every write of the recording phases, hence the phases. An
  invariant that survives counting and any change below the staging directory is a recording invariant
  of every host.
\<close>

locale ticking =
  fixes I :: "World \<Rightarrow> bool"
  assumes ticked: "I w \<Longrightarrow> I (w\<lparr>wd_ticks := t\<rparr>)"
begin

lemma now_keeps: "now h s = (t, s') \<Longrightarrow> I (se_world s) \<Longrightarrow> I (se_world s')"
  by (auto simp: now_def ticked)

lemma with_world_keeps: "with_world m s = (r, s') \<Longrightarrow> keeps I m \<Longrightarrow> I (se_world s) \<Longrightarrow> I (se_world s')"
  by (auto simp: with_world_eq keeps_def)

lemma persist_run_keeps:
  assumes append: "\<And>e. keeps I (append_json_line h [] ''events.jsonl'' (wr_event (ho_writers h)) e ''lifecycle event'')"
    and snapshot: "\<And>r. keeps I (write_json_atomic h [] ''run.json'' (wr_run (ho_writers h)) r ''run record'')"
  shows "session_keeps I (persist_run_transition h to cause)"
  unfolding session_keeps_def
proof (intro allI impI)
  fix s r s' assume run: "persist_run_transition h to cause s = (r, s')" and I: "I (se_world s)"
  obtain t s1 where now: "now h s = (t, s1)" by force
  have I1: "I (se_world s1)" using now_keeps now I by blast
  obtain q lc where tr: "transition (se_lifecycle s1) to t cause = (q, lc)" by force
  show "I (se_world s')"
  proof (cases q)
    case (Inl e)
    then show ?thesis using run now tr I1 by (auto simp: persist_run_transition_def)
  next
    case (Inr event)
    let ?s = "s1\<lparr>se_lifecycle := lc\<rparr>"
    obtain q2 s2 where app: "with_world (append_json_line h [] ''events.jsonl'' (wr_event (ho_writers h)) event
        ''lifecycle event'') ?s = (q2, s2)" by force
    have "I (se_world ?s)" using I1 by simp
    then have I2: "I (se_world s2)" using with_world_keeps [OF app append] by blast
    show ?thesis
    proof (cases q2)
      case (Inl e)
      then show ?thesis using run now tr Inr app I2 by (simp add: persist_run_transition_def)
    next
      case (Inr u)
      then obtain rec where w: "with_world (write_json_atomic h [] ''run.json'' (wr_run (ho_writers h)) rec ''run record'')
          (s2\<lparr>se_run := rec\<rparr>) = (r, s')"
        using run now tr \<open>q = Ok event\<close> app by (simp add: persist_run_transition_def Let_def)
      show ?thesis by (rule with_world_keeps [OF w snapshot]) (simp add: I2)
    qed
  qed
qed

lemma persist_attempt_keeps:
  assumes snapshot: "\<And>a. keeps I (write_json_atomic h attempt_directory ''attempt.json'' (wr_attempt (ho_writers h)) a ''attempt record'')"
  shows "session_keeps I (persist_attempt_status h status cause)"
  unfolding session_keeps_def
proof (intro allI impI)
  fix s r s' assume run: "persist_attempt_status h status cause s = (r, s')" and I: "I (se_world s)"
  obtain t s1 where now: "now h s = (t, s1)" by force
  obtain rec where w: "with_world (write_json_atomic h attempt_directory ''attempt.json'' (wr_attempt (ho_writers h)) rec
      ''attempt record'') (s1\<lparr>se_attempt := rec\<rparr>) = (r, s')"
    using run now by (simp add: persist_attempt_status_def Let_def)
  show "I (se_world s')" by (rule with_world_keeps [OF w snapshot]) (simp add: now_keeps [OF now I])
qed

end

locale recording = ticking I for I +
  fixes h :: Host
  assumes run_snapshot: "keeps I (write_json_atomic h [] ''run.json'' (wr_run (ho_writers h)) run ''run record'')"
    and attempt_snapshot:
      "keeps I (write_json_atomic h attempt_directory ''attempt.json'' (wr_attempt (ho_writers h)) attempt ''attempt record'')"
    and provenance_record: "keeps I (write_provenance h provenance)"
    and resources_record: "keeps I (write_json_atomic h attempt_directory ''resources.json'' (wr_resources (ho_writers h)) resources
      ''attempt resources'')"
    and validity_record: "keeps I (write_json_atomic h [] ''validity.json'' (wr_validity (ho_writers h)) validity ''validity result'')"
    and summary_record: "keeps I (write_json_atomic h [] ''summary.json'' (wr_summary (ho_writers h)) summary ''run summary'')"
    and manifest_record: "keeps I (write_json_atomic h [] ''manifest.json'' (wr_manifest (ho_writers h)) manifest ''evidence manifest'')"
    and event_line: "keeps I (append_json_line h [] ''events.jsonl'' (wr_event (ho_writers h)) event ''lifecycle event'')"
    and measurement_line: "keeps I (append_json_line h attempt_directory ''measurements.jsonl'' (wr_measurement (ho_writers h))
      sample ''measurement'')"
begin

lemmas persist_keeps = persist_run_keeps [OF event_line run_snapshot] persist_attempt_keeps [OF attempt_snapshot]

lemma snapshots_keep: "step_keeps I (at_phase (\<lambda>s. with_world (write_snapshots h (se_run s) (se_attempt s)) s) phase)"
proof -
  have "keeps I (write_snapshots h run attempt)" for run attempt
    unfolding write_snapshots_def by (intro keeps_intros run_snapshot attempt_snapshot)
  then show ?thesis unfolding step_keeps_def at_phase_eq using with_world_keeps by blast
qed

lemma prepare_keeps: "step_keeps I (prepare h plan)"
  unfolding prepare_def by (intro keeps_intros persist_keeps provenance_record)

lemma record_measurements_keeps: "step_keeps I (record_measurements h rs)"
  by (induction rs) (auto intro!: keeps_intros measurement_line)

lemma finalize_keeps: "step_keeps I (finalize h plan out)"
proof -
  have "step_keeps I (if c then at_phase (persist_run_transition h Collecting None) phase else done_with ())" for c phase
    by (auto intro!: keeps_intros persist_keeps)
  then show ?thesis
    unfolding finalize_def by (intro keeps_intros persist_keeps validity_record summary_record manifest_record)
qed

lemma record_execution_keeps:
  assumes "\<And>r w w'. ho_hook h MeasurementAppend w = (r, w') \<Longrightarrow> I w \<Longrightarrow> I w'"
  shows "step_keeps I (record_execution h provenance out)"
proof -
  have "step_keeps I (record_nvidia h provenance out)" "step_keeps I (record_resources h out)"
    unfolding record_nvidia_def record_resources_def
    by (auto split: option.splits sum.splits intro!: keeps_intros provenance_record resources_record)
  moreover have "keeps I (check_hook h MeasurementAppend path)" for path
    using assms by (auto simp: keeps_def check_hook_def split: prod.splits)
  ultimately show ?thesis unfolding record_execution_def by (intro keeps_intros record_measurements_keeps persist_keeps)
qed

lemma persist_allocated_failure_keeps: "I (se_world s) \<Longrightarrow> I (se_world (persist_allocated_failure h phase message s))"
proof -
  have call: "I (se_world (snd (with_world m s)))" if "keeps I m" "I (se_world s)" for m :: "unit fileop" and s
    using that by (cases "with_world m s") (auto dest: with_world_keeps)
  have persist: "I (se_world (snd (persist_run_transition h to cause s)))" if "I (se_world s)" for to cause s
    using that persist_keeps(1) [of to cause]
    by (cases "persist_run_transition h to cause s") (auto simp: session_keeps_def)
  have tick: "I (se_world (snd (now h s)))" if "I (se_world s)" for s
    using that by (cases "now h s") (auto dest: now_keeps)
  assume "I (se_world s)"
  then show ?thesis
    by (auto simp: persist_allocated_failure_def Let_def case_prod_beta intro!: call persist tick run_snapshot attempt_snapshot)
qed

end

locale staging_invariant = ticking I for I +
  assumes counted: "I w \<Longrightarrow> I (w\<lparr>wd_io := i\<rparr>)"
    and restaged: "I w \<Longrightarrow> wd_staging w = Some n \<Longrightarrow> I (w\<lparr>wd_staging := Some n'\<rparr>)"
begin

lemma on_staging_keeps: "on_staging f w = Ok w' \<Longrightarrow> I w \<Longrightarrow> I w'"
  by (auto simp: on_staging_def result_simps restaged split: option.splits)

lemma system_call_keeps:
  assumes "\<And>w w'. act w = Ok w' \<Longrightarrow> I w \<Longrightarrow> I w'" and "\<And>k w w'. partial k w = Ok w' \<Longrightarrow> I w \<Longrightarrow> I w'"
  shows "keeps I (system_call h path act partial)"
  unfolding keeps_def
proof (intro allI impI)
  fix w r w' assume call: "system_call h path act partial w = (r, w')" and "I w"
  then have "I (w\<lparr>wd_io := wd_io w + 1\<rparr>)" using counted by blast
  then show "I w'" using call by (elim system_call_cases) (use assms in blast)+
qed

lemma no_partial_keeps: "no_partial k w = Ok w' \<Longrightarrow> I w \<Longrightarrow> I w'"
  by (simp add: no_partial_def)

lemma staged_calls [keeps_intros]:
  "keeps I (create_directory h cs)" "keeps I (write_bytes h dir name content)" "keeps I (create_empty_file h dir name)"
  unfolding create_directory_def write_bytes_def create_empty_file_def
  by (rule system_call_keeps; erule on_staging_keeps no_partial_keeps; assumption)+

lemma staged_rename: "keeps I (system_call h path (on_staging f) no_partial)"
  by (rule system_call_keeps; erule on_staging_keeps no_partial_keeps; assumption)

lemma keeps_result [keeps_intros]:
  "(\<And>c. q = Ok c \<Longrightarrow> keeps I (m c)) \<Longrightarrow> keeps I (\<lambda>w. case q of Inl e \<Rightarrow> (Err e, w) | Inr c \<Rightarrow> m c w)"
  by (cases q) (simp_all add: keeps_def)

lemma json_calls [keeps_intros]:
  "keeps I (write_json_atomic h dir name ser v record_name)" "keeps I (append_json_line h dir name ser v record_name)"
proof -
  have "write_json_atomic h dir name ser v record_name = (\<lambda>w. case json_bytes ser v record_name of Inl e \<Rightarrow> (Err e, w)
      | Inr content \<Rightarrow> fs_then (write_bytes h dir (name @ ''.tmp'') content) (\<lambda>_.
          system_call h (staged h (dir @ [name]))
            (on_staging (update_dir dir (rename_file (name @ ''.tmp'') name))) no_partial) w)"
    by (rule ext) (simp add: write_json_atomic_def)
  then show "keeps I (write_json_atomic h dir name ser v record_name)"
    by (simp only:) (intro keeps_intros staged_rename)
  have "keeps I (system_call h path (on_staging f) (\<lambda>k. on_staging (g k)))" for path f g
    by (rule system_call_keeps; erule on_staging_keeps; assumption)
  then show "keeps I (append_json_line h dir name ser v record_name)"
    unfolding append_json_line_def by (intro keeps_intros staged_rename)
qed

end

sublocale staging_invariant \<subseteq> recording I h for h
  by unfold_locales (simp_all add: json_calls write_provenance_def)

context staging_invariant
begin

lemma initialize_keeps: "step_keeps I (initialize h bs plan ev)"
  unfolding initialize_def by (intro keeps_intros snapshots_keep)

end

definition unpublished :: "node option \<Rightarrow> World \<Rightarrow> bool" where
  "unpublished f w \<longleftrightarrow> wd_staging w \<noteq> None \<and> wd_final w = f"

interpretation unpub: staging_invariant "unpublished f" for f
  by unfold_locales (auto simp: unpublished_def)

subsection \<open>Publication\<close>

text \<open>A bundle as verification meets it in the staging directory.\<close>

definition staged_bundle :: "Host \<Rightarrow> entries \<Rightarrow> canonicalizer" where
  "staged_bundle h es path = (if path = staging_path h then Ok (staging_root h, Dir es) else Err ENOENT)"

lemma canonicalize_staged: "wd_staging w = Some (Dir es) \<Longrightarrow> canonicalize_staging h w = staged_bundle h es"
  by (rule ext) (simp add: canonicalize_staging_def staged_bundle_def)

lemma check_noop: "check_hook (h\<lparr>ho_hook := noop_hook\<rparr>) cp path w = (Ok (), w)" "ho_hook h = noop_hook \<Longrightarrow> check_hook h cp path w = (Ok (), w)"
  by (simp_all add: check_hook_def noop_hook_def)

lemma hook_keeps: "ho_hook h = noop_hook \<Longrightarrow> keeps I (check_hook h cp path)"
  by (simp add: keeps_def check_noop)

lemma checksum_staging_keeps: "keeps (unpublished f) (checksum_staging h)"
  unfolding keeps_def
proof (intro allI impI)
  fix w r w' assume run: "checksum_staging h w = (r, w')" and I: "unpublished f w"
  let ?w = "w\<lparr>wd_io := wd_io w + 1\<rparr>"
  have I1: "unpublished f ?w" using I by (simp add: unpublished_def)
  show "unpublished f w'"
  proof (cases "ho_fault h (wd_io w)")
    case None
    then show ?thesis using run I1
      by (auto simp: checksum_staging_def unpublished_def Let_def split: sum.splits prod.splits)
  next
    case (Some fault)
    obtain message written where fault: "fault = Fault message written" by (cases fault)
    have "on_staging g ?w = Ok w2 \<Longrightarrow> unpublished f w2" for g w2 using unpub.on_staging_keeps I1 by blast
    then show ?thesis using run I1 Some fault
      by (auto simp: checksum_staging_def Let_def split: option.splits sum.splits)
  qed
qed

lemma verify_staging_counts: "verify_staging h w = Return (r, w') \<Longrightarrow> w' = w\<lparr>wd_io := wd_io w + 1\<rparr>"
  by (auto simp: verify_staging_def Let_def result_simps split: option.splits Fault.splits)

lemma verify_staging_returns: "\<exists>r w'. verify_staging h w = Return (r, w')"
  using verify_evidence_bundle_returns [of "ho_codecs h" "canonicalize_staging h (w\<lparr>wd_io := wd_io w + 1\<rparr>)" "staging_path h"]
  by (auto simp: verify_staging_def Let_def split: option.splits Fault.splits)

lemma verify_staging_Ok:
  assumes "verify_staging h w = Return (Ok u, w')" and "wd_staging w = Some (Dir es)"
  shows "w' = w\<lparr>wd_io := wd_io w + 1\<rparr>
    \<and> (\<exists>b. verify_evidence_bundle_data (ho_codecs h) (staged_bundle h es) (staging_path h) = Return (Ok b))"
  using assms canonicalize_staged [of "w\<lparr>wd_io := wd_io w + 1\<rparr>" es h]
  by (auto simp: verify_staging_def verify_evidence_bundle_def Let_def result_simps split: option.splits Fault.splits)

lemma checksum_staging_Ok:
  "checksum_staging h w = (Ok p, w') \<Longrightarrow> wd_final w' = wd_final w \<and> (\<exists>es. wd_staging w' = Some (Dir es))"
  by (auto simp: checksum_staging_def Let_def split: option.splits Fault.splits sum.splits prod.splits)

lemma publication_free_Ok:
  "publication_free h w = (Ok u, w') \<longleftrightarrow> w' = w \<and> (wd_final w = None \<or> wd_final w = Some BrokenLink)"
  by (auto simp: publication_free_def split: option.splits node.splits)

lemma publication_free_keeps: "keeps I (publication_free h)"
  by (auto simp: keeps_def publication_free_def split: option.splits node.splits)

lemma rename_staging_Ok:
  assumes "rename_staging h w = (Ok u, w')" and "wd_final w = None \<or> wd_final w = Some BrokenLink"
  shows "wd_final w = None \<and> wd_staging w' = None \<and> wd_final w' = wd_staging w \<and> wd_staging w \<noteq> None"
  using assms unfolding rename_staging_def
  by (elim system_call_cases) (auto split: option.splits)

lemma rename_staging_Err:
  assumes "rename_staging h w = (Err e, w')" shows "unpublished f w \<Longrightarrow> unpublished f w'"
  using assms unfolding rename_staging_def
  by (elim system_call_cases) (auto simp: unpublished_def no_partial_def)

lemma publish_stages:
  assumes "ho_hook h = noop_hook" and "publish h s = Some (Return (Ok pending, s'))"
  obtains p w1 w2 w3 where "checksum_staging h (se_world s) = (Ok p, w1)" "verify_staging h w1 = Return (Ok (), w2)"
    "wd_final w2 = None \<or> wd_final w2 = Some BrokenLink" "rename_staging h w2 = (Ok (), w3)" "se_world s' = w3"
  using assms(2) by (auto simp: publish_def step_simps result_simps check_noop(2) [OF assms(1)] publication_free_Ok)

lemma publish_Ok:
  assumes "ho_hook h = noop_hook" and "publish h s = Some (Return (Ok pending, s'))"
  obtains es b where "wd_final (se_world s) = None" "wd_staging (se_world s') = None"
    "wd_final (se_world s') = Some (Dir es)"
    "verify_evidence_bundle_data (ho_codecs h) (staged_bundle h es) (staging_path h) = Return (Ok b)"
proof -
  obtain p w1 w2 w3 where c: "checksum_staging h (se_world s) = (Ok p, w1)" "verify_staging h w1 = Return (Ok (), w2)"
      "wd_final w2 = None \<or> wd_final w2 = Some BrokenLink" "rename_staging h w2 = (Ok (), w3)" "se_world s' = w3"
    by (rule publish_stages [OF assms])
  obtain es where es: "wd_staging w1 = Some (Dir es)" "wd_final w1 = wd_final (se_world s)"
    using checksum_staging_Ok [OF c(1)] by auto
  then obtain b where b: "w2 = w1\<lparr>wd_io := wd_io w1 + 1\<rparr>"
      "verify_evidence_bundle_data (ho_codecs h) (staged_bundle h es) (staging_path h) = Return (Ok b)"
    using verify_staging_Ok [OF c(2)] by auto
  then show thesis using that rename_staging_Ok [OF c(4,3)] c es by simp
qed

text \<open>Publication changes the publication path only by its last operation, when it succeeds.\<close>

definition err_keeps :: "(World \<Rightarrow> bool) \<Rightarrow> 'a step \<Rightarrow> bool" where
  "err_keeps I m \<longleftrightarrow> (\<forall>s e s'. m s = Some (Return (Err e, s')) \<longrightarrow> I (se_world s) \<longrightarrow> I (se_world s'))"

lemma err_keeps_and_step: "step_keeps I m \<Longrightarrow> (\<And>x. err_keeps I (f x)) \<Longrightarrow> err_keeps I (and_step m f)"
  unfolding step_keeps_def err_keeps_def and_step_eq by blast

lemma err_keeps_last: "err_keeps I m \<Longrightarrow> err_keeps I (and_step m (\<lambda>x. done_with (f x)))"
  unfolding err_keeps_def and_step_eq done_with_eq by blast

text \<open>
  What a whole run relies on: an invariant of the recording phases that the first phase and the
  operations of publication keep as well, unless the last one, the rename, succeeds. Then it holds of
  every world a failing run leaves.
\<close>

locale run_invariant = recording I h for I h +
  assumes no_hook: "ho_hook h = noop_hook"
    and initialized: "step_keeps I (initialize h bs plan ev)"
    and checksummed: "keeps I (checksum_staging h)"
    and verified: "verify_staging h w = Return (r, w') \<Longrightarrow> I w \<Longrightarrow> I w'"
    and not_renamed: "rename_staging h w = (Err e, w') \<Longrightarrow> I w \<Longrightarrow> I w'"
begin

lemma publish_err_keeps: "err_keeps I (publish h)"
proof -
  have "err_keeps I (at_phase (with_world (rename_staging h)) ''publishing'')"
    by (auto simp: err_keeps_def step_simps dest: not_renamed)
  then show ?thesis
    unfolding publish_def
    by (intro err_keeps_and_step keeps_intros hook_keeps [OF no_hook] checksummed publication_free_keeps err_keeps_last)
      (erule (1) verified)
qed

lemma execution_keeps: "step_keeps I (record_execution h provenance out)"
  by (rule record_execution_keeps) (simp add: no_hook noop_hook_def)

lemma allocated_run_err_keeps: "err_keeps I (allocated_run h bs plan kind ev)"
proof -
  have "err_keeps I (case p of (validity, summary) \<Rightarrow> and_step (publish h)
      (\<lambda>pending. done_with (g validity summary pending)))" for p and g :: "ValidityResult \<Rightarrow> RunSummary \<Rightarrow> bytes \<Rightarrow> RunResult"
    by (cases p) (simp add: err_keeps_last publish_err_keeps)
  then show ?thesis
    unfolding allocated_run_def
    by (intro err_keeps_and_step keeps_intros initialized prepare_keeps execution_keeps finalize_keeps)
qed

end

lemma allocate_world:
  assumes "allocate h w = (r, w')"
  shows "wd_final w' = wd_final w \<and> (is_ok r \<longrightarrow> wd_staging w' = Some (Dir []))"
proof -
  have parent: "wd_final w' = wd_final w" if "create_parent_directory h path w = (r, w')" for w path w' and r :: "RunError + unit"
    using that unfolding create_parent_directory_def by (elim system_call_cases) (auto simp: no_partial_def)
  have new: "wd_final w' = wd_final w \<and> (is_ok r \<longrightarrow> wd_staging w' = Some (Dir []))" if "create_new_directory h w = (r, w')" for w w' r
    using that unfolding create_new_directory_def
    by (elim system_call_cases) (auto simp: no_partial_def split: if_splits)
  show ?thesis
    using assms unfolding allocate_def fs_then_eq by (auto dest!: parent new)
qed

subsection \<open>Runs\<close>

abbreviation production :: "Host \<Rightarrow> Host" where
  "production h \<equiv> h\<lparr>ho_hook := noop_hook, ho_cpu_probe_executable := None, ho_llama_cpp_executable := None,
     ho_llama_cpp_cuda_executable := None\<rparr>"

lemma run_cases:
  assumes "run_experiment_with_services h bs w = Some (Return (r, w'))"
  obtains (rejected) e where "r = Err e" "w' = w" "is_request_rejection e"
  | (unallocated) e where "r = Err e" "allocate h w = (Err e, w')"
  | (finished) plan kind w1 ev s q s' where "execution_kind (ho_cuda_package h) plan = Ok kind"
      "allocate h w = (Ok (), w1)" "start_session h plan w1 = (ev, s)"
      "allocated_run h bs plan kind ev s = Some (Return (q, s'))" "(r, w') = apsnd se_world (settle h (q, s'))"
      "\<exists>e. parse_experiment (cd_yaml (ho_codecs h)) bs = Ok e \<and> cd_resolve (ho_codecs h) e = Ok plan"
proof -
  let ?p = "and_then (map_err Parse (parse_experiment (cd_yaml (ho_codecs h)) bs)) (\<lambda>experiment.
        and_then (map_err RunResolution (cd_resolve (ho_codecs h) experiment)) (\<lambda>plan.
        and_then (execution_kind (ho_cuda_package h) plan) (\<lambda>kind. Ok (plan, kind))))"
  have kind_error: "is_request_rejection e" if "execution_kind b plan = Err e" for b plan e
    using that by (auto simp: execution_kind_def unsupported_def Let_def
        split: ProviderSpec.splits RuntimeSpec.splits if_splits)
  show thesis
  proof (cases ?p)
    case (Inl e)
    then have "is_request_rejection e"
      by (auto simp: result_simps map_err_def kind_error split: sum.splits)
    then show thesis using rejected assms Inl by (auto simp: run_experiment_with_services_def)
  next
    case (Inr pk)
    obtain plan kind where pk: "pk = (plan, kind)" "execution_kind (ho_cuda_package h) plan = Ok kind"
      "\<exists>e. parse_experiment (cd_yaml (ho_codecs h)) bs = Ok e \<and> cd_resolve (ho_codecs h) e = Ok plan"
      using Inr by (auto simp: result_simps)
    obtain q w1 where al: "allocate h w = (q, w1)" by force
    show thesis
    proof (cases q)
      case (Inl e)
      then show thesis using unallocated assms Inr pk al by (auto simp: run_experiment_with_services_def)
    next
      case ok: (Inr u)
      obtain ev s where ss: "start_session h plan w1 = (ev, s)" by force
      obtain q' s' where "allocated_run h bs plan kind ev s = Some (Return (q', s'))"
        "(r, w') = apsnd se_world (settle h (q', s'))"
        using assms Inr pk al ok ss by (auto simp: run_experiment_with_services_def result_simps)
      then show thesis using finished pk(2,3) al ok ss by simp
    qed
  qed
qed

lemma start_session_world:
  "start_session h plan w = (ev, s) \<Longrightarrow> se_world s = w\<lparr>wd_ticks := wd_ticks w + 1\<rparr>"
  by (auto simp: start_session_def lifecycle_new_def Let_def)

context run_invariant
begin

lemma failed_run_keeps:
  assumes run: "run_experiment_with_services h bs w = Some (Return (Err (Allocated a b c d), w'))"
    and fresh: "\<And>w1. allocate h w = (Ok (), w1) \<Longrightarrow> I w1"
  shows "I w'"
  using run
proof (cases rule: run_cases)
  case (unallocated e)
  then show ?thesis
    unfolding allocate_def fs_then_eq create_parent_directory_def create_new_directory_def by (auto elim!: system_call_cases)
next
  case (finished plan kind w1 ev s q s')
  then obtain phase source where q: "q = Err (phase, source)"
    "w' = se_world (persist_allocated_failure h phase (ho_show_error h source) s')"
    by (auto simp: settle_def split: sum.splits prod.splits)
  have "I (se_world s)" using fresh [OF finished(2)] ticked start_session_world [OF finished(3)] by simp
  then have "I (se_world s')" using allocated_run_err_keeps finished(4) q(1) unfolding err_keeps_def by blast
  then show ?thesis unfolding q(2) by (rule persist_allocated_failure_keeps)
qed simp

end

interpretation unpub_run: run_invariant "unpublished f" "production h" for f h
proof
  show "unpublished f w'" if "verify_staging (production h) w = Return (r, w')" "unpublished f w" for w r w'
    using that by (auto simp: unpublished_def dest!: verify_staging_counts)
qed (simp_all add: unpub.initialize_keeps checksum_staging_keeps rename_staging_Err)

subsection \<open>No run panics\<close>

text \<open>The runtimes behind the run, as one adapter.\<close>

definition run_kind :: "Host \<times> ResolvedExperiment \<Rightarrow> ExecutionKind \<Rightarrow> ExecutionOutput option" where
  "run_kind c kind = execute_kind (fst c) (snd c) kind"

lemma run_kind_cases:
  assumes "run_kind (h, plan) kind = Some out"
  obtains (fake) seed sc where "kind = KindLocalFake seed sc"
      "local_fake_run (cd_sha256 (ho_codecs h), plan) (seed, sc) = Some out"
  | (probe) config system where "kind = KindCpuProbe config"
      "cpu_run (ho_show_status h, ho_read_record h, config) system = Some out"
  | (model) config system where "kind = KindLlamaCpp config"
      "llama_run (ho_show_status h, ho_read_record h, ho_read_metadata h, config) system = Some out"
  using assms by (cases kind) (auto simp: run_kind_def execute_kind_def local_fake_run_def cpu_run_def llama_run_def Let_def)

interpretation runs: runtime_adapter run_kind
proof
  fix c kind out assume run: "run_kind c kind = Some out"
  obtain h plan where c: "c = (h, plan)" by force
  show "eo_terminal_state out \<in> set terminal_states"
    using run unfolding c by (cases rule: run_kind_cases) (erule local_fake.terminal cpu.terminal llama.terminal)+
  show "eo_failure out = None \<longleftrightarrow> eo_terminal_state out = Succeeded"
    using run unfolding c by (cases rule: run_kind_cases) (erule local_fake.failure_iff cpu.failure_iff llama.failure_iff)+
  show "length (measured_records (eo_measurements out)) < 2 ^ 32"
    using run unfolding c by (cases rule: run_kind_cases) (erule local_fake.bounded cpu.bounded llama.bounded)+
qed

lemma nvidia_only_for_cuda:
  assumes "execute_kind h plan kind = Some out" and "eo_nvidia_gpu out \<noteq> None"
    and "execution_kind cuda plan = Ok kind"
  shows "\<exists>m t. plan_runtime plan = RuntimeLlamaCpp TargetNvidiaCuda m t"
proof -
  have "run_kind (h, plan) kind = Some out" using assms(1) by (simp add: run_kind_def)
  then show ?thesis
  proof (cases rule: run_kind_cases)
    case (fake seed sc)
    then show ?thesis using assms(2) by (cases sc) (auto simp: local_fake_run_def local_fake_execute_def Let_def)
  next
    case (probe config system)
    then show ?thesis using assms(2) by (auto simp: cpu_run_def cpu_execute_def cpu_into_execution_output_def)
  next
    case (model config system)
    then have "lm_target config = TargetNvidiaCuda"
      using assms(2) by (auto simp: llama_run_def llama_execute_def llama_into_execution_output_def llama_rejected_def Let_def
          split: option.splits LlamaCppTarget.splits list.splits sum.splits if_splits)
    then show ?thesis using assms(3) model(1)
      by (auto simp: execution_kind_def unsupported_def Let_def split: ProviderSpec.splits RuntimeSpec.splits if_splits)
  qed
qed

definition ends :: "'a step \<Rightarrow> bool" where
  "ends m \<longleftrightarrow> (\<forall>s. \<exists>r s'. m s = Some (Return (r, s')))"

lemma ends_and_step:
  "ends m \<Longrightarrow> (\<And>x s s'. m s = Some (Return (Ok x, s')) \<Longrightarrow> ends (f x)) \<Longrightarrow> ends (and_step m f)"
  unfolding ends_def
proof (intro allI)
  fix s assume m: "\<forall>s. \<exists>r s'. m s = Some (Return (r, s'))"
    and f: "\<And>x s s'. m s = Some (Return (Ok x, s')) \<Longrightarrow> \<forall>s. \<exists>r s'. f x s = Some (Return (r, s'))"
  obtain r s1 where r: "m s = Some (Return (r, s1))" using m by blast
  show "\<exists>r s'. and_step m f s = Some (Return (r, s'))"
  proof (cases r)
    case (Inr x)
    then have "\<exists>r s'. f x s1 = Some (Return (r, s'))" using f r by blast
    then show ?thesis using r Inr by (simp add: and_step_def)
  qed (use r in \<open>simp add: and_step_def\<close>)
qed

lemma ends_basic:
  "ends (at_phase m phase)" "ends (done_with x)" "ends (or_diverge (Some x))" "ends (or_panic (Return x))"
  by (auto simp: ends_def at_phase_def done_with_def or_diverge_def or_panic_def split: prod.splits)

lemma ends_verify: "ends (at_checked (verify_staging h) phase)"
  unfolding ends_def at_checked_eq using verify_staging_returns by metis

lemma ends_measurements: "ends (record_measurements h rs)"
  by (induction rs) (auto intro!: ends_and_step ends_basic)

lemma executable_captured:
  assumes "execution_kind cuda plan = Ok kind"
  obtains runtime where "capture_runtime pf (plan_runtime plan) = Return runtime"
  using assms by (cases "plan_runtime plan")
    (auto simp: execution_kind_def capture_runtime_def unsupported_def Let_def split: ProviderSpec.splits)

lemma ends_prepare:
  assumes "execution_kind cuda plan = Ok kind"
  shows "ends (prepare h plan)"
proof -
  obtain runtime where "capture_runtime (ho_platform h) (plan_runtime plan) = Return runtime"
    by (rule executable_captured [OF assms])
  then obtain p where p: "capture (ho_platform h) (ho_run_id h) plan = Return p"
    by (simp add: capture_def Let_def case_prod_beta)
  show ?thesis unfolding prepare_def p by (intro ends_and_step ends_basic)
qed

lemma prepared_provenance:
  "prepare h plan s = Some (Return (Ok p, s')) \<Longrightarrow> capture (ho_platform h) (ho_run_id h) plan = Return p"
  by (auto simp: prepare_def step_simps)

lemma ends_record_nvidia:
  assumes "execution_kind cuda plan = Ok kind" and "execute_kind h plan kind = Some out"
    and "capture pf rid plan = Return p"
  shows "ends (record_nvidia h p out)"
proof (cases "eo_nvidia_gpu out")
  case (Some nvidia)
  then obtain m t where "plan_runtime plan = RuntimeLlamaCpp TargetNvidiaCuda m t"
    using nvidia_only_for_cuda [OF assms(2) _ assms(1)] by auto
  then have "is_ok (attach_nvidia p nvidia)"
    using assms(3) by (auto simp: capture_def capture_runtime_def attach_nvidia_def Let_def result_simps case_prod_beta)
  then show ?thesis using Some by (auto simp: record_nvidia_def is_ok_iff ends_basic)
qed (simp add: record_nvidia_def ends_basic)

lemma ends_allocated_run:
  assumes "execution_kind cuda plan = Ok kind" and "execute_kind h plan kind = Some out"
  shows "ends (allocated_run h bs plan kind ev)"
proof -
  have init: "ends (initialize h bs plan ev)" unfolding initialize_def by (intro ends_and_step ends_basic)
  have pub: "ends (publish h)" unfolding publish_def by (intro ends_and_step ends_basic ends_verify)
  have run: "run_kind (h, plan) kind = Some out" using assms(2) by (simp add: run_kind_def)
  have rec: "ends (record_execution h p out)" if "capture (ho_platform h) (ho_run_id h) plan = Return p" for p
  proof -
    obtain status where status: "attempt_terminal (eo_terminal_state out) = Return status"
      using runs.terminal [OF run] by (auto simp: attempt_terminal_def terminal_states_def)
    have "ends (record_resources h out)"
      by (auto simp: record_resources_def ends_basic split: option.splits)
    then show "ends (record_execution h p out)"
      unfolding record_execution_def status
      by (intro ends_and_step ends_basic ends_measurements ends_record_nvidia [OF assms that])
  qed
  have fin: "ends (finalize h plan out)"
  proof -
    obtain v sm where vs: "evaluate_validity plan out (ho_run_id h) = Return v" "summarize plan out v (ho_run_id h) = Return sm"
      using runs.statistics_total [OF run] by blast
    have cond: "ends (if c then at_phase m phase else done_with ())" for c phase and m :: "Session \<Rightarrow> (RunError + unit) \<times> Session"
      by (simp add: ends_basic)
    have summary: "ends (or_panic (summarize plan out x (ho_run_id h)))" if "or_panic (Return v) s = Some (Return (Ok x, s'))" for x s s'
      using that by (auto simp: step_simps vs(2) ends_basic)
    show "ends (finalize h plan out)"
      unfolding finalize_def vs(1) by (intro ends_and_step ends_basic cond summary)
  qed
  have last: "ends (case p of (v, sm) \<Rightarrow> and_step (publish h) (\<lambda>q. done_with (g v sm q)))"
    for p and g :: "ValidityResult \<Rightarrow> RunSummary \<Rightarrow> bytes \<Rightarrow> RunResult"
    by (cases p) (auto intro!: ends_and_step pub ends_basic)
  show ?thesis
    unfolding allocated_run_def assms(2)
    by (intro ends_and_step init ends_prepare [OF assms(1)] ends_basic last)
      (auto simp: or_diverge_eq dest!: prepared_provenance intro: rec fin)
qed

lemma diverging_run:
  assumes "execution_kind cuda plan = Ok kind" and "execute_kind h plan kind = None"
  shows "allocated_run h bs plan kind ev s \<noteq> Some Panic"
proof -
  have "ends (initialize h bs plan ev)" unfolding initialize_def by (intro ends_and_step ends_basic)
  then obtain r1 s1 where r1: "initialize h bs plan ev s = Some (Return (r1, s1))" unfolding ends_def by blast
  obtain r2 s2 where r2: "prepare h plan s1 = Some (Return (r2, s2))"
    using ends_prepare [OF assms(1)] unfolding ends_def by blast
  show ?thesis
    by (cases r1; cases r2) (simp_all add: allocated_run_def and_step_def r1 r2 or_diverge_def assms(2))
qed

lemma staged_run_id:
  assumes "verify_evidence_bundle_data c (staged_bundle h es) (staging_path h) = Return (Ok b)"
  shows "em_run_id (vb_manifest b) = ho_run_id h"
proof -
  obtain root es' and s :: ChecksumScan where root: "canonical_bundle_root (staged_bundle h es) (staging_path h) = Ok (root, es')"
    and rest: "validate_record_consistency c (path_display root) (root_name root) (measurements_file root es')
      (vb_manifest b) (ck_retained s) (ck_digests s) = Return (Ok b)"
    by (rule verified_consistency [OF assms]) blast
  have "root_name root = Some (em_run_id (vb_manifest b))" by (rule consistency_Ok [OF rest])
  moreover have "root = staging_root h" using root by (simp add: canonical_bundle_root_def staged_bundle_def)
  ultimately show ?thesis by (simp add: root_name_def staging_root_def from_utf8_def split: if_splits)
qed

lemma published_bundle_verified:
  assumes "run_experiment h bs w = Some (Return (Ok result, w'))"
  shows "wd_final w = None \<and> wd_staging w' = None
    \<and> (\<exists>es b. wd_final w' = Some (Dir es)
      \<and> verify_evidence_bundle_data (ho_codecs h) (staged_bundle h es) (staging_path h) = Return (Ok b)
      \<and> em_run_id (vb_manifest b) = ho_run_id h \<and> rs_run_id result = ho_run_id h
      \<and> rs_bundle_path result = final_path h)"
proof -
  let ?h = "production h"
  have same: "staged_bundle ?h = staged_bundle h" "staging_path ?h = staging_path h" "final_path ?h = final_path h"
    by (auto simp: fun_eq_iff staged_bundle_def staging_path_def staging_root_def final_path_def)
  show ?thesis
    using assms unfolding run_experiment_def
  proof (cases rule: run_cases)
    case (finished plan kind w1 ev s q s')
    then have q: "q = Ok result" "w' = se_world s'" by (auto simp: settle_def split: sum.splits prod.splits)
    have w1: "wd_final w1 = wd_final w" "wd_staging w1 = Some (Dir [])"
      using allocate_world [OF finished(2)] by simp_all
    have s: "unpublished (wd_final w) (se_world s)"
      using finished(3) w1 by (auto simp: start_session_def lifecycle_new_def unpublished_def Let_def)
    obtain provenance out validity summary pending s1 s2 s3 s4 s5 where
      st: "initialize ?h bs plan ev s = Some (Return (Ok (), s1))" "prepare ?h plan s1 = Some (Return (Ok provenance, s2))"
        "record_execution ?h provenance out s2 = Some (Return (Ok (), s3))"
        "finalize ?h plan out s3 = Some (Return (Ok (validity, summary), s4))"
        "publish ?h s4 = Some (Return (Ok pending, s5))" "s' = s5"
      and result: "rs_run_id result = ho_run_id h" "rs_bundle_path result = final_path h"
      using finished(4) q same by (auto simp: allocated_run_def step_simps)
    have "unpublished (wd_final w) (se_world s4)"
      using s st unpub.initialize_keeps unpub.prepare_keeps unpub_run.execution_keeps unpub.finalize_keeps
      unfolding step_keeps_def by metis
    moreover obtain es b where "wd_final (se_world s4) = None" "wd_staging (se_world s5) = None"
      "wd_final (se_world s5) = Some (Dir es)" "verify_evidence_bundle_data (ho_codecs ?h) (staged_bundle ?h es) (staging_path ?h) = Return (Ok b)"
      by (rule publish_Ok [OF _ st(5)]) simp
    ultimately show ?thesis using result q(2) st(6) same staged_run_id by (auto simp: unpublished_def)
  qed simp_all
qed

lemma failed_run:
  assumes "run_experiment h bs w = Some (Return (Err e, w'))"
  shows "wd_final w' = wd_final w \<and> (is_request_rejection e \<longrightarrow> w' = w)
    \<and> (is_finalization_failure e \<longrightarrow> wd_staging w' \<noteq> None)"
proof -
  let ?h = "production h"
  have io: "\<not> is_request_rejection e \<and> \<not> is_finalization_failure e" if "allocate ?h w = (Err e, w')"
    using that unfolding allocate_def fs_then_eq create_parent_directory_def create_new_directory_def
    by (auto elim!: system_call_cases)
  show ?thesis
    using assms unfolding run_experiment_def
  proof (cases rule: run_cases)
    case (rejected e')
    then show ?thesis by (cases e') auto
  next
    case (unallocated e')
    then show ?thesis using io allocate_world [of ?h w] by auto
  next
    case (finished plan kind w1 ev s q s')
    then obtain phase source where e: "e = Allocated (ho_run_id h) phase (staging_path ?h) source"
      by (auto simp: settle_def split: sum.splits prod.splits)
    have "unpublished (wd_final w) w1" if "allocate ?h w = (Ok (), w1)" for w1
      using allocate_world [OF that] by (simp add: unpublished_def)
    from unpub_run.failed_run_keeps [OF assms [unfolded run_experiment_def e] this]
    show ?thesis using e by (simp add: unpublished_def)
  qed
qed

lemma chain_Panic: "chain r (\<lambda>x. Return (f x)) = Panic \<longleftrightarrow> r = Panic"
  by (cases r) simp_all

lemma run_never_panics: "run_experiment h bs w \<noteq> Some Panic"
proof
  assume "run_experiment h bs w = Some Panic"
  then obtain plan kind ev s where k: "execution_kind (ho_cuda_package h) plan = Ok kind"
    "allocated_run (production h) bs plan kind ev s = Some Panic"
    by (auto simp: run_experiment_def run_experiment_with_services_def result_simps chain_Panic
      split: sum.splits prod.splits)
  then show False
    using ends_allocated_run [OF k(1), of "production h"] diverging_run [OF k(1), of "production h"] unfolding ends_def
    by (cases "execute_kind (production h) plan kind") (auto, metis outcome.distinct(1) option.inject)
qed

text \<open>
  C3. Failure. If a run returns an error, the publication path is exactly what it was before. A rejected
  document (unreadable, invalid or not executable) leaves the whole world untouched: no file
  operation happened and no time was read. A failure after allocation keeps the staging directory.
\<close>

theorem failed_run_publishes_nothing:
  assumes "run_experiment h bs w = Some (Return (Err e, w'))"
  shows "wd_final w' = wd_final w \<and> (is_request_rejection e \<longrightarrow> w' = w)
    \<and> (is_finalization_failure e \<longrightarrow> wd_staging w' \<noteq> None)"
  by (rule failed_run [OF assms])

text \<open>
  C1. Every way a run can end. It never panics. It does not return only if the execution of the
  document's helper does not return. If it returns an error, the publication path is what it was. If it
  returns a result, the publication path was free before and now holds a directory that passed the
  public verifier in the staging directory just before the rename, under the run identity of the
  result, and the staging path is free again. Nothing is assumed of the file system's faults, the
  clock, the helpers or the serializers.
\<close>

theorem run_experiment_outcomes:
  "case run_experiment h bs w of
     None \<Rightarrow> \<exists>experiment plan kind. parse_experiment (cd_yaml (ho_codecs h)) bs = Ok experiment
       \<and> cd_resolve (ho_codecs h) experiment = Ok plan \<and> execution_kind (ho_cuda_package h) plan = Ok kind
       \<and> execute_kind (production h) plan kind = None
   | Some Panic \<Rightarrow> False
   | Some (Return (Inl e, w')) \<Rightarrow> wd_final w' = wd_final w
   | Some (Return (Inr result, w')) \<Rightarrow> wd_final w = None \<and> wd_staging w' = None
       \<and> (\<exists>es b. wd_final w' = Some (Dir es)
         \<and> verify_evidence_bundle_data (ho_codecs h) (staged_bundle h es) (staging_path h) = Return (Ok b)
         \<and> em_run_id (vb_manifest b) = ho_run_id h \<and> rs_run_id result = ho_run_id h
         \<and> rs_bundle_path result = final_path h)"
proof (cases "run_experiment h bs w")
  case None
  obtain plan kind where k: "execution_kind (ho_cuda_package h) plan = Ok kind"
    and doc: "\<exists>e. parse_experiment (cd_yaml (ho_codecs h)) bs = Ok e \<and> cd_resolve (ho_codecs h) e = Ok plan"
    and n: "\<exists>ev s. allocated_run (production h) bs plan kind ev s = None"
    using None by (auto simp: run_experiment_def run_experiment_with_services_def result_simps
        split: sum.splits prod.splits)
  have "execute_kind (production h) plan kind = None"
  proof (rule ccontr)
    assume "execute_kind (production h) plan kind \<noteq> None"
    then show False using ends_allocated_run [OF k] n unfolding ends_def by (metis option.exhaust option.distinct(1))
  qed
  then show ?thesis using None k doc by auto
next
  case (Some r)
  have "r \<noteq> Panic" using run_never_panics Some by blast
  then obtain q w' where r: "r = Return (q, w')" by (cases r) auto
  show ?thesis
  proof (cases q)
    case (Inl e)
    then show ?thesis using failed_run [of h bs w e w'] Some r by simp
  next
    case (Inr result)
    then show ?thesis using published_bundle_verified [of h bs w result w'] Some r by simp
  qed
qed

end
