(* ===== verification/ComparisonSchema.thy ===== *)
theory ComparisonSchema
  imports EvidenceSchema
begin

text \<open>
  The records of a descriptive comparison, the second half of
  \<open>src/crates/benchplane-schema/src/evidence.rs\<close>. Signed deltas (\<open>i128\<close>) are \<open>int\<close>; that they stay
  in range is a theorem of the comparison theory.
\<close>

record BundleIdentity =
  bi_bundle_path :: string
  bi_run_id :: string
  bi_experiment_digest :: string
  bi_resolved_plan_digest :: string

record LlamaMeasurementContract =
  lc_provider :: string
  lc_runtime :: string
  lc_target :: LlamaCppTarget
  lc_generator :: string
  lc_model :: string
  lc_model_sha256 :: string
  lc_engine_name :: string
  lc_engine_version :: string
  lc_backend :: string
  lc_device_class :: DeviceClass
  lc_workload_profile :: string
  lc_output_tokens :: u32
  lc_requests_per_repetition :: u32
  lc_concurrency :: u32
  lc_warmup_runs :: u32
  lc_measured_repetitions :: u32

datatype EnvironmentRelationship = EnvSame | EnvDifferent | EnvUnknown

record EnvironmentComparison =
  ev_field :: string
  ev_baseline :: "string option"
  ev_candidate :: "string option"
  ev_relationship :: EnvironmentRelationship

record IntegerDelta =
  id_absolute_delta :: int
  id_percentage_delta_milli_percent :: "int option"

record MetricComparison =
  mc_baseline :: u64
  mc_candidate :: u64
  mc_delta :: IntegerDelta

record DistributionComparison =
  dc_baseline :: LatencySummary
  dc_candidate :: LatencySummary
  dc_mean :: MetricComparison
  dc_p50 :: MetricComparison
  dc_p95 :: MetricComparison

record RequestScopeComparison =
  rq_unit :: string
  rq_baseline_count :: u64
  rq_candidate_count :: u64
  rq_latency_micros :: DistributionComparison
  rq_time_to_first_token_micros :: DistributionComparison

record RepetitionScopeComparison =
  rp_unit :: string
  rp_baseline_count :: u64
  rp_candidate_count :: u64
  rp_aggregate_latency_micros :: DistributionComparison
  rp_aggregate_time_to_first_token_micros :: DistributionComparison
  rp_mean_throughput_milli_requests_per_second :: MetricComparison

record AttemptResourceValues =
  av_scope :: ResourceScope
  av_cpu_time_micros :: u64
  av_peak_rss_bytes :: u64

record AttemptResourceComparison =
  ac_unit :: string
  ac_baseline :: "AttemptResourceValues option"
  ac_candidate :: "AttemptResourceValues option"
  ac_cpu_time_micros :: "MetricComparison option"
  ac_peak_rss_bytes :: "MetricComparison option"

record EvidenceComparison =
  ec_format :: string
  ec_baseline :: BundleIdentity
  ec_candidate :: BundleIdentity
  ec_compatible :: bool
  ec_incompatibilities :: "string list"
  ec_measurement_contract :: "LlamaMeasurementContract option"
  ec_environment :: "EnvironmentComparison list"
  ec_requests :: "RequestScopeComparison option"
  ec_repetitions :: "RepetitionScopeComparison option"
  ec_attempt_resources :: "AttemptResourceComparison option"
  ec_interpretation :: string

end
