(* ===== verification/Comparison.thy ===== *)
theory Comparison
  imports ProvenanceFacts ComparisonSchema "HOL-Library.Signed_Division"
begin

text \<open>
  The descriptive comparison of two evidence bundles, \<open>src/crates/benchplane-core/src/comparison.rs\<close>.
  A call of \<open>expect\<close> is an \<open>outcome\<close>; \<open>i128\<close> arithmetic is on \<open>int\<close>, with the truncating division
  \<open>sdiv\<close>. The theorems show that comparing bundles that pass verification never panics, that deltas
  are exact and stay within \<open>i128\<close>, and that metrics are compared exactly if the two measurement
  contracts are equal.
\<close>

datatype ComparisonError =
    InvalidEvidence string EvidenceError
  | Ineligible string string
  | SameRun

definition DESCRIPTIVE_NOTE :: string where
  "DESCRIPTIVE_NOTE = ''Descriptive only: requests and repetitions within each run share one initialized ''
     @ ''helper/model lifetime; no significance, independence, causality, or cross-host equivalence is claimed.''"

subsection \<open>Metrics\<close>

definition compare_metric :: "u64 \<Rightarrow> u64 \<Rightarrow> MetricComparison" where
  "compare_metric baseline candidate = (let absolute_delta = uint candidate - uint baseline in
     \<lparr>mc_baseline = baseline, mc_candidate = candidate, mc_delta = \<lparr>id_absolute_delta = absolute_delta,
       id_percentage_delta_milli_percent =
         (if baseline \<noteq> 0 then Some (absolute_delta * 100000 sdiv uint baseline) else None)\<rparr>\<rparr>)"

definition compare_distribution :: "u64 list \<Rightarrow> u64 list \<Rightarrow> DistributionComparison outcome" where
  "compare_distribution baseline candidate =
     chain (chain (describe_micros baseline) expect) (\<lambda>b.
     chain (chain (describe_micros candidate) expect) (\<lambda>c. Return
       \<lparr>dc_baseline = b, dc_candidate = c,
        dc_mean = compare_metric (lat_mean_micros b) (lat_mean_micros c),
        dc_p50 = compare_metric (lat_p50_micros b) (lat_p50_micros c),
        dc_p95 = compare_metric (lat_p95_micros b) (lat_p95_micros c)\<rparr>))"

definition request_values :: "VerifiedEvidenceBundle \<Rightarrow> u64 list \<times> u64 list" where
  "request_values bundle = (let
       observations = concat (map mr_request_observations (measured_records (vb_measurements bundle)))
     in (map ro_latency_micros observations, map ro_time_to_first_token_micros observations))"

definition compare_requests ::
  "VerifiedEvidenceBundle \<Rightarrow> VerifiedEvidenceBundle \<Rightarrow> RequestScopeComparison outcome" where
  "compare_requests baseline candidate = (let
       (baseline_latency, baseline_ttft) = request_values baseline;
       (candidate_latency, candidate_ttft) = request_values candidate
     in chain (compare_distribution baseline_latency candidate_latency) (\<lambda>latency.
        chain (compare_distribution baseline_ttft candidate_ttft) (\<lambda>ttft. Return
       \<lparr>rq_unit = ''measuredRequest'', rq_baseline_count = of_nat (length baseline_latency),
        rq_candidate_count = of_nat (length candidate_latency), rq_latency_micros = latency,
        rq_time_to_first_token_micros = ttft\<rparr>)))"

definition repetition_values :: "VerifiedEvidenceBundle \<Rightarrow> u64 list \<times> u64 list \<times> u64 list" where
  "repetition_values bundle = (let measured = measured_records (vb_measurements bundle) in
     (map mr_latency_micros measured, map mr_time_to_first_token_micros measured,
      map mr_throughput_milli_requests_per_second measured))"

definition compare_repetitions ::
  "VerifiedEvidenceBundle \<Rightarrow> VerifiedEvidenceBundle \<Rightarrow> RepetitionScopeComparison outcome" where
  "compare_repetitions baseline candidate = (let
       (baseline_latency, baseline_ttft, baseline_throughput) = repetition_values baseline;
       (candidate_latency, candidate_ttft, candidate_throughput) = repetition_values candidate
     in chain (compare_distribution baseline_latency candidate_latency) (\<lambda>latency.
        chain (compare_distribution baseline_ttft candidate_ttft) (\<lambda>ttft.
        chain (expect (mean_u64 baseline_throughput)) (\<lambda>b.
        chain (expect (mean_u64 candidate_throughput)) (\<lambda>c. Return
       \<lparr>rp_unit = ''measuredRepetitionAggregate'', rp_baseline_count = of_nat (length baseline_latency),
        rp_candidate_count = of_nat (length candidate_latency), rp_aggregate_latency_micros = latency,
        rp_aggregate_time_to_first_token_micros = ttft,
        rp_mean_throughput_milli_requests_per_second = compare_metric b c\<rparr>)))))"

definition resource_values :: "AttemptResources \<Rightarrow> AttemptResourceValues" where
  "resource_values resources = \<lparr>av_scope = at_scope resources, av_cpu_time_micros = at_cpu_time_micros resources,
     av_peak_rss_bytes = at_peak_rss_bytes resources\<rparr>"

definition compare_resources ::
  "AttemptResources option \<Rightarrow> AttemptResources option \<Rightarrow> AttemptResourceComparison option" where
  "compare_resources baseline candidate =
     (if baseline = None \<and> candidate = None then None
      else let (cpu_time_micros, peak_rss_bytes) = (case (baseline, candidate) of
            (Some b, Some c) \<Rightarrow> (Some (compare_metric (at_cpu_time_micros b) (at_cpu_time_micros c)),
              Some (compare_metric (at_peak_rss_bytes b) (at_peak_rss_bytes c)))
          | _ \<Rightarrow> (None, None))
        in Some \<lparr>ac_unit = ''helperProcessLifetime'', ac_baseline = map_option resource_values baseline,
          ac_candidate = map_option resource_values candidate, ac_cpu_time_micros = cpu_time_micros,
          ac_peak_rss_bytes = peak_rss_bytes\<rparr>)"

subsection \<open>Eligibility and contracts\<close>

definition ineligible :: "string \<Rightarrow> string \<Rightarrow> ComparisonError + 'a" where
  "ineligible role reason = Err (Ineligible role reason)"

definition eligible_contract :: "string \<Rightarrow> VerifiedEvidenceBundle \<Rightarrow> ComparisonError + LlamaMeasurementContract" where
  "eligible_contract role bundle = (let spec = ex_spec (re_experiment (vb_plan bundle)) in
     if em_run_status (vb_manifest bundle) \<noteq> Succeeded \<or> em_validity_status (vb_manifest bundle) \<noteq> Valid
     then ineligible role ''requires a successful run with valid measurements''
     else (case (sp_provider spec, sp_runtime spec) of
       (ProviderLocal, RuntimeLlamaCpp target model output_tokens) \<Rightarrow>
         if list_ex (\<lambda>r. mr_generator r \<noteq> LLAMA_CPP_GENERATOR_VERSION) (vb_measurements bundle)
         then ineligible role ''requires current request-level benchplane-llama-cpp-smollm2/v2 measurements''
         else (case vb_provenance bundle of
           None \<Rightarrow> ineligible role ''requires attempt provenance''
         | Some provenance \<Rightarrow> (case sw_runtime (ap_software provenance) of
             ProvLlamaCpp generator engine provenance_model backend \<Rightarrow>
               if generator \<noteq> LLAMA_CPP_GENERATOR_VERSION
               then ineligible role ''requires current llamaCpp v2 provenance''
               else Ok \<lparr>lc_provider = ''local'', lc_runtime = ''llamaCpp'', lc_target = target,
                 lc_generator = generator, lc_model = model, lc_model_sha256 = mp_sha256 provenance_model,
                 lc_engine_name = sc_name engine, lc_engine_version = sc_version engine,
                 lc_backend = bp_identity backend, lc_device_class = bp_device_class backend,
                 lc_workload_profile = wl_profile (sp_workload spec), lc_output_tokens = output_tokens,
                 lc_requests_per_repetition = wl_requests (sp_workload spec),
                 lc_concurrency = wl_concurrency (sp_workload spec),
                 lc_warmup_runs = ms_warmup_runs (sp_measurement spec),
                 lc_measured_repetitions = ms_repetitions (sp_measurement spec)\<rparr>
           | _ \<Rightarrow> ineligible role ''requires llamaCpp attempt provenance''))
     | _ \<Rightarrow> ineligible role ''requires the local llamaCpp runtime''))"

definition difference :: "'a \<Rightarrow> 'a \<Rightarrow> string \<Rightarrow> string list" where
  "difference a b name = (if a \<noteq> b then [name] else [])"

definition contract_differences :: "LlamaMeasurementContract \<Rightarrow> LlamaMeasurementContract \<Rightarrow> string list" where
  "contract_differences b c =
     difference (lc_provider b) (lc_provider c) ''provider''
     @ difference (lc_runtime b) (lc_runtime c) ''runtime''
     @ difference (lc_target b) (lc_target c) ''target''
     @ difference (lc_generator b) (lc_generator c) ''generator''
     @ difference (lc_model b) (lc_model c) ''model''
     @ difference (lc_model_sha256 b) (lc_model_sha256 c) ''modelSha256''
     @ difference (lc_engine_name b) (lc_engine_name c) ''engineName''
     @ difference (lc_engine_version b) (lc_engine_version c) ''engineVersion''
     @ difference (lc_backend b) (lc_backend c) ''backend''
     @ difference (lc_device_class b) (lc_device_class c) ''deviceClass''
     @ difference (lc_workload_profile b) (lc_workload_profile c) ''workloadProfile''
     @ difference (lc_output_tokens b) (lc_output_tokens c) ''outputTokens''
     @ difference (lc_requests_per_repetition b) (lc_requests_per_repetition c) ''requestsPerRepetition''
     @ difference (lc_concurrency b) (lc_concurrency c) ''concurrency''
     @ difference (lc_warmup_runs b) (lc_warmup_runs c) ''warmupRuns''
     @ difference (lc_measured_repetitions b) (lc_measured_repetitions c) ''measuredRepetitions''"

definition bundle_identity :: "VerifiedEvidenceBundle \<Rightarrow> BundleIdentity" where
  "bundle_identity bundle = \<lparr>bi_bundle_path = vb_root bundle, bi_run_id = em_run_id (vb_manifest bundle),
     bi_experiment_digest = em_experiment_digest (vb_manifest bundle),
     bi_resolved_plan_digest = em_resolved_plan_digest (vb_manifest bundle)\<rparr>"

subsection \<open>The environment\<close>

definition environment_field :: "string \<Rightarrow> string option \<Rightarrow> string option \<Rightarrow> EnvironmentComparison" where
  "environment_field field baseline candidate = \<lparr>ev_field = field, ev_baseline = baseline, ev_candidate = candidate,
     ev_relationship = (case (baseline, candidate) of
         (Some b, Some c) \<Rightarrow> if b = c then EnvSame else EnvDifferent
       | _ \<Rightarrow> EnvUnknown)\<rparr>"

definition show_offload :: "NvidiaOffloadProvenance \<Rightarrow> string" where
  "show_offload off = no_policy off @ '':'' @ show_word (no_offloaded_layers off) @ ''/'' @ show_word (no_total_layers off)"

definition nvidia_fields :: "NvidiaGpuProvenance \<Rightarrow> NvidiaGpuProvenance \<Rightarrow> EnvironmentComparison list" where
  "nvidia_fields b c =
     [environment_field ''software.runtime.backend.nvidia.deviceName'' (Some (nv_device_name b)) (Some (nv_device_name c)),
      environment_field ''software.runtime.backend.nvidia.totalVramBytes''
        (Some (show_word (nv_total_vram_bytes b))) (Some (show_word (nv_total_vram_bytes c))),
      environment_field ''software.runtime.backend.nvidia.nvidiaDriverVersion''
        (Some (nv_nvidia_driver_version b)) (Some (nv_nvidia_driver_version c)),
      environment_field ''software.runtime.backend.nvidia.cudaDriverVersion''
        (Some (nv_cuda_driver_version b)) (Some (nv_cuda_driver_version c)),
      environment_field ''software.runtime.backend.nvidia.cudaRuntimeVersion''
        (Some (nv_cuda_runtime_version b)) (Some (nv_cuda_runtime_version c)),
      environment_field ''software.runtime.backend.nvidia.cudaToolkitVersion''
        (Some (nv_cuda_toolkit_version b)) (Some (nv_cuda_toolkit_version c)),
      environment_field ''software.runtime.backend.nvidia.computeCapability''
        (Some (nv_compute_capability b)) (Some (nv_compute_capability c)),
      environment_field ''software.runtime.backend.nvidia.offload''
        (Some (show_offload (nv_offload b))) (Some (show_offload (nv_offload c)))]"

definition platform_fields :: "AttemptProvenance \<Rightarrow> AttemptProvenance \<Rightarrow> EnvironmentComparison list" where
  "platform_fields baseline candidate = (let b = ap_platform baseline; c = ap_platform candidate;
       bs = sw_benchplane (ap_software baseline); cs = sw_benchplane (ap_software candidate) in
     [environment_field ''platform.architecture'' (Some (pp_architecture b)) (Some (pp_architecture c)),
      environment_field ''platform.cpu.model'' (cp_model (pp_cpu b)) (cp_model (pp_cpu c)),
      environment_field ''platform.cpu.logicalCpuCount''
        (map_option show_word (cp_logical_cpu_count (pp_cpu b))) (map_option show_word (cp_logical_cpu_count (pp_cpu c))),
      environment_field ''platform.operatingSystem.family''
        (Some (os_family (pp_operating_system b))) (Some (os_family (pp_operating_system c))),
      environment_field ''platform.operatingSystem.distribution''
        (os_distribution (pp_operating_system b)) (os_distribution (pp_operating_system c)),
      environment_field ''platform.operatingSystem.version''
        (os_version (pp_operating_system b)) (os_version (pp_operating_system c)),
      environment_field ''platform.kernel.name'' (Some (kp_name (pp_kernel b))) (Some (kp_name (pp_kernel c))),
      environment_field ''platform.kernel.release'' (kp_release (pp_kernel b)) (kp_release (pp_kernel c)),
      environment_field ''software.benchplane.version'' (Some (sc_version bs)) (Some (sc_version cs)),
      environment_field ''software.benchplane.nixStorePath'' (sc_nix_store_path bs) (sc_nix_store_path cs)])"

definition backend_fields :: "BackendProvenance \<Rightarrow> BackendProvenance \<Rightarrow> EnvironmentComparison list" where
  "backend_fields b c = (case (bp_nvidia b, bp_nvidia c) of
       (Some bn, Some cn) \<Rightarrow> nvidia_fields bn cn
     | (None, None) \<Rightarrow> []
     | _ \<Rightarrow> [\<lparr>ev_field = ''software.runtime.backend.nvidia'', ev_baseline = map_option (\<lambda>_. ''present'') (bp_nvidia b),
         ev_candidate = map_option (\<lambda>_. ''present'') (bp_nvidia c), ev_relationship = EnvUnknown\<rparr>])"

definition compare_environment :: "AttemptProvenance \<Rightarrow> AttemptProvenance \<Rightarrow> EnvironmentComparison list" where
  "compare_environment baseline candidate = platform_fields baseline candidate
     @ (case (sw_runtime (ap_software baseline), sw_runtime (ap_software candidate)) of
         (ProvLlamaCpp _ be bm bb, ProvLlamaCpp _ ce cm cb) \<Rightarrow>
           [environment_field ''software.runtime.engine.nixStorePath'' (sc_nix_store_path be) (sc_nix_store_path ce),
            environment_field ''software.runtime.model.nixStorePath'' (mp_nix_store_path bm) (mp_nix_store_path cm),
            environment_field ''software.runtime.backend.nixStorePath'' (bp_nix_store_path bb) (bp_nix_store_path cb)]
           @ backend_fields bb cb
       | _ \<Rightarrow> [])"

subsection \<open>The comparison\<close>

definition compare_values :: "VerifiedEvidenceBundle \<Rightarrow> VerifiedEvidenceBundle \<Rightarrow>
    (RequestScopeComparison option \<times> RepetitionScopeComparison option \<times> AttemptResourceComparison option) outcome" where
  "compare_values baseline candidate =
     chain (compare_requests baseline candidate) (\<lambda>requests.
     chain (compare_repetitions baseline candidate) (\<lambda>repetitions.
       Return (Some requests, Some repetitions, compare_resources (vb_resources baseline) (vb_resources candidate))))"

definition compare_verified :: "VerifiedEvidenceBundle \<Rightarrow> VerifiedEvidenceBundle \<Rightarrow>
    (ComparisonError + EvidenceComparison) outcome" where
  "compare_verified baseline candidate =
     (if em_run_id (vb_manifest baseline) = em_run_id (vb_manifest candidate) then Return (Err SameRun)
      else case eligible_contract ''baseline'' baseline of Inl e \<Rightarrow> Return (Err e) | Inr baseline_contract \<Rightarrow>
      (case eligible_contract ''candidate'' candidate of Inl e \<Rightarrow> Return (Err e) | Inr candidate_contract \<Rightarrow>
        (let incompatibilities = contract_differences baseline_contract candidate_contract;
             compatible = (incompatibilities = [])
         in chain (expect (vb_provenance baseline)) (\<lambda>bp.
            chain (expect (vb_provenance candidate)) (\<lambda>cp.
            chain (if compatible then compare_values baseline candidate else Return (None, None, None))
              (\<lambda>(requests, repetitions, attempt_resources). Return (Ok
                \<lparr>ec_format = EVIDENCE_COMPARISON_FORMAT_V1, ec_baseline = bundle_identity baseline,
                 ec_candidate = bundle_identity candidate, ec_compatible = compatible,
                 ec_incompatibilities = incompatibilities,
                 ec_measurement_contract = (if compatible then Some baseline_contract else None),
                 ec_environment = compare_environment bp cp, ec_requests = requests, ec_repetitions = repetitions,
                 ec_attempt_resources = attempt_resources, ec_interpretation = DESCRIPTIVE_NOTE\<rparr>)))))))"

definition compare_evidence_bundles ::
  "Codecs \<Rightarrow> canonicalizer \<Rightarrow> string \<Rightarrow> string \<Rightarrow> (ComparisonError + EvidenceComparison) outcome" where
  "compare_evidence_bundles c canonicalize baseline_path candidate_path =
     chain (verify_evidence_bundle_data c canonicalize baseline_path) (\<lambda>verified.
     and_check (map_err (InvalidEvidence ''baseline'') verified) (\<lambda>baseline.
     chain (verify_evidence_bundle_data c canonicalize candidate_path) (\<lambda>verified'.
     and_check (map_err (InvalidEvidence ''candidate'') verified') (\<lambda>candidate.
     compare_verified baseline candidate))))"

subsection \<open>Deltas\<close>

text \<open>
  C17. A metric comparison is exact. The absolute delta is the difference of the two values and every
  intermediate value fits \<open>i128\<close>, so the arithmetic of the source cannot overflow. The relative delta
  is absent exactly if the baseline is zero; otherwise it is the exact ratio in thousandths of a
  percent, truncated toward zero. Exchanging the bundles negates the absolute delta.
\<close>

theorem compare_metric_exact:
  fixes baseline candidate
  defines "d \<equiv> id_absolute_delta (mc_delta (compare_metric baseline candidate))"
    and "p \<equiv> id_percentage_delta_milli_percent (mc_delta (compare_metric baseline candidate))"
  shows "d = int (unat candidate) - int (unat baseline)
    \<and> \<bar>d * 100000\<bar> < 2 ^ 127 \<and> d = - id_absolute_delta (mc_delta (compare_metric candidate baseline))
    \<and> (p = None \<longleftrightarrow> baseline = 0)
    \<and> p = (if baseline = 0 then None else Some (sgn d * (\<bar>d\<bar> * 100000 div int (unat baseline))))"
proof -
  have d: "d = uint candidate - uint baseline" by (simp add: d_def compare_metric_def Let_def)
  have "uint candidate < 2 ^ 64" "uint baseline < 2 ^ 64" "0 \<le> uint candidate" "0 \<le> uint baseline"
    using unsigned_less [of candidate, where 'a = int] unsigned_less [of baseline, where 'a = int] by simp_all
  then have "\<bar>d\<bar> < 2 ^ 64" unfolding d by linarith
  then have small: "\<bar>d * 100000\<bar> < 2 ^ 127" by (simp add: abs_mult)
  have "sgn (uint baseline) = 1" if "baseline \<noteq> 0" using that by (simp add: sgn_if less_le uint_0_iff)
  moreover have "sgn (d * 100000) = sgn d" by (simp add: sgn_mult)
  ultimately have "d * 100000 sdiv uint baseline = sgn d * (\<bar>d\<bar> * 100000 div uint baseline)" if "baseline \<noteq> 0"
    using that by (simp add: signed_divide_int_def abs_mult)
  then have "p = (if baseline = 0 then None else Some (sgn d * (\<bar>d\<bar> * 100000 div uint baseline)))"
    by (simp add: p_def compare_metric_def Let_def d [symmetric])
  then show ?thesis using d small by (simp add: compare_metric_def Let_def)
qed

lemma compare_distribution_returns:
  assumes "xs \<noteq> []" "ys \<noteq> []" "length xs < 2 ^ 57" "length ys < 2 ^ 57"
  obtains d where "compare_distribution xs ys = Return d"
  using describe_micros_value [OF assms(1,3)] describe_micros_value [OF assms(2,4)]
  by (auto simp: compare_distribution_def)

subsection \<open>Contracts\<close>

lemma contract_differences_Nil: "contract_differences b c = [] \<longleftrightarrow> b = c"
  by (cases b; cases c) (auto simp: contract_differences_def difference_def)

lemma eligible_Ok:
  assumes "eligible_contract role b = Ok k"
  obtains target model tokens p generator engine pm backend where
    "em_run_status (vb_manifest b) = Succeeded" "em_validity_status (vb_manifest b) = Valid"
    "plan_runtime (vb_plan b) = RuntimeLlamaCpp target model tokens" "vb_provenance b = Some p"
    "\<forall>r \<in> set (vb_measurements b). mr_generator r = LLAMA_CPP_GENERATOR_VERSION"
    "sw_runtime (ap_software p) = ProvLlamaCpp generator engine pm backend"
    "lc_requests_per_repetition k = plan_requests (vb_plan b)"
    "lc_measured_repetitions k = ms_repetitions (plan_measurement (vb_plan b))"
  using assms
  by (auto simp: eligible_contract_def ineligible_def Let_def list_ex_iff
      split: if_splits ProviderSpec.splits RuntimeSpec.splits option.splits RuntimeProvenance.splits)

text \<open>What eligibility adds to verification: a full set of measured requests.\<close>

definition full_sample :: "LlamaMeasurementContract \<Rightarrow> VerifiedEvidenceBundle \<Rightarrow> bool" where
  "full_sample k b \<longleftrightarrow> vb_provenance b \<noteq> None
     \<and> length (measured_records (vb_measurements b)) = unat (lc_measured_repetitions k)
     \<and> (\<forall>r \<in> set (measured_records (vb_measurements b)).
         length (mr_request_observations r) = unat (lc_requests_per_repetition k))
     \<and> 0 < unat (lc_measured_repetitions k) \<and> 0 < unat (lc_requests_per_repetition k)
     \<and> unat (lc_measured_repetitions k) * unat (lc_requests_per_repetition k) \<le> 8192"

lemma eligible_full_sample:
  assumes "sound_bundle b" and "eligible_contract role b = Ok k"
  shows "full_sample k b"
proof (rule eligible_Ok [OF assms(2)])
  fix target model tokens p generator engine pm backend
  assume e: "em_run_status (vb_manifest b) = Succeeded" "em_validity_status (vb_manifest b) = Valid"
    "plan_runtime (vb_plan b) = RuntimeLlamaCpp target model tokens" "vb_provenance b = Some p"
    "\<forall>r \<in> set (vb_measurements b). mr_generator r = LLAMA_CPP_GENERATOR_VERSION"
    "lc_requests_per_repetition k = plan_requests (vb_plan b)"
    "lc_measured_repetitions k = ms_repetitions (plan_measurement (vb_plan b))"
  let ?ms = "vb_measurements b" and ?reps = "ms_repetitions (plan_measurement (vb_plan b))"
  obtain w n where adm: "admissible (re_experiment (vb_plan b))"
    and counts: "expected_measurement_counts (vb_plan b) Succeeded = Ok (w, n)"
    and acc: "accepted_from (vb_plan b) w 0 None ?ms"
    and n: "length (measured_records ?ms) = unat n"
    and validity: "expected_validity (vb_manifest b) n ?reps = Return Valid"
    using assms(1) e(1,2) by (auto simp: sound_bundle_def Let_def)
  have "n \<le> ?reps" by (rule expected_counts_bound(2) [OF counts])
  then have reps: "n = ?reps" using validity e(1) by (auto simp: expected_validity_def split: if_splits)
  have obs: "length (mr_request_observations r) = unat (plan_requests (vb_plan b))" if r: "r \<in> set ?ms" for r :: MeasurementRecord
  proof -
    obtain j where j: "j < length ?ms" "?ms ! j = r" using r by (auto simp: in_set_conv_nth)
    have "accepted_record (vb_plan b) w j r" using accepted_from_nth [OF acc j(1)] j(2) by simp
    moreover have "mr_generator r = LLAMA_CPP_GENERATOR_VERSION" using e(5) r by blast
    ultimately show ?thesis
      by (auto simp: accepted_record_def e(3) LLAMA_CPP_GENERATOR_VERSION_V1_def LLAMA_CPP_GENERATOR_VERSION_def)
  qed
  have adm': "0 < unat ?reps" "0 < unat (plan_requests (vb_plan b))"
    "records (re_experiment (vb_plan b)) * requests (re_experiment (vb_plan b)) * (96 + unat tokens) \<le> 8192"
    using adm e(3) by (auto simp: admissible_def runtime_admissible_def Let_def requests_def unat_gt_0)
  have "unat ?reps * unat (plan_requests (vb_plan b)) \<le> records (re_experiment (vb_plan b)) * requests (re_experiment (vb_plan b))"
    by (simp add: records_def requests_def)
  also have "\<dots> \<le> records (re_experiment (vb_plan b)) * requests (re_experiment (vb_plan b)) * (96 + unat tokens)" by simp
  also have "\<dots> \<le> 8192" by (rule adm'(3))
  finally show ?thesis
    using e n reps obs adm'(1,2) by (auto simp: full_sample_def measured_records_def)
qed

lemma full_sample_observations:
  assumes "full_sample k b"
  shows "length (concat (map mr_request_observations (measured_records (vb_measurements b)))) =
    unat (lc_measured_repetitions k) * unat (lc_requests_per_repetition k)"
proof -
  have "length (concat (map mr_request_observations rs)) = length rs * m"
    if "\<forall>r \<in> set rs. length (mr_request_observations r) = m" for rs :: "MeasurementRecord list" and m
    using that by (induction rs) simp_all
  from this [of "measured_records (vb_measurements b)" "unat (lc_requests_per_repetition k)"]
  show ?thesis using assms unfolding full_sample_def by metis
qed

lemma full_sample_sizes:
  assumes "full_sample k b"
  defines "os \<equiv> concat (map mr_request_observations (measured_records (vb_measurements b)))"
    and "ms \<equiv> measured_records (vb_measurements b)"
  shows "length os = unat (lc_measured_repetitions k) * unat (lc_requests_per_repetition k)" "length ms = unat (lc_measured_repetitions k)"
    "os \<noteq> []" "ms \<noteq> []" "length os < 2 ^ 57" "length ms < 2 ^ 57"
proof -
  show o: "length os = unat (lc_measured_repetitions k) * unat (lc_requests_per_repetition k)"
    and m: "length ms = unat (lc_measured_repetitions k)"
    using full_sample_observations [OF assms(1)] assms(1) by (simp_all add: full_sample_def os_def ms_def)
  show "os \<noteq> []" "ms \<noteq> []"
    unfolding length_greater_0_conv [symmetric] o m using assms(1) by (simp_all add: full_sample_def)
  have "length os \<le> 8192" using assms(1) by (simp only: o full_sample_def)
  then show "length os < 2 ^ 57" by simp
  have "length ms < 4294967296" by (simp only: m unat_u32_bound)
  then show "length ms < 2 ^ 57" by simp
qed

lemma compare_distribution_of:
  assumes "xs \<noteq> []" "ys \<noteq> []" "length xs < 2 ^ 57" "length ys < 2 ^ 57"
  shows "\<exists>d. compare_distribution (map f xs) (map f ys) = Return d"
  using compare_distribution_returns [of "map f xs" "map f ys"] assms by auto

lemma compare_values_returns:
  assumes "full_sample k b" and "full_sample k' c"
  obtains rq rp where "compare_values b c = Return (Some rq, Some rp, compare_resources (vb_resources b) (vb_resources c))"
    "unat (rq_baseline_count rq) = unat (lc_measured_repetitions k) * unat (lc_requests_per_repetition k)"
    "unat (rq_candidate_count rq) = unat (lc_measured_repetitions k') * unat (lc_requests_per_repetition k')"
    "rp_baseline_count rp = ucast (lc_measured_repetitions k)"
    "rp_candidate_count rp = ucast (lc_measured_repetitions k')"
proof -
  let ?o = "\<lambda>b. concat (map mr_request_observations (measured_records (vb_measurements b)))"
  let ?m = "\<lambda>b. measured_records (vb_measurements b)"
  note b = full_sample_sizes [OF assms(1)] and c = full_sample_sizes [OF assms(2)]
  obtain l t where rq: "compare_distribution (map ro_latency_micros (?o b)) (map ro_latency_micros (?o c)) = Return l"
    "compare_distribution (map ro_time_to_first_token_micros (?o b)) (map ro_time_to_first_token_micros (?o c)) = Return t"
    using compare_distribution_of [OF b(3) c(3) b(5) c(5)] by blast
  obtain l' t' where rp: "compare_distribution (map mr_latency_micros (?m b)) (map mr_latency_micros (?m c)) = Return l'"
    "compare_distribution (map mr_time_to_first_token_micros (?m b)) (map mr_time_to_first_token_micros (?m c)) = Return t'"
    using compare_distribution_of [OF b(4) c(4) b(6) c(6)] by blast
  obtain tb tc where tp: "mean_u64 (map mr_throughput_milli_requests_per_second (?m b)) = Some tb"
    "mean_u64 (map mr_throughput_milli_requests_per_second (?m c)) = Some tc"
    using mean_u64_value [of "map mr_throughput_milli_requests_per_second (?m b)"]
      mean_u64_value [of "map mr_throughput_milli_requests_per_second (?m c)"] b(4,6) c(4,6) by auto
  have count: "unat (of_nat n :: u64) = n" if "n < 2 ^ 57" for n
    using that by (intro unat_of_nat_small) simp
  have cast: "(of_nat (unat w) :: u64) = ucast (w :: u32)" for w by simp
  show thesis
  proof (rule that)
    show "compare_values b c = Return (Some \<lparr>rq_unit = ''measuredRequest'', rq_baseline_count = of_nat (length (?o b)),
        rq_candidate_count = of_nat (length (?o c)), rq_latency_micros = l, rq_time_to_first_token_micros = t\<rparr>,
      Some \<lparr>rp_unit = ''measuredRepetitionAggregate'', rp_baseline_count = of_nat (length (?m b)),
        rp_candidate_count = of_nat (length (?m c)), rp_aggregate_latency_micros = l',
        rp_aggregate_time_to_first_token_micros = t', rp_mean_throughput_milli_requests_per_second = compare_metric tb tc\<rparr>,
      compare_resources (vb_resources b) (vb_resources c))"
      by (simp add: compare_values_def compare_requests_def compare_repetitions_def request_values_def
        repetition_values_def Let_def rq rp tp del: length_concat)
  qed (simp_all only: RequestScopeComparison.simps RepetitionScopeComparison.simps count [OF b(5) [unfolded b(1)]]
      count [OF c(5) [unfolded c(1)]] b(1,2) c(1,2) cast)
qed

subsection \<open>Comparing verified bundles\<close>

text \<open>
  The scope of a comparison under contracts \<open>k\<close> and \<open>k'\<close>: with equal contracts, one set of metrics whose
  counts are those of the contract on both sides; otherwise no metric at all.
\<close>

definition scoped_to :: "LlamaMeasurementContract \<Rightarrow> LlamaMeasurementContract \<Rightarrow> EvidenceComparison \<Rightarrow> bool" where
  "scoped_to k k' cmp \<longleftrightarrow> (if k = k' then ec_measurement_contract cmp = Some k
       \<and> (\<exists>rq rp. ec_requests cmp = Some rq \<and> ec_repetitions cmp = Some rp
          \<and> unat (rq_baseline_count rq) = unat (lc_measured_repetitions k) * unat (lc_requests_per_repetition k)
          \<and> rq_candidate_count rq = rq_baseline_count rq
          \<and> rp_baseline_count rp = ucast (lc_measured_repetitions k) \<and> rp_candidate_count rp = rp_baseline_count rp)
     else ec_measurement_contract cmp = None \<and> ec_requests cmp = None \<and> ec_repetitions cmp = None
       \<and> ec_attempt_resources cmp = None)"

lemma compare_verified_eligible:
  assumes "sound_bundle b" "sound_bundle c" "em_run_id (vb_manifest b) \<noteq> em_run_id (vb_manifest c)"
    and "eligible_contract ''baseline'' b = Ok k" "eligible_contract ''candidate'' c = Ok k'"
  obtains cmp where "compare_verified b c = Return (Ok cmp)" "ec_compatible cmp \<longleftrightarrow> k = k'"
    "ec_incompatibilities cmp = contract_differences k k'" "scoped_to k k' cmp"
proof -
  have full: "full_sample k b" "full_sample k' c"
    using eligible_full_sample assms by blast+
  then obtain p q where pq: "vb_provenance b = Some p" "vb_provenance c = Some q"
    by (auto simp: full_sample_def)
  obtain rq rp where v: "compare_values b c = Return (Some rq, Some rp, compare_resources (vb_resources b) (vb_resources c))"
    "unat (rq_baseline_count rq) = unat (lc_measured_repetitions k) * unat (lc_requests_per_repetition k)"
    "unat (rq_candidate_count rq) = unat (lc_measured_repetitions k') * unat (lc_requests_per_repetition k')"
    "rp_baseline_count rp = ucast (lc_measured_repetitions k)"
    "rp_candidate_count rp = ucast (lc_measured_repetitions k')"
    using compare_values_returns [OF full] .
  show thesis
  proof (cases "k = k'")
    case True
    then have "rq_candidate_count rq = rq_baseline_count rq" using v(2,3) by (simp add: word_unat_eq_iff)
    then show thesis
      using that assms(3-5) pq v True contract_differences_Nil [of k k']
      by (simp add: compare_verified_def scoped_to_def)
  next
    case False
    then show thesis
      using that assms(3-5) pq contract_differences_Nil [of k k'] by (simp add: compare_verified_def scoped_to_def)
  qed
qed

lemma compare_verified_ineligible:
  assumes "em_run_id (vb_manifest b) = em_run_id (vb_manifest c)
    \<or> \<not> is_ok (eligible_contract ''baseline'' b) \<or> \<not> is_ok (eligible_contract ''candidate'' c)"
  shows "\<exists>e. compare_verified b c = Return (Err e)"
  using assms by (cases "eligible_contract ''baseline'' b"; cases "eligible_contract ''candidate'' c")
    (auto simp: compare_verified_def)

lemma compare_evidence_bundles_returns:
  "\<exists>v v' r. verify_evidence_bundle_data c canonicalize bp = Return v
     \<and> verify_evidence_bundle_data c canonicalize cp = Return v'
     \<and> compare_evidence_bundles c canonicalize bp cp = Return r
     \<and> (is_ok r \<longleftrightarrow> (\<exists>b d. v = Ok b \<and> v' = Ok d \<and> em_run_id (vb_manifest b) \<noteq> em_run_id (vb_manifest d)
          \<and> is_ok (eligible_contract ''baseline'' b) \<and> is_ok (eligible_contract ''candidate'' d)))"
proof -
  obtain v v' where v: "verify_evidence_bundle_data c canonicalize bp = Return v"
      "verify_evidence_bundle_data c canonicalize cp = Return v'"
    using verify_returns by metis
  note [simp] = compare_evidence_bundles_def v
  show ?thesis
  proof (cases "is_ok v \<and> is_ok v'")
    case True
    then obtain b d where bd: "v = Ok b" "v' = Ok d" by (auto simp: is_ok_iff)
    have sound: "sound_bundle b" "sound_bundle d" using verified_sound v bd by blast+
    show ?thesis
    proof (cases "em_run_id (vb_manifest b) \<noteq> em_run_id (vb_manifest d) \<and> is_ok (eligible_contract ''baseline'' b)
        \<and> is_ok (eligible_contract ''candidate'' d)")
      case True
      then obtain k k' where "eligible_contract ''baseline'' b = Ok k" "eligible_contract ''candidate'' d = Ok k'"
        by (auto simp: is_ok_iff)
      then obtain cmp where "compare_verified b d = Return (Ok cmp)"
        using compare_verified_eligible [OF sound] True by metis
      then show ?thesis using True by (simp add: bd)
    next
      case False
      then obtain e where "compare_verified b d = Return (Err e)" using compare_verified_ineligible by metis
      then show ?thesis using False by (simp add: bd)
    qed
  next
    case False
    then show ?thesis by (cases v; cases v') auto
  qed
qed

text \<open>
  C8. A comparison always returns: the verification of each bundle ends with a verdict, without the
  \<open>unreachable!\<close> of its status matches and without an index of the recomputed statistics out of range, and none
  of the \<open>expect\<close> calls of the comparison and no index of its statistics can panic on two bundles that pass
  verification, because verification and eligibility together give provenance, at least one measured
  repetition and at least one request observation in each. It returns a comparison exactly if both
  bundles verify, belong to different runs and are eligible; otherwise it returns an error.
\<close>

theorem comparison_total:
  "\<exists>v v' r. verify_evidence_bundle_data c canonicalize bp = Return v
     \<and> verify_evidence_bundle_data c canonicalize cp = Return v'
     \<and> compare_evidence_bundles c canonicalize bp cp = Return r
     \<and> (is_ok r \<longleftrightarrow> (\<exists>b d. v = Ok b \<and> v' = Ok d \<and> em_run_id (vb_manifest b) \<noteq> em_run_id (vb_manifest d)
          \<and> is_ok (eligible_contract ''baseline'' b) \<and> is_ok (eligible_contract ''candidate'' d)))"
  by (rule compare_evidence_bundles_returns)

text \<open>
  C13. What a comparison of two verified bundles contains. It is compatible exactly if the two
  measurement contracts are equal in every field, and then every count is the one of the contract:
  repetitions, and repetitions times requests, the same on both sides. An incompatible comparison
  names the differing fields and carries no metric at all.
\<close>

theorem comparison_contents:
  assumes "sound_bundle b" and "sound_bundle d" and "compare_verified b d = Return (Ok cmp)"
  shows "\<exists>k k'. eligible_contract ''baseline'' b = Ok k \<and> eligible_contract ''candidate'' d = Ok k'
    \<and> (ec_compatible cmp \<longleftrightarrow> k = k') \<and> (ec_incompatibilities cmp = [] \<longleftrightarrow> k = k')
    \<and> scoped_to k k' cmp"
proof -
  obtain k k' where k: "em_run_id (vb_manifest b) \<noteq> em_run_id (vb_manifest d)"
      "eligible_contract ''baseline'' b = Ok k" "eligible_contract ''candidate'' d = Ok k'"
    using assms(3) by (auto simp: compare_verified_def split: if_splits sum.splits)
  show ?thesis
  proof (rule compare_verified_eligible [OF assms(1,2) k])
    fix cmp' assume *: "compare_verified b d = Return (Ok cmp')" "ec_compatible cmp' \<longleftrightarrow> k = k'"
      "ec_incompatibilities cmp' = contract_differences k k'" "scoped_to k k' cmp'"
    have "cmp' = cmp" using *(1) assms(3) by simp
    then show ?thesis using *(2-4) k(2,3) contract_differences_Nil [of k k'] by auto
  qed
qed

subsection \<open>Two llama.cpp bundles\<close>

definition llama_plan :: ResolvedExperiment where "llama_plan = resolved_fixture minimal_llama_cpp"

definition llama_record :: "MeasurementPhase \<Rightarrow> u32 \<Rightarrow> MeasurementRecord" where
  "llama_record phase i = one_llama_record\<lparr>mr_phase := phase, mr_repetition_index := i\<rparr>"

definition llama_provenance :: "string \<Rightarrow> AttemptProvenance" where
  "llama_provenance rid = \<lparr>ap_format = ATTEMPT_PROVENANCE_FORMAT_V1, ap_run_id = rid, ap_attempt_number = 1,
     ap_platform = \<lparr>pp_operating_system = \<lparr>os_family = ''linux'', os_distribution = None, os_version = None\<rparr>,
       pp_kernel = \<lparr>kp_name = ''linux'', kp_release = None\<rparr>, pp_architecture = ''x86_64'',
       pp_cpu = \<lparr>cp_model = None, cp_logical_cpu_count = Some 8\<rparr>\<rparr>,
     ap_software = \<lparr>sw_benchplane = \<lparr>sc_name = BENCHPLANE_SOFTWARE_NAME, sc_version = ''0.1.0'', sc_nix_store_path = None\<rparr>,
       sw_runtime = ProvLlamaCpp LLAMA_CPP_GENERATOR_VERSION
         \<lparr>sc_name = LLAMA_CPP_ENGINE_NAME, sc_version = LLAMA_CPP_ENGINE_VERSION, sc_nix_store_path = None\<rparr>
         \<lparr>mp_identity = LLAMA_CPP_MODEL_IDENTITY, mp_sha256 = LLAMA_CPP_MODEL_SHA256, mp_nix_store_path = None\<rparr>
         \<lparr>bp_identity = LLAMA_CPP_BACKEND_IDENTITY, bp_device_class = DeviceCpu, bp_nix_store_path = None,
          bp_nvidia = None\<rparr>\<rparr>\<rparr>"

definition llama_bundle :: "string \<Rightarrow> VerifiedEvidenceBundle" where
  "llama_bundle rid = \<lparr>vb_root = rid, vb_manifest = sample_manifest\<lparr>em_run_id := rid\<rparr>, vb_plan = llama_plan,
     vb_provenance = Some (llama_provenance rid), vb_resources = None,
     vb_measurements = [llama_record Warmup 1, llama_record Measured 1, llama_record Measured 2, llama_record Measured 3]\<rparr>"

lemma llama_plan_simps:
  "plan_runtime llama_plan = RuntimeLlamaCpp TargetCpu LLAMA_CPP_MODEL_IDENTITY 4"
  "sp_provider (ex_spec (re_experiment llama_plan)) = ProviderLocal" "plan_requests llama_plan = 1"
  "ms_warmup_runs (plan_measurement llama_plan) = 1" "ms_repetitions (plan_measurement llama_plan) = 3"
  "re_experiment_digest llama_plan = zero_digest" "re_resolved_plan_digest llama_plan = zero_digest"
  "admissible (re_experiment llama_plan)"
  using llama_cpp_admissible by (simp_all add: llama_plan_def fixture_defs)

lemma llama_captured: "capture bare_platform rid llama_plan = Return (llama_provenance rid)"
  by (simp add: capture_def capture_runtime_def Let_def bare_platform_def read_bounded_def llama_plan_simps
      read_single_value_def read_cpu_model_def current_executable_nix_store_path_def llama_store_path_def
      compiled_nix_store_path_def try_into_def llama_provenance_def)

lemma llama_provenance_accepted:
  assumes "g = None \<or> g = Some LLAMA_CPP_GENERATOR_VERSION"
  shows "validate_attempt_provenance (llama_provenance rid) (sample_manifest\<lparr>em_run_id := rid\<rparr>) llama_plan g = Ok ()"
  using captured_platform_accepted [OF bare_host_ok llama_captured, of rid] assms
  by (auto simp: validate_attempt_provenance_def llama_provenance_def sample_manifest_def
        validate_runtime_provenance_def llama_plan_simps validate_backend_def require_matching_generator_def
        validate_llama_lineage_def optional_nix_store_path_def good_value_accepted
        bare_host_ok [unfolded host_ok_def bare_platform_def, simplified])

lemma llama_record_consistent: "validate_llama_v2_aggregate_consistency (llama_record phase i) = Ok ()"
  by (simp add: validate_llama_v2_aggregate_consistency_def rounded_request_mean_bounds_def llama_record_def
      one_llama_record_def checked_add_def checked_sub_def checked_mul_def try_into_def ceil_div_u128_def unat_div_distrib)

lemma llama_record_accepted:
  assumes "phase = slot_phase 1 i" and "unat j = slot_index 1 i"
  shows "accepted_record llama_plan 1 i (llama_record phase j)"
proof -
  have "observations_valid (mr_request_observations (llama_record phase j))"
    by (simp add: llama_record_def one_llama_record_def observations_valid_def)
  then show ?thesis
    using assms llama_record_consistent [of phase j]
    by (simp add: accepted_record_def slot_record_def llama_plan_simps)
      (simp add: llama_record_def one_llama_record_def)
qed

lemma llama_bundle_sound: "sound_bundle (llama_bundle rid)"
proof -
  have "accepted_from llama_plan 1 0 None (vb_measurements (llama_bundle rid))"
    by (simp add: llama_bundle_def llama_record_accepted slot_phase_def slot_index_def)
      (simp add: prior_ok_def llama_record_def)
  moreover have "measured_records (vb_measurements (llama_bundle rid)) =
      [llama_record Measured 1, llama_record Measured 2, llama_record Measured 3]"
    by (simp add: llama_bundle_def measured_records_def llama_record_def)
  moreover have "expected_measurement_counts llama_plan Succeeded = Ok (1, 3)"
    by (simp add: expected_measurement_counts_def llama_plan_simps)
  moreover have "mr_generator (llama_record ph i) = LLAMA_CPP_GENERATOR_VERSION" for ph i
    by (simp add: llama_record_def one_llama_record_def)
  ultimately show ?thesis
    unfolding sound_bundle_def Let_def
    using llama_provenance_accepted [of _ rid]
    by (simp add: llama_bundle_def llama_plan_simps sample_manifest_def terminal_states_def expected_validity_def)
qed

lemma llama_eligible: "\<exists>k. eligible_contract role (llama_bundle rid) = Ok k \<and> lc_measured_repetitions k = 3
    \<and> lc_requests_per_repetition k = 1 \<and> (\<forall>role' rid'. eligible_contract role' (llama_bundle rid') = Ok k)"
  by (simp add: eligible_contract_def llama_bundle_def sample_manifest_def llama_plan_simps llama_record_def
      one_llama_record_def llama_provenance_def Let_def)

theorem comparison_contents_witness:
  "\<exists>cmp rq. compare_verified (llama_bundle ''a'') (llama_bundle ''b'') = Return (Ok cmp) \<and> ec_compatible cmp
     \<and> ec_requests cmp = Some rq \<and> unat (rq_baseline_count rq) = 3 \<and> unat (rq_candidate_count rq) = 3"
proof -
  obtain k where k: "eligible_contract ''baseline'' (llama_bundle ''a'') = Ok k"
      "eligible_contract ''candidate'' (llama_bundle ''b'') = Ok k"
      "lc_measured_repetitions k = 3" "lc_requests_per_repetition k = 1"
    using llama_eligible by metis
  have "em_run_id (vb_manifest (llama_bundle ''a'')) \<noteq> em_run_id (vb_manifest (llama_bundle ''b''))"
    by (simp add: llama_bundle_def)
  then obtain cmp where cmp: "compare_verified (llama_bundle ''a'') (llama_bundle ''b'') = Return (Ok cmp)"
    using compare_verified_eligible [OF llama_bundle_sound llama_bundle_sound _ k(1,2)] by metis
  from comparison_contents [OF llama_bundle_sound llama_bundle_sound cmp] k cmp
  show ?thesis by (auto simp: scoped_to_def)
qed

end
