(* ===== verification/Cli.thy ===== *)
theory Cli
  imports RunFacts Comparison
begin

text \<open>
  The command line, \<open>src/crates/benchplane/src/main.rs\<close>: the commands after argument parsing, their
  console output and their exit codes. A command gives its exit code, the lines it prints and the world
  it leaves. Every command does its work first and prints last. Rendering that is the work of a library (JSON,
  decimal fractions) or of another crate (the messages of its errors) is a parameter.
\<close>

definition EXIT_SUCCESS :: u8 where "EXIT_SUCCESS = 0"
definition EXIT_INTERNAL :: u8 where "EXIT_INTERNAL = 1"
definition EXIT_REJECTED :: u8 where "EXIT_REJECTED = 2"
definition EXIT_INVALID :: u8 where "EXIT_INVALID = 3"
definition EXIT_OPERATIONAL_FAILURE :: u8 where "EXIT_OPERATIONAL_FAILURE = 4"
definition EXIT_FINALIZATION_FAILURE :: u8 where "EXIT_FINALIZATION_FAILURE = 5"

text \<open>The exit status of a Rust program whose main thread panics.\<close>

definition EXIT_PANIC :: u8 where "EXIT_PANIC = 101"

datatype SchemaCommand = Export

datatype EvidenceCommand = Verify string | Compare string string bool

datatype Command =
    CmdValidate string
  | CmdResolve string
  | CmdRun string string bool
  | CmdSchema SchemaCommand
  | CmdEvidence EvidenceCommand

datatype Line = Out string | ErrLine string

text \<open>\<open>sh_writable\<close> tells whether the console takes the line that is printed after so many others.\<close>

record Shell =
  sh_writable :: "nat \<Rightarrow> Line \<Rightarrow> bool"
  sh_read :: "string \<Rightarrow> string + bytes"
  sh_host :: Host
  sh_canonicalize :: canonicalizer
  sh_schema :: "string + string"
  sh_plan_json :: "ResolvedExperiment \<Rightarrow> string + string"
  sh_result_json :: "RunResult \<Rightarrow> string + string"
  sh_comparison_json :: "EvidenceComparison \<Rightarrow> string + string"
  sh_show_parse :: "string ParseError \<Rightarrow> string"
  sh_show_validation :: "ValidationError \<Rightarrow> string"
  sh_show_evidence :: "EvidenceError \<Rightarrow> string"
  sh_show_comparison :: "ComparisonError \<Rightarrow> string"
  sh_show_lifecycle :: "LifecycleError \<Rightarrow> string"
  sh_milli_percent :: "int \<Rightarrow> string"

abbreviation sh_codecs :: "Shell \<Rightarrow> Codecs" where "sh_codecs sh \<equiv> ho_codecs (sh_host sh)"

type_synonym printed = "u8 \<times> Line list"

text \<open>
  \<open>println!\<close> and \<open>eprintln!\<close> panic if the line cannot be written: the lines before it are out, the rest
  is not, and the process ends with the status of a panic instead of the command's code.
\<close>

fun print_lines :: "(nat \<Rightarrow> Line \<Rightarrow> bool) \<Rightarrow> nat \<Rightarrow> Line list \<Rightarrow> Line list" where
  "print_lines writable n [] = []"
| "print_lines writable n (l # ls) = (if writable n l then l # print_lines writable (n + 1) ls else [])"

definition console :: "Shell \<Rightarrow> printed \<Rightarrow> printed" where
  "console sh p = (let written = print_lines (sh_writable sh) 0 (snd p)
     in if written = snd p then p else (EXIT_PANIC, written))"

text \<open>The message of a run error, as its \<open>error\<close> attributes say.\<close>

fun show_run_error :: "Shell \<Rightarrow> RunError \<Rightarrow> string" where
  "show_run_error sh (Parse e) = sh_show_parse sh e"
| "show_run_error sh (RunResolution (Validation _)) = ''experiment validation failed''"
| "show_run_error sh (RunResolution (DeterministicSerialization e)) =
     ''failed to deterministically serialize the typed experiment: '' @ e"
| "show_run_error sh (UnsupportedCombination code message) = code @ '': '' @ message"
| "show_run_error sh (Io path source) = ''I/O operation failed for '' @ path @ '': '' @ source"
| "show_run_error sh (RunLifecycle e) = sh_show_lifecycle sh e"
| "show_run_error sh (Serialization record_name source) = ''could not serialize '' @ record_name @ '': '' @ source"
| "show_run_error sh (RunEvidence e) = sh_show_evidence sh e"
| "show_run_error sh (PublicationConflict path) = ''publication destination already exists: '' @ path"
| "show_run_error sh (Allocated run_id phase staging source) = ''run '' @ run_id @ '' failed during '' @ phase
     @ ''; staging retained at '' @ staging @ '': '' @ show_run_error sh source"

definition internal_error :: "string \<Rightarrow> printed" where
  "internal_error message = (EXIT_INTERNAL, [ErrLine (''error: '' @ message)])"

definition rejected_error :: "string \<Rightarrow> printed" where
  "rejected_error message = (EXIT_REJECTED, [ErrLine (''error: '' @ message)])"

definition read_experiment_bytes :: "Shell \<Rightarrow> string \<Rightarrow> Line list + bytes" where
  "read_experiment_bytes sh path = map_err (\<lambda>e. [ErrLine (''error: could not read experiment '' @ path @ '': '' @ e)])
     (sh_read sh path)"

subsection \<open>Validate and resolve\<close>

definition validate_command :: "Shell \<Rightarrow> string \<Rightarrow> printed" where
  "validate_command sh path = console sh (case read_experiment_bytes sh path of
     Inl lines \<Rightarrow> (EXIT_INTERNAL, lines)
   | Inr content \<Rightarrow> (case parse_experiment (cd_yaml (sh_codecs sh)) content of
       Inl e \<Rightarrow> rejected_error (sh_show_parse sh e)
     | Inr experiment \<Rightarrow> (case validate experiment of
         Inl errors \<Rightarrow> (EXIT_REJECTED, map (\<lambda>e. ErrLine (''error: '' @ sh_show_validation sh e)) errors)
       | Inr _ \<Rightarrow> (EXIT_SUCCESS, [Out (''valid: '' @ md_name (ex_metadata experiment))]))))"

definition resolve_command :: "Shell \<Rightarrow> string \<Rightarrow> printed" where
  "resolve_command sh path = console sh (case read_experiment_bytes sh path of
     Inl lines \<Rightarrow> (EXIT_INTERNAL, lines)
   | Inr content \<Rightarrow> (case parse_experiment (cd_yaml (sh_codecs sh)) content of
       Inl e \<Rightarrow> rejected_error (sh_show_parse sh e)
     | Inr experiment \<Rightarrow> (case cd_resolve (sh_codecs sh) experiment of
         Inr resolved \<Rightarrow> (case sh_plan_json sh resolved of
             Inr text \<Rightarrow> (EXIT_SUCCESS, [Out text])
           | Inl e \<Rightarrow> internal_error e)
       | Inl (Validation errors) \<Rightarrow>
           (EXIT_REJECTED, map (\<lambda>e. ErrLine (''error: '' @ sh_show_validation sh e)) errors)
       | Inl (DeterministicSerialization e) \<Rightarrow> internal_error (show_run_error sh
           (RunResolution (DeterministicSerialization e))))))"

subsection \<open>Run\<close>

text \<open>The micro sign is two bytes of UTF-8.\<close>

definition micros :: string where "micros = [CHR 0xC2, CHR 0xB5] @ ''s''"

definition print_human_result :: "RunResult \<Rightarrow> Line list" where
  "print_human_result result =
     [Out (''run ID: '' @ rs_run_id result), Out (''run state: '' @ run_state_as_str (rs_run_state result)),
      Out (''validity: '' @ validity_as_str (rs_validity_status result)),
      Out (''attempt count: '' @ show_word (rs_attempt_count result)),
      Out (''sample count: '' @ show_word (rs_sample_count result))]
     @ (case rs_latency result of None \<Rightarrow> [] | Some latency \<Rightarrow>
         [Out (''repetition-aggregate latency ('' @ micros @ ''): mean='' @ show_word (lat_mean_micros latency)
           @ '' p50='' @ show_word (lat_p50_micros latency) @ '' p95='' @ show_word (lat_p95_micros latency))])
     @ (case rs_mean_throughput_milli_requests_per_second result of None \<Rightarrow> [] | Some throughput \<Rightarrow>
         [Out (''mean throughput (mreq/s): '' @ show_word throughput)])
     @ (case rs_resources result of None \<Rightarrow> [] | Some resources \<Rightarrow>
         [Out (''helper CPU time ('' @ micros @ ''): '' @ show_word (pr_cpu_time_micros resources)),
          Out (''helper peak RSS (bytes): '' @ show_word (pr_peak_rss_bytes resources))])
     @ [Out (''bundle path: '' @ rs_bundle_path result), Out (''experiment digest: '' @ rs_experiment_digest result),
        Out (''resolved-plan digest: '' @ rs_resolved_plan_digest result),
        Out (''evidence digest: '' @ rs_evidence_digest result)]"

definition result_exit_code :: "RunResult \<Rightarrow> u8" where
  "result_exit_code result = (case (rs_run_state result, rs_validity_status result) of
     (Succeeded, Valid) \<Rightarrow> EXIT_SUCCESS
   | (Succeeded, _) \<Rightarrow> EXIT_INVALID
   | (Failed, _) \<Rightarrow> EXIT_OPERATIONAL_FAILURE
   | (Interrupted, _) \<Rightarrow> EXIT_OPERATIONAL_FAILURE
   | _ \<Rightarrow> EXIT_INTERNAL)"

definition report_result :: "Shell \<Rightarrow> bool \<Rightarrow> RunResult \<Rightarrow> printed" where
  "report_result sh json result = (if json
     then (case sh_result_json sh result of
         Inr text \<Rightarrow> (result_exit_code result, [Out text])
       | Inl e \<Rightarrow> internal_error e)
     else (result_exit_code result, print_human_result result))"

definition report_run_error :: "Shell \<Rightarrow> RunError \<Rightarrow> printed" where
  "report_run_error sh e =
     (if is_request_rejection e then EXIT_REJECTED
      else if is_finalization_failure e then EXIT_FINALIZATION_FAILURE else EXIT_INTERNAL,
      case e of RunResolution (Validation errors) \<Rightarrow> map (\<lambda>v. ErrLine (''error: '' @ sh_show_validation sh v)) errors
      | _ \<Rightarrow> [ErrLine (''error: '' @ show_run_error sh e)])"

definition run_command :: "Shell \<Rightarrow> string \<Rightarrow> string \<Rightarrow> bool \<Rightarrow> World \<Rightarrow> (printed \<times> World) outcome option" where
  "run_command sh path output_root json w = (case read_experiment_bytes sh path of
     Inl lines \<Rightarrow> Some (Return (console sh (EXIT_INTERNAL, lines), w))
   | Inr content \<Rightarrow> map_option (\<lambda>r. chain r (\<lambda>(q, w'). Return (console sh (case q of
         Inr result \<Rightarrow> report_result sh json result
       | Inl e \<Rightarrow> report_run_error sh e), w')))
       (run_experiment ((sh_host sh)\<lparr>ho_output_root := output_root\<rparr>) content w))"

subsection \<open>Evidence\<close>

definition verify_command :: "Shell \<Rightarrow> string \<Rightarrow> printed outcome" where
  "verify_command sh bundle =
     chain (verify_evidence_bundle (sh_codecs sh) (sh_canonicalize sh) bundle) (\<lambda>verified. Return (console sh (case verified of
       Inr m \<Rightarrow> (EXIT_SUCCESS, [Out (''verified: run='' @ em_run_id m @ '' status='' @ run_state_as_str (em_run_status m)
         @ '' validity='' @ validity_as_str (em_validity_status m) @ '' experiment='' @ em_experiment_digest m
         @ '' plan='' @ em_resolved_plan_digest m)])
     | Inl e \<Rightarrow> (EXIT_FINALIZATION_FAILURE, [ErrLine (''error: '' @ sh_show_evidence sh e)]))))"

definition show_int :: "int \<Rightarrow> string" where
  "show_int i = (if i < 0 then ''-'' else ''+'') @ show_nat (nat \<bar>i\<bar>)"

definition print_metric :: "Shell \<Rightarrow> string \<Rightarrow> MetricComparison \<Rightarrow> Line" where
  "print_metric sh label metric = Out (label @ '': baseline='' @ show_word (mc_baseline metric)
     @ '' candidate='' @ show_word (mc_candidate metric) @ '' delta='' @ show_int (id_absolute_delta (mc_delta metric))
     @ '' ('' @ (case id_percentage_delta_milli_percent (mc_delta metric) of
         Some v \<Rightarrow> sh_milli_percent sh v | None \<Rightarrow> ''undefined'') @ '')'')"

definition print_distribution :: "Shell \<Rightarrow> string \<Rightarrow> DistributionComparison \<Rightarrow> Line list" where
  "print_distribution sh label d =
     [print_metric sh (label @ '' mean ('' @ micros @ '')'') (dc_mean d),
      print_metric sh (label @ '' p50 ('' @ micros @ '')'') (dc_p50 d),
      print_metric sh (label @ '' p95 ('' @ micros @ '')'') (dc_p95 d)]"

fun relationship_debug :: "EnvironmentRelationship \<Rightarrow> string" where
  "relationship_debug EnvSame = ''Same''"
| "relationship_debug EnvDifferent = ''Different''"
| "relationship_debug EnvUnknown = ''Unknown''"

definition print_environment :: "EnvironmentComparison list \<Rightarrow> Line list" where
  "print_environment environment = (let
       differences = filter (\<lambda>f. ev_relationship f \<noteq> EnvSame) environment
     in Out (''recorded environment differences/unknowns: '' @ show_nat (length differences))
       # map (\<lambda>f. Out (''  '' @ ev_field f @ '': baseline=''
           @ (case ev_baseline f of Some v \<Rightarrow> v | None \<Rightarrow> ''unknown'') @ '' candidate=''
           @ (case ev_candidate f of Some v \<Rightarrow> v | None \<Rightarrow> ''unknown'')
           @ '' ('' @ relationship_debug (ev_relationship f) @ '')'')) differences)"

definition print_resources :: "Shell \<Rightarrow> AttemptResourceComparison option \<Rightarrow> Line list" where
  "print_resources sh resources = (case resources of None \<Rightarrow> [] | Some r \<Rightarrow>
     [case ac_cpu_time_micros r of
        Some cpu \<Rightarrow> print_metric sh (''whole-helper CPU time ('' @ micros @ '')'') cpu
      | None \<Rightarrow> Out ''whole-helper CPU time: not comparable (missing resource evidence)'',
      case ac_peak_rss_bytes r of
        Some rss \<Rightarrow> print_metric sh ''whole-helper peak RSS (bytes)'' rss
      | None \<Rightarrow> Out ''whole-helper peak RSS: not comparable (missing resource evidence)''])"

definition join_comma :: "string list \<Rightarrow> string" where
  "join_comma xs = (if xs = [] then [] else hd xs @ concat (map (\<lambda>x. '', '' @ x) (tl xs)))"

definition print_human_comparison :: "Shell \<Rightarrow> EvidenceComparison \<Rightarrow> Line list outcome" where
  "print_human_comparison sh cmp = (let
       identity = (\<lambda>label b. Out (label @ '': '' @ bi_run_id b @ '' ('' @ bi_bundle_path b @ '')''));
       head = [identity ''baseline'' (ec_baseline cmp), identity ''candidate'' (ec_candidate cmp),
         Out (''measurement compatible: '' @ (if ec_compatible cmp then ''yes'' else ''no''))];
       note = Out (ec_interpretation cmp)
     in if \<not> ec_compatible cmp
        then Return (head @ [Out (''incompatible dimensions: '' @ join_comma (ec_incompatibilities cmp)), note])
        else chain (expect (ec_requests cmp)) (\<lambda>rq. chain (expect (ec_repetitions cmp)) (\<lambda>rp. Return
          (head @ print_environment (ec_environment cmp)
           @ [Out (''measured requests: baseline='' @ show_word (rq_baseline_count rq)
               @ '' candidate='' @ show_word (rq_candidate_count rq))]
           @ print_distribution sh ''request latency'' (rq_latency_micros rq)
           @ print_distribution sh ''request TTFT'' (rq_time_to_first_token_micros rq)
           @ [Out (''measured repetitions: baseline='' @ show_word (rp_baseline_count rp)
               @ '' candidate='' @ show_word (rp_candidate_count rp))]
           @ print_distribution sh ''repetition aggregate latency'' (rp_aggregate_latency_micros rp)
           @ print_distribution sh ''repetition aggregate TTFT'' (rp_aggregate_time_to_first_token_micros rp)
           @ [print_metric sh ''repetition mean throughput (mreq/s)''
               (rp_mean_throughput_milli_requests_per_second rp)]
           @ print_resources sh (ec_attempt_resources cmp) @ [note]))))"

definition report_comparison :: "Shell \<Rightarrow> bool \<Rightarrow> EvidenceComparison \<Rightarrow> printed outcome" where
  "report_comparison sh json cmp = (if json
     then Return (case sh_comparison_json sh cmp of Inr text \<Rightarrow> (EXIT_SUCCESS, [Out text]) | Inl e \<Rightarrow> internal_error e)
     else chain (print_human_comparison sh cmp) (\<lambda>lines. Return (EXIT_SUCCESS, lines)))"

definition compare_command :: "Shell \<Rightarrow> string \<Rightarrow> string \<Rightarrow> bool \<Rightarrow> printed outcome" where
  "compare_command sh baseline candidate json =
     chain (compare_evidence_bundles (sh_codecs sh) (sh_canonicalize sh) baseline candidate) (\<lambda>r.
     chain (case r of
         Inr cmp \<Rightarrow> report_comparison sh json cmp
       | Inl e \<Rightarrow> Return (EXIT_FINALIZATION_FAILURE, [ErrLine (''error: '' @ sh_show_comparison sh e)]))
       (\<lambda>p. Return (console sh p)))"

definition schema_command :: "Shell \<Rightarrow> printed" where
  "schema_command sh = console sh (case sh_schema sh of Inr text \<Rightarrow> (EXIT_SUCCESS, [Out text]) | Inl e \<Rightarrow> internal_error e)"

text \<open>Only \<open>run\<close> writes files; the other commands read theirs through \<open>sh_read\<close> and \<open>sh_canonicalize\<close>.\<close>

definition read_only :: "printed outcome \<Rightarrow> World \<Rightarrow> (printed \<times> World) outcome option" where
  "read_only p w = Some (chain p (\<lambda>q. Return (q, w)))"

definition execute :: "Shell \<Rightarrow> Command \<Rightarrow> World \<Rightarrow> (printed \<times> World) outcome option" where
  "execute sh command w = (case command of
     CmdValidate experiment \<Rightarrow> read_only (Return (validate_command sh experiment)) w
   | CmdResolve experiment \<Rightarrow> read_only (Return (resolve_command sh experiment)) w
   | CmdRun experiment output_root json \<Rightarrow> run_command sh experiment output_root json w
   | CmdSchema Export \<Rightarrow> read_only (Return (schema_command sh)) w
   | CmdEvidence (Verify bundle) \<Rightarrow> read_only (verify_command sh bundle) w
   | CmdEvidence (Compare baseline candidate json) \<Rightarrow> read_only (compare_command sh baseline candidate json) w)"

end
