(* ===== verification/CliFacts.thy ===== *)
theory CliFacts
  imports Cli
begin

text \<open>
  What the exit code of a command tells: of a run about the evidence, of the other commands about the
  document or the bundles.
\<close>

lemmas exit_defs = EXIT_SUCCESS_def EXIT_INTERNAL_def EXIT_REJECTED_def EXIT_INVALID_def
  EXIT_OPERATIONAL_FAILURE_def EXIT_FINALIZATION_FAILURE_def EXIT_PANIC_def

subsection \<open>The console\<close>

lemma console_cases: "console sh p = p \<or> fst (console sh p) = 101"
  by (auto simp: console_def Let_def EXIT_PANIC_def)

lemma console_result: "(code, lines) = console sh p \<Longrightarrow> code = 101 \<or> (code, lines) = p"
  using console_cases [of sh p] by (metis fst_conv)

lemma console_writable: "\<forall>n l. sh_writable sh n l \<Longrightarrow> console sh p = p"
proof -
  assume writable: "\<forall>n l. sh_writable sh n l"
  have "print_lines (sh_writable sh) n ls = ls" for n ls
    by (induction ls arbitrary: n) (simp_all add: writable)
  then show ?thesis by (simp add: console_def)
qed

subsection \<open>Comparisons\<close>

lemma print_human_comparison_total:
  assumes "compare_evidence_bundles c canonicalize b d = Return (Ok cmp)"
  obtains lines where "print_human_comparison sh cmp = Return lines"
proof -
  obtain v v' where "compare_verified v v' = Return (Ok cmp)"
    using assms by (auto simp: compare_evidence_bundles_def result_simps)
  then have "ec_compatible cmp \<longrightarrow> ec_requests cmp \<noteq> None \<and> ec_repetitions cmp \<noteq> None"
    by (auto simp: compare_verified_def compare_values_def Let_def result_simps split: sum.splits if_splits)
  then show thesis using that by (cases "ec_compatible cmp") (auto simp: print_human_comparison_def Let_def)
qed

lemma report_comparison_total:
  assumes "compare_evidence_bundles c canonicalize b d = Return (Ok cmp)"
  obtains code lines where "report_comparison sh json cmp = Return (code, lines)" "code \<in> {0, 1}"
proof -
  obtain lines where lines: "print_human_comparison sh cmp = Return lines"
    by (rule print_human_comparison_total [OF assms])
  show thesis
    using that lines by (cases json; cases "sh_comparison_json sh cmp")
      (simp_all add: report_comparison_def internal_error_def exit_defs)
qed

lemma compare_command_codes:
  assumes "\<forall>n l. sh_writable sh n l"
  shows "\<exists>v v' code lines. verify_evidence_bundle_data (sh_codecs sh) (sh_canonicalize sh) bp = Return v
    \<and> verify_evidence_bundle_data (sh_codecs sh) (sh_canonicalize sh) cp = Return v'
    \<and> compare_command sh bp cp json = Return (code, lines) \<and> code \<in> {0, 1, 5}
    \<and> (code \<noteq> 5 \<longleftrightarrow> (\<exists>b d. v = Ok b \<and> v' = Ok d \<and> em_run_id (vb_manifest b) \<noteq> em_run_id (vb_manifest d)
          \<and> is_ok (eligible_contract ''baseline'' b) \<and> is_ok (eligible_contract ''candidate'' d)))"
proof -
  let ?sound = "\<lambda>v v'. \<exists>b d. v = Ok b \<and> v' = Ok d \<and> em_run_id (vb_manifest b) \<noteq> em_run_id (vb_manifest d)
          \<and> is_ok (eligible_contract ''baseline'' b) \<and> is_ok (eligible_contract ''candidate'' d)"
  obtain v v' r where v: "verify_evidence_bundle_data (sh_codecs sh) (sh_canonicalize sh) bp = Return v"
      "verify_evidence_bundle_data (sh_codecs sh) (sh_canonicalize sh) cp = Return v'"
    and r: "compare_evidence_bundles (sh_codecs sh) (sh_canonicalize sh) bp cp = Return r" "is_ok r \<longleftrightarrow> ?sound v v'"
    using compare_evidence_bundles_returns by metis
  have "\<exists>code lines. compare_command sh bp cp json = Return (code, lines) \<and> code \<in> {0, 1, 5} \<and> (code \<noteq> 5 \<longleftrightarrow> is_ok r)"
  proof (cases r)
    case (Inl e)
    then show ?thesis using r(1) by (simp add: compare_command_def console_writable [OF assms] exit_defs)
  next
    case (Inr cmp)
    obtain code lines where "report_comparison sh json cmp = Return (code, lines)" "code \<in> {0, 1}"
      by (rule report_comparison_total) (use r(1) Inr in simp)
    then show ?thesis using r(1) Inr by (auto simp: compare_command_def console_writable [OF assms])
  qed
  then show ?thesis using v r(2) by metis
qed

lemma verify_command_codes:
  assumes "\<forall>n l. sh_writable sh n l"
  shows "\<exists>v lines. verify_evidence_bundle_data (sh_codecs sh) (sh_canonicalize sh) bundle = Return v
    \<and> verify_command sh bundle = Return (if is_ok v then 0 else 5, lines)"
proof -
  obtain v where v: "verify_evidence_bundle_data (sh_codecs sh) (sh_canonicalize sh) bundle = Return v"
    using verify_returns by metis
  then show ?thesis
    by (cases v) (simp_all add: verify_command_def verify_evidence_bundle_def console_writable [OF assms] exit_defs)
qed

subsection \<open>Documents\<close>

lemma cd_resolve_inadmissible:
  assumes "validate e = Err errors"
  shows "cd_resolve c e = Err (Validation errors)"
  using assms by (simp add: cd_resolve_def resolve_experiment_def)

lemma validate_accepts: "validate e = Ok () \<longleftrightarrow> admissible e"
  by (simp add: validate_Ok_iff validation_errors_empty_iff)

lemma resolve_validates: "cd_resolve c e = Ok plan \<Longrightarrow> validate e = Ok ()"
  unfolding validate_accepts cd_resolve_def resolve_Ok_iff by blast

lemma refused_document:
  assumes "\<forall>n l. sh_writable sh n l" and "fst (validate_command sh path) = 2"
  shows "resolve_command sh path = validate_command sh path"
    and "run_command sh path root json w = Some (Return (validate_command sh path, w))"
proof -
  note [simp] = console_writable [OF assms(1)]
  obtain content where content: "read_experiment_bytes sh path = Ok content"
    using assms(2) by (cases "read_experiment_bytes sh path") (auto simp: validate_command_def exit_defs)
  let ?run = "run_experiment ((sh_host sh)\<lparr>ho_output_root := root\<rparr>) content w"
  have "resolve_command sh path = validate_command sh path
    \<and> run_command sh path root json w = Some (Return (validate_command sh path, w))"
  proof (cases "parse_experiment (cd_yaml (sh_codecs sh)) content")
    case (Inl e)
    then have "?run = Some (Return (Err (Parse e), w))"
      by (simp add: run_experiment_def run_experiment_with_services_def)
    then show ?thesis using Inl content
      by (simp add: validate_command_def resolve_command_def run_command_def report_run_error_def rejected_error_def exit_defs)
  next
    case (Inr e)
    then obtain errors where errors: "validate e = Err errors"
      using assms(2) content by (cases "validate e") (auto simp: validate_command_def exit_defs)
    note refused = cd_resolve_inadmissible [OF errors]
    then have "?run = Some (Return (Err (RunResolution (Validation errors)), w))"
      using Inr by (simp add: run_experiment_def run_experiment_with_services_def)
    then show ?thesis using Inr content errors refused
      by (simp add: validate_command_def resolve_command_def run_command_def report_run_error_def exit_defs)
  qed
  then show "resolve_command sh path = validate_command sh path"
    "run_command sh path root json w = Some (Return (validate_command sh path, w))" by simp_all
qed

lemma accepted_document:
  assumes "\<forall>n l. sh_writable sh n l"
  shows "fst (validate_command sh path) = 0 \<longleftrightarrow> (\<exists>content e. sh_read sh path = Ok content
      \<and> parse_experiment (cd_yaml (sh_codecs sh)) content = Ok e \<and> admissible e)"
    and "fst (resolve_command sh path) = 0 \<Longrightarrow> fst (validate_command sh path) = 0"
proof -
  note [simp] = console_writable [OF assms]
  show "fst (validate_command sh path) = 0 \<longleftrightarrow> (\<exists>content e. sh_read sh path = Ok content
      \<and> parse_experiment (cd_yaml (sh_codecs sh)) content = Ok e \<and> admissible e)"
    by (auto simp: validate_command_def read_experiment_bytes_def rejected_error_def exit_defs map_err_def
        simp flip: validate_accepts split: sum.splits)
  show "fst (validate_command sh path) = 0" if "fst (resolve_command sh path) = 0"
    using that resolve_validates
    by (auto simp: validate_command_def resolve_command_def rejected_error_def internal_error_def exit_defs
        split: sum.splits ResolutionError.splits)
qed

text \<open>
  C7. What the other commands say, on a console that takes every line. \<open>validate\<close> exits with 0 exactly if
  the document can be read, parses and is admissible, and \<open>resolve\<close> exits with 0 only then. A document that
  \<open>validate\<close> refuses with code 2 is refused by \<open>resolve\<close> and by \<open>run\<close> with the same code and the same messages, and
  \<open>run\<close> changes nothing. \<open>verify\<close> exits with 0 exactly if the bundle verifies and with 5 otherwise; \<open>compare\<close> exits
  with 5 exactly if it has nothing to compare: one of the bundles does not verify, both are of the same run, or
  one is not eligible. Neither the verifier nor the printing of a comparison panics.
\<close>

theorem commands_agree:
  assumes "\<forall>n l. sh_writable sh n l"
  shows "(\<exists>code lines rcode rlines. execute sh (CmdValidate path) w = Some (Return ((code, lines), w))
      \<and> execute sh (CmdResolve path) w = Some (Return ((rcode, rlines), w))
      \<and> (code = 0 \<longleftrightarrow> (\<exists>content e. sh_read sh path = Ok content
          \<and> parse_experiment (cd_yaml (sh_codecs sh)) content = Ok e \<and> admissible e))
      \<and> (rcode = 0 \<longrightarrow> code = 0)
      \<and> (code = 2 \<longrightarrow> (rcode, rlines) = (code, lines)
          \<and> execute sh (CmdRun path root json) w = Some (Return ((code, lines), w))))
    \<and> (\<exists>v lines. verify_evidence_bundle_data (sh_codecs sh) (sh_canonicalize sh) bp = Return v
      \<and> execute sh (CmdEvidence (Verify bp)) w = Some (Return ((if is_ok v then 0 else 5, lines), w)))
    \<and> (\<exists>v v' code lines. verify_evidence_bundle_data (sh_codecs sh) (sh_canonicalize sh) bp = Return v
      \<and> verify_evidence_bundle_data (sh_codecs sh) (sh_canonicalize sh) cp = Return v'
      \<and> execute sh (CmdEvidence (Compare bp cp json)) w = Some (Return ((code, lines), w)) \<and> code \<in> {0, 1, 5}
      \<and> (code \<noteq> 5 \<longleftrightarrow> (\<exists>b d. v = Ok b \<and> v' = Ok d \<and> em_run_id (vb_manifest b) \<noteq> em_run_id (vb_manifest d)
          \<and> is_ok (eligible_contract ''baseline'' b) \<and> is_ok (eligible_contract ''candidate'' d))))"
proof (intro conjI)
  show "\<exists>code lines rcode rlines. execute sh (CmdValidate path) w = Some (Return ((code, lines), w))
      \<and> execute sh (CmdResolve path) w = Some (Return ((rcode, rlines), w))
      \<and> (code = 0 \<longleftrightarrow> (\<exists>content e. sh_read sh path = Ok content
          \<and> parse_experiment (cd_yaml (sh_codecs sh)) content = Ok e \<and> admissible e))
      \<and> (rcode = 0 \<longrightarrow> code = 0)
      \<and> (code = 2 \<longrightarrow> (rcode, rlines) = (code, lines)
          \<and> execute sh (CmdRun path root json) w = Some (Return ((code, lines), w)))"
    using accepted_document [OF assms, of path] refused_document [OF assms, of path]
    by (cases "validate_command sh path"; cases "resolve_command sh path") (simp add: execute_def read_only_def)
  show "\<exists>v lines. verify_evidence_bundle_data (sh_codecs sh) (sh_canonicalize sh) bp = Return v
      \<and> execute sh (CmdEvidence (Verify bp)) w = Some (Return ((if is_ok v then 0 else 5, lines), w))"
    using verify_command_codes [OF assms, of bp] by (auto simp: execute_def read_only_def)
  show "\<exists>v v' code lines. verify_evidence_bundle_data (sh_codecs sh) (sh_canonicalize sh) bp = Return v
      \<and> verify_evidence_bundle_data (sh_codecs sh) (sh_canonicalize sh) cp = Return v'
      \<and> execute sh (CmdEvidence (Compare bp cp json)) w = Some (Return ((code, lines), w)) \<and> code \<in> {0, 1, 5}
      \<and> (code \<noteq> 5 \<longleftrightarrow> (\<exists>b d. v = Ok b \<and> v' = Ok d \<and> em_run_id (vb_manifest b) \<noteq> em_run_id (vb_manifest d)
          \<and> is_ok (eligible_contract ''baseline'' b) \<and> is_ok (eligible_contract ''candidate'' d)))"
    using compare_command_codes [OF assms, of bp cp json] by (auto simp: execute_def read_only_def)
qed

subsection \<open>Runs\<close>

lemma run_error_codes:
  "fst (report_run_error sh e) = (if is_request_rejection e then 2 else if is_finalization_failure e then 5 else 1)"
  by (simp add: report_run_error_def exit_defs)

lemma result_codes: "result_exit_code result \<in> {0, 1, 3, 4}"
  by (auto simp: result_exit_code_def exit_defs split: RunState.splits ValidityStatus.splits)

lemma result_code_meaning:
  "result_exit_code r \<noteq> 1 \<Longrightarrow> (result_exit_code r = 0 \<longleftrightarrow> rs_run_state r = Succeeded \<and> rs_validity_status r = Valid)
     \<and> (result_exit_code r = 4 \<longleftrightarrow> rs_run_state r \<in> {Failed, Interrupted})"
  by (cases "rs_run_state r"; cases "rs_validity_status r") (simp_all add: result_exit_code_def exit_defs)

lemma report_codes: "fst (report_result sh json result) \<in> {0, 1, 3, 4}"
  using result_codes [of result] by (auto simp: report_result_def internal_error_def exit_defs split: sum.splits)

lemma run_command_cases:
  assumes "run_command sh path root json w = Some (Return (p, w'))"
  obtains (unread) "fst p \<in> {1, 101}" "w' = w"
  | (error) content e where "run_experiment ((sh_host sh)\<lparr>ho_output_root := root\<rparr>) content w = Some (Return (Err e, w'))"
      "p = console sh (report_run_error sh e)"
  | (result) content result where "sh_read sh path = Ok content"
      "run_experiment ((sh_host sh)\<lparr>ho_output_root := root\<rparr>) content w = Some (Return (Ok result, w'))"
      "p = console sh (report_result sh json result)"
proof (cases "read_experiment_bytes sh path")
  case (Inl lines)
  then show thesis
    using assms unread console_cases [of sh "(EXIT_INTERNAL, lines)"] by (auto simp: run_command_def exit_defs)
next
  case (Inr content)
  then obtain q where q: "run_experiment ((sh_host sh)\<lparr>ho_output_root := root\<rparr>) content w = Some (Return (q, w'))"
    "p = console sh (case q of Inr result \<Rightarrow> report_result sh json result | Inl e \<Rightarrow> report_run_error sh e)"
    using assms by (auto simp: run_command_def result_simps)
  moreover have "sh_read sh path = Ok content" using Inr by (simp add: read_experiment_bytes_def result_simps)
  ultimately show thesis using error result by (cases q) simp_all
qed

text \<open>
  C6. What the exit code of \<open>run\<close> says about the evidence. Codes 0, 3 and 4 are given only for a
  published bundle that passed verification under this run's identity, at a path that was free; 0 only if
  the run succeeded with valid measurements, 3 only if it succeeded without, 4 only if it failed or
  was interrupted. Code 2 means that nothing at all was changed, and 5 that nothing was published and the
  staging directory is kept.
\<close>

theorem run_exit_codes:
  assumes "run_command sh path root json w = Some (Return ((code, lines), w'))"
  shows "(code \<in> {0, 3, 4} \<longrightarrow> wd_final w = None \<and> (\<exists>content result es b. sh_read sh path = Ok content
      \<and> run_experiment ((sh_host sh)\<lparr>ho_output_root := root\<rparr>) content w = Some (Return (Ok result, w'))
      \<and> wd_final w' = Some (Dir es)
      \<and> verify_evidence_bundle_data (sh_codecs sh) (staged_bundle ((sh_host sh)\<lparr>ho_output_root := root\<rparr>) es)
          (staging_path ((sh_host sh)\<lparr>ho_output_root := root\<rparr>)) = Return (Ok b)
      \<and> em_run_id (vb_manifest b) = ho_run_id (sh_host sh)
      \<and> (code = 0 \<longleftrightarrow> rs_run_state result = Succeeded \<and> rs_validity_status result = Valid)
      \<and> (code = 4 \<longleftrightarrow> rs_run_state result \<in> {Failed, Interrupted})))
    \<and> (code = 2 \<longrightarrow> w' = w) \<and> (code = 5 \<longrightarrow> wd_final w' = wd_final w \<and> wd_staging w' \<noteq> None)"
  using assms
proof (cases rule: run_command_cases)
  case (error content e)
  then have "code = 101 \<or> code = (if is_request_rejection e then 2 else if is_finalization_failure e then 5 else 1)"
    using run_error_codes [of sh e] console_result [OF error(2)] by (metis fst_conv)
  then show ?thesis using failed_run [OF error(1)] by (auto split: if_splits)
next
  case (result content r)
  have console: "code = 101 \<or> (code, lines) = report_result sh json r"
    by (rule console_result [OF result(3)])
  have code: "code \<in> {0, 1, 3, 4, 101}" using report_codes [of sh json r] console by (cases "report_result sh json r") auto
  have "code = result_exit_code r" if "code \<noteq> 1" "code \<noteq> 101"
    using that console by (auto simp: report_result_def internal_error_def exit_defs split: if_splits sum.splits)
  then have "code \<in> {0, 3, 4} \<longrightarrow> (code = 0 \<longleftrightarrow> rs_run_state r = Succeeded \<and> rs_validity_status r = Valid)
      \<and> (code = 4 \<longleftrightarrow> rs_run_state r \<in> {Failed, Interrupted})"
    using result_code_meaning [of r] by auto
  moreover obtain es b where "wd_final w = None" "wd_final w' = Some (Dir es)"
    "verify_evidence_bundle_data (sh_codecs sh) (staged_bundle ((sh_host sh)\<lparr>ho_output_root := root\<rparr>) es)
      (staging_path ((sh_host sh)\<lparr>ho_output_root := root\<rparr>)) = Return (Ok b)" "em_run_id (vb_manifest b) = ho_run_id (sh_host sh)"
    using published_bundle_verified [OF result(2)] by auto
  moreover have "code \<noteq> 2" "code \<noteq> 5" using code by auto
  ultimately show ?thesis using result(1,2) by metis
qed auto

end
