(* ===== verification/SampleRun.thy ===== *)
theory SampleRun
  imports CliFacts
begin

text \<open>
  A concrete host with the readers of the sample bundle, on which the properties of runs and of the
  \<open>run\<close> command are evaluated: from its fourth I/O operation on, every operation fails.
\<close>

definition sample_writers :: Writers where
  "sample_writers = \<lparr>wr_plan = (\<lambda>_. Ok ''p''), wr_run = (\<lambda>_. Ok ''r''), wr_attempt = (\<lambda>_. Ok ''a''),
     wr_provenance = (\<lambda>_. Ok ''q''), wr_resources = (\<lambda>_. Ok ''u''), wr_validity = (\<lambda>_. Ok ''v''),
     wr_summary = (\<lambda>_. Ok ''s''), wr_manifest = (\<lambda>_. Ok ''m''), wr_event = (\<lambda>_. Ok ''e''),
     wr_measurement = (\<lambda>_. Ok ''m1'')\<rparr>"

definition no_child :: "string \<Rightarrow> system" where
  "no_child executable arguments = \<lparr>en_spawn = Err ENOENT, en_started = 0, en_polls = [], en_nohang = Ok None,
     en_blocking = (\<lambda>_. Some (Ok None)), en_child_wait = (\<lambda>_. True), en_stdout_joined = (\<lambda>_. True),
     en_stderr = (\<lambda>_. Some [])\<rparr>"

definition full_disk :: "nat \<Rightarrow> Fault option" where
  "full_disk n = (if n < 3 then None else Some (Fault ''No space left on device (os error 28)'' None))"

definition failing_host :: Host where
  "failing_host = \<lparr>ho_clock = (\<lambda>_. ''t''), ho_run_id = sample_run_id, ho_hook = noop_hook, ho_fault = full_disk,
     ho_output_root = ''out'', ho_canonical_root = [''out''], ho_codecs = sample_codecs, ho_writers = sample_writers,
     ho_platform = bare_platform, ho_current_exe = None, ho_cpu_probe_executable = None,
     ho_llama_cpp_executable = None, ho_llama_cpp_cuda_executable = None, ho_cuda_package = False,
     ho_spawn = no_child, ho_show_status = (\<lambda>_. []), ho_read_record = read_sample,
     ho_read_metadata = (\<lambda>_. Err ''absent''), ho_show_error = (\<lambda>_. ''error'')\<rparr>"

definition empty_world :: World where
  "empty_world = \<lparr>wd_staging = None, wd_final = None, wd_io = 0, wd_ticks = 0\<rparr>"

definition failing_shell :: Shell where
  "failing_shell = \<lparr>sh_writable = (\<lambda>_ _. True), sh_read = (\<lambda>_. Ok ''x''), sh_host = failing_host, sh_canonicalize = at_root sample_bundle,
     sh_schema = Ok ''{}'', sh_plan_json = (\<lambda>_. Ok ''{}''), sh_result_json = (\<lambda>_. Ok ''{}''),
     sh_comparison_json = (\<lambda>_. Ok ''{}''), sh_show_parse = (\<lambda>_. ''parse''), sh_show_validation = (\<lambda>_. ''validation''),
     sh_show_evidence = (\<lambda>_. ''evidence''), sh_show_comparison = (\<lambda>_. ''comparison''), 
     sh_show_lifecycle = (\<lambda>_. ''lifecycle''),
     sh_milli_percent = (\<lambda>_. ''0'')\<rparr>"

lemma sample_document: "parse_experiment (cd_yaml sample_codecs) ''x'' = Ok minimal_local_fake"
  by (simp add: parse_experiment_def from_utf8_def is_utf8_char_def byte_of_def sample_codecs_def)

lemma execution_kind_sample: "\<exists>kind. execution_kind cuda sample_plan = Ok kind"
  by (simp add: execution_kind_def sample_plan_simps Let_def)

text \<open>The run is allocated, its first write fails, and so does recording the failure.\<close>

lemma failing_run:
  "run_experiment (failing_host\<lparr>ho_output_root := root\<rparr>) ''x'' empty_world = Some (Return (Err (Allocated sample_run_id ''initializing''
     (staging_path (failing_host\<lparr>ho_output_root := root\<rparr>)) (Io (staged (failing_host\<lparr>ho_output_root := root\<rparr>) attempt_directory)
       ''No space left on device (os error 28)'')),
     \<lparr>wd_staging = Some (Dir []), wd_final = None, wd_io = 6, wd_ticks = 2\<rparr>))"
proof -
  obtain kind where k: "execution_kind False sample_plan = Ok kind" using execution_kind_sample by blast
  show ?thesis
    by (simp add: run_experiment_def run_experiment_with_services_def failing_host_def sample_document sample_resolves k
      allocate_def fs_then_def create_parent_directory_def create_new_directory_def system_call_def full_disk_def empty_world_def
      start_session_def Let_def lifecycle_new_def allocated_run_def initialize_def and_step_def at_phase_def with_world_def
      create_directory_def settle_def persist_allocated_failure_def now_def write_json_atomic_def json_bytes_def
      sample_writers_def write_bytes_def no_partial_def staged_def staging_path_def)
qed

theorem failed_run_publishes_nothing_witness:
  "wd_final (\<lparr>wd_staging = Some (Dir []), wd_final = None, wd_io = 6, wd_ticks = 2\<rparr> :: World) = wd_final empty_world
   \<and> is_finalization_failure (Allocated sample_run_id ''initializing'' (staging_path failing_host)
       (Io (staged failing_host attempt_directory) ''No space left on device (os error 28)''))"
proof -
  have "failing_host\<lparr>ho_output_root := ''out''\<rparr> = failing_host" by (simp add: failing_host_def)
  then show ?thesis using failed_run_publishes_nothing [OF failing_run [of "''out''"]] by simp
qed

lemma failing_writable: "\<forall>n l. sh_writable failing_shell n l"
  by (simp add: failing_shell_def)

theorem run_exit_codes_witness:
  "\<exists>lines w'. run_command failing_shell ''x.yaml'' ''out'' True empty_world = Some (Return ((5, lines), w'))
     \<and> wd_final w' = wd_final empty_world \<and> wd_staging w' \<noteq> None"
proof -
  have "sh_host failing_shell = failing_host" "sh_read failing_shell ''x.yaml'' = Ok ''x''"
    by (simp_all add: failing_shell_def)
  then obtain lines w' where r: "run_command failing_shell ''x.yaml'' ''out'' True empty_world = Some (Return ((5, lines), w'))"
    by (simp add: run_command_def read_experiment_bytes_def failing_run report_run_error_def exit_defs
        console_writable [OF failing_writable])
  from run_exit_codes [OF this] r show ?thesis by auto
qed

text \<open>The sample document is valid, the sample bundle verifies, and it is not compared with itself.\<close>

theorem commands_agree_witness:
  "(\<exists>lines. execute failing_shell (CmdValidate ''x.yaml'') empty_world = Some (Return ((0, lines), empty_world)))
   \<and> (\<exists>lines. execute failing_shell (CmdEvidence (Verify ''b'')) empty_world = Some (Return ((0, lines), empty_world)))
   \<and> (\<exists>lines. execute failing_shell (CmdEvidence (Compare ''b'' ''b'' True)) empty_world = Some (Return ((5, lines), empty_world)))"
proof -
  have shell: "sh_codecs failing_shell = sample_codecs" "sh_canonicalize failing_shell = at_root sample_bundle"
    "sh_read failing_shell ''x.yaml'' = Ok ''x''"
    by (simp_all add: failing_shell_def failing_host_def)
  note agree = commands_agree [OF failing_writable, of "''x.yaml''" empty_world _ _ "''b''" "''b''",
      unfolded shell sample_verifies]
  have "\<exists>lines. execute failing_shell (CmdValidate ''x.yaml'') empty_world = Some (Return ((0, lines), empty_world))"
    using agree [THEN conjunct1] sample_document local_fake_admissible by auto
  moreover have "\<exists>lines. execute failing_shell (CmdEvidence (Verify ''b'')) empty_world = Some (Return ((0, lines), empty_world))"
    using agree [THEN conjunct2, THEN conjunct1] by auto
  moreover have "\<exists>lines. execute failing_shell (CmdEvidence (Compare ''b'' ''b'' True)) empty_world
      = Some (Return ((5, lines), empty_world))"
    using agree [where json = True, THEN conjunct2, THEN conjunct2] by auto
  ultimately show ?thesis by blast
qed

end
