(* ===== verification/RunSteps.thy ===== *)
theory RunSteps
  imports RunFacts
begin

text \<open>
  The steps of a run on a host where no operation fails: what each leaves in the staging directory.
\<close>

definition quiet :: "Host \<Rightarrow> bool" where "quiet h \<longleftrightarrow> (\<forall>n. ho_fault h n = None)"

subsection \<open>Entries\<close>

lemma map_other: "k \<notin> fst ` set es \<Longrightarrow> map (\<lambda>(j, v). if j = k then (j, n) else (j, v)) es = es"
  by (induction es) auto

lemma set_entry_Cons: "set_entry k n ((k', n') # es) = (if k = k' then (k, n) # map (\<lambda>(j, v). if j = k then (j, n) else (j, v)) es
    else (k', n') # set_entry k n es)"
  by (auto simp: set_entry_def)

lemma set_entry_fresh: "k \<notin> fst ` set es \<Longrightarrow> set_entry k n es = es @ [(k, n)]"
  by (simp add: set_entry_def)

lemma remove_fresh: "k \<notin> fst ` set es \<Longrightarrow> remove_entry k (es @ [(k, n)]) = es"
  by (induction es) (auto simp: remove_entry_def)

definition files_only :: "entries \<Rightarrow> bool" where
  "files_only es \<longleftrightarrow> (\<forall>(k, n) \<in> set es. \<exists>c. n = FileNode c)"

definition not_dir :: "string \<Rightarrow> entries \<Rightarrow> bool" where
  "not_dir k es \<longleftrightarrow> (\<forall>sub. map_of es k \<noteq> Some (Dir sub))"

lemma files_only_not_dir: "files_only es \<Longrightarrow> not_dir k es"
  by (auto simp: files_only_def not_dir_def dest!: map_of_SomeD)

lemma put_file_ok: "not_dir k es \<Longrightarrow> put_file k c es = Ok (set_entry k (FileNode c) es)"
  by (auto simp: put_file_def not_dir_def split: option.splits node.splits)

lemma rename_tmp_ok:
  assumes "k' \<notin> fst ` set es" and "k \<noteq> k'" and "not_dir k es"
  shows "rename_file k' k (set_entry k' n es) = Ok (set_entry k n es)"
proof -
  have "map_of (es @ [(k', n)]) k' = Some n" using assms(1) by (simp add: map_add_def map_of_eq_None_iff [symmetric])
  moreover have "map_of (es @ [(k', n)]) k = map_of es k" using assms(2) by (simp add: map_add_def split: option.splits)
  ultimately show ?thesis
    using assms(3) by (auto simp: rename_file_def set_entry_fresh [OF assms(1)] remove_fresh [OF assms(1)] not_dir_def
        split: option.splits node.splits)
qed

lemma append_file_ok:
  "map_of es k = Some (FileNode old) \<Longrightarrow> append_file k c es = Ok (set_entry k (FileNode (old @ c)) es)"
  by (simp add: append_file_def)

subsection \<open>The staging directory\<close>

definition stage :: "entries \<Rightarrow> entries \<Rightarrow> node" where
  "stage a r = Dir ((''attempts'', Dir [(''0001'', Dir a)]) # r)"

definition at_stage :: "entries \<Rightarrow> entries \<Rightarrow> World \<Rightarrow> bool" where
  "at_stage a r w \<longleftrightarrow> wd_staging w = Some (stage a r) \<and> wd_final w = None \<and> ''attempts'' \<notin> fst ` set r"

text \<open>A change of the entries of one directory that leaves \<open>attempts\<close> alone.\<close>

lemma update_root:
  "f ((''attempts'', Dir [(''0001'', Dir a)]) # r) = Ok ((''attempts'', Dir [(''0001'', Dir a)]) # r') \<Longrightarrow>
   update_dir [] f (stage a r) = Ok (stage a r')"
  by (simp add: update_dir.simps stage_def)

lemma update_attempt:
  "''attempts'' \<notin> fst ` set r \<Longrightarrow> f a = Ok a' \<Longrightarrow> update_dir attempt_directory f (stage a r) = Ok (stage a' r)"
  by (auto simp: update_dir.simps [of "''attempts'' # _"] update_dir.simps [of "[''0001'']"] update_dir.simps [of "[]"]
      attempt_directory_def stage_def set_entry_def map_other)

lemma quiet_call:
  assumes "quiet h" and "at_stage a r w" and "update_dir cs g (stage a r) = Ok (stage a' r')"
    and "''attempts'' \<notin> fst ` set r'"
  obtains w' where "system_call h path (on_staging (update_dir cs g)) partial w = (Ok (), w')" "at_stage a' r' w'"
  using assms by (auto simp: quiet_def at_stage_def system_call_def on_staging_def)

lemma fst_set_entry: "fst ` set (set_entry k n es) = insert k (fst ` set es)"
  by (force simp: set_entry_def)

lemma at_stage_names: "at_stage a r w \<Longrightarrow> ''attempts'' \<notin> fst ` set r"
  by (simp add: at_stage_def)

lemma write_bytes_root:
  assumes "quiet h" "at_stage a r w" "k \<noteq> ''attempts''" "not_dir k r"
  obtains w' where "write_bytes h [] k c w = (Ok (), w')" "at_stage a (set_entry k (FileNode c) r) w'"
proof -
  have "not_dir k ((''attempts'', Dir [(''0001'', Dir a)]) # r)" using assms(3,4) by (simp add: not_dir_def)
  then have "update_dir [] (put_file k c) (stage a r) = Ok (stage a (set_entry k (FileNode c) r))"
    using assms(3) by (intro update_root) (simp add: put_file_ok set_entry_Cons)
  moreover have "''attempts'' \<notin> fst ` set (set_entry k (FileNode c) r)"
    using assms(2,3) by (simp add: at_stage_def fst_set_entry)
  ultimately show thesis using quiet_call [OF assms(1,2)] that unfolding write_bytes_def by metis
qed

lemma write_bytes_attempt:
  assumes "quiet h" "at_stage a r w" "not_dir k a"
  obtains w' where "write_bytes h attempt_directory k c w = (Ok (), w')" "at_stage (set_entry k (FileNode c) a) r w'"
  using quiet_call [OF assms(1,2) update_attempt [OF at_stage_names [OF assms(2)], of "put_file k c"]
      at_stage_names [OF assms(2)]] put_file_ok [OF assms(3)] that
  unfolding write_bytes_def by metis

lemma write_json_root:
  assumes "quiet h" "at_stage a r w" "k \<noteq> ''attempts''" "k @ ''.tmp'' \<noteq> ''attempts''" "files_only r"
    "k @ ''.tmp'' \<notin> fst ` set r" "ser v = Ok c"
  obtains w' where "write_json_atomic h [] k ser v name w = (Ok (), w')"
    "at_stage a (set_entry k (FileNode (c @ [CHR 0x0A])) r) w'"
proof -
  let ?t = "k @ ''.tmp''" and ?n = "FileNode (c @ [CHR 0x0A])"
  obtain w1 where w1: "write_bytes h [] ?t (c @ [CHR 0x0A]) w = (Ok (), w1)" "at_stage a (set_entry ?t ?n r) w1"
    by (rule write_bytes_root [OF assms(1,2,4) files_only_not_dir [OF assms(5)]])
  let ?a = "(''attempts'', Dir [(''0001'', Dir a)])"
  have "rename_file ?t k (set_entry ?t ?n (?a # r)) = Ok (set_entry k ?n (?a # r))"
    using assms(3,4,6) files_only_not_dir [OF assms(5), of k] by (intro rename_tmp_ok) (auto simp: not_dir_def)
  then have "update_dir [] (rename_file ?t k) (stage a (set_entry ?t ?n r)) = Ok (stage a (set_entry k ?n r))"
    using assms(3,4) by (intro update_root) (simp add: set_entry_Cons)
  moreover have "''attempts'' \<notin> fst ` set (set_entry k ?n r)"
    using assms(2,3) by (simp add: at_stage_def fst_set_entry)
  ultimately obtain w2 where "system_call h (staged h ([] @ [k])) (on_staging (update_dir [] (rename_file ?t k))) no_partial w1 = (Ok (), w2)"
    "at_stage a (set_entry k ?n r) w2" using quiet_call [OF assms(1) w1(2)] by metis
  then show thesis using that w1(1) assms(7) by (simp add: write_json_atomic_def json_bytes_def fs_then_def)
qed

lemma write_json_attempt:
  assumes "quiet h" "at_stage a r w" "files_only a" "k @ ''.tmp'' \<notin> fst ` set a" "ser v = Ok c"
  obtains w' where "write_json_atomic h attempt_directory k ser v name w = (Ok (), w')"
    "at_stage (set_entry k (FileNode (c @ [CHR 0x0A])) a) r w'"
proof -
  let ?t = "k @ ''.tmp''" and ?n = "FileNode (c @ [CHR 0x0A])"
  obtain w1 where w1: "write_bytes h attempt_directory ?t (c @ [CHR 0x0A]) w = (Ok (), w1)" "at_stage (set_entry ?t ?n a) r w1"
    by (rule write_bytes_attempt [OF assms(1,2) files_only_not_dir [OF assms(3)]])
  have "rename_file ?t k (set_entry ?t ?n a) = Ok (set_entry k ?n a)"
    using assms(4) files_only_not_dir [OF assms(3), of k] by (intro rename_tmp_ok) auto
  then have "update_dir attempt_directory (rename_file ?t k) (stage (set_entry ?t ?n a) r) = Ok (stage (set_entry k ?n a) r)"
    by (rule update_attempt [OF at_stage_names [OF assms(2)]])
  then obtain w2 where "system_call h (staged h (attempt_directory @ [k])) (on_staging (update_dir attempt_directory (rename_file ?t k)))
      no_partial w1 = (Ok (), w2)" "at_stage (set_entry k ?n a) r w2"
    using quiet_call [OF assms(1) w1(2) _ at_stage_names [OF assms(2)]] by metis
  then show thesis using that w1(1) assms(5) by (simp add: write_json_atomic_def json_bytes_def fs_then_def)
qed

lemma set_entry_same: "map_of es k = Some n \<Longrightarrow> distinct (map fst es) \<Longrightarrow> set_entry k n es = es"
  by (induction es) (auto simp: set_entry_Cons map_other dest: map_of_SomeD split: if_splits)

lemma append_root:
  assumes "quiet h" "at_stage a r w" "k \<noteq> ''attempts''" "map_of r k = Some (FileNode old)" "distinct (map fst r)" "ser v = Ok c"
  obtains w' where "append_json_line h [] k ser v name w = (Ok (), w')"
    "at_stage a (set_entry k (FileNode (old @ c @ [CHR 0x0A])) r) w'"
proof -
  have app: "update_dir [] (append_file k b) (stage a r) = Ok (stage a (set_entry k (FileNode (old @ b)) r))" for b
    using assms(3,4) by (intro update_root) (simp add: append_file_ok [of _ _ old] set_entry_Cons)
  have "set_entry k (FileNode (old @ [])) r = r" using set_entry_same [OF assms(4,5)] by simp
  then have "update_dir [] (append_file k []) (stage a r) = Ok (stage a r)" using app [of "[]"] by simp
  from quiet_call [OF assms(1,2) this at_stage_names [OF assms(2)]] obtain w1 where
    w1: "system_call h (staged h ([] @ [k])) (on_staging (update_dir [] (append_file k []))) no_partial w = (Ok (), w1)" "at_stage a r w1"
    by metis
  have "''attempts'' \<notin> fst ` set (set_entry k (FileNode (old @ c @ [CHR 0x0A])) r)"
    using assms(2,3) by (simp add: at_stage_def fst_set_entry)
  from quiet_call [OF assms(1) w1(2) app [of "c @ [CHR 0x0A]"] this] obtain w2 where
    "system_call h (staged h ([] @ [k])) (on_staging (update_dir [] (append_file k (c @ [CHR 0x0A]))))
      (\<lambda>i. on_staging (update_dir [] (append_file k (take i (c @ [CHR 0x0A]))))) w1 = (Ok (), w2)"
    "at_stage a (set_entry k (FileNode (old @ c @ [CHR 0x0A])) r) w2" by metis
  then show thesis using that w1(1) assms(6) by (simp add: append_json_line_def fs_then_def)
qed

lemma append_attempt:
  assumes "quiet h" "at_stage a r w" "map_of a k = Some (FileNode old)" "distinct (map fst a)" "ser v = Ok c"
  obtains w' where "append_json_line h attempt_directory k ser v name w = (Ok (), w')"
    "at_stage (set_entry k (FileNode (old @ c @ [CHR 0x0A])) a) r w'"
proof -
  note names = at_stage_names [OF assms(2)]
  have app: "update_dir attempt_directory (append_file k b) (stage a r) = Ok (stage (set_entry k (FileNode (old @ b)) a) r)" for b
    using assms(3) by (intro update_attempt names) (simp add: append_file_ok [of _ _ old])
  have "set_entry k (FileNode (old @ [])) a = a" using set_entry_same [OF assms(3,4)] by simp
  then have "update_dir attempt_directory (append_file k []) (stage a r) = Ok (stage a r)" using app [of "[]"] by simp
  from quiet_call [OF assms(1,2) this names] obtain w1 where
    w1: "system_call h (staged h (attempt_directory @ [k])) (on_staging (update_dir attempt_directory (append_file k []))) no_partial w
      = (Ok (), w1)" "at_stage a r w1" by metis
  from quiet_call [OF assms(1) w1(2) app [of "c @ [CHR 0x0A]"] names] obtain w2 where
    "system_call h (staged h (attempt_directory @ [k])) (on_staging (update_dir attempt_directory (append_file k (c @ [CHR 0x0A]))))
      (\<lambda>i. on_staging (update_dir attempt_directory (append_file k (take i (c @ [CHR 0x0A]))))) w1 = (Ok (), w2)"
    "at_stage (set_entry k (FileNode (old @ c @ [CHR 0x0A])) a) r w2" by metis
  then show thesis using that w1(1) assms(5) by (simp add: append_json_line_def fs_then_def)
qed

end
