(* ===== verification/RunSuccess.thy ===== *)
theory RunSuccess
  imports RunSteps
begin

text \<open>
  A run on a host where no operation fails and the readers of records invert the writers: it
  passes its own verification and is published.
\<close>

subsection \<open>The records of a run\<close>

definition own_run :: "Host \<Rightarrow> ResolvedExperiment \<Rightarrow> RunState \<Rightarrow> RunRecord \<Rightarrow> bool" where
  "own_run h plan st v \<longleftrightarrow> rr_run_id v = ho_run_id h \<and> rr_run_status v = st \<and> rr_attempt_count v = 1
     \<and> rr_experiment_digest v = re_experiment_digest plan \<and> rr_resolved_plan_digest v = re_resolved_plan_digest plan"

definition own_attempt :: "Host \<Rightarrow> AttemptStatus \<Rightarrow> AttemptRecord \<Rightarrow> bool" where
  "own_attempt h st v \<longleftrightarrow> ar_run_id v = ho_run_id h \<and> ar_attempt_number v = 1 \<and> ar_status v = st"

definition own_event :: "Host \<Rightarrow> LifecycleEvent \<Rightarrow> bool" where
  "own_event h v \<longleftrightarrow> le_run_id v = ho_run_id h \<and> le_attempt_number v = 1"

definition run_bytes :: "Host \<Rightarrow> ResolvedExperiment \<Rightarrow> RunState \<Rightarrow> bytes \<Rightarrow> bool" where
  "run_bytes h plan st b \<longleftrightarrow> length b \<le> MAX_IDENTITY_RECORD_BYTES
     \<and> (\<exists>v. cd_run (ho_codecs h) b = Ok v \<and> own_run h plan st v)"

definition attempt_bytes :: "Host \<Rightarrow> AttemptStatus \<Rightarrow> bytes \<Rightarrow> bool" where
  "attempt_bytes h st b \<longleftrightarrow> length b \<le> MAX_IDENTITY_RECORD_BYTES
     \<and> (\<exists>v. cd_attempt (ho_codecs h) b = Ok v \<and> own_attempt h st v)"

definition event_line :: "Host \<Rightarrow> bytes \<Rightarrow> bool" where
  "event_line h l \<longleftrightarrow> l \<noteq> [] \<and> CHR 0x0A \<notin> set l \<and> length l < 4096
     \<and> (\<exists>v. cd_event (ho_codecs h) l = Ok v \<and> own_event h v)"

definition journal_bytes :: "Host \<Rightarrow> nat \<Rightarrow> bytes \<Rightarrow> bool" where
  "journal_bytes h n b \<longleftrightarrow> (\<exists>lines. b = concat (map (\<lambda>l. l @ [CHR 0x0A]) lines) \<and> length lines = n
     \<and> (\<forall>l \<in> set lines. event_line h l))"

text \<open>
  What the run relies on for the records it writes repeatedly: the writer succeeds on every record of
  this run, and the reader gives back the fields that verification compares.
\<close>

definition snapshots_read_back :: "Host \<Rightarrow> ResolvedExperiment \<Rightarrow> bool" where
  "snapshots_read_back h plan \<longleftrightarrow>
     (\<forall>st v. own_run h plan st v \<longrightarrow> (\<exists>c. wr_run (ho_writers h) v = Ok c \<and> run_bytes h plan st (c @ [CHR 0x0A])))
   \<and> (\<forall>st v. own_attempt h st v \<longrightarrow> (\<exists>c. wr_attempt (ho_writers h) v = Ok c \<and> attempt_bytes h st (c @ [CHR 0x0A])))
   \<and> (\<forall>v. own_event h v \<longrightarrow> (\<exists>c. wr_event (ho_writers h) v = Ok c \<and> event_line h c))"

lemma snapshot_writers:
  assumes "snapshots_read_back h plan"
  shows "own_run h plan st v \<Longrightarrow> \<exists>c. wr_run (ho_writers h) v = Ok c \<and> run_bytes h plan st (c @ [CHR 0x0A])"
    "own_attempt h ast u \<Longrightarrow> \<exists>c. wr_attempt (ho_writers h) u = Ok c \<and> attempt_bytes h ast (c @ [CHR 0x0A])"
    "own_event h e \<Longrightarrow> \<exists>c. wr_event (ho_writers h) e = Ok c \<and> event_line h c"
  using assms unfolding snapshots_read_back_def by blast+

lemma journal_snoc: "journal_bytes h n b \<Longrightarrow> event_line h c \<Longrightarrow> journal_bytes h (Suc n) (b @ c @ [CHR 0x0A])"
  unfolding journal_bytes_def by (elim exE) (rule_tac x = "lines @ [c]" in exI, auto)

lemma journal_Nil: "journal_bytes h 0 []"
  by (simp add: journal_bytes_def)

subsection \<open>The state between two steps\<close>

definition root_files :: "bytes \<Rightarrow> bytes \<Rightarrow> bytes \<Rightarrow> bytes \<Rightarrow> entries" where
  "root_files bs p ev run = [(''experiment.yaml'', FileNode bs), (''resolved-plan.json'', FileNode p),
     (''events.jsonl'', FileNode ev), (''run.json'', FileNode run)]"

definition attempt_files :: "bytes \<Rightarrow> bytes \<Rightarrow> entries \<Rightarrow> entries" where
  "attempt_files ms att rest = [(''measurements.jsonl'', FileNode ms), (''attempt.json'', FileNode att)] @ rest"

record Stage =
  sg_document :: bytes
  sg_plan :: bytes
  sg_state :: RunState
  sg_attempt :: AttemptStatus
  sg_events :: nat
  sg_measurements :: bytes
  sg_rest :: entries

definition in_stage :: "Host \<Rightarrow> ResolvedExperiment \<Rightarrow> Stage \<Rightarrow> Session \<Rightarrow> bool" where
  "in_stage h plan g s \<longleftrightarrow> lf_state (se_lifecycle s) = sg_state g \<and> lf_run_id (se_lifecycle s) = ho_run_id h
     \<and> lf_attempt_number (se_lifecycle s) = 1 \<and> own_run h plan (sg_state g) (se_run s)
     \<and> own_attempt h (sg_attempt g) (se_attempt s)
     \<and> (\<exists>ev run att. journal_bytes h (sg_events g) ev \<and> run_bytes h plan (sg_state g) run \<and> attempt_bytes h (sg_attempt g) att
         \<and> at_stage (attempt_files (sg_measurements g) att (sg_rest g)) (root_files (sg_document g) (sg_plan g) ev run) (se_world s))"

lemma root_files_facts:
  "files_only (root_files bs p ev run)" "distinct (map fst (root_files bs p ev run))"
  "map_of (root_files bs p ev run) ''events.jsonl'' = Some (FileNode ev)"
  "set_entry ''events.jsonl'' (FileNode ev') (root_files bs p ev run) = root_files bs p ev' run"
  "set_entry ''run.json'' (FileNode run') (root_files bs p ev run) = root_files bs p ev run'"
  "''run.json.tmp'' \<notin> fst ` set (root_files bs p ev run)"
  by (simp_all add: root_files_def files_only_def set_entry_def)

text \<open>The rest of the attempt directory holds no file the steps write again.\<close>

definition plain_rest :: "entries \<Rightarrow> bool" where
  "plain_rest rest \<longleftrightarrow> files_only rest \<and> distinct (map fst rest)
     \<and> fst ` set rest \<inter> {''measurements.jsonl'', ''attempt.json'', ''attempt.json.tmp''} = {}"

lemma attempt_files_facts:
  assumes "plain_rest rest"
  shows "files_only (attempt_files ms att rest)" "distinct (map fst (attempt_files ms att rest))"
    "map_of (attempt_files ms att rest) ''measurements.jsonl'' = Some (FileNode ms)"
    "set_entry ''measurements.jsonl'' (FileNode ms') (attempt_files ms att rest) = attempt_files ms' att rest"
    "set_entry ''attempt.json'' (FileNode att') (attempt_files ms att rest) = attempt_files ms att' rest"
    "''attempt.json.tmp'' \<notin> fst ` set (attempt_files ms att rest)"
  using assms by (auto simp: attempt_files_def plain_rest_def files_only_def set_entry_Cons map_other)

lemma at_stage_ticks [simp]: "at_stage a r (w\<lparr>wd_ticks := t\<rparr>) = at_stage a r w"
  by (simp add: at_stage_def)

lemma persist_run_quiet:
  assumes "quiet h" and "snapshots_read_back h plan" and "in_stage h plan g s" and "is_valid_transition (sg_state g) to"
  obtains s' where "persist_run_transition h to cause s = (Ok (), s')"
    "in_stage h plan (g\<lparr>sg_state := to, sg_events := Suc (sg_events g)\<rparr>) s'"
proof -
  let ?t = "ho_clock h (wd_ticks (se_world s))"
  let ?s1 = "s\<lparr>se_world := (se_world s)\<lparr>wd_ticks := wd_ticks (se_world s) + 1\<rparr>\<rparr>"
  let ?lc = "(se_lifecycle s)\<lparr>lf_state := to, lf_next_sequence := lf_next_sequence (se_lifecycle s) + 1\<rparr>"
  obtain ev run att where st: "journal_bytes h (sg_events g) ev" "attempt_bytes h (sg_attempt g) att"
      "at_stage (attempt_files (sg_measurements g) att (sg_rest g)) (root_files (sg_document g) (sg_plan g) ev run) (se_world ?s1)"
    using assms(3) by (auto simp: in_stage_def)
  define event where "event = \<lparr>le_run_id = lf_run_id (se_lifecycle s), le_sequence = lf_next_sequence (se_lifecycle s),
    le_recorded_at = ?t, le_from_state = Some (lf_state (se_lifecycle s)), le_to_state = to,
    le_attempt_number = lf_attempt_number (se_lifecycle s), le_failure = cause\<rparr>"
  have tr: "transition (se_lifecycle s) to ?t cause = (Ok event, ?lc)"
    using assms(3,4) by (simp add: transition_def in_stage_def event_def)
  have "own_event h event" using assms(3) by (simp add: own_event_def in_stage_def event_def)
  then obtain ec where ec: "wr_event (ho_writers h) event = Ok ec" "event_line h ec"
    using snapshot_writers [OF assms(2)] by blast
  obtain w1 where w1: "append_json_line h [] ''events.jsonl'' (wr_event (ho_writers h)) event ''lifecycle event'' (se_world ?s1) = (Ok (), w1)"
    "at_stage (attempt_files (sg_measurements g) att (sg_rest g)) (root_files (sg_document g) (sg_plan g) (ev @ ec @ [CHR 0x0A]) run) w1"
    by (rule append_root [where k = "''events.jsonl''" and name = "''lifecycle event''" and ser = "wr_event (ho_writers h)" and v = event, OF assms(1) st(3) _ root_files_facts(3,2) ec(1)]) (simp_all add: root_files_facts)
  define rec where "rec = (let r = (se_run s)\<lparr>rr_run_status := to, rr_updated_at := le_recorded_at event\<rparr> in
    if is_terminal to then r\<lparr>rr_completed_at := Some (le_recorded_at event), rr_failure := cause\<rparr> else r)"
  have own: "own_run h plan to rec" using assms(3) by (simp add: rec_def Let_def own_run_def in_stage_def)
  then obtain rc where rc: "wr_run (ho_writers h) rec = Ok rc" "run_bytes h plan to (rc @ [CHR 0x0A])"
    using snapshot_writers [OF assms(2)] by blast
  obtain w2 where w2: "write_json_atomic h [] ''run.json'' (wr_run (ho_writers h)) rec ''run record'' w1 = (Ok (), w2)"
    "at_stage (attempt_files (sg_measurements g) att (sg_rest g)) (root_files (sg_document g) (sg_plan g) (ev @ ec @ [CHR 0x0A]) (rc @ [CHR 0x0A])) w2"
    by (rule write_json_root [where k = "''run.json''" and name = "''run record''" and ser = "wr_run (ho_writers h)" and v = rec, OF assms(1) w1(2) _ _ root_files_facts(1) _ rc(1)])
      (simp_all add: root_files_facts)
  show thesis
  proof (rule that)
    show "persist_run_transition h to cause s = (Ok (), s\<lparr>se_world := w2, se_lifecycle := ?lc, se_run := rec\<rparr>)"
      using tr w1(1) w2(1) by (cases "is_terminal to")
        (simp_all add: persist_run_transition_def now_def with_world_def Let_def rec_def event_def)
    show "in_stage h plan (g\<lparr>sg_state := to, sg_events := Suc (sg_events g)\<rparr>) (s\<lparr>se_world := w2, se_lifecycle := ?lc, se_run := rec\<rparr>)"
      using assms(3) own journal_snoc [OF st(1) ec(2)] rc(2) st(2) w2(2) by (auto simp: in_stage_def)
  qed
qed

lemma persist_attempt_quiet:
  assumes "quiet h" and "snapshots_read_back h plan" and "in_stage h plan g s" and "plain_rest (sg_rest g)"
  obtains s' where "persist_attempt_status h status cause s = (Ok (), s')" "in_stage h plan (g\<lparr>sg_attempt := status\<rparr>) s'"
proof -
  let ?t = "ho_clock h (wd_ticks (se_world s))"
  let ?w = "(se_world s)\<lparr>wd_ticks := wd_ticks (se_world s) + 1\<rparr>"
  obtain ev run att where st: "journal_bytes h (sg_events g) ev" "run_bytes h plan (sg_state g) run"
      "at_stage (attempt_files (sg_measurements g) att (sg_rest g)) (root_files (sg_document g) (sg_plan g) ev run) ?w"
    using assms(3) by (auto simp: in_stage_def)
  define rec where "rec = (let r = (se_attempt s)\<lparr>ar_status := status, ar_updated_at := ?t\<rparr> in
    if attempt_is_terminal status then r\<lparr>ar_completed_at := Some ?t, ar_failure := cause\<rparr> else r)"
  have own: "own_attempt h status rec" using assms(3) by (simp add: rec_def Let_def own_attempt_def in_stage_def)
  then obtain ac where ac: "wr_attempt (ho_writers h) rec = Ok ac" "attempt_bytes h status (ac @ [CHR 0x0A])"
    using snapshot_writers [OF assms(2)] by blast
  obtain w2 where w2: "write_json_atomic h attempt_directory ''attempt.json'' (wr_attempt (ho_writers h)) rec ''attempt record'' ?w = (Ok (), w2)"
    "at_stage (attempt_files (sg_measurements g) (ac @ [CHR 0x0A]) (sg_rest g)) (root_files (sg_document g) (sg_plan g) ev run) w2"
    by (rule write_json_attempt [where k = "''attempt.json''" and name = "''attempt record''" and ser = "wr_attempt (ho_writers h)" and v = rec, OF assms(1) st(3)
        attempt_files_facts(1) [OF assms(4)] _ ac(1)]) (simp_all add: attempt_files_facts [OF assms(4)])
  show thesis
  proof (rule that)
    show "persist_attempt_status h status cause s = (Ok (), s\<lparr>se_world := w2, se_attempt := rec\<rparr>)"
      using w2(1) by (cases "attempt_is_terminal status")
        (simp_all add: persist_attempt_status_def now_def with_world_def Let_def rec_def)
    show "in_stage h plan (g\<lparr>sg_attempt := status\<rparr>) (s\<lparr>se_world := w2, se_attempt := rec\<rparr>)"
      using assms(3) own st(1,2) ac(2) w2(2) by (auto simp: in_stage_def)
  qed
qed

subsection \<open>The phases\<close>

lemma create_attempt_directory:
  assumes "quiet h" "wd_staging w = Some (Dir [])" "wd_final w = None"
  obtains w' where "create_directory h attempt_directory w = (Ok (), w')" "at_stage [] [] w'"
  using assms that
  by (auto simp: create_directory_def system_call_def quiet_def on_staging_def attempt_directory_def at_stage_def stage_def
      make_dirs.simps [of "''attempts'' # _"] make_dirs.simps [of "[''0001'']"] make_dirs.simps [of "[]"] set_entry_def)

lemma initial_files:
  assumes q: "quiet h" and w: "wd_staging w0 = Some (Dir [])" "wd_final w0 = None"
    and pl: "wr_plan (ho_writers h) plan = Ok pc" and ec: "wr_event (ho_writers h) ev = Ok ec"
  obtains w1 w2 w3 w4 w5 w6 where "create_directory h attempt_directory w0 = (Ok (), w1)"
    "write_bytes h [] ''experiment.yaml'' bs w1 = (Ok (), w2)"
    "write_json_atomic h [] ''resolved-plan.json'' (wr_plan (ho_writers h)) plan ''resolved plan'' w2 = (Ok (), w3)"
    "create_empty_file h [] ''events.jsonl'' w3 = (Ok (), w4)"
    "append_json_line h [] ''events.jsonl'' (wr_event (ho_writers h)) ev ''lifecycle event'' w4 = (Ok (), w5)"
    "create_empty_file h attempt_directory ''measurements.jsonl'' w5 = (Ok (), w6)"
    "at_stage [(''measurements.jsonl'', FileNode [])] [(''experiment.yaml'', FileNode bs),
      (''resolved-plan.json'', FileNode (pc @ [CHR 0x0A])), (''events.jsonl'', FileNode (ec @ [CHR 0x0A]))] w6"
proof -
  obtain w1 where w1: "create_directory h attempt_directory w0 = (Ok (), w1)" "at_stage [] [] w1"
    by (rule create_attempt_directory [OF q w])
  obtain w2 where w2: "write_bytes h [] ''experiment.yaml'' bs w1 = (Ok (), w2)"
    "at_stage [] [(''experiment.yaml'', FileNode bs)] w2"
    by (rule write_bytes_root [where k = "''experiment.yaml''" and c = bs, OF q w1(2)]) (simp_all add: not_dir_def set_entry_def)
  let ?p = "(''resolved-plan.json'', FileNode (pc @ [CHR 0x0A]))"
  obtain w3 where w3: "write_json_atomic h [] ''resolved-plan.json'' (wr_plan (ho_writers h)) plan ''resolved plan'' w2 = (Ok (), w3)"
    "at_stage [] [(''experiment.yaml'', FileNode bs), ?p] w3"
    by (rule write_json_root [where k = "''resolved-plan.json''" and name = "''resolved plan''"
          and ser = "wr_plan (ho_writers h)" and v = plan, OF q w2(2) _ _ _ _ pl])
      (simp_all add: files_only_def set_entry_def)
  obtain w4 where w4: "create_empty_file h [] ''events.jsonl'' w3 = (Ok (), w4)"
    "at_stage [] [(''experiment.yaml'', FileNode bs), ?p, (''events.jsonl'', FileNode [])] w4"
    unfolding create_empty_file_def
    by (rule write_bytes_root [where k = "''events.jsonl''" and c = "[]", OF q w3(2)]) (simp_all add: not_dir_def set_entry_def)
  let ?e = "(''events.jsonl'', FileNode (ec @ [CHR 0x0A]))"
  obtain w5 where w5: "append_json_line h [] ''events.jsonl'' (wr_event (ho_writers h)) ev ''lifecycle event'' w4 = (Ok (), w5)"
    "at_stage [] [(''experiment.yaml'', FileNode bs), ?p, ?e] w5"
    by (rule append_root [where k = "''events.jsonl''" and name = "''lifecycle event''" and ser = "wr_event (ho_writers h)"
          and v = ev and old = "[]", OF q w4(2) _ _ _ ec]) (simp_all add: set_entry_def)
  obtain w6 where w6: "create_empty_file h attempt_directory ''measurements.jsonl'' w5 = (Ok (), w6)"
    "at_stage [(''measurements.jsonl'', FileNode [])] [(''experiment.yaml'', FileNode bs), ?p, ?e] w6"
    unfolding create_empty_file_def
    by (rule write_bytes_attempt [where k = "''measurements.jsonl''" and c = "[]", OF q w5(2)]) (simp_all add: not_dir_def set_entry_def)
  show thesis by (rule that [OF w1(1) w2(1) w3(1) w4(1) w5(1) w6])
qed

lemma initialize_quiet:
  assumes q: "quiet h" and sn: "snapshots_read_back h plan" and pl: "wr_plan (ho_writers h) plan = Ok pc"
    and w: "wd_staging (se_world s) = Some (Dir [])" "wd_final (se_world s) = None"
    and lc: "lf_state (se_lifecycle s) = Created" "lf_run_id (se_lifecycle s) = ho_run_id h" "lf_attempt_number (se_lifecycle s) = 1"
    and own: "own_run h plan Created (se_run s)" "own_attempt h AttemptCreated (se_attempt s)" "own_event h ev"
  obtains s' where "initialize h bs plan ev s = Some (Return (Ok (), s'))"
    "in_stage h plan \<lparr>sg_document = bs, sg_plan = pc @ [CHR 0x0A], sg_state = Created, sg_attempt = AttemptCreated,
       sg_events = 1, sg_measurements = [], sg_rest = []\<rparr> s'"
proof -
  obtain ec where ec: "wr_event (ho_writers h) ev = Ok ec" "event_line h ec"
    using snapshot_writers(3) [OF sn own(3)] by blast
  obtain rc where rc: "wr_run (ho_writers h) (se_run s) = Ok rc" "run_bytes h plan Created (rc @ [CHR 0x0A])"
    using snapshot_writers(1) [OF sn own(1)] by blast
  obtain ac where ac: "wr_attempt (ho_writers h) (se_attempt s) = Ok ac" "attempt_bytes h AttemptCreated (ac @ [CHR 0x0A])"
    using snapshot_writers(2) [OF sn own(2)] by blast
  obtain w1 w2 w3 w4 w5 w6 where files: "create_directory h attempt_directory (se_world s) = (Ok (), w1)"
    "write_bytes h [] ''experiment.yaml'' bs w1 = (Ok (), w2)"
    "write_json_atomic h [] ''resolved-plan.json'' (wr_plan (ho_writers h)) plan ''resolved plan'' w2 = (Ok (), w3)"
    "create_empty_file h [] ''events.jsonl'' w3 = (Ok (), w4)"
    "append_json_line h [] ''events.jsonl'' (wr_event (ho_writers h)) ev ''lifecycle event'' w4 = (Ok (), w5)"
    "create_empty_file h attempt_directory ''measurements.jsonl'' w5 = (Ok (), w6)"
    "at_stage [(''measurements.jsonl'', FileNode [])] [(''experiment.yaml'', FileNode bs),
      (''resolved-plan.json'', FileNode (pc @ [CHR 0x0A])), (''events.jsonl'', FileNode (ec @ [CHR 0x0A]))] w6"
    by (rule initial_files [OF q w pl ec(1)])
  obtain w7 where w7: "write_json_atomic h [] ''run.json'' (wr_run (ho_writers h)) (se_run s) ''run record'' w6 = (Ok (), w7)"
    "at_stage [(''measurements.jsonl'', FileNode [])] (root_files bs (pc @ [CHR 0x0A]) (ec @ [CHR 0x0A]) (rc @ [CHR 0x0A])) w7"
    by (rule write_json_root [where k = "''run.json''" and name = "''run record''"
          and ser = "wr_run (ho_writers h)" and v = "se_run s", OF q files(7) _ _ _ _ rc(1)])
      (simp_all add: files_only_def set_entry_def root_files_def)
  obtain w8 where w8: "write_json_atomic h attempt_directory ''attempt.json'' (wr_attempt (ho_writers h)) (se_attempt s) ''attempt record'' w7
      = (Ok (), w8)"
    "at_stage (attempt_files [] (ac @ [CHR 0x0A]) []) (root_files bs (pc @ [CHR 0x0A]) (ec @ [CHR 0x0A]) (rc @ [CHR 0x0A])) w8"
    by (rule write_json_attempt [where k = "''attempt.json''" and name = "''attempt record''"
          and ser = "wr_attempt (ho_writers h)" and v = "se_attempt s", OF q w7(2) _ _ ac(1)])
      (simp_all add: files_only_def set_entry_def attempt_files_def)
  have "journal_bytes h 1 (ec @ [CHR 0x0A])" using journal_snoc [OF journal_Nil ec(2)] by simp
  then show thesis
    using files(1-6) w7(1) w8 lc own rc(2) ac(2)
    by (intro that [of "s\<lparr>se_world := w8\<rparr>"])
      (auto simp: initialize_def and_step_def at_phase_def with_world_def write_snapshots_def fs_then_def in_stage_def)
qed

lemma write_rest_quiet:
  assumes "quiet h" and "in_stage h plan g s" and "plain_rest (sg_rest g)" and "k \<notin> {''measurements.jsonl'', ''attempt.json''}"
    and "k @ ''.tmp'' \<notin> fst ` set (attempt_files [] [] (sg_rest g))" and "ser v = Ok c"
  obtains w' where "write_json_atomic h attempt_directory k ser v name (se_world s) = (Ok (), w')"
    "in_stage h plan (g\<lparr>sg_rest := set_entry k (FileNode (c @ [CHR 0x0A])) (sg_rest g)\<rparr>) (s\<lparr>se_world := w'\<rparr>)"
proof -
  obtain ev run att where st: "journal_bytes h (sg_events g) ev" "run_bytes h plan (sg_state g) run" "attempt_bytes h (sg_attempt g) att"
      "at_stage (attempt_files (sg_measurements g) att (sg_rest g)) (root_files (sg_document g) (sg_plan g) ev run) (se_world s)"
    using assms(2) by (auto simp: in_stage_def)
  have names: "fst ` set (attempt_files (sg_measurements g) att (sg_rest g)) = fst ` set (attempt_files [] [] (sg_rest g))"
    by (simp add: attempt_files_def)
  obtain w' where w': "write_json_atomic h attempt_directory k ser v name (se_world s) = (Ok (), w')"
    "at_stage (set_entry k (FileNode (c @ [CHR 0x0A])) (attempt_files (sg_measurements g) att (sg_rest g)))
       (root_files (sg_document g) (sg_plan g) ev run) w'"
    by (rule write_json_attempt [where ser = ser and v = v and k = k and name = name, OF assms(1) st(4)
          attempt_files_facts(1) [OF assms(3)] _ assms(6)]) (use assms(5) names in simp_all)
  have "set_entry k n (attempt_files m att' rest) = attempt_files m att' (set_entry k n rest)" for n m att' rest
    using assms(4) by (simp add: attempt_files_def set_entry_Cons)
  then show thesis using that [OF w'(1)] w'(2) assms(2) st by (auto simp: in_stage_def)
qed

lemma append_measurement_quiet:
  assumes "quiet h" and "in_stage h plan g s" and "plain_rest (sg_rest g)" and "wr_measurement (ho_writers h) r = Ok c"
  obtains w' where "append_json_line h attempt_directory ''measurements.jsonl'' (wr_measurement (ho_writers h)) r ''measurement'' (se_world s)
      = (Ok (), w')"
    "in_stage h plan (g\<lparr>sg_measurements := sg_measurements g @ c @ [CHR 0x0A]\<rparr>) (s\<lparr>se_world := w'\<rparr>)"
proof -
  obtain ev run att where st: "journal_bytes h (sg_events g) ev" "run_bytes h plan (sg_state g) run" "attempt_bytes h (sg_attempt g) att"
      "at_stage (attempt_files (sg_measurements g) att (sg_rest g)) (root_files (sg_document g) (sg_plan g) ev run) (se_world s)"
    using assms(2) by (auto simp: in_stage_def)
  note facts = attempt_files_facts [OF assms(3)]
  obtain w' where w': "append_json_line h attempt_directory ''measurements.jsonl'' (wr_measurement (ho_writers h)) r ''measurement''
      (se_world s) = (Ok (), w')"
    "at_stage (attempt_files (sg_measurements g @ c @ [CHR 0x0A]) att (sg_rest g)) (root_files (sg_document g) (sg_plan g) ev run) w'"
    by (rule append_attempt [where k = "''measurements.jsonl''" and name = "''measurement''" and ser = "wr_measurement (ho_writers h)"
          and v = r, OF assms(1) st(4) facts(3,2) assms(4)]) (simp_all add: facts)
  show thesis using that [OF w'(1)] w'(2) assms(2) st by (auto simp: in_stage_def)
qed

lemma record_measurements_quiet:
  assumes "quiet h" and "in_stage h plan g s" and "plain_rest (sg_rest g)" and "\<forall>r \<in> set rs. wr_measurement (ho_writers h) r = Ok (ser r)"
  shows "\<exists>s'. record_measurements h rs s = Some (Return (Ok (), s'))
    \<and> in_stage h plan (g\<lparr>sg_measurements := sg_measurements g @ jsonl ser rs\<rparr>) s'"
  using assms(2-4)
proof (induction rs arbitrary: g s)
  case Nil
  then show ?case by (simp add: done_with_def jsonl_def)
next
  case (Cons r rs)
  obtain w' where w': "append_json_line h attempt_directory ''measurements.jsonl'' (wr_measurement (ho_writers h)) r ''measurement''
      (se_world s) = (Ok (), w')"
    "in_stage h plan (g\<lparr>sg_measurements := sg_measurements g @ ser r @ [CHR 0x0A]\<rparr>) (s\<lparr>se_world := w'\<rparr>)"
    by (rule append_measurement_quiet [OF assms(1) Cons.prems(1,2), of r "ser r"]) (simp_all add: Cons.prems(3))
  from Cons.IH [OF w'(2)] Cons.prems(2,3) show ?case
    by (simp add: and_step_def at_phase_def with_world_def w'(1) jsonl_def)
qed

lemma prepare_quiet:
  assumes q: "quiet h" and sn: "snapshots_read_back h plan" and g: "in_stage h plan g s"
    and st: "sg_state g = Created" "sg_rest g = []"
    and p: "capture (ho_platform h) (ho_run_id h) plan = Return p" "wr_provenance (ho_writers h) p = Ok c"
  obtains s' where "prepare h plan s = Some (Return (Ok p, s'))"
    "in_stage h plan (g\<lparr>sg_state := Running, sg_events := sg_events g + 2, sg_attempt := AttemptRunning,
       sg_rest := [(''provenance.json'', FileNode (c @ [CHR 0x0A]))]\<rparr>) s'"
proof -
  have nil: "plain_rest []" by (simp add: plain_rest_def files_only_def)
  obtain s1 where s1: "persist_run_transition h Preparing None s = (Ok (), s1)"
    "in_stage h plan (g\<lparr>sg_state := Preparing, sg_events := Suc (sg_events g)\<rparr>) s1"
    by (rule persist_run_quiet [where to = Preparing and cause = None, OF q sn g]) (simp_all add: st)
  obtain s2 where s2: "persist_attempt_status h AttemptPreparing None s1 = (Ok (), s2)"
    "in_stage h plan (g\<lparr>sg_state := Preparing, sg_events := Suc (sg_events g), sg_attempt := AttemptPreparing\<rparr>) s2"
    by (rule persist_attempt_quiet [where status = AttemptPreparing and cause = None, OF q sn s1(2)]) (simp_all add: st nil)
  obtain w where w: "write_provenance h p (se_world s2) = (Ok (), w)"
    "in_stage h plan (g\<lparr>sg_state := Preparing, sg_events := Suc (sg_events g), sg_attempt := AttemptPreparing,
       sg_rest := [(''provenance.json'', FileNode (c @ [CHR 0x0A]))]\<rparr>) (s2\<lparr>se_world := w\<rparr>)"
    unfolding write_provenance_def
    by (rule write_rest_quiet [where k = "''provenance.json''" and name = "''attempt provenance''"
          and ser = "wr_provenance (ho_writers h)" and v = p, OF q s2(2) _ _ _ p(2)]) (simp_all add: st nil attempt_files_def set_entry_def)
  have rest: "plain_rest [(''provenance.json'', FileNode (c @ [CHR 0x0A]))]" by (simp add: plain_rest_def files_only_def)
  obtain s3 where s3: "persist_run_transition h Running None (s2\<lparr>se_world := w\<rparr>) = (Ok (), s3)"
    "in_stage h plan (g\<lparr>sg_state := Running, sg_events := sg_events g + 2, sg_attempt := AttemptPreparing,
       sg_rest := [(''provenance.json'', FileNode (c @ [CHR 0x0A]))]\<rparr>) s3"
    by (rule persist_run_quiet [where to = Running and cause = None, OF q sn w(2)]) (simp_all add: in_stage_def)
  obtain s4 where s4: "persist_attempt_status h AttemptRunning None s3 = (Ok (), s4)"
    "in_stage h plan (g\<lparr>sg_state := Running, sg_events := sg_events g + 2, sg_attempt := AttemptRunning,
       sg_rest := [(''provenance.json'', FileNode (c @ [CHR 0x0A]))]\<rparr>) s4"
    by (rule persist_attempt_quiet [where status = AttemptRunning and cause = None, OF q sn s3(2)]) (simp_all add: rest in_stage_def)
  show thesis
    using s1(1) s2(1) w(1) s3(1) s4 p(1)
    by (intro that [of s4]) (simp_all add: prepare_def and_step_def at_phase_def with_world_def or_panic_def done_with_def)
qed

text \<open>The provenance of an execution, its resource record, and the attempt's files besides the measurements and the attempt record.\<close>

definition enriched :: "ExecutionOutput \<Rightarrow> AttemptProvenance \<Rightarrow> AttemptProvenance \<Rightarrow> bool" where
  "enriched out p0 p \<longleftrightarrow> (case eo_nvidia_gpu out of None \<Rightarrow> p = p0 | Some nvidia \<Rightarrow> attach_nvidia p0 nvidia = Ok p)"

definition resource_record :: "Host \<Rightarrow> ProcessResources \<Rightarrow> AttemptResources" where
  "resource_record h r = \<lparr>at_format = ATTEMPT_RESOURCES_FORMAT_V1, at_run_id = ho_run_id h, at_attempt_number = 1,
     at_scope = HelperProcessLifetime, at_cpu_time_micros = pr_cpu_time_micros r, at_peak_rss_bytes = pr_peak_rss_bytes r\<rparr>"

definition attempt_rest :: "bytes \<Rightarrow> bytes option \<Rightarrow> entries" where
  "attempt_rest p r = (''provenance.json'', FileNode p) # (case r of None \<Rightarrow> [] | Some b \<Rightarrow> [(''resources.json'', FileNode b)])"

lemma attempt_rest_facts:
  "plain_rest (attempt_rest p r)" "set_entry ''provenance.json'' (FileNode q) (attempt_rest p None) = attempt_rest q None"
  "set_entry ''resources.json'' (FileNode b) (attempt_rest p None) = attempt_rest p (Some b)"
  "''provenance.json.tmp'' \<notin> fst ` set (attempt_files ms att (attempt_rest p r))"
  "''resources.json.tmp'' \<notin> fst ` set (attempt_files ms att (attempt_rest p r))"
  by (cases r; simp add: attempt_rest_def plain_rest_def files_only_def set_entry_def attempt_files_def)+

lemma record_nvidia_quiet:
  assumes q: "quiet h" and g: "in_stage h plan (g\<lparr>sg_rest := attempt_rest c0 None\<rparr>) s"
    and p: "enriched out p0 p" "wr_provenance (ho_writers h) p = Ok c" "p = p0 \<longrightarrow> c0 = c @ [CHR 0x0A]"
  obtains s' where "record_nvidia h p0 out s = Some (Return (Ok (), s'))"
    "in_stage h plan (g\<lparr>sg_rest := attempt_rest (c @ [CHR 0x0A]) None\<rparr>) s'"
proof (cases "eo_nvidia_gpu out")
  case None
  then show thesis using that [of s] g p(1,3) by (simp add: record_nvidia_def done_with_def enriched_def)
next
  case (Some nvidia)
  obtain w where w: "write_provenance h p (se_world s) = (Ok (), w)"
    "in_stage h plan (g\<lparr>sg_rest := attempt_rest (c @ [CHR 0x0A]) None\<rparr>) (s\<lparr>se_world := w\<rparr>)"
    unfolding write_provenance_def
    by (rule write_rest_quiet [where k = "''provenance.json''" and name = "''attempt provenance''"
          and ser = "wr_provenance (ho_writers h)" and v = p, OF q g _ _ _ p(2)]) (simp_all add: attempt_rest_facts)
  then show thesis
    using that [of "s\<lparr>se_world := w\<rparr>"] Some p(1) by (simp add: record_nvidia_def enriched_def at_phase_def with_world_def)
qed

lemma record_resources_quiet:
  assumes q: "quiet h" and g: "in_stage h plan (g\<lparr>sg_rest := attempt_rest c None\<rparr>) s"
    and r: "case eo_resources out of None \<Rightarrow> b = None
      | Some r \<Rightarrow> \<exists>d. wr_resources (ho_writers h) (resource_record h r) = Ok d \<and> b = Some (d @ [CHR 0x0A])"
  obtains s' where "record_resources h out s = Some (Return (Ok (), s'))" "in_stage h plan (g\<lparr>sg_rest := attempt_rest c b\<rparr>) s'"
proof (cases "eo_resources out")
  case None
  then show thesis using that [of s] g r by (simp add: record_resources_def done_with_def)
next
  case (Some res)
  then obtain d where d: "wr_resources (ho_writers h) (resource_record h res) = Ok d" "b = Some (d @ [CHR 0x0A])" using r by auto
  obtain w where w: "write_json_atomic h attempt_directory ''resources.json'' (wr_resources (ho_writers h)) (resource_record h res)
      ''attempt resources'' (se_world s) = (Ok (), w)" "in_stage h plan (g\<lparr>sg_rest := attempt_rest c b\<rparr>) (s\<lparr>se_world := w\<rparr>)"
    by (rule write_rest_quiet [where k = "''resources.json''" and name = "''attempt resources''"
          and ser = "wr_resources (ho_writers h)" and v = "resource_record h res", OF q g _ _ _ d(1)])
      (simp_all add: attempt_rest_facts d(2))
  then show thesis
    using that [of "s\<lparr>se_world := w\<rparr>"] Some
    by (simp add: record_resources_def resource_record_def at_phase_def with_world_def)
qed

lemma record_execution_quiet:
  assumes q: "quiet h" and hook: "ho_hook h = noop_hook" and sn: "snapshots_read_back h plan"
    and g: "in_stage h plan (g\<lparr>sg_rest := attempt_rest c0 None\<rparr>) s"
    and p: "enriched out p0 p" "wr_provenance (ho_writers h) p = Ok c" "p = p0 \<longrightarrow> c0 = c @ [CHR 0x0A]"
    and r: "case eo_resources out of None \<Rightarrow> b = None
      | Some r \<Rightarrow> \<exists>d. wr_resources (ho_writers h) (resource_record h r) = Ok d \<and> b = Some (d @ [CHR 0x0A])"
    and st: "attempt_terminal (eo_terminal_state out) = Return status"
    and ser: "\<forall>r \<in> set (eo_measurements out). wr_measurement (ho_writers h) r = Ok (ser r)"
  obtains s' where "record_execution h p0 out s = Some (Return (Ok (), s'))"
    "in_stage h plan (g\<lparr>sg_attempt := status, sg_measurements := sg_measurements g @ jsonl ser (eo_measurements out),
       sg_rest := attempt_rest (c @ [CHR 0x0A]) b\<rparr>) s'"
proof -
  obtain s0 where s0: "record_nvidia h p0 out s = Some (Return (Ok (), s0))"
    "in_stage h plan (g\<lparr>sg_rest := attempt_rest (c @ [CHR 0x0A]) None\<rparr>) s0"
    by (rule record_nvidia_quiet [OF q g p])
  obtain s1 where s1: "persist_attempt_status h status (eo_failure out) s0 = (Ok (), s1)"
    "in_stage h plan ((g\<lparr>sg_attempt := status\<rparr>)\<lparr>sg_rest := attempt_rest (c @ [CHR 0x0A]) None\<rparr>) s1"
    by (rule persist_attempt_quiet [where status = status and cause = "eo_failure out", OF q sn s0(2)]) (simp_all add: attempt_rest_facts in_stage_def)
  obtain s2 where s2: "record_resources h out s1 = Some (Return (Ok (), s2))"
    "in_stage h plan ((g\<lparr>sg_attempt := status\<rparr>)\<lparr>sg_rest := attempt_rest (c @ [CHR 0x0A]) b\<rparr>) s2"
    by (rule record_resources_quiet [OF q s1(2) r])
  have "s2\<lparr>se_world := se_world s2\<rparr> = s2" by simp
  moreover obtain s3 where "record_measurements h (eo_measurements out) s2 = Some (Return (Ok (), s3))"
    "in_stage h plan (g\<lparr>sg_attempt := status, sg_measurements := sg_measurements g @ jsonl ser (eo_measurements out),
       sg_rest := attempt_rest (c @ [CHR 0x0A]) b\<rparr>) s3"
    using record_measurements_quiet [OF q s2(2) _ ser] by (auto simp: attempt_rest_facts in_stage_def)
  ultimately show thesis
    using s0(1) s1(1) s2(1) st
    by (intro that [of s3]) (simp_all add: record_execution_def and_step_def at_phase_def with_world_def or_panic_def check_hook_def hook noop_hook_def)
qed

text \<open>The staging directory when the run has ended.\<close>

definition final_root :: "bytes \<Rightarrow> bytes \<Rightarrow> bytes \<Rightarrow> bytes \<Rightarrow> bytes \<Rightarrow> bytes \<Rightarrow> bytes \<Rightarrow> entries" where
  "final_root bs p ev run v s m = [(''experiment.yaml'', FileNode bs), (''resolved-plan.json'', FileNode p),
     (''events.jsonl'', FileNode ev), (''run.json'', FileNode run), (''validity.json'', FileNode v),
     (''summary.json'', FileNode s), (''manifest.json'', FileNode m)]"

lemma collect_quiet:
  assumes q: "quiet h" and sn: "snapshots_read_back h plan" and g: "in_stage h plan g s" and st: "sg_state g = Running"
  obtains s1 x n where "(if t = Succeeded then at_phase (persist_run_transition h Collecting None) ''collecting'' else done_with ()) s
      = Some (Return (Ok (), s1))" "in_stage h plan (g\<lparr>sg_state := x, sg_events := n\<rparr>) s1" "is_valid_transition x Finalizing"
    "n \<le> Suc (sg_events g)"
proof (cases "t = Succeeded")
  case True
  obtain s1 where s1: "persist_run_transition h Collecting None s = (Ok (), s1)"
    "in_stage h plan (g\<lparr>sg_state := Collecting, sg_events := Suc (sg_events g)\<rparr>) s1"
    by (rule persist_run_quiet [where to = Collecting and cause = None, OF q sn g]) (simp_all add: st)
  show thesis by (rule that [of s1 "Suc (sg_events g)" Collecting]) (simp_all add: True s1 at_phase_def)
next
  case False
  have "in_stage h plan (g\<lparr>sg_state := Running, sg_events := sg_events g\<rparr>) s" using g st by (simp add: in_stage_def)
  then show thesis by (rule that [of s "sg_events g" Running, rotated]) (simp_all add: False done_with_def)
qed

lemma decided_quiet:
  assumes q: "quiet h" and w: "at_stage a (root_files d p ev run) w"
    and wr: "wr_validity (ho_writers h) v = Ok vc" "wr_summary (ho_writers h) m = Ok mc" "wr_manifest (ho_writers h) e = Ok ec"
  obtains w1 w2 w3 where
    "write_json_atomic h [] ''validity.json'' (wr_validity (ho_writers h)) v ''validity result'' w = (Ok (), w1)"
    "write_json_atomic h [] ''summary.json'' (wr_summary (ho_writers h)) m ''run summary'' w1 = (Ok (), w2)"
    "write_json_atomic h [] ''manifest.json'' (wr_manifest (ho_writers h)) e ''evidence manifest'' w2 = (Ok (), w3)"
    "at_stage a (final_root d p ev run (vc @ [CHR 0x0A]) (mc @ [CHR 0x0A]) (ec @ [CHR 0x0A])) w3"
proof -
  let ?r = "\<lambda>es. root_files d p ev run @ es"
  let ?V = "(''validity.json'', FileNode (vc @ [CHR 0x0A]))" and ?M = "(''summary.json'', FileNode (mc @ [CHR 0x0A]))"
  obtain w1 where w1: "write_json_atomic h [] ''validity.json'' (wr_validity (ho_writers h)) v ''validity result'' w = (Ok (), w1)"
    "at_stage a (?r [?V]) w1"
    by (rule write_json_root [where k = "''validity.json''" and name = "''validity result''"
          and ser = "wr_validity (ho_writers h)" and v = v, OF q w _ _ _ _ wr(1)])
      (simp_all add: files_only_def set_entry_def root_files_def)
  obtain w2 where w2: "write_json_atomic h [] ''summary.json'' (wr_summary (ho_writers h)) m ''run summary'' w1 = (Ok (), w2)"
    "at_stage a (?r [?V, ?M]) w2"
    by (rule write_json_root [where k = "''summary.json''" and name = "''run summary''"
          and ser = "wr_summary (ho_writers h)" and v = m, OF q w1(2) _ _ _ _ wr(2)])
      (simp_all add: files_only_def set_entry_def root_files_def)
  obtain w3 where w3: "write_json_atomic h [] ''manifest.json'' (wr_manifest (ho_writers h)) e ''evidence manifest'' w2 = (Ok (), w3)"
    "at_stage a (final_root d p ev run (vc @ [CHR 0x0A]) (mc @ [CHR 0x0A]) (ec @ [CHR 0x0A])) w3"
    by (rule write_json_root [where k = "''manifest.json''" and name = "''evidence manifest''"
          and ser = "wr_manifest (ho_writers h)" and v = e, OF q w2(2) _ _ _ _ wr(3)])
      (simp_all add: files_only_def set_entry_def root_files_def final_root_def)
  show thesis by (rule that [OF w1(1) w2(1) w3])
qed

lemma finish_quiet:
  assumes q: "quiet h" and sn: "snapshots_read_back h plan" and g: "in_stage h plan g s" and st: "sg_state g = Running"
    and out: "is_terminal (eo_terminal_state out)"
    and v: "evaluate_validity plan out (ho_run_id h) = Return v" "wr_validity (ho_writers h) v = Ok vc"
    and m: "summarize plan out v (ho_run_id h) = Return m" "wr_summary (ho_writers h) m = Ok mc"
    and e: "wr_manifest (ho_writers h) (manifest_of h plan out v) = Ok ec"
  obtains s' ev run att i where "finalize h plan out s = Some (Return (Ok (v, m), s'))" "i \<le> sg_events g + 3" "journal_bytes h i ev"
    "run_bytes h plan (eo_terminal_state out) run" "attempt_bytes h (sg_attempt g) att"
    "at_stage (attempt_files (sg_measurements g) att (sg_rest g))
       (final_root (sg_document g) (sg_plan g) ev run (vc @ [CHR 0x0A]) (mc @ [CHR 0x0A]) (ec @ [CHR 0x0A])) (se_world s')"
proof -
  let ?t = "eo_terminal_state out"
  obtain s1 x n where s1: "(if ?t = Succeeded then at_phase (persist_run_transition h Collecting None) ''collecting'' else done_with ()) s
      = Some (Return (Ok (), s1))" "in_stage h plan (g\<lparr>sg_state := x, sg_events := n\<rparr>) s1" "is_valid_transition x Finalizing"
      "n \<le> Suc (sg_events g)" by (rule collect_quiet [where t = ?t, OF q sn g st])
  obtain s2 where s2: "persist_run_transition h Finalizing None s1 = (Ok (), s2)"
    "in_stage h plan (g\<lparr>sg_state := Finalizing, sg_events := Suc n\<rparr>) s2"
    by (rule persist_run_quiet [where to = Finalizing and cause = None, OF q sn s1(2)]) (simp_all add: s1(3))
  have t: "is_valid_transition Finalizing ?t" using out by (cases ?t) simp_all
  obtain s3 where s3: "persist_run_transition h ?t (eo_failure out) s2 = (Ok (), s3)"
    "in_stage h plan (g\<lparr>sg_state := ?t, sg_events := Suc (Suc n)\<rparr>) s3"
    by (rule persist_run_quiet [where to = ?t and cause = "eo_failure out", OF q sn s2(2)])
      (simp_all add: t)
  then obtain ev run att where f: "journal_bytes h (Suc (Suc n)) ev" "run_bytes h plan ?t run" "attempt_bytes h (sg_attempt g) att"
      "at_stage (attempt_files (sg_measurements g) att (sg_rest g)) (root_files (sg_document g) (sg_plan g) ev run) (se_world s3)"
    by (auto simp: in_stage_def)
  obtain w1 w2 w3 where w:
    "write_json_atomic h [] ''validity.json'' (wr_validity (ho_writers h)) v ''validity result'' (se_world s3) = (Ok (), w1)"
    "write_json_atomic h [] ''summary.json'' (wr_summary (ho_writers h)) m ''run summary'' w1 = (Ok (), w2)"
    "write_json_atomic h [] ''manifest.json'' (wr_manifest (ho_writers h)) (manifest_of h plan out v) ''evidence manifest'' w2 = (Ok (), w3)"
    "at_stage (attempt_files (sg_measurements g) att (sg_rest g))
      (final_root (sg_document g) (sg_plan g) ev run (vc @ [CHR 0x0A]) (mc @ [CHR 0x0A]) (ec @ [CHR 0x0A])) w3"
    by (rule decided_quiet [OF q f(4) v(2) m(2) e])
  have "finalize h plan out s = Some (Return (Ok (v, m), s3\<lparr>se_world := w3\<rparr>))"
    unfolding finalize_def and_step_def [of "if ?t = Succeeded then _ else _"] s1(1)
    using s2(1) s3(1) w(1-3) v(1) m(1)
    by (simp add: and_step_def at_phase_def with_world_def or_panic_def done_with_def)
  then show thesis by (rule that [OF _ _ f(1-3)]) (use s1(4) w(4) in simp_all)
qed

end
