(* ===== verification/ExecutionEvidence.thy ===== *)
theory ExecutionEvidence
  imports RunFacts
begin

text \<open>
  What the output of an execution is to the verifier. A helper-backed runtime that fails leaves no
  measurements, one that succeeds leaves the expected ones; the resources come from the operating system's
  accounting; the GPU facts were checked when they were read. So every record written from an output is accepted, but
  for three checks that only the verifier makes.
\<close>

subsection \<open>Resources\<close>

text \<open>What \<open>wait4\<close> returns carries converted accounting; an environment is accounted if all its waits do.\<close>

definition accounted_wait :: "string + ReapedChild option \<Rightarrow> bool" where
  "accounted_wait r \<longleftrightarrow> (case r of Inr (Some reaped) \<Rightarrow> (\<exists>usage. rc_resources reaped = convert_resource_usage usage) | _ \<Rightarrow> True)"

definition accounted :: "ChildEnvironment \<Rightarrow> bool" where
  "accounted env \<longleftrightarrow> (\<forall>poll \<in> set (en_polls env). accounted_wait (po_wait poll)) \<and> accounted_wait (en_nohang env)
     \<and> (\<forall>acts r. en_blocking env acts = Some r \<longrightarrow> accounted_wait r)"

lemma wait4_accounted: "wait4 pid calls = Some r \<Longrightarrow> accounted_wait r"
proof -
  have "wait4_loop calls = Some r \<Longrightarrow> accounted_wait r" for calls
    by (induction calls) (auto simp: accounted_wait_def split: WaitCall.splits)
  then show "wait4 pid calls = Some r \<Longrightarrow> accounted_wait r" by (auto simp: wait4_def accounted_wait_def split: if_splits)
qed

definition exit_accounted :: "Supervision \<Rightarrow> bool" where
  "exit_accounted st \<longleftrightarrow> accounted_wait (Ok (sv_exit_status st))"

lemma iteration_accounted:
  assumes "supervise_iteration fs v p d poll st = Ok st'" and "accounted_wait (po_wait poll)" and "exit_accounted st"
  shows "exit_accounted st'"
proof -
  obtain continue st1 where r: "receive fs v p (po_received poll) st = Ok (continue, st1)"
    and st': "(if continue then Ok st1 else poll_exit p (po_wait poll) st1) = Ok st'"
    using assms(1) by (auto simp: supervise_iteration_def result_simps split: if_splits)
  have "sv_exit_status st1 = sv_exit_status st"
    using r by (auto simp: receive_def accept_line_def Let_def result_simps split: Received.splits StdoutEvent.splits if_splits sum.splits)
  then show ?thesis
    using st' assms(2,3)
    by (auto simp: poll_exit_def exit_accounted_def split: if_splits option.splits sum.splits)
qed

lemma iteration_failure_accounted:
  assumes "supervise_iteration fs v p d poll st = Err sf" and "exit_accounted st"
  shows "\<forall>a. sf_resources sf = Some a \<longrightarrow> (\<exists>usage. a = convert_resource_usage usage)"
proof -
  have "sf_resources sf = map_option rc_resources (sv_exit_status st)"
    using assms(1) by (auto simp: supervise_iteration_def supervision_failure_def map_err_def split: sum.splits)
  then show ?thesis using assms(2) by (cases "sv_exit_status st") (simp_all add: exit_accounted_def accounted_wait_def)
qed

lemma loop_accounted:
  assumes "supervise_loop fs v p d polls st = Some r" and "\<forall>poll \<in> set polls. accounted_wait (po_wait poll)" and "exit_accounted st"
  shows "case r of Inl sf \<Rightarrow> \<forall>a. sf_resources sf = Some a \<longrightarrow> (\<exists>usage. a = convert_resource_usage usage)
    | Inr c \<Rightarrow> \<exists>usage. rc_resources (cc_reaped c) = convert_resource_usage usage"
  using assms
proof (induction polls arbitrary: st)
  case Nil
  then show ?case by (auto simp: supervise_complete_def exit_accounted_def accounted_wait_def split: option.splits if_splits)
next
  case (Cons poll polls)
  show ?case
  proof (cases "supervise_complete st")
    case None
    show ?thesis
    proof (cases "supervise_iteration fs v p d poll st")
      case (Inl f)
      then show ?thesis using Cons.prems None iteration_failure_accounted [OF Inl Cons.prems(3)] by auto
    next
      case (Inr st')
      then show ?thesis using Cons.IH [of st'] Cons.prems None iteration_accounted [OF Inr] by simp
    qed
  next
    case (Some c)
    then show ?thesis using Cons.prems
      by (auto simp: supervise_complete_def exit_accounted_def accounted_wait_def split: option.splits if_splits)
  qed
qed

lemma reaped_accounted:
  assumes "terminate_and_reap env = Some (Ok r, acts)" and "accounted env"
  shows "\<exists>usage. convert_resource_usage usage = Ok r"
proof -
  obtain reaped where "rc_resources reaped = Ok r"
    and "en_nohang env = Ok (Some reaped) \<or> en_blocking env [Kill] = Some (Ok (Some reaped))"
    using assms(1) by (auto simp: terminate_and_reap_def split: sum.splits option.splits if_splits)
  moreover have "accounted_wait (Ok (Some reaped))" using calculation(2) assms(2) by (auto simp: accounted_def)
  ultimately show ?thesis by (auto simp: accounted_wait_def)
qed

lemma child_resources_converted:
  assumes run: "child_execute show_status fs p v env = Some x" and env: "accounted env" and r: "ce_resources x = Some r"
  shows "\<exists>usage. convert_resource_usage usage = Ok r"
proof -
  have none: "ce_resources (child_failed f None) = None" for f by (simp add: child_failed_def)
  obtain u b where u: "accepted_bytes p = Ok b" "en_spawn env = Ok u"
    using run r none by (auto simp: child_execute_def split: sum.splits)
  obtain res outcome acts stderr where res: "supervise_loop fs v p
      (en_started env + unat (cq_maximum_runtime_seconds p) * 1000000000) (en_polls env) supervision_start = Some res"
    and settled: "settle_child env res = Some (outcome, acts)" and x: "x = conclude show_status p outcome stderr"
    by (rule child_execute_Some [OF run u]) (auto simp: supervise_def)
  have "exit_accounted supervision_start" by (simp add: exit_accounted_def supervision_start_def accounted_wait_def)
  note loop = loop_accounted [OF res _ this]
  have reap: "ce_resources (failed_after_reap f a) = Some r \<Longrightarrow> a = Ok r" for f a
    by (cases a) (simp_all add: failed_after_reap_def child_failed_def result_ok_def)
  show ?thesis
  proof (cases res)
    case (Inl sf)
    then obtain f a where out: "outcome = Err (f, a)" using settled by (auto simp: settle_child_def split: option.splits)
    have a: "a = Ok r" using x r reap by (simp add: out conclude_def)
    show ?thesis
    proof (cases "sf_resources sf")
      case None
      then have "terminate_and_reap env = Some (Ok r, acts)" using settled Inl out a by (auto simp: settle_child_def)
      then show ?thesis by (rule reaped_accounted [OF _ env])
    next
      case (Some a')
      then show ?thesis using settled Inl out a loop env by (auto simp: settle_child_def accounted_def)
    qed
  next
    case (Inr c)
    have "ce_resources (completed_success p a md ms) = Some r \<Longrightarrow> a = Ok r" for a md ms
      using reap none by (cases a) (auto simp: completed_success_def split: if_splits)
    then have "rc_resources (cc_reaped c) = Ok r"
      using settled x Inr r reap by (auto simp: settle_child_def conclude_def Let_def split: if_splits)
    then show ?thesis using loop env Inr by (auto simp: accounted_def)
  qed
qed

lemma converted_peak:
  assumes "convert_resource_usage usage = Ok r"
  shows "pr_peak_rss_bytes r mod 1024 = 0"
proof -
  obtain k where "checked_mul k 1024 = Some (pr_peak_rss_bytes r)"
    using assms by (auto simp: convert_resource_usage_def resource_usage_from_components_def result_simps bind_eq_Some_conv)
  then have "unat (pr_peak_rss_bytes r) = unat k * 1024" by (auto simp: checked_simps)
  then have "unat (pr_peak_rss_bytes r mod 1024) = 0" by (simp add: unat_mod)
  then show ?thesis by (simp only: word_unat_eq_iff unat_0)
qed

subsection \<open>Measurements\<close>

text \<open>
  A helper-backed runtime: it fails without measurements, or succeeds with the expected record in every
  position of the warmup and the measured repetitions.
\<close>

locale helper_runtime = runtime_adapter run for run :: "'c \<Rightarrow> 'e \<Rightarrow> ExecutionOutput option" +
  fixes warmups repetitions :: "'c \<Rightarrow> u32" and slot :: "'c \<Rightarrow> nat \<Rightarrow> MeasurementRecord \<Rightarrow> bool"
  assumes failed: "run c e = Some out \<Longrightarrow> eo_terminal_state out \<noteq> Succeeded \<Longrightarrow> eo_terminal_state out = Failed \<and> eo_measurements out = []"
    and succeeded: "run c e = Some out \<Longrightarrow> eo_terminal_state out = Succeeded \<Longrightarrow>
      length (eo_measurements out) = unat (warmups c) + unat (repetitions c)
      \<and> (\<forall>i < length (eo_measurements out). slot c i (eo_measurements out ! i))"
begin

lemma measurements_accepted:
  assumes run: "run c e = Some out" and small: "unat (warmups c) + unat (repetitions c) < 2 ^ 32"
    and counts: "expected_measurement_counts plan Succeeded = Ok (warmups c, repetitions c)" "expected_measurement_counts plan Failed = Ok (0, 0)"
    and slots: "\<And>i r. slot c i r \<Longrightarrow> r \<in> set (eo_measurements out) \<Longrightarrow> accepted_record plan (warmups c) i r \<and> mr_generator r = g"
    and codec: "\<forall>r \<in> set (eo_measurements out). readable cd ser r" "length (jsonl ser (eo_measurements out)) \<le> MAX_MEASUREMENTS_BYTES"
  shows "\<exists>mv. validate_measurements cd (Ok (jsonl ser (eo_measurements out)))
      (cd_hex cd (cd_sha256 cd (jsonl ser (eo_measurements out)))) plan (eo_terminal_state out) = Ok mv
    \<and> mv_records mv = eo_measurements out
    \<and> unat (mv_measured_records mv) = length (measured_records (eo_measurements out))
    \<and> (mv_generator mv = None \<or> mv_generator mv = Some g)"
proof (cases "eo_terminal_state out = Succeeded")
  case True
  let ?rs = "eo_measurements out"
  note s = succeeded [OF run True]
  have each: "accepted_record plan (warmups c) j (?rs ! j) \<and> mr_generator (?rs ! j) = g" if "j < length ?rs" for j
    using conjunct2 [OF s] slots nth_mem that by blast
  then have acc: "accepted_from plan (warmups c) 0 None ?rs" by (intro accepted_fromI [where g = g]) auto
  have n: "unat (repetitions c) = length (measured_records ?rs)" using accepted_measured [OF acc] s by simp
  have "?rs = [] \<or> mr_generator (hd ?rs) = g" using each [of 0] by (cases ?rs) auto
  then show ?thesis
    using written_measurements_accepted [OF counts(1) small conjunct1 [OF s] acc codec] True n by auto
next
  case False
  note f = failed [OF run False]
  then show ?thesis
    using written_measurements_accepted [OF counts(2), of "[]" cd ser] by (auto simp: jsonl_def measured_records_def)
qed

end

interpretation cpu_helper: helper_runtime cpu_run "\<lambda>c. cf_warmup_runs (snd (snd c))" "\<lambda>c. cf_repetitions (snd (snd c))"
  "\<lambda>c. slot_record CPU_PROBE_GENERATOR_VERSION (cf_requests (snd (snd c))) (cf_warmup_runs (snd (snd c)))"
proof
  fix c system out assume "cpu_run c system = Some out"
  then obtain x where x: "cpu_execute_command (fst c) (fst (snd c)) (snd (snd c)) system = Some x"
    "out = cpu_into_execution_output x" by (auto simp: cpu_run_def cpu_execute_def)
  note cases = cpu_execute_command_cases [OF x(1)]
  show "eo_terminal_state out = Failed \<and> eo_measurements out = []" if "eo_terminal_state out \<noteq> Succeeded"
    using that cases by (auto simp: x(2) cpu_into_execution_output_def split: if_splits)
  show "length (eo_measurements out) = unat (cf_warmup_runs (snd (snd c))) + unat (cf_repetitions (snd (snd c)))
    \<and> (\<forall>i < length (eo_measurements out). slot_record CPU_PROBE_GENERATOR_VERSION (cf_requests (snd (snd c)))
        (cf_warmup_runs (snd (snd c))) i (eo_measurements out ! i))" if "eo_terminal_state out = Succeeded"
    using that cases by (auto simp: x(2) cpu_into_execution_output_def split: if_splits)
qed

abbreviation llama_config :: "(wait_status \<Rightarrow> string) \<times> json_reader \<times> (bytes \<Rightarrow> string + NvidiaMetadataRecord) \<times> LlamaCppConfig
    \<Rightarrow> LlamaCppConfig" where
  "llama_config c \<equiv> snd (snd (snd c))"

lemma llama_output_failed:
  "eo_terminal_state (llama_into_execution_output mfs x config) \<noteq> Succeeded \<Longrightarrow> ce_failure x \<noteq> None \<longrightarrow> ce_measurements x = [] \<Longrightarrow>
   eo_terminal_state (llama_into_execution_output mfs x config) = Failed \<and> eo_measurements (llama_into_execution_output mfs x config) = []"
  by (auto simp: llama_into_execution_output_def llama_rejected_def Let_def
      split: option.splits LlamaCppTarget.splits list.splits sum.splits if_splits)

interpretation llama_helper: helper_runtime llama_run "\<lambda>c. lm_warmup_runs (llama_config c)" "\<lambda>c. lm_repetitions (llama_config c)"
  "\<lambda>c. llama_slot (llama_config c)"
proof
  fix c system out assume run: "llama_run c system = Some out"
  obtain ss fs mfs config where c: "c = (ss, fs, mfs, config)" by (metis prod_cases4)
  then obtain x where x: "llama_execute_command ss fs config system = Some x"
    "out = llama_into_execution_output mfs x config"
    using run by (auto simp: llama_run_def llama_execute_def)
  note cases = llama_execute_command_cases [OF x(1)]
  show "eo_terminal_state out = Failed \<and> eo_measurements out = []" if "eo_terminal_state out \<noteq> Succeeded"
    unfolding x(2) by (rule llama_output_failed [OF that [unfolded x(2)]]) (use cases in auto)
  show "length (eo_measurements out) = unat (lm_warmup_runs (llama_config c)) + unat (lm_repetitions (llama_config c))
    \<and> (\<forall>i < length (eo_measurements out). llama_slot (llama_config c) i (eo_measurements out ! i))"
    if "eo_terminal_state out = Succeeded"
    using cases llama_output_succeeded [OF that [unfolded x(2)]] by (auto simp: x(2) c)
qed

text \<open>
  The checks that only the verifier makes: a CPU probe record carries no request observations, the
  aggregates of a llama.cpp record fit its observations, and the compute capability has at most 256 bytes.
\<close>

definition evidence_agrees :: "ResolvedExperiment \<Rightarrow> ExecutionOutput \<Rightarrow> bool" where
  "evidence_agrees plan out \<longleftrightarrow> (\<forall>r \<in> set (eo_measurements out). (case plan_runtime plan of
       RuntimeCpuProbe _ _ \<Rightarrow> mr_request_observations r = []
     | RuntimeLlamaCpp _ _ _ \<Rightarrow> validate_llama_v2_aggregate_consistency r = Ok ()
     | _ \<Rightarrow> True))
   \<and> (case eo_nvidia_gpu out of None \<Rightarrow> True | Some gpu \<Rightarrow> length (nv_compute_capability gpu) \<le> 256)"

lemma execution_kind_helper:
  "execution_kind cuda plan = Ok (KindCpuProbe config) \<Longrightarrow> (\<exists>t k. plan_runtime plan = RuntimeCpuProbe t k)
     \<and> sp_provider (ex_spec (re_experiment plan)) = ProviderLocal \<and> cf_requests config = plan_requests plan
     \<and> cf_warmup_runs config = ms_warmup_runs (plan_measurement plan) \<and> cf_repetitions config = ms_repetitions (plan_measurement plan)"
  "execution_kind cuda plan = Ok (KindLlamaCpp llama) \<Longrightarrow> (\<exists>m t. plan_runtime plan = RuntimeLlamaCpp (lm_target llama) m t)
     \<and> sp_provider (ex_spec (re_experiment plan)) = ProviderLocal \<and> lm_requests llama = plan_requests plan
     \<and> lm_warmup_runs llama = ms_warmup_runs (plan_measurement plan) \<and> lm_repetitions llama = ms_repetitions (plan_measurement plan)"
  "execution_kind cuda plan = Ok (KindLocalFake seed sc) \<Longrightarrow> plan_runtime plan = RuntimeLocalFake seed sc
     \<and> sp_provider (ex_spec (re_experiment plan)) = ProviderLocalFake"
  by (auto simp: execution_kind_def unsupported_def Let_def split: ProviderSpec.splits RuntimeSpec.splits if_splits)

lemma helper_counts:
  assumes "is_helper_runtime plan"
  shows "expected_measurement_counts plan Succeeded = Ok (ms_warmup_runs (plan_measurement plan), ms_repetitions (plan_measurement plan))"
    "expected_measurement_counts plan Failed = Ok (0, 0)"
  using assms by (auto simp: is_helper_runtime_def expected_measurement_counts_def Let_def split: ProviderSpec.splits RuntimeSpec.splits)

lemma admissible_records:
  assumes "admissible (re_experiment plan)" and "is_helper_runtime plan"
  shows "unat (ms_warmup_runs (plan_measurement plan)) + unat (ms_repetitions (plan_measurement plan)) < 2 ^ 32"
  using assms by (auto simp: is_helper_runtime_def admissible_def runtime_admissible_def Let_def records_def
      split: ProviderSpec.splits RuntimeSpec.splits)

lemma executed_measurements:
  assumes adm: "admissible (re_experiment plan)" and kind: "execution_kind cuda plan = Ok kind" and exec: "execute_kind h plan kind = Some out"
    and agree: "evidence_agrees plan out"
    and codec: "\<forall>r \<in> set (eo_measurements out). readable cd ser r" "length (jsonl ser (eo_measurements out)) \<le> MAX_MEASUREMENTS_BYTES"
  shows "\<exists>mv. validate_measurements cd (Ok (jsonl ser (eo_measurements out)))
      (cd_hex cd (cd_sha256 cd (jsonl ser (eo_measurements out)))) plan (eo_terminal_state out) = Ok mv
    \<and> mv_records mv = eo_measurements out
    \<and> unat (mv_measured_records mv) = length (measured_records (eo_measurements out))
    \<and> (mv_generator mv = None \<or> mv_generator mv = Some (runtime_generator (plan_runtime plan)))"
proof -
  have "run_kind (h, plan) kind = Some out" using exec by (simp add: run_kind_def)
  then show ?thesis
  proof (cases rule: run_kind_cases)
    case (fake seed sc)
    note k = execution_kind_helper(3) [OF kind [unfolded fake(1)]]
    have out: "out = local_fake_execute (cd_sha256 (ho_codecs h)) plan seed sc" using fake(2) by (simp add: local_fake_run_def)
    have "unat (measured_count (ms_repetitions (plan_measurement plan)) sc) = length (measured_records (eo_measurements out))"
      by (simp add: out local_fake_measured)
    then show ?thesis
      using local_fake_written_accepted [OF adm conjunct1 [OF k] conjunct2 [OF k], of "cd_sha256 (ho_codecs h)" cd ser, folded out] codec k
      by auto
  next
    case (probe config system)
    note k = execution_kind_helper(1) [OF kind [unfolded probe(1)]]
    then have helper: "is_helper_runtime plan" by (auto simp: is_helper_runtime_def)
    have "accepted_record plan (cf_warmup_runs config) i r \<and> mr_generator r = CPU_PROBE_GENERATOR_VERSION"
      if "slot_record CPU_PROBE_GENERATOR_VERSION (cf_requests config) (cf_warmup_runs config) i r" "r \<in> set (eo_measurements out)" for i r
      using that k agree by (auto simp: evidence_agrees_def accepted_record_def slot_record_def)
    then show ?thesis
      using cpu_helper.measurements_accepted [OF probe(2), of plan CPU_PROBE_GENERATOR_VERSION cd ser] codec k helper_counts [OF helper]
        admissible_records [OF adm helper] by auto
  next
    case (model config system)
    note k = execution_kind_helper(2) [OF kind [unfolded model(1)]]
    then have helper: "is_helper_runtime plan" by (auto simp: is_helper_runtime_def)
    have "accepted_record plan (lm_warmup_runs config) i r \<and> mr_generator r = LLAMA_CPP_GENERATOR_VERSION"
      if "llama_slot config i r" "r \<in> set (eo_measurements out)" for i r
      using that k agree by (auto simp: evidence_agrees_def accepted_record_def llama_slot_def slot_record_def)
    then show ?thesis
      using llama_helper.measurements_accepted [OF model(2), of plan LLAMA_CPP_GENERATOR_VERSION cd ser] codec k helper_counts [OF helper]
        admissible_records [OF adm helper] by auto
  qed
qed

subsection \<open>Resources and provenance of an execution\<close>

lemma executed_resources:
  assumes kind: "execution_kind cuda plan = Ok kind" and exec: "execute_kind h plan kind = Some out"
    and spawn: "\<forall>executable arguments. accounted (ho_spawn h executable arguments)" and r: "eo_resources out = Some r"
  shows "is_helper_runtime plan \<and> pr_peak_rss_bytes r mod 1024 = 0"
proof -
  have child: "pr_peak_rss_bytes r mod 1024 = 0"
    if "child_execute ss fs p v (ho_spawn h executable arguments) = Some x" "ce_resources x = Some r" for ss fs p v executable arguments x
    using child_resources_converted [OF that(1) _ that(2)] spawn converted_peak by blast
  have none: "ce_resources (child_failed f None) = None" for f by (simp add: child_failed_def)
  show ?thesis
  proof (cases kind)
    case (KindLocalFake seed sc)
    then show ?thesis using exec r by (auto simp: execute_kind_def local_fake_execute_def Let_def split: LocalFakeScenario.splits)
  next
    case (KindCpuProbe config)
    obtain executable x where x: "cpu_execute_command (ho_show_status h) (ho_read_record h) config (ho_spawn h executable) = Some x"
        "ce_resources x = Some r"
      using exec r KindCpuProbe by (auto simp: execute_kind_def cpu_execute_def cpu_into_execution_output_def Let_def)
    then have "pr_peak_rss_bytes r mod 1024 = 0"
      using child none by (auto simp: cpu_execute_command_def split: sum.splits)
    then show ?thesis using execution_kind_helper(1) [OF kind [unfolded KindCpuProbe]] by (auto simp: is_helper_runtime_def)
  next
    case (KindLlamaCpp config)
    have "eo_resources (llama_into_execution_output mfs x config) = ce_resources x" for mfs x
      by (auto simp: llama_into_execution_output_def llama_rejected_def Let_def
          split: option.splits LlamaCppTarget.splits list.splits sum.splits)
    then obtain executable x where x: "llama_execute_command (ho_show_status h) (ho_read_record h) config (ho_spawn h executable) = Some x"
        "ce_resources x = Some r"
      using exec r KindLlamaCpp by (auto simp: execute_kind_def llama_execute_def Let_def)
    then have "pr_peak_rss_bytes r mod 1024 = 0"
      using child none by (auto simp: llama_execute_command_def split: sum.splits)
    then show ?thesis using execution_kind_helper(2) [OF kind [unfolded KindLlamaCpp]] by (auto simp: is_helper_runtime_def)
  qed
qed

text \<open>Printable ASCII is its own trimmed form and has no control characters.\<close>

lemma graphic_value:
  assumes "\<forall>c \<in> set v. 33 \<le> byte_of c \<and> byte_of c < 127"
  shows "trim v = v" "\<not> any_control v"
proof -
  have chars: "utf8_chars v = map (\<lambda>c. [c]) v" using assms
  proof (induction v)
    case (Cons c cs)
    have "takeWhile is_continuation cs = [] \<and> dropWhile is_continuation cs = cs"
      using Cons.prems by (cases cs) (auto simp: is_continuation_def)
    then show ?case using Cons by simp
  qed simp
  have plain: "\<not> is_whitespace [c]" "\<not> is_control [c]" if "c \<in> set v" for c
    using assms that by (auto simp: is_whitespace_def is_control_def Let_def)
  have "dropWhile is_whitespace xs = xs" if "set xs \<subseteq> (\<lambda>c. [c]) ` set v" for xs
    using that plain by (cases xs) auto
  then have "trim_chars (utf8_chars v) = utf8_chars v" unfolding trim_chars_def chars by simp
  then show "trim v = v" by (simp add: trim_def)
  show "\<not> any_control v" unfolding any_control_def chars using plain by (auto simp: list_ex_iff)
qed

lemma compute_capability_value:
  assumes "compute_capability_valid v" and "length v \<le> 256"
  shows "good_value v"
proof -
  obtain a b where v: "v = a @ CHR ''.'' # b" "list_all is_ascii_digit a" "list_all is_ascii_digit b"
    using assms(1) by (auto simp: compute_capability_valid_def is_some_and_def split_once_eq split: option.splits)
  then have "\<forall>c \<in> set v. 33 \<le> byte_of c \<and> byte_of c < 127"
    by (auto simp: list_all_iff is_ascii_digit_def byte_of_def)
  then show ?thesis using v(1) assms(2) graphic_value [of v] by (simp add: good_value_def)
qed

lemma parsed_metadata_accepted:
  assumes "parse_nvidia_metadata from_slice bytes = Ok gpu" and "length (nv_compute_capability gpu) \<le> 256"
  shows "validate_nvidia_provenance gpu = Ok ()"
proof -
  have "metadata_bounded v = good_value v" for v by (simp add: metadata_bounded_def good_value_def)
  then have g: "good_value (nv_device_name gpu)" "good_value (nv_nvidia_driver_version gpu)" "good_value (nv_cuda_driver_version gpu)"
    "good_value (nv_cuda_runtime_version gpu)" "good_value (nv_cuda_toolkit_version gpu)" "compute_capability_valid (nv_compute_capability gpu)"
    "nv_vendor gpu = ''NVIDIA''" "nv_logical_device_index gpu = 0" "nv_total_vram_bytes gpu \<noteq> 0"
    "nvidia_driver_version_supported (nv_nvidia_driver_version gpu)" "no_policy (nv_offload gpu) = ''singleDeviceAllLayers''"
    "no_total_layers (nv_offload gpu) \<noteq> 0" "no_offloaded_layers (nv_offload gpu) = no_total_layers (nv_offload gpu)"
    using assms(1) by (auto simp: parse_nvidia_metadata_def Let_def result_simps split: if_splits)
  then show ?thesis
    using good_value_accepted compute_capability_value [OF g(6) assms(2)] by (simp add: validate_nvidia_provenance_def)
qed

text \<open>The length of the compute capability is the one thing about the metadata that only the verifier checks.\<close>

lemma parsed_metadata_accepted_iff:
  assumes "parse_nvidia_metadata from_slice bytes = Ok gpu"
  shows "validate_nvidia_provenance gpu = Ok () \<longleftrightarrow> length (nv_compute_capability gpu) \<le> 256"
proof
  assume "validate_nvidia_provenance gpu = Ok ()"
  then have "require_provenance_value (nv_compute_capability gpu) ''runtime.backend.nvidia.computeCapability'' = Ok ()"
    by (auto simp: validate_nvidia_provenance_def invalid_defs result_simps split: if_splits)
  then show "length (nv_compute_capability gpu) \<le> 256"
    by (simp add: require_provenance_value_def invalid_defs MAX_PROVENANCE_VALUE_BYTES_def split: if_splits)
qed (rule parsed_metadata_accepted [OF assms])

lemma executed_gpu:
  assumes "execution_kind cuda plan = Ok kind" and "execute_kind h plan kind = Some out"
  shows "eo_nvidia_gpu out = Some gpu \<Longrightarrow> \<exists>from_slice bytes. parse_nvidia_metadata from_slice bytes = Ok gpu"
    and "eo_nvidia_gpu out = None \<Longrightarrow> plan_runtime plan = RuntimeLlamaCpp TargetNvidiaCuda m t \<Longrightarrow> eo_terminal_state out \<noteq> Succeeded"
proof -
  have "run_kind (h, plan) kind = Some out" using assms(2) by (simp add: run_kind_def)
  then have "(\<forall>gpu. eo_nvidia_gpu out = Some gpu \<longrightarrow> (\<exists>from_slice bytes. parse_nvidia_metadata from_slice bytes = Ok gpu))
    \<and> (eo_nvidia_gpu out = None \<longrightarrow> plan_runtime plan = RuntimeLlamaCpp TargetNvidiaCuda m t \<longrightarrow> eo_terminal_state out \<noteq> Succeeded)"
  proof (cases rule: run_kind_cases)
    case (fake seed sc)
    then show ?thesis using execution_kind_helper(3) [OF assms(1) [unfolded fake(1)]]
      by (auto simp: local_fake_run_def local_fake_execute_def Let_def split: LocalFakeScenario.splits)
  next
    case (probe config system)
    then show ?thesis using execution_kind_helper(1) [OF assms(1) [unfolded probe(1)]]
      by (auto simp: cpu_run_def cpu_execute_def cpu_into_execution_output_def)
  next
    case (model config system)
    then show ?thesis using execution_kind_helper(2) [OF assms(1) [unfolded model(1)]]
      by (auto simp: llama_run_def llama_execute_def llama_into_execution_output_def llama_rejected_def Let_def
          split: option.splits LlamaCppTarget.splits list.splits sum.splits if_splits) blast
  qed
  then show "eo_nvidia_gpu out = Some gpu \<Longrightarrow> \<exists>from_slice bytes. parse_nvidia_metadata from_slice bytes = Ok gpu"
    "eo_nvidia_gpu out = None \<Longrightarrow> plan_runtime plan = RuntimeLlamaCpp TargetNvidiaCuda m t \<Longrightarrow> eo_terminal_state out \<noteq> Succeeded"
    by blast+
qed

text \<open>Attaching acceptable GPU facts to provenance that is accepted for a failed run gives provenance that is accepted for any.\<close>

lemma attached_accepted:
  assumes "validate_attempt_provenance p0 (m\<lparr>em_run_status := Failed\<rparr>) plan g = Ok ()" and "attach_nvidia p0 gpu = Ok p"
    and "validate_nvidia_provenance gpu = Ok ()"
  shows "validate_attempt_provenance p m plan g = Ok ()"
proof -
  obtain generator engine model backend where sw: "sw_runtime (ap_software p0) = ProvLlamaCpp generator engine model backend"
      "bp_device_class backend = DeviceNvidiaCuda"
    and p: "p = p0\<lparr>ap_software := (ap_software p0)\<lparr>sw_runtime := ProvLlamaCpp generator engine model (backend\<lparr>bp_nvidia := Some gpu\<rparr>)\<rparr>\<rparr>"
    using assms(2) by (auto simp: attach_nvidia_def split: RuntimeProvenance.splits if_splits)
  have backend: "validate_backend target backend m' = Ok () \<Longrightarrow> validate_backend target (backend\<lparr>bp_nvidia := Some gpu\<rparr>) m = Ok ()" for target m'
    using sw(2) assms(3) by (auto simp: validate_backend_def invalid_defs split: if_splits)
  have runtime: "validate_runtime_provenance (ProvLlamaCpp generator engine model backend) rt (m\<lparr>em_run_status := Failed\<rparr>) g = Ok () \<Longrightarrow>
      validate_runtime_provenance (ProvLlamaCpp generator engine model (backend\<lparr>bp_nvidia := Some gpu\<rparr>)) rt m g = Ok ()" for rt
    by (cases rt) (auto simp: validate_runtime_provenance_def invalid_defs result_simps backend split: if_splits)
  show ?thesis
    using assms(1) by (auto simp: validate_attempt_provenance_def p sw(1) Let_def invalid_defs result_simps runtime split: if_splits)
qed

lemma executed_provenance:
  assumes adm: "admissible (re_experiment plan)" and kind: "execution_kind cuda plan = Ok kind" and exec: "execute_kind h plan kind = Some out"
    and agree: "evidence_agrees plan out" and host: "host_ok pf" "nix_installed pf (plan_runtime plan)"
    and cap: "capture pf (em_run_id m) plan = Return p0" and status: "em_run_status m = eo_terminal_state out"
    and p: "case eo_nvidia_gpu out of None \<Rightarrow> p = p0 | Some gpu \<Rightarrow> attach_nvidia p0 gpu = Ok p"
    and g: "g = None \<or> g = Some (runtime_generator (plan_runtime plan))"
  shows "validate_attempt_provenance p m plan g = Ok ()"
proof (cases "eo_nvidia_gpu out")
  case None
  have "validate_attempt_provenance p0 m plan g = Ok ()"
    using executed_gpu(2) [OF kind exec None] by (intro capture_accepted [OF host(1) adm host(2) cap _ g]) (auto simp: status)
  then show ?thesis using p None by simp
next
  case (Some gpu)
  have "validate_attempt_provenance p0 (m\<lparr>em_run_status := Failed\<rparr>) plan g = Ok ()"
    by (rule capture_accepted [OF host(1) adm host(2) _ _ g]) (simp_all add: cap)
  moreover have "validate_nvidia_provenance gpu = Ok ()"
    using executed_gpu(1) [OF kind exec Some] parsed_metadata_accepted agree Some by (auto simp: evidence_agrees_def)
  ultimately show ?thesis using attached_accepted p Some by simp
qed

end
