(* ===== verification/RunPublication.thy ===== *)
theory RunPublication
  imports RunSuccess ExecutionEvidence
begin

text \<open>
  The end of a run whose operations all succeed: the staging directory passes the checksum and record
  checks of the verifier and is published.
\<close>

subsection \<open>The files of a finished run\<close>

record Payloads =
  pl_document :: bytes
  pl_plan :: bytes
  pl_events :: bytes
  pl_run :: bytes
  pl_validity :: bytes
  pl_summary :: bytes
  pl_manifest :: bytes
  pl_measurements :: bytes
  pl_attempt :: bytes
  pl_provenance :: bytes
  pl_resources :: "bytes option"

definition bundle_entries :: "Payloads \<Rightarrow> entries" where
  "bundle_entries P = (''attempts'', Dir [(''0001'', Dir (attempt_files (pl_measurements P) (pl_attempt P)
     (attempt_rest (pl_provenance P) (pl_resources P))))])
     # final_root (pl_document P) (pl_plan P) (pl_events P) (pl_run P) (pl_validity P) (pl_summary P) (pl_manifest P)"

lemmas bundle_entries_defs = bundle_entries_def attempt_files_def attempt_rest_def final_root_def

definition bundle_files :: "Payloads \<Rightarrow> (string list \<times> bytes) list" where
  "bundle_files P = [([''attempts'', ''0001'', ''measurements.jsonl''], pl_measurements P),
     ([''attempts'', ''0001'', ''attempt.json''], pl_attempt P), ([''attempts'', ''0001'', ''provenance.json''], pl_provenance P)]
     @ (case pl_resources P of None \<Rightarrow> [] | Some b \<Rightarrow> [([''attempts'', ''0001'', ''resources.json''], b)])
     @ [([''experiment.yaml''], pl_document P), ([''resolved-plan.json''], pl_plan P), ([''events.jsonl''], pl_events P),
     ([''run.json''], pl_run P), ([''validity.json''], pl_validity P), ([''summary.json''], pl_summary P),
     ([''manifest.json''], pl_manifest P)]"

lemma bundle_leaves: "payload_leaves [] (bundle_entries P) = map (\<lambda>(cs, b). (cs, FileNode b)) (bundle_files P)"
  by (cases "pl_resources P") (simp_all add: bundle_entries_defs bundle_files_def)

lemma bundle_wf: "wf_entries (bundle_entries P)"
  by (cases "pl_resources P") (simp_all add: bundle_entries_defs wf_entries_Cons good_name_def wf_entries.simps [of "[]"])

lemma bundle_plain: "plain_entries (bundle_entries P)"
  by (cases "pl_resources P") (simp_all add: bundle_entries_defs plain_entries.simps utf8_name_ascii byte_of_def)

definition bundle_paths :: "Payloads \<Rightarrow> string list" where
  "bundle_paths P = [''attempts/0001/attempt.json'', ''attempts/0001/measurements.jsonl'', ''attempts/0001/provenance.json'']
     @ (if pl_resources P = None then [] else [''attempts/0001/resources.json''])
     @ [''events.jsonl'', ''experiment.yaml'', ''manifest.json'', ''resolved-plan.json'', ''run.json'', ''summary.json'',
     ''validity.json'']"

lemma bundle_gathered: "gather_payload_paths (bundle_entries P) = Ok (map (\<lambda>p. (p, p)) (bundle_paths P))"
proof -
  have "fold insert_leaf (payload_leaves [] (bundle_entries P)) [] = map (\<lambda>p. (p, p)) (bundle_paths P)"
    unfolding bundle_leaves bundle_files_def bundle_paths_def by (cases "pl_resources P") (simp_all add: insert_leaf_def less_char_def)
  moreover have "entry_count [] (bundle_entries P) \<le> MAX_CHECKSUM_ENTRIES"
    by (cases "pl_resources P") (simp_all add: bundle_entries_defs MAX_CHECKSUM_ENTRIES_def)
  ultimately show ?thesis using gather_plain [OF bundle_plain bundle_wf] by simp
qed

definition bundle_sizes :: "Payloads \<Rightarrow> bool" where
  "bundle_sizes P \<longleftrightarrow> length (pl_document P) \<le> MAX_EXPERIMENT_BYTES \<and> length (pl_plan P) \<le> MAX_RESOLVED_PLAN_BYTES
     \<and> length (pl_events P) \<le> MAX_IDENTITY_RECORD_BYTES \<and> length (pl_run P) \<le> MAX_IDENTITY_RECORD_BYTES
     \<and> length (pl_validity P) \<le> MAX_IDENTITY_RECORD_BYTES \<and> length (pl_summary P) \<le> MAX_IDENTITY_RECORD_BYTES
     \<and> length (pl_manifest P) \<le> MAX_MANIFEST_BYTES \<and> length (pl_attempt P) \<le> MAX_IDENTITY_RECORD_BYTES
     \<and> length (pl_provenance P) \<le> MAX_ATTEMPT_PROVENANCE_BYTES
     \<and> (case pl_resources P of None \<Rightarrow> True | Some b \<Rightarrow> length b \<le> MAX_ATTEMPT_RESOURCES_BYTES)"

lemma bundle_limits:
  assumes "bundle_sizes P"
  shows "checksum_limits (bundle_entries P)"
proof -
  have "entry_count [] (bundle_entries P) \<le> 13" by (cases "pl_resources P") (simp_all add: bundle_entries_defs)
  moreover have "\<forall>(cs, n) \<in> set (payload_leaves [] (bundle_entries P)). listable (join_path cs)
       \<and> (case n of FileNode content \<Rightarrow> within_limit (join_path cs) content | _ \<Rightarrow> True)"
    using assms unfolding bundle_leaves bundle_files_def bundle_sizes_def
    by (cases "pl_resources P") (simp_all add: listable_def within_limit_def retained_limit_def MAX_CHECKSUM_LINE_BYTES_def)
  ultimately show ?thesis by (simp add: checksum_limits_def MAX_CHECKSUM_ENTRIES_def)
qed

lemma bundle_checksummed:
  assumes "sha256_contract (cd_sha256 c)" and "hex_contract (cd_hex c)"
    and root: "canonicalize path = Ok (root, Dir (bundle_entries P))" and sizes: "bundle_sizes P"
  obtains es sums s where "write_checksum_file c canonicalize path = Ok (es, sums)" "wf_entries es"
    "payload_leaves [] es = payload_leaves [] (bundle_entries P)"
    "verify_payloads c root es = Ok (s, pl_manifest P)" "set (ck_names s) = join_path ` fst ` set (bundle_files P)"
    "\<And>cs b. (cs, b) \<in> set (bundle_files P) \<Longrightarrow> ck_digests s (join_path cs) = Some (cd_hex c (cd_sha256 c b))
       \<and> (retained_limit (join_path cs) \<noteq> None \<longrightarrow> ck_retained s (join_path cs) = Some b)"
    "ck_retained s ''attempts/0001/resources.json'' = pl_resources P"
proof -
  let ?es = "bundle_entries P"
  have fresh: "''SHA256SUMS.tmp'' \<notin> fst ` set ?es" "''SHA256SUMS'' \<notin> fst ` set ?es"
    by (simp_all add: bundle_entries_defs)
  obtain es sums where w: "write_checksum_file c canonicalize path = Ok (es, sums)" and sums: "sums = sums_of c ?es (bundle_paths P)"
    using write_checksum_file_runs [where canonicalize = canonicalize and path = path, OF bundle_wf root fresh bundle_gathered] by (simp add: comp_def)
  have "length sums \<le> MAX_CHECKSUM_FILE_BYTES"
    using length_sums_of [OF assms(1,2)] by (simp add: sums bundle_paths_def MAX_CHECKSUM_FILE_BYTES_def)
  note written = written_verifies [where canonicalize = canonicalize and path = path and m = "pl_manifest P",
    OF bundle_wf root fresh(1) assms(1,2) w bundle_limits [OF sizes] this]
  obtain s where s: "payload_leaves [] es = payload_leaves [] ?es" "wf_entries es"
    "verify_payloads c root es = Ok (s, pl_manifest P)" "set (ck_names s) = join_path ` fst ` set (payload_leaves [] ?es)"
    "\<And>cs b. (cs, FileNode b) \<in> set (payload_leaves [] ?es) \<Longrightarrow> ck_digests s (join_path cs) = Some (cd_hex c (cd_sha256 c b))
       \<and> (retained_limit (join_path cs) \<noteq> None \<longrightarrow> ck_retained s (join_path cs) = Some b)"
    "\<And>p. p \<notin> join_path ` fst ` set (payload_leaves [] ?es) \<Longrightarrow> ck_retained s p = None"
    by (rule written) (simp add: bundle_leaves bundle_files_def, blast)
  have "ck_retained s ''attempts/0001/resources.json'' = pl_resources P"
  proof (cases "pl_resources P")
    case None
    then show ?thesis using s(6) [of "''attempts/0001/resources.json''"] by (simp add: bundle_leaves bundle_files_def)
  next
    case (Some b)
    then show ?thesis
      using s(5) [of "[''attempts'', ''0001'', ''resources.json'']" b] by (simp add: bundle_leaves bundle_files_def retained_limit_def)
  qed
  moreover have "set (ck_names s) = join_path ` fst ` set (bundle_files P)"
    by (simp add: s(4) bundle_leaves image_image case_prod_beta)
  moreover have "(cs, FileNode b) \<in> set (payload_leaves [] ?es)" if "(cs, b) \<in> set (bundle_files P)" for cs b
    using that by (force simp: bundle_leaves)
  ultimately show thesis using that [OF w s(2,1,3)] s(5) by blast
qed

subsection \<open>The records of a finished run\<close>

lemma resolved_eq_refl: "admissible (re_experiment p) \<Longrightarrow> resolved_eq p p"
  by (simp add: resolved_eq_def cost_of_def f64_eq_def f64_is_nan_def admissible_def provider_admissible_def Let_def f64_is_finite_def)

lemma finished_run_record: "own_run h plan (eo_terminal_state out) r \<Longrightarrow> check_run (manifest_of h plan out v) r = Ok ()"
  by (simp add: check_run_def own_run_def manifest_of_def)

lemma finished_attempt_record:
  assumes "attempt_terminal (eo_terminal_state out) = Return st" and "own_attempt h st a"
  shows "check_attempt (manifest_of h plan out v) a = Return (Ok ())"
  using assms by (cases "eo_terminal_state out") (simp_all add: check_attempt_def own_attempt_def manifest_of_def attempt_terminal_def)

lemma finished_validity:
  assumes "evaluate_validity plan out (ho_run_id h) = Return v" and "n = of_nat (length (measured_records (eo_measurements out)))"
  shows "check_validity (manifest_of h plan out v) plan n v = Return (Ok ())"
  using assms by (cases "eo_terminal_state out")
    (auto simp: evaluate_validity_def check_validity_def expected_validity_def manifest_of_def Let_def split: if_splits)

lemma finished_summary:
  assumes "summarize plan out v (ho_run_id h) = Return su" and "n = of_nat (length (measured_records (eo_measurements out)))"
  shows "check_summary (manifest_of h plan out v) n (eo_measurements out) su = Return (Ok ())"
proof -
  have "summarize plan out v (ho_run_id h) = chain (expected_statistics (manifest_of h plan out v) (eo_measurements out))
      (\<lambda>(latency, mean_throughput). Return
         \<lparr>su_run_id = ho_run_id h, su_run_status = eo_terminal_state out, su_attempt_count = 1,
          su_sample_count = n, su_validity_status = vy_status v,
          su_latency = latency, su_mean_throughput_milli_requests_per_second = mean_throughput,
          su_experiment_digest = re_experiment_digest plan,
          su_resolved_plan_digest = re_resolved_plan_digest plan\<rparr>)"
    by (simp only: summarize_def expected_statistics_def manifest_of_def Let_def assms(2) EvidenceManifest.simps)
  with assms(1) show ?thesis
    by (cases "expected_statistics (manifest_of h plan out v) (eo_measurements out)")
      (auto simp: check_summary_def manifest_of_def)
qed

lemma finished_events:
  assumes "journal_bytes h n b"
  shows "check_events (ho_codecs h) (manifest_of h plan out v) (split_on CHR 0x0A b) = Ok ()"
proof -
  obtain lines where lines: "b = concat (map (\<lambda>l. l @ [CHR 0x0A]) lines)" "\<forall>l \<in> set lines. event_line h l"
    using assms by (auto simp: journal_bytes_def)
  have "check_events (ho_codecs h) (manifest_of h plan out v) (split_on CHR 0x0A (concat (map (\<lambda>l. l @ [CHR 0x0A]) ls))) = Ok ()"
    if "\<forall>l \<in> set ls. event_line h l" for ls
    using that by (induction ls) (auto simp: split_on_join event_line_def own_event_def manifest_of_def)
  then show ?thesis using lines by simp
qed

lemma journal_length: "journal_bytes h n b \<Longrightarrow> length b \<le> n * 4096"
proof -
  have "length (concat (map (\<lambda>l. l @ [CHR 0x0A]) ls)) \<le> length ls * 4096" if "\<forall>l \<in> set ls. event_line h l" for ls
    using that by (induction ls) (auto simp: event_line_def)
  then show "journal_bytes h n b \<Longrightarrow> length b \<le> n * 4096" by (auto simp: journal_bytes_def)
qed

text \<open>What a finished run has written, record by record.\<close>

definition finished :: "Host \<Rightarrow> ResolvedExperiment \<Rightarrow> ExecutionOutput \<Rightarrow> AttemptProvenance \<Rightarrow> ValidityResult \<Rightarrow> RunSummary
    \<Rightarrow> Payloads \<Rightarrow> bool" where
  "finished h plan out p v su P \<longleftrightarrow> (let c = ho_codecs h in
     and_then (map_err Parse (parse_experiment (cd_yaml c) (pl_document P))) (\<lambda>e. map_err RunResolution (cd_resolve c e)) = Ok plan
     \<and> cd_plan c (pl_plan P) = Ok plan \<and> (\<exists>n. journal_bytes h n (pl_events P))
     \<and> run_bytes h plan (eo_terminal_state out) (pl_run P)
     \<and> (\<exists>st. attempt_terminal (eo_terminal_state out) = Return st \<and> attempt_bytes h st (pl_attempt P))
     \<and> cd_provenance c (pl_provenance P) = Ok p \<and> cd_validity c (pl_validity P) = Ok v \<and> cd_summary c (pl_summary P) = Ok su
     \<and> cd_manifest c (pl_manifest P) = Ok (manifest_of h plan out v)
     \<and> evaluate_validity plan out (ho_run_id h) = Return v \<and> summarize plan out v (ho_run_id h) = Return su
     \<and> (\<exists>mv. validate_measurements c (Ok (pl_measurements P)) (cd_hex c (cd_sha256 c (pl_measurements P))) plan
         (eo_terminal_state out) = Ok mv \<and> mv_records mv = eo_measurements out
         \<and> mv_measured_records mv = of_nat (length (measured_records (eo_measurements out)))
         \<and> validate_attempt_provenance p (manifest_of h plan out v) plan (mv_generator mv) = Ok ())
     \<and> (case pl_resources P of None \<Rightarrow> True
        | Some b \<Rightarrow> \<exists>r. cd_resources c b = Ok r \<and> validate_attempt_resources r (manifest_of h plan out v) plan = Ok ()))"

lemma finished_consistent:
  assumes "finished h plan out p v su P" and "admissible (re_experiment plan)"
    and ret: "\<And>cs b. (cs, b) \<in> set (bundle_files P) \<Longrightarrow>
       digests (join_path cs) = Some (cd_hex (ho_codecs h) (cd_sha256 (ho_codecs h) b))
       \<and> (retained_limit (join_path cs) \<noteq> None \<longrightarrow> payloads (join_path cs) = Some b)"
    and res: "payloads ''attempts/0001/resources.json'' = pl_resources P"
  shows "\<exists>b. validate_record_consistency (ho_codecs h) root (Some (ho_run_id h)) (Ok (pl_measurements P))
     (manifest_of h plan out v) payloads digests = Return (Ok b) \<and> vb_manifest b = manifest_of h plan out v"
proof -
  let ?c = "ho_codecs h" and ?m = "manifest_of h plan out v"
  have p: "payloads ''experiment.yaml'' = Some (pl_document P)" "payloads ''resolved-plan.json'' = Some (pl_plan P)"
    "payloads ''run.json'' = Some (pl_run P)" "payloads ''attempts/0001/attempt.json'' = Some (pl_attempt P)"
    "payloads ''attempts/0001/provenance.json'' = Some (pl_provenance P)"
    "payloads ''events.jsonl'' = Some (pl_events P)" "payloads ''validity.json'' = Some (pl_validity P)"
    "payloads ''summary.json'' = Some (pl_summary P)"
    "digests measurements_path = Some (cd_hex ?c (cd_sha256 ?c (pl_measurements P)))"
    using ret [of "[''experiment.yaml'']"] ret [of "[''resolved-plan.json'']"] ret [of "[''run.json'']"]
      ret [of "[''attempts'', ''0001'', ''attempt.json'']"] ret [of "[''attempts'', ''0001'', ''provenance.json'']"]
      ret [of "[''events.jsonl'']"] ret [of "[''validity.json'']"] ret [of "[''summary.json'']"]
      ret [of "[''attempts'', ''0001'', ''measurements.jsonl'']"]
    by (simp_all add: bundle_files_def retained_limit_def measurements_path_def)
  note f = assms(1) [unfolded finished_def Let_def]
  obtain e where e: "parse_experiment (cd_yaml ?c) (pl_document P) = Ok e" "cd_resolve ?c e = Ok plan"
    using f by (auto simp: result_simps)
  have "re_experiment plan = e" using e(2) by (auto simp: cd_resolve_def resolve_Ok_iff resolved_with_def)
  then have again: "cd_resolve ?c (re_experiment plan) = Ok plan" using e(2) by simp
  have plan: "validate_resolved_plan ?c plan ?m = Ok ()" "validate_original_experiment ?c payloads plan = Ok ()"
    using resolved_eq_refl [OF assms(2)] e again p(1)
    by (simp_all add: validate_resolved_plan_def validate_original_experiment_def manifest_of_def)
  obtain r where r: "cd_run ?c (pl_run P) = Ok r" "own_run h plan (eo_terminal_state out) r"
    using f by (auto simp: run_bytes_def)
  obtain st a where a: "attempt_terminal (eo_terminal_state out) = Return st" "cd_attempt ?c (pl_attempt P) = Ok a" "own_attempt h st a"
    using f by (auto simp: attempt_bytes_def)
  obtain mv where mv: "validate_measurements ?c (Ok (pl_measurements P)) (cd_hex ?c (cd_sha256 ?c (pl_measurements P))) plan
      (eo_terminal_state out) = Ok mv" "mv_records mv = eo_measurements out"
    "mv_measured_records mv = of_nat (length (measured_records (eo_measurements out)))"
    "validate_attempt_provenance p ?m plan (mv_generator mv) = Ok ()" using f by blast
  have reads: "cd_plan ?c (pl_plan P) = Ok plan" "cd_provenance ?c (pl_provenance P) = Ok p" "cd_validity ?c (pl_validity P) = Ok v"
    "cd_summary ?c (pl_summary P) = Ok su" using f by simp_all
  have ev: "check_events ?c ?m (split_on CHR 0x0A (pl_events P)) = Ok ()" using f finished_events by blast
  have checks: "check_validity ?m plan (mv_measured_records mv) v = Return (Ok ())" "check_summary ?m (mv_measured_records mv) (mv_records mv) su = Return (Ok ())"
    using f finished_validity finished_summary mv(2,3) by simp_all
  obtain rs where rs: "optional_record (cd_resources ?c) payloads ''attempts/0001/resources.json'' (\<lambda>r. validate_attempt_resources r ?m plan) = Ok rs"
    using f by (cases "pl_resources P") (auto simp: optional_record_def res)
  have "em_run_id ?m = ho_run_id h" "em_run_status ?m = eo_terminal_state out" by (simp_all add: manifest_of_def)
  then show ?thesis
    using plan finished_run_record [OF r(2)] finished_attempt_record [OF a(1,3)]
    by (simp add: validate_record_consistency_def parse_record_def optional_record_def p reads r(1) a(2) mv(1,4) checks ev
        rs [unfolded optional_record_def])
qed

subsection \<open>Verification and publication\<close>

text \<open>The identity of a run: UTF-8 text of the form the verifier accepts.\<close>

definition identity_ok :: "Host \<Rightarrow> bool" where
  "identity_ok h \<longleftrightarrow> is_run_id (ho_codecs h) (ho_run_id h) \<and> from_utf8 (ho_run_id h) = Some (ho_run_id h)"

lemma finished_manifest:
  assumes "identity_ok h" and "attempt_terminal (eo_terminal_state out) = Return st"
    and "is_sha256_digest (re_experiment_digest plan)" and "is_sha256_digest (re_resolved_plan_digest plan)"
  shows "validate_manifest (ho_codecs h) (manifest_of h plan out v) = Ok ()"
proof -
  obtain rest where "ho_run_id h = CHR ''r'' # rest"
    using assms(1) by (auto simp: identity_ok_def is_run_id_def strip_prefix_def split: option.splits if_splits) (metis append_Cons append_take_drop_id)
  then have "trim (ho_run_id h) \<noteq> []" using trim_graphic [of "CHR ''r''" rest] by (simp add: byte_of_def)
  moreover have "is_terminal (eo_terminal_state out)"
    using assms(2) by (cases "eo_terminal_state out") (simp_all add: attempt_terminal_def)
  ultimately show ?thesis using assms by (simp add: validate_manifest_def manifest_of_def identity_ok_def)
qed

lemma finished_verifies:
  assumes codecs: "sha256_contract (cd_sha256 (ho_codecs h))" "hex_contract (cd_hex (ho_codecs h))" and id: "identity_ok h"
    and fin: "finished h plan out p v su P" and sizes: "bundle_sizes P"
  obtains es sums where "write_checksum_file (ho_codecs h) (staged_bundle h (bundle_entries P)) (staging_path h) = Ok (es, sums)"
    "verify_evidence_bundle (ho_codecs h) (staged_bundle h es) (staging_path h) = Return (Ok (manifest_of h plan out v))"
proof -
  let ?c = "ho_codecs h" and ?m = "manifest_of h plan out v"
  have root: "staged_bundle h es (staging_path h) = Ok (staging_root h, Dir es)" for es by (simp add: staged_bundle_def)
  obtain es sums s where w: "write_checksum_file ?c (staged_bundle h (bundle_entries P)) (staging_path h) = Ok (es, sums)"
    and wf: "wf_entries es" and leaves: "payload_leaves [] es = payload_leaves [] (bundle_entries P)"
    and vp: "verify_payloads ?c (staging_root h) es = Ok (s, pl_manifest P)"
    and names: "set (ck_names s) = join_path ` fst ` set (bundle_files P)"
    and ret: "\<And>cs b. (cs, b) \<in> set (bundle_files P) \<Longrightarrow> ck_digests s (join_path cs) = Some (cd_hex ?c (cd_sha256 ?c b))
       \<and> (retained_limit (join_path cs) \<noteq> None \<longrightarrow> ck_retained s (join_path cs) = Some b)"
    and res: "ck_retained s ''attempts/0001/resources.json'' = pl_resources P"
    by (rule bundle_checksummed [where canonicalize = "staged_bundle h (bundle_entries P)" and path = "staging_path h",
          OF codecs root sizes]) blast
  obtain e st where e: "cd_resolve ?c e = Ok plan" and st: "attempt_terminal (eo_terminal_state out) = Return st"
    and m: "cd_manifest ?c (pl_manifest P) = Ok ?m"
    using fin by (auto simp: finished_def Let_def result_simps)
  have adm: "admissible (re_experiment plan)" and digests: "is_sha256_digest (re_experiment_digest plan)"
    "is_sha256_digest (re_resolved_plan_digest plan)"
    using e sha256_digest_form [OF codecs] by (auto simp: cd_resolve_def resolve_Ok_iff resolved_with_def)
  have "validate_required_payloads (ck_names s) = Ok ()"
    by (simp add: validate_required_payloads_def required_payloads_def names bundle_files_def)
  moreover have "([''attempts'', ''0001'', ''measurements.jsonl''], FileNode (pl_measurements P)) \<in> set (payload_leaves [] es)"
    by (simp add: leaves bundle_leaves bundle_files_def)
  from checked_regular_path_leaf [OF this wf] have "measurements_file (staging_root h) es = Ok (pl_measurements P)"
    by (simp add: measurements_file_def measurements_path_def)
  moreover have "root_name (staging_root h) = Some (ho_run_id h)" using id by (simp add: root_name_def staging_root_def identity_ok_def)
  moreover obtain b where "validate_record_consistency ?c (path_display (staging_root h)) (Some (ho_run_id h)) (Ok (pl_measurements P))
      ?m (ck_retained s) (ck_digests s) = Return (Ok b)" "vb_manifest b = ?m"
    using finished_consistent [OF fin adm ret res] by blast
  ultimately have "verify_evidence_bundle ?c (staged_bundle h es) (staging_path h) = Return (Ok ?m)"
    using finished_manifest [OF id st digests] m vp
    by (simp add: verify_evidence_bundle_def verify_evidence_bundle_data_def canonical_bundle_root_def root)
  then show thesis by (rule that [OF w])
qed

lemma publish_quiet:
  assumes q: "quiet h" and hook: "ho_hook h = noop_hook"
    and world: "wd_staging (se_world s) = Some (Dir (bundle_entries P))" "wd_final (se_world s) = None"
    and codecs: "sha256_contract (cd_sha256 (ho_codecs h))" "hex_contract (cd_hex (ho_codecs h))" and id: "identity_ok h"
    and fin: "finished h plan out p v su P" and sizes: "bundle_sizes P"
  obtains sums s' where "publish h s = Some (Return (Ok sums, s'))" "wd_staging (se_world s') = None" "wd_final (se_world s') \<noteq> None"
proof -
  obtain es sums where w: "write_checksum_file (ho_codecs h) (staged_bundle h (bundle_entries P)) (staging_path h) = Ok (es, sums)"
    and v: "verify_evidence_bundle (ho_codecs h) (staged_bundle h es) (staging_path h) = Return (Ok (manifest_of h plan out v))"
    by (rule finished_verifies [OF codecs id fin sizes])
  have f: "ho_fault h n = None" for n using q by (simp add: quiet_def)
  have none: "check_hook h k path w = (Ok (), w)" for k path w by (simp add: check_hook_def hook noop_hook_def)
  let ?w = "se_world s"
  have c1: "checksum_staging h ?w = (Ok sums, ?w\<lparr>wd_io := wd_io ?w + 1, wd_staging := Some (Dir es)\<rparr>)"
    using w canonicalize_staged [of "?w\<lparr>wd_io := wd_io ?w + 1\<rparr>" "bundle_entries P" h] world(1)
    by (simp add: checksum_staging_def f Let_def)
  have c2: "verify_staging h u = Return (Ok (), u\<lparr>wd_io := wd_io u + 1\<rparr>)" if "wd_staging u = Some (Dir es)" for u
    using v canonicalize_staged [of "u\<lparr>wd_io := wd_io u + 1\<rparr>" es h] that by (simp add: verify_staging_def f Let_def)
  show thesis
    by (rule that) (simp add: publish_def and_step_def at_phase_def at_checked_def with_world_def none c1 c2 publication_free_def world(2)
        rename_staging_def system_call_def f done_with_def Let_def, simp_all)
qed

subsection \<open>A whole run\<close>

definition reads_back :: "nat \<Rightarrow> ('a \<Rightarrow> string + bytes) \<Rightarrow> (bytes \<Rightarrow> string + 'a) \<Rightarrow> 'a \<Rightarrow> bool" where
  "reads_back limit wr rd v \<longleftrightarrow> (\<exists>c. wr v = Ok c \<and> rd (c @ [CHR 0x0A]) = Ok v \<and> length c < limit)"

text \<open>
  What a run relies on for its records: digests have their form, the identity is acceptable, every
  record the run writes is within its limit, and the reader gives it back.
\<close>

definition evidence_codecs :: "Host \<Rightarrow> bytes \<Rightarrow> ResolvedExperiment \<Rightarrow> ExecutionOutput \<Rightarrow> AttemptProvenance \<Rightarrow> AttemptProvenance \<Rightarrow> ValidityResult
    \<Rightarrow> RunSummary \<Rightarrow> (MeasurementRecord \<Rightarrow> bytes) \<Rightarrow> bool" where
  "evidence_codecs h bs plan out p0 p v su ser \<longleftrightarrow> (let c = ho_codecs h; wr = ho_writers h in
     sha256_contract (cd_sha256 c) \<and> hex_contract (cd_hex c) \<and> identity_ok h \<and> snapshots_read_back h plan
     \<and> length bs \<le> MAX_EXPERIMENT_BYTES
     \<and> reads_back MAX_RESOLVED_PLAN_BYTES (wr_plan wr) (cd_plan c) plan
     \<and> is_ok (wr_provenance wr p0) \<and> reads_back MAX_ATTEMPT_PROVENANCE_BYTES (wr_provenance wr) (cd_provenance c) p
     \<and> (case eo_resources out of None \<Rightarrow> True
        | Some r \<Rightarrow> reads_back MAX_ATTEMPT_RESOURCES_BYTES (wr_resources wr) (cd_resources c) (resource_record h r))
     \<and> reads_back MAX_IDENTITY_RECORD_BYTES (wr_validity wr) (cd_validity c) v
     \<and> reads_back MAX_IDENTITY_RECORD_BYTES (wr_summary wr) (cd_summary c) su
     \<and> reads_back MAX_MANIFEST_BYTES (wr_manifest wr) (cd_manifest c) (manifest_of h plan out v)
     \<and> (\<forall>r \<in> set (eo_measurements out). wr_measurement wr r = Ok (ser r) \<and> readable c ser r)
     \<and> length (jsonl ser (eo_measurements out)) \<le> MAX_MEASUREMENTS_BYTES)"

lemma quiet_allocate:
  assumes "quiet h" "wd_staging w = None" "wd_final w = None"
  obtains w' where "allocate h w = (Ok (), w')" "wd_staging w' = Some (Dir [])" "wd_final w' = None"
  by (rule that [of "w\<lparr>wd_io := Suc (Suc (Suc (wd_io w))), wd_staging := Some (Dir [])\<rparr>"])
    (use assms in \<open>simp_all add: quiet_def allocate_def fs_then_def create_parent_directory_def create_new_directory_def system_call_def\<close>)

text \<open>
  A smooth run: no operation fails, the records read back, and the execution gives measurements, provenance and
  resources that the verifier accepts.
\<close>

definition smooth :: "Host \<Rightarrow> bytes \<Rightarrow> ResolvedExperiment \<Rightarrow> ExecutionOutput \<Rightarrow> AttemptProvenance \<Rightarrow> AttemptProvenance \<Rightarrow> ValidityResult
    \<Rightarrow> RunSummary \<Rightarrow> (MeasurementRecord \<Rightarrow> bytes) \<Rightarrow> AttemptStatus \<Rightarrow> bool" where
  "smooth h bs plan out p0 p v su ser st \<longleftrightarrow> (let c = ho_codecs h; ms = jsonl ser (eo_measurements out) in
     quiet h \<and> ho_hook h = noop_hook \<and> evidence_codecs h bs plan out p0 p v su ser
     \<and> (\<exists>e. parse_experiment (cd_yaml c) bs = Ok e \<and> cd_resolve c e = Ok plan)
     \<and> enriched out p0 p \<and> attempt_terminal (eo_terminal_state out) = Return st
     \<and> (case eo_resources out of None \<Rightarrow> True
        | Some r \<Rightarrow> validate_attempt_resources (resource_record h r) (manifest_of h plan out v) plan = Ok ())
     \<and> capture (ho_platform h) (ho_run_id h) plan = Return p0 \<and> evaluate_validity plan out (ho_run_id h) = Return v
     \<and> summarize plan out v (ho_run_id h) = Return su
     \<and> (\<exists>mv. validate_measurements c (Ok ms) (cd_hex c (cd_sha256 c ms)) plan (eo_terminal_state out) = Ok mv
         \<and> mv_records mv = eo_measurements out
         \<and> mv_measured_records mv = of_nat (length (measured_records (eo_measurements out)))
         \<and> validate_attempt_provenance p (manifest_of h plan out v) plan (mv_generator mv) = Ok ()))"

definition written_payloads :: "Host \<Rightarrow> bytes \<Rightarrow> ResolvedExperiment \<Rightarrow> ExecutionOutput \<Rightarrow> AttemptProvenance \<Rightarrow> ValidityResult
    \<Rightarrow> RunSummary \<Rightarrow> (MeasurementRecord \<Rightarrow> bytes) \<Rightarrow> bytes \<Rightarrow> bytes \<Rightarrow> bytes \<Rightarrow> Payloads" where
  "written_payloads h bs plan out p v su ser evs run att = (let
       line = (\<lambda>r. (case r of Inl (_ :: string) \<Rightarrow> [] | Inr c \<Rightarrow> c @ [CHR 0x0A])); wr = ho_writers h
     in \<lparr>pl_document = bs, pl_plan = line (wr_plan wr plan), pl_events = evs, pl_run = run, pl_validity = line (wr_validity wr v),
       pl_summary = line (wr_summary wr su), pl_manifest = line (wr_manifest wr (manifest_of h plan out v)),
       pl_measurements = jsonl ser (eo_measurements out), pl_attempt = att, pl_provenance = line (wr_provenance wr p),
       pl_resources = map_option (\<lambda>r. line (wr_resources wr (resource_record h r))) (eo_resources out)\<rparr>)"

lemma smooth_recorded:
  assumes "smooth h bs plan out p0 p v su ser st" and world: "wd_staging w = Some (Dir [])" "wd_final w = None"
    and start: "start_session h plan w = (ev, s)"
  obtains s1 s2 s3 s4 i evs run att where "initialize h bs plan ev s = Some (Return (Ok (), s1))"
    "prepare h plan s1 = Some (Return (Ok p0, s2))" "record_execution h p0 out s2 = Some (Return (Ok (), s3))"
    "finalize h plan out s3 = Some (Return (Ok (v, su), s4))"
    "i \<le> 6" "journal_bytes h i evs" "run_bytes h plan (eo_terminal_state out) run" "attempt_bytes h st att"
    "wd_staging (se_world s4) = Some (Dir (bundle_entries (written_payloads h bs plan out p v su ser evs run att)))"
    "wd_final (se_world s4) = None"
proof -
  note sm = assms(1) [unfolded smooth_def Let_def]
  note c = conjunct1 [OF conjunct2 [OF conjunct2 [OF sm]], unfolded evidence_codecs_def Let_def reads_back_def]
  have q: "quiet h" and hook: "ho_hook h = noop_hook" and sn: "snapshots_read_back h plan" using sm c by blast+
  obtain pc qc vc sc mc where wr: "wr_plan (ho_writers h) plan = Ok pc" "wr_provenance (ho_writers h) p = Ok qc"
    "wr_validity (ho_writers h) v = Ok vc" "wr_summary (ho_writers h) su = Ok sc"
    "wr_manifest (ho_writers h) (manifest_of h plan out v) = Ok mc" using c by blast
  have s: "wd_staging (se_world s) = Some (Dir [])" "wd_final (se_world s) = None" "lf_state (se_lifecycle s) = Created"
    "lf_run_id (se_lifecycle s) = ho_run_id h" "lf_attempt_number (se_lifecycle s) = 1" "own_run h plan Created (se_run s)"
    "own_attempt h AttemptCreated (se_attempt s)" "own_event h ev"
    using start world by (auto simp: start_session_def Let_def lifecycle_new_def own_run_def own_attempt_def own_event_def
        new_run_record_def new_attempt_record_def)
  let ?g0 = "\<lparr>sg_document = bs, sg_plan = pc @ [CHR 0x0A], sg_state = Created, sg_attempt = AttemptCreated,
       sg_events = 1, sg_measurements = [], sg_rest = []\<rparr>"
  obtain s1 where s1: "initialize h bs plan ev s = Some (Return (Ok (), s1))" "in_stage h plan ?g0 s1"
    by (rule initialize_quiet [OF q sn wr(1) s])
  obtain qc0 where qc0: "wr_provenance (ho_writers h) p0 = Ok qc0" using c by (auto simp: is_ok_def split: sum.splits)
  let ?rest = "[(''provenance.json'', FileNode (qc0 @ [CHR 0x0A]))]"
  let ?g1 = "?g0\<lparr>sg_state := Running, sg_events := 1 + 2, sg_attempt := AttemptRunning, sg_rest := ?rest\<rparr>"
  obtain s2 where s2: "prepare h plan s1 = Some (Return (Ok p0, s2))" "in_stage h plan ?g1 s2"
    by (rule prepare_quiet [OF q sn s1(2) _ _ _ qc0]) (use sm in simp_all)
  let ?res = "pl_resources (written_payloads h bs plan out p v su ser [] [] [])"
  let ?g2 = "?g0\<lparr>sg_state := Running, sg_events := 1 + 2, sg_attempt := st, sg_measurements := jsonl ser (eo_measurements out),
       sg_rest := attempt_rest (qc @ [CHR 0x0A]) ?res\<rparr>"
  have "in_stage h plan ((?g0\<lparr>sg_state := Running, sg_events := 1 + 2, sg_attempt := AttemptRunning\<rparr>)
      \<lparr>sg_rest := attempt_rest (qc0 @ [CHR 0x0A]) None\<rparr>) s2"
    using s2(2) by (simp add: attempt_rest_def)
  then obtain s3 where s3: "record_execution h p0 out s2 = Some (Return (Ok (), s3))" "in_stage h plan ?g2 s3"
    by (rule record_execution_quiet [where p = p and out = out and status = st and ser = ser and b = ?res, OF q hook sn _ _ wr(2)])
      (use sm c qc0 wr(2) in \<open>auto simp: written_payloads_def Let_def split: option.splits\<close>)
  have ended: "is_terminal (eo_terminal_state out)" using sm by (cases "eo_terminal_state out") (simp_all add: attempt_terminal_def)
  obtain s4 evs run att i where s4: "finalize h plan out s3 = Some (Return (Ok (v, su), s4))"
    "i \<le> sg_events ?g2 + 3" "journal_bytes h i evs" "run_bytes h plan (eo_terminal_state out) run" "attempt_bytes h (sg_attempt ?g2) att"
    "at_stage (attempt_files (sg_measurements ?g2) att (sg_rest ?g2))
       (final_root (sg_document ?g2) (sg_plan ?g2) evs run (vc @ [CHR 0x0A]) (sc @ [CHR 0x0A]) (mc @ [CHR 0x0A])) (se_world s4)"
    by (rule finish_quiet [OF q sn s3(2) _ ended _ wr(3) _ wr(4,5)]) (use sm in simp_all)
  show thesis
    by (rule that [OF s1(1) s2(1) s3(1) s4(1) _ s4(3,4)])
      (use s4(2,5,6) wr in \<open>simp_all add: at_stage_def stage_def bundle_entries_def written_payloads_def Let_def\<close>)
qed

lemma smooth_finished:
  assumes "smooth h bs plan out p0 p v su ser st" and "i \<le> 6" "journal_bytes h i evs" and rb: "run_bytes h plan (eo_terminal_state out) run"
    and ab: "attempt_bytes h st att"
  defines "P \<equiv> written_payloads h bs plan out p v su ser evs run att"
  shows "finished h plan out p v su P" "bundle_sizes P"
proof -
  note sm = assms(1) [unfolded smooth_def Let_def]
  note c = conjunct1 [OF conjunct2 [OF conjunct2 [OF sm]], unfolded evidence_codecs_def Let_def reads_back_def]
  show "finished h plan out p v su P"
    unfolding finished_def Let_def using sm c rb ab assms(3)
    by (cases "eo_resources out") (auto simp: P_def written_payloads_def Let_def)
  have "length evs \<le> 6 * 4096" using journal_length [OF assms(3)] assms(2) by simp
  then show "bundle_sizes P"
    using c rb ab by (cases "eo_resources out")
      (auto simp: bundle_sizes_def P_def written_payloads_def run_bytes_def attempt_bytes_def MAX_IDENTITY_RECORD_BYTES_def Let_def)
qed

lemma smooth_allocated_run:
  assumes sm: "smooth h bs plan out p0 p v su ser st" and exec: "execute_kind h plan kind = Some out"
    and world: "wd_staging w = Some (Dir [])" "wd_final w = None" and start: "start_session h plan w = (ev, s)"
  obtains result s' where "allocated_run h bs plan kind ev s = Some (Return (Ok result, s'))"
    "wd_staging (se_world s') = None" "wd_final (se_world s') \<noteq> None"
    "rs_run_state result = eo_terminal_state out" "rs_validity_status result = vy_status v" "rs_sample_count result = su_sample_count su"
    "rs_failure result = eo_failure out"
proof -
  obtain s1 s2 s3 s4 i evs run att where r: "initialize h bs plan ev s = Some (Return (Ok (), s1))"
    "prepare h plan s1 = Some (Return (Ok p0, s2))" "record_execution h p0 out s2 = Some (Return (Ok (), s3))"
    "finalize h plan out s3 = Some (Return (Ok (v, su), s4))"
    "i \<le> 6" "journal_bytes h i evs" "run_bytes h plan (eo_terminal_state out) run" "attempt_bytes h st att"
    "wd_staging (se_world s4) = Some (Dir (bundle_entries (written_payloads h bs plan out p v su ser evs run att)))"
    "wd_final (se_world s4) = None"
    by (rule smooth_recorded [OF sm world start])
  have codecs: "quiet h" "ho_hook h = noop_hook" "sha256_contract (cd_sha256 (ho_codecs h))" "hex_contract (cd_hex (ho_codecs h))" "identity_ok h"
    using sm unfolding smooth_def evidence_codecs_def Let_def by blast+
  obtain sums s5 where s5: "publish h s4 = Some (Return (Ok sums, s5))" "wd_staging (se_world s5) = None" "wd_final (se_world s5) \<noteq> None"
    by (rule publish_quiet [OF codecs(1,2) r(9,10) codecs(3-5) smooth_finished [OF sm r(5-8)]])
  show thesis
    by (rule that [OF _ s5(2,3)])
      (simp add: allocated_run_def and_step_def or_diverge_def exec r(1-4) s5(1) done_with_def, simp_all)
qed

lemma smooth_run:
  assumes sm: "smooth h bs plan out p0 p v su ser st" and kind: "execution_kind (ho_cuda_package h) plan = Ok kind"
    and exec: "execute_kind h plan kind = Some out" and free: "wd_staging w = None" "wd_final w = None"
  shows "\<exists>result w'. run_experiment_with_services h bs w = Some (Return (Ok result, w')) \<and> wd_staging w' = None
    \<and> wd_final w' \<noteq> None \<and> rs_run_state result = eo_terminal_state out \<and> rs_validity_status result = vy_status v
    \<and> rs_sample_count result = su_sample_count su \<and> rs_failure result = eo_failure out"
proof -
  have q: "quiet h" and parsed: "\<exists>e. parse_experiment (cd_yaml (ho_codecs h)) bs = Ok e \<and> cd_resolve (ho_codecs h) e = Ok plan"
    using sm by (auto simp: smooth_def Let_def)
  obtain w1 where w1: "allocate h w = (Ok (), w1)" "wd_staging w1 = Some (Dir [])" "wd_final w1 = None"
    by (rule quiet_allocate [OF q free])
  obtain ev s where start: "start_session h plan w1 = (ev, s)" by (cases "start_session h plan w1")
  obtain result s' where r: "allocated_run h bs plan kind ev s = Some (Return (Ok result, s'))"
    "wd_staging (se_world s') = None" "wd_final (se_world s') \<noteq> None"
    "rs_run_state result = eo_terminal_state out" "rs_validity_status result = vy_status v" "rs_sample_count result = su_sample_count su"
    "rs_failure result = eo_failure out"
    by (rule smooth_allocated_run [OF sm exec w1(2,3) start])
  then show ?thesis
    using parsed by (auto simp: run_experiment_with_services_def kind w1(1) start settle_def)
qed

lemma evidence_codecs_production:
  "evidence_codecs (production h) bs plan out p0 p v su ser = evidence_codecs h bs plan out p0 p v su ser"
proof -
  let ?h = "production h"
  have own: "own_run ?h = own_run h" "own_attempt ?h = own_attempt h" "own_event ?h = own_event h"
    by (auto simp: fun_eq_iff own_run_def own_attempt_def own_event_def)
  have "run_bytes ?h = run_bytes h" "attempt_bytes ?h = attempt_bytes h" "event_line ?h = event_line h"
    by (auto simp: fun_eq_iff run_bytes_def attempt_bytes_def event_line_def own)
  moreover have "manifest_of ?h = manifest_of h" "resource_record ?h = resource_record h"
    by (simp_all add: fun_eq_iff manifest_of_def resource_record_def)
  ultimately show ?thesis
    by (simp add: evidence_codecs_def Let_def snapshots_read_back_def identity_ok_def own cong: option.case_cong)
qed

text \<open>The execution of any runtime on such a host is a smooth run.\<close>

lemma executed_smooth:
  assumes quiet: "quiet h" and doc: "parse_experiment (cd_yaml (ho_codecs h)) bs = Ok e" "cd_resolve (ho_codecs h) e = Ok plan"
    and kind: "execution_kind (ho_cuda_package h) plan = Ok kind" and exec: "execute_kind (production h) plan kind = Some out"
    and host: "host_ok (ho_platform h)" "nix_installed (ho_platform h) (plan_runtime plan)"
    and spawn: "\<forall>executable arguments. accounted (ho_spawn h executable arguments)" and agree: "evidence_agrees plan out"
    and cap: "capture (ho_platform h) (ho_run_id h) plan = Return p0" and gpu: "enriched out p0 p"
    and v: "evaluate_validity plan out (ho_run_id h) = Return v" and su: "summarize plan out v (ho_run_id h) = Return su"
    and codec: "evidence_codecs h bs plan out p0 p v su ser"
  shows "(\<exists>st. smooth (production h) bs plan out p0 p v su ser st) \<and> unat (su_sample_count su) = length (measured_records (eo_measurements out))"
proof -
  let ?c = "ho_codecs h" and ?ms = "jsonl ser (eo_measurements out)" and ?h = "production h"
  have adm: "admissible (re_experiment plan)" using doc(2) by (auto simp: cd_resolve_def resolve_Ok_iff resolved_with_def)
  obtain mv where mv: "validate_measurements ?c (Ok ?ms) (cd_hex ?c (cd_sha256 ?c ?ms)) plan (eo_terminal_state out) = Ok mv"
    "mv_records mv = eo_measurements out" "unat (mv_measured_records mv) = length (measured_records (eo_measurements out))"
    "mv_generator mv = None \<or> mv_generator mv = Some (runtime_generator (plan_runtime plan))"
    using executed_measurements [OF adm kind exec agree, of ?c ser] codec by (auto simp: evidence_codecs_def Let_def)
  have "run_kind (?h, plan) kind = Some out" using exec by (simp add: run_kind_def)
  from runs.terminal [OF this] obtain st where st: "attempt_terminal (eo_terminal_state out) = Return st"
    by (auto simp: terminal_states_def attempt_terminal_def)
  have same: "manifest_of ?h plan out v = manifest_of h plan out v" "resource_record ?h = resource_record h"
    by (simp_all add: fun_eq_iff manifest_of_def resource_record_def)
  have prov: "validate_attempt_provenance p (manifest_of h plan out v) plan (mv_generator mv) = Ok ()"
    by (rule executed_provenance [OF adm kind exec agree host _ _ gpu [unfolded enriched_def] mv(4)]) (simp_all add: manifest_of_def cap)
  have res: "validate_attempt_resources (resource_record h r) (manifest_of h plan out v) plan = Ok ()" if "eo_resources out = Some r" for r
    using executed_resources [OF kind exec _ that] spawn by (simp add: validate_attempt_resources_def resource_record_def manifest_of_def)
  have n: "mv_measured_records mv = of_nat (length (measured_records (eo_measurements out)))" by (simp flip: mv(3))
  have "smooth ?h bs plan out p0 p v su ser st"
    unfolding smooth_def Let_def same evidence_codecs_production
    using quiet doc st codec cap gpu v su mv(1,2) n prov res by (auto simp: quiet_def split: option.splits)
  moreover have "unat (su_sample_count su) = length (measured_records (eo_measurements out))"
    using su mv(3) by (auto simp: summarize_def Let_def result_simps simp flip: n)
  ultimately show ?thesis by blast
qed

text \<open>
  C4. Executions are published, whichever runtime it is and whether it succeeded or failed. This holds
  of the run of an executable document whose runtime returns, under these conditions. No file operation fails and
  both paths of the run are free. The host's operating system, architecture and package version are
  presentable values, and the store objects it runs from have the names Nix gives its objects, the llama.cpp
  helper and its model both inside the store or both outside. What the supervisor learns of a helper's resources is
  what \<open>wait4\<close> converted. The execution satisfies the three checks that the verifier makes and the runtimes do not. The run
  identity has its form, SHA-256 and hexadecimal digests have theirs, and every record the run writes is within its
  limit and is read back as it was written. Then the run ends with a result: its evidence passes the run's own
  verification and is published, the staging directory is gone, and the result reports the execution's
  terminal state, its failure, its validity and the number of measured samples.
\<close>

theorem executed_run_publishes:
  assumes "quiet h" and "wd_staging w = None" and "wd_final w = None"
    and "parse_experiment (cd_yaml (ho_codecs h)) bs = Ok e" and "cd_resolve (ho_codecs h) e = Ok plan"
    and "execution_kind (ho_cuda_package h) plan = Ok kind" and "execute_kind (production h) plan kind = Some out"
    and "host_ok (ho_platform h)" and "nix_installed (ho_platform h) (plan_runtime plan)"
    and "\<forall>executable arguments. accounted (ho_spawn h executable arguments)" and "evidence_agrees plan out"
    and "capture (ho_platform h) (ho_run_id h) plan = Return p0" and "enriched out p0 p"
    and "evaluate_validity plan out (ho_run_id h) = Return v" and "summarize plan out v (ho_run_id h) = Return su"
    and "evidence_codecs h bs plan out p0 p v su ser"
  shows "\<exists>result w'. run_experiment h bs w = Some (Return (Ok result, w')) \<and> wd_staging w' = None \<and> wd_final w' \<noteq> None
    \<and> rs_run_state result = eo_terminal_state out \<and> rs_failure result = eo_failure out \<and> rs_validity_status result = vy_status v
    \<and> unat (rs_sample_count result) = length (measured_records (eo_measurements out))"
proof -
  obtain st where "smooth (production h) bs plan out p0 p v su ser st" "unat (su_sample_count su) = length (measured_records (eo_measurements out))"
    using executed_smooth [OF assms(1,4-16)] by blast
  then show ?thesis
    using smooth_run [of "production h" bs plan out p0 p v su ser st kind w] assms(2,3,6,7) by (simp add: run_experiment_def) metis
qed

end
