(* ===== verification/RunStore.thy ===== *)
theory RunStore
  imports RunFacts
begin

text \<open>
  The files of a run as a map from paths to contents, and the operations of a run on that map: an atomic
  write replaces one record or nothing, an append extends one file, a failing operation disturbs at
  most the file it was writing. The abstract map is what the contents of a bundle are stated over.
\<close>

subsection \<open>Files of a tree\<close>

fun look :: "string list \<Rightarrow> node \<Rightarrow> node option" where
  "look [] n = Some n"
| "look (c # cs) n = (case n of Dir es \<Rightarrow> (case map_of es c of None \<Rightarrow> None | Some m \<Rightarrow> look cs m) | _ \<Rightarrow> None)"

definition file_at :: "node \<Rightarrow> string list \<Rightarrow> bytes option" where
  "file_at n cs = (case look cs n of Some (FileNode b) \<Rightarrow> Some b | _ \<Rightarrow> None)"

definition view :: "World \<Rightarrow> string list \<Rightarrow> bytes option" where
  "view w cs = (case wd_staging w of None \<Rightarrow> None | Some n \<Rightarrow> file_at n cs)"

lemma file_at_Dir: "file_at (Dir es) (c # cs) = Option.bind (map_of es c) (\<lambda>m. file_at m cs)"
  by (cases "map_of es c") (simp_all add: file_at_def)

lemma file_at_root [simp]: "file_at (Dir es) [] = None" "file_at (FileNode b) [] = Some b" "file_at (FileNode b) (c # cs) = None"
  by (simp_all add: file_at_def)

lemma file_at_leaf: "\<nexists>es. n = Dir es \<Longrightarrow> file_at n (c # cs) = None"
  by (cases n) (simp_all add: file_at_def)

lemma map_of_remove_entry: "map_of (remove_entry k es) j = (if j = k then None else map_of es j)"
  by (induction es) (auto simp: remove_entry_def)

lemma look_append: "look (a @ b) n = Option.bind (look a n) (look b)"
  by (induction a arbitrary: n) (auto split: node.splits option.splits)

lemma file_at_below: "look dir n = Some m \<Longrightarrow> file_at n (dir @ cs) = file_at m cs"
  by (simp add: file_at_def look_append)

subsection \<open>Changes of one directory\<close>

text \<open>A change of the entries of one directory, seen from the root.\<close>

lemma update_dir_files:
  assumes "update_dir dir f n = Ok n'"
  obtains es es' where "look dir n = Some (Dir es)" "f es = Ok es'" "look dir n' = Some (Dir es')"
    "\<And>cs. (\<And>rest. cs \<noteq> dir @ rest) \<Longrightarrow> file_at n' cs = file_at n cs"
proof -
  have "\<exists>es es'. look dir n = Some (Dir es) \<and> f es = Ok es' \<and> look dir n' = Some (Dir es')
    \<and> (\<forall>cs. (\<forall>rest. cs \<noteq> dir @ rest) \<longrightarrow> file_at n' cs = file_at n cs)"
    using assms
  proof (induction dir arbitrary: n n')
    case Nil
    then show ?case by (cases n) (auto simp: update_dir.simps result_simps)
  next
    case (Cons d dir)
    then obtain es m m' where n: "n = Dir es" "map_of es d = Some m" "update_dir dir f m = Ok m'" "n' = Dir (set_entry d m' es)"
      by (cases n) (auto simp: update_dir.simps [of "_ # _"] result_simps split: option.splits)
    obtain a b where ih: "look dir m = Some (Dir a)" "f a = Ok b" "look dir m' = Some (Dir b)"
      "\<forall>cs. (\<forall>rest. cs \<noteq> dir @ rest) \<longrightarrow> file_at m' cs = file_at m cs"
      using Cons.IH [OF n(3)] by blast
    have "file_at n' cs = file_at n cs" if "\<forall>rest. cs \<noteq> (d # dir) @ rest" for cs
      using that ih(4) n by (cases cs) (auto simp: file_at_Dir map_of_set_entry)
    then show ?case using ih(1-3) n by (auto simp: map_of_set_entry)
  qed
  then show thesis using that by blast
qed

lemma update_dir_upd:
  assumes up: "update_dir dir f n = Ok n'"
    and f: "\<And>es es'. look dir n = Some (Dir es) \<Longrightarrow> f es = Ok es' \<Longrightarrow> file_at (Dir es') = (file_at (Dir es))([k] := x)"
  shows "file_at n' = (file_at n)(dir @ [k] := x)"
proof
  fix cs
  obtain es es' where u: "look dir n = Some (Dir es)" "f es = Ok es'" "look dir n' = Some (Dir es')"
    "\<And>cs. (\<And>rest. cs \<noteq> dir @ rest) \<Longrightarrow> file_at n' cs = file_at n cs"
    using update_dir_files [OF up] by blast
  show "file_at n' cs = ((file_at n)(dir @ [k] := x)) cs"
  proof (cases "\<exists>rest. cs = dir @ rest")
    case True
    then obtain rest where "cs = dir @ rest" by blast
    then show ?thesis using f [OF u(1,2)] by (simp add: file_at_below [OF u(1)] file_at_below [OF u(3)])
  next
    case False
    then show ?thesis using u(4) [of cs] by auto
  qed
qed

text \<open>Replacing the node of one name, where neither node is a directory.\<close>

lemma set_entry_files:
  assumes "\<And>sub. map_of es k \<noteq> Some (Dir sub)"
  shows "file_at (Dir (set_entry k (FileNode b) es)) = (file_at (Dir es))([k] \<mapsto> b)"
proof
  fix cs
  have none: "file_at (Dir es) (k # c # rest) = None" for c rest
    using assms file_at_leaf by (cases "map_of es k") (auto simp: file_at_Dir)
  show "file_at (Dir (set_entry k (FileNode b) es)) cs = ((file_at (Dir es))([k] \<mapsto> b)) cs"
  proof (cases cs)
    case (Cons c rest)
    then show ?thesis using none by (cases rest) (auto simp: file_at_Dir map_of_set_entry)
  qed simp
qed

lemma put_file_files: "put_file k b es = Ok es' \<Longrightarrow> file_at (Dir es') = (file_at (Dir es))([k] \<mapsto> b)"
  by (subst set_entry_files [symmetric]) (auto simp: put_file_def split: option.splits node.splits)

lemma append_file_files:
  assumes "append_file k b es = Ok es'"
  obtains old where "file_at (Dir es) [k] = Some old" "file_at (Dir es') = (file_at (Dir es))([k] \<mapsto> old @ b)"
proof -
  obtain old where old: "map_of es k = Some (FileNode old)" "es' = set_entry k (FileNode (old @ b)) es"
    using assms by (auto simp: append_file_def split: option.splits node.splits)
  then show thesis using that [of old] set_entry_files [of es k "old @ b"] by (simp add: file_at_Dir)
qed

lemma remove_entry_files: "map_of es k = Some (FileNode b) \<Longrightarrow> file_at (Dir (remove_entry k es)) = (file_at (Dir es))([k] := None)"
proof
  fix cs assume "map_of es k = Some (FileNode b)"
  then show "file_at (Dir (remove_entry k es)) cs = ((file_at (Dir es))([k] := None)) cs"
  proof (cases cs)
    case (Cons c rest)
    then show ?thesis using \<open>map_of es k = _\<close> by (cases rest) (auto simp: file_at_Dir map_of_remove_entry)
  qed simp
qed

lemma rename_file_files:
  assumes "rename_file a k es = Ok es'" and "file_at (Dir es) [a] = Some b" and "a \<noteq> k"
  shows "file_at (Dir es') = (file_at (Dir es))([a] := None, [k] \<mapsto> b)"
proof -
  obtain n where n: "map_of es a = Some n" "file_at n [] = Some b" using assms(2) by (auto simp: file_at_Dir bind_eq_Some_conv)
  then have a: "map_of es a = Some (FileNode b)" by (cases n) (simp_all add: file_at_def)
  have k: "map_of es k \<noteq> Some (Dir sub)" for sub using assms(1) a by (auto simp: rename_file_def)
  then have "es' = set_entry k (FileNode b) (remove_entry a es)"
    using assms(1) a by (auto simp: rename_file_def split: option.splits node.splits)
  then show ?thesis using set_entry_files [of "remove_entry a es" k b] k remove_entry_files [OF a] by (simp add: map_of_remove_entry)
qed

subsection \<open>Operations\<close>

lemma view_counters [simp]: "view (w\<lparr>wd_io := i\<rparr>) = view w" "view (w\<lparr>wd_ticks := t\<rparr>) = view w"
  by (simp_all add: view_def fun_eq_iff)

lemma view_staged: "wd_staging w = Some n \<Longrightarrow> view w = file_at n"
  by (simp add: view_def fun_eq_iff)

lemma on_staging_view:
  assumes "on_staging (update_dir dir f) w = Ok w'"
    and f: "\<And>es es'. file_at (Dir es) [k] = view w (dir @ [k]) \<Longrightarrow> f es = Ok es' \<Longrightarrow> file_at (Dir es') = (file_at (Dir es))([k] := x)"
  shows "view w' = (view w)(dir @ [k] := x)"
proof -
  obtain n n' where n: "wd_staging w = Some n" "update_dir dir f n = Ok n'" "wd_staging w' = Some n'"
    using assms(1) by (auto simp: on_staging_def result_simps split: option.splits)
  have "file_at (Dir es') = (file_at (Dir es))([k] := x)" if "look dir n = Some (Dir es)" "f es = Ok es'" for es es'
    using f [OF _ that(2)] file_at_below [OF that(1), of "[k]"] n(1) by (simp add: view_staged)
  then show ?thesis using update_dir_upd [OF n(2)] n by (simp add: view_staged)
qed

lemma write_bytes_view:
  assumes "write_bytes h dir k b w = (r, w')"
  shows "(r = Ok () \<and> view w' = (view w)(dir @ [k] \<mapsto> b)) \<or> ((\<exists>e. r = Err e) \<and> (\<forall>cs. cs \<noteq> dir @ [k] \<longrightarrow> view w' cs = view w cs))"
  using assms unfolding write_bytes_def
proof (cases rule: system_call_cases)
  case (ok)
  then show ?thesis using on_staging_view [OF ok(2), of k "Some b"] put_file_files by simp
next
  case (partial message n)
  then show ?thesis using on_staging_view [OF partial(2), of k "Some (take n b)"] put_file_files by simp
qed simp

lemma rename_view:
  assumes "on_staging (update_dir dir (rename_file t k)) w = Ok w'" and b: "view w (dir @ [t]) = Some b" and "t \<noteq> k"
  shows "view w' = (view w)(dir @ [t] := None, dir @ [k] \<mapsto> b)"
proof -
  obtain n n' where n: "wd_staging w = Some n" "update_dir dir (rename_file t k) n = Ok n'" "wd_staging w' = Some n'"
    using assms(1) by (auto simp: on_staging_def result_simps split: option.splits)
  obtain es es' where es: "look dir n = Some (Dir es)" "rename_file t k es = Ok es'" "look dir n' = Some (Dir es')"
    "\<And>cs. (\<And>rest. cs \<noteq> dir @ rest) \<Longrightarrow> file_at n' cs = file_at n cs" using update_dir_files [OF n(2)] by blast
  have "file_at (Dir es) [t] = Some b" using file_at_below [OF es(1), of "[t]"] b view_staged [OF n(1)] by simp
  then have moved: "file_at (Dir es') = (file_at (Dir es))([t] := None, [k] \<mapsto> b)" by (rule rename_file_files [OF es(2)]) fact
  have "file_at n' cs = ((file_at n)(dir @ [t] := None, dir @ [k] \<mapsto> b)) cs" for cs
  proof (cases "\<exists>rest. cs = dir @ rest")
    case True
    then obtain rest where "cs = dir @ rest" by blast
    then show ?thesis using moved file_at_below [OF es(1), of rest] by (simp add: file_at_below [OF es(3)])
  qed (use es(4) [of cs] in auto)
  then show ?thesis by (auto simp: view_staged [OF n(1)] view_staged [OF n(3)])
qed

text \<open>An atomic write replaces the record or leaves it as it was; only the temporary file may be in any state.\<close>

definition json_text :: "('a \<Rightarrow> string + bytes) \<Rightarrow> 'a \<Rightarrow> bytes option" where
  "json_text ser v = (case ser v of Inl _ \<Rightarrow> None | Inr b \<Rightarrow> Some (b @ [CHR 0x0A]))"

lemma write_json_view:
  assumes "write_json_atomic h dir k ser v name w = (r, w')"
  shows "(r = Ok () \<and> (\<exists>b. json_text ser v = Some b \<and> view w' = (view w)(dir @ [k @ ''.tmp''] := None, dir @ [k] \<mapsto> b)))
    \<or> ((\<exists>e. r = Err e) \<and> (\<forall>cs. cs \<noteq> dir @ [k @ ''.tmp''] \<longrightarrow> view w' cs = view w cs))"
proof (cases "ser v")
  case (Inl e)
  then show ?thesis using assms by (auto simp: write_json_atomic_def json_bytes_def)
next
  case ser: (Inr c)
  let ?t = "k @ ''.tmp''" and ?b = "c @ [CHR 0x0A]"
  obtain q w1 where q: "write_bytes h dir ?t ?b w = (q, w1)" by force
  show ?thesis
  proof (cases q)
    case (Inl e)
    then show ?thesis using assms q write_bytes_view [OF q] by (auto simp: write_json_atomic_def json_bytes_def fs_then_def ser)
  next
    case (Inr u)
    then have w1: "view w1 = (view w)(dir @ [?t] \<mapsto> ?b)" using write_bytes_view [OF q] by simp
    have "system_call h (staged h (dir @ [k])) (on_staging (update_dir dir (rename_file ?t k))) no_partial w1 = (r, w')"
      using assms q Inr by (simp add: write_json_atomic_def json_bytes_def fs_then_def ser)
    then show ?thesis
    proof (cases rule: system_call_cases)
      case ok
      have "view w' = (view w1)(dir @ [?t] := None, dir @ [k] \<mapsto> ?b)" using rename_view [OF ok(2), of ?b] w1 by simp
      then show ?thesis using ok(1) w1 by (simp add: json_text_def ser)
    qed (auto simp: w1 no_partial_def)
  qed
qed

lemma append_view:
  assumes up: "on_staging (update_dir dir (append_file k c)) w = Ok w'"
  obtains old where "view w (dir @ [k]) = Some old" "view w' = (view w)(dir @ [k] \<mapsto> old @ c)"
proof -
  obtain n n' where n: "wd_staging w = Some n" "update_dir dir (append_file k c) n = Ok n'"
    using up by (auto simp: on_staging_def result_simps split: option.splits)
  obtain es es' where es: "look dir n = Some (Dir es)" "append_file k c es = Ok es'" using update_dir_files [OF n(2)] by blast
  obtain old where "file_at (Dir es) [k] = Some old" by (rule append_file_files [OF es(2)])
  then have old: "view w (dir @ [k]) = Some old" using file_at_below [OF es(1), of "[k]"] view_staged [OF n(1)] by simp
  have "view w' = (view w)(dir @ [k] \<mapsto> old @ c)"
    by (rule on_staging_view [OF up]) (use old append_file_files in \<open>metis option.inject\<close>)
  then show thesis using that old by blast
qed

lemma append_json_view:
  assumes "append_json_line h dir k ser v name w = (r, w')"
  shows "(r = Ok () \<and> (\<exists>b old. json_text ser v = Some b \<and> view w (dir @ [k]) = Some old \<and> view w' = (view w)(dir @ [k] \<mapsto> old @ b)))
    \<or> ((\<exists>e. r = Err e) \<and> (\<forall>cs. cs \<noteq> dir @ [k] \<longrightarrow> view w' cs = view w cs))"
proof -
  let ?open = "system_call h (staged h (dir @ [k])) (on_staging (update_dir dir (append_file k []))) no_partial"
  obtain q w1 where q: "?open w = (q, w1)" by force
  from q have opened: "view w1 = view w"
  proof (cases rule: system_call_cases)
    case ok
    then show ?thesis by (auto elim!: append_view)
  qed (auto simp: no_partial_def)
  show ?thesis
  proof (cases q)
    case (Inl e)
    then show ?thesis using assms q opened by (auto simp: append_json_line_def fs_then_def)
  next
    case (Inr u)
    show ?thesis
    proof (cases "ser v")
      case (Inl e)
      then show ?thesis using assms q \<open>q = Ok u\<close> opened by (auto simp: append_json_line_def fs_then_def)
    next
      case ser: (Inr c)
      let ?b = "c @ [CHR 0x0A]"
      have "system_call h (staged h (dir @ [k])) (on_staging (update_dir dir (append_file k ?b)))
          (\<lambda>i. on_staging (update_dir dir (append_file k (take i ?b)))) w1 = (r, w')"
        using assms q Inr ser by (simp add: append_json_line_def fs_then_def)
      then show ?thesis
      proof (cases rule: system_call_cases)
        case ok
        then show ?thesis using opened ser by (auto simp: json_text_def elim!: append_view)
      next
        case (partial message i)
        then show ?thesis using opened by (auto elim!: append_view)
      qed (simp add: opened)
    qed
  qed
qed

text \<open>Each operation touches one file, and an atomic write its temporary file.\<close>

lemma view_frames:
  "write_bytes h dir k b w = (r, w') \<Longrightarrow> cs \<noteq> dir @ [k] \<Longrightarrow> view w' cs = view w cs"
  "append_json_line h dir k ser v name w = (r, w') \<Longrightarrow> cs \<noteq> dir @ [k] \<Longrightarrow> view w' cs = view w cs"
  "write_json_atomic h dir k ser v name w = (r, w') \<Longrightarrow> cs \<noteq> dir @ [k] \<Longrightarrow> cs \<noteq> dir @ [k @ ''.tmp''] \<Longrightarrow> view w' cs = view w cs"
  by (auto dest!: write_bytes_view append_json_view write_json_view)

text \<open>Creating a directory changes no file.\<close>

lemma make_dirs_files: "make_dirs cs n = Ok n' \<Longrightarrow> file_at n' = file_at n"
proof (induction cs arbitrary: n n')
  case Nil
  then show ?case by (cases n) (auto simp: make_dirs.simps)
next
  case (Cons c cs)
  then obtain es m where n: "n = Dir es" "make_dirs cs (case map_of es c of None \<Rightarrow> Dir [] | Some m \<Rightarrow> m) = Ok m" "n' = Dir (set_entry c m es)"
    by (cases n) (auto simp: make_dirs.simps [of "_ # _"] result_simps)
  have m: "file_at m = file_at (case map_of es c of None \<Rightarrow> Dir [] | Some m \<Rightarrow> m)" by (rule Cons.IH [OF n(2)])
  have empty: "file_at (Dir []) path = None" for path by (cases path) (simp_all add: file_at_Dir)
  have "file_at n' path = file_at n path" for path
  proof (cases path)
    case (Cons p rest)
    then show ?thesis using n m empty by (cases "map_of es c") (auto simp: file_at_Dir map_of_set_entry)
  qed (simp add: n)
  then show ?case by blast
qed

lemma create_directory_view: "create_directory h cs w = (r, w') \<Longrightarrow> view w' = view w"
  unfolding create_directory_def
  by (erule system_call_cases)
    (auto simp: no_partial_def on_staging_def result_simps view_staged make_dirs_files split: option.splits)

text \<open>Checksumming touches the checksum file and its temporary file.\<close>

lemma write_checksum_file_files:
  assumes "write_checksum_file c (canonicalize_staging h w) (staging_path h) = Ok (es, sums)"
  obtains es0 where "wd_staging w = Some (Dir es0)"
    "\<And>k cs. k \<notin> {''SHA256SUMS'', ''SHA256SUMS.tmp''} \<Longrightarrow> file_at (Dir es) (k # cs) = file_at (Dir es0) (k # cs)"
proof -
  let ?can = "canonicalize_staging h w"
  have "\<not> entry_exists ?can (staging_path h) ''SHA256SUMS''"
    using assms by (cases "entry_exists ?can (staging_path h) ''SHA256SUMS''") (simp_all add: write_checksum_file_def)
  then obtain root es0 ps where root: "canonical_bundle_root ?can (staging_path h) = Ok (root, es0)"
    and rest: "(case map_of es0 ''SHA256SUMS.tmp'' of
          Some (Dir _) \<Rightarrow> Err (WriteError_at (path_display (root @ [''SHA256SUMS.tmp''])) EISDIR)
        | _ \<Rightarrow> and_then (write_lines c root es0 ps \<lparr>cw_flushed = [], cw_buffered = [], cw_hasher = []\<rparr>) (\<lambda>w.
            Ok (set_entry ''SHA256SUMS'' (FileNode (cw_flushed w @ cw_buffered w)) (remove_entry ''SHA256SUMS.tmp'' es0), cw_hasher w)))
        = Ok (es, sums)"
    using assms by (simp add: write_checksum_file_def) (auto simp: and_then_eq_Ok)
  have "wd_staging w = Some (Dir es0)"
    using root by (auto simp: canonical_bundle_root_def canonicalize_staging_def result_simps split: option.splits node.splits)
  moreover obtain b where "es = set_entry ''SHA256SUMS'' (FileNode b) (remove_entry ''SHA256SUMS.tmp'' es0)"
    using rest by (cases "map_of es0 ''SHA256SUMS.tmp''") (auto simp: and_then_eq_Ok split: node.splits)
  ultimately show thesis using that by (simp add: file_at_Dir map_of_set_entry map_of_remove_entry)
qed

lemma checksum_staging_view:
  assumes "checksum_staging h w = (r, w')" and "k \<notin> {''SHA256SUMS'', ''SHA256SUMS.tmp''}"
  shows "view w' (k # cs) = view w (k # cs)"
proof -
  let ?w = "w\<lparr>wd_io := wd_io w + 1\<rparr>"
  have put: "view w' (k # cs) = view w (k # cs)" if "on_staging (update_dir [] (put_file ''SHA256SUMS.tmp'' b)) ?w = Ok w'" for b w'
    using on_staging_view [OF that put_file_files] assms(2) by simp
  show ?thesis
  proof (cases "ho_fault h (wd_io w)")
    case (Some f)
    obtain message written where f: "f = Fault message written" by (cases f)
    show ?thesis
    proof (cases written)
      case (Some n)
      then show ?thesis
        using assms(1) \<open>ho_fault h (wd_io w) = Some f\<close> f put by (auto simp: checksum_staging_def Let_def split: sum.splits)
    qed (use assms(1) Some f in \<open>auto simp: checksum_staging_def Let_def\<close>)
  next
    case None
    show ?thesis
    proof (cases "write_checksum_file (ho_codecs h) (canonicalize_staging h ?w) (staging_path h)")
      case (Inr p)
      obtain es sums where p: "p = (es, sums)" by force
      obtain es0 where "wd_staging ?w = Some (Dir es0)" "file_at (Dir es) (k # cs) = file_at (Dir es0) (k # cs)"
        using write_checksum_file_files Inr p assms(2) by metis
      moreover have "w' = ?w\<lparr>wd_staging := Some (Dir es)\<rparr>" using assms(1) None Inr p by (auto simp: checksum_staging_def Let_def)
      ultimately show ?thesis by (simp add: view_def)
    qed (use assms(1) None in \<open>auto simp: checksum_staging_def Let_def\<close>)
  qed
qed

lemma verify_staging_view: "verify_staging h w = Return (r, w') \<Longrightarrow> view w' = view w"
  by (auto dest!: verify_staging_counts)

lemma rename_staging_view: "rename_staging h w = (Err e, w') \<Longrightarrow> view w' = view w"
  unfolding rename_staging_def by (erule system_call_cases) (auto simp: no_partial_def)

end
