(* ===== verification/RunRecords.thy ===== *)
theory RunRecords
  imports RunStore
begin

text \<open>
  The records of a run on disk. Whatever fails and whenever, a record that is present in the retained
  staging directory is one complete serialization: only atomic writes reach the name of a record.
\<close>

subsection \<open>Records are never torn\<close>

definition is_record :: "('a \<Rightarrow> string + bytes) \<Rightarrow> bytes \<Rightarrow> bool" where
  "is_record ser b \<longleftrightarrow> (\<exists>v. json_text ser v = Some b)"

definition record_complete :: "Host \<Rightarrow> string list \<Rightarrow> bytes \<Rightarrow> bool" where
  "record_complete h cs b \<longleftrightarrow> (let wr = ho_writers h in
     (cs = [''resolved-plan.json''] \<longrightarrow> is_record (wr_plan wr) b)
   \<and> (cs = [''run.json''] \<longrightarrow> is_record (wr_run wr) b)
   \<and> (cs = [''validity.json''] \<longrightarrow> is_record (wr_validity wr) b)
   \<and> (cs = [''summary.json''] \<longrightarrow> is_record (wr_summary wr) b)
   \<and> (cs = [''manifest.json''] \<longrightarrow> is_record (wr_manifest wr) b)
   \<and> (cs = attempt_directory @ [''attempt.json''] \<longrightarrow> is_record (wr_attempt wr) b)
   \<and> (cs = attempt_directory @ [''provenance.json''] \<longrightarrow> is_record (wr_provenance wr) b)
   \<and> (cs = attempt_directory @ [''resources.json''] \<longrightarrow> is_record (wr_resources wr) b))"

definition intact :: "Host \<Rightarrow> World \<Rightarrow> bool" where
  "intact h w \<longleftrightarrow> (\<forall>cs b. view w cs = Some b \<longrightarrow> record_complete h cs b)"

definition any_content :: "Host \<Rightarrow> string list \<Rightarrow> bool" where
  "any_content h cs \<longleftrightarrow> (\<forall>b. record_complete h cs b)"

lemma intact_frame:
  assumes "intact h w" and "\<And>cs. cs \<noteq> path \<Longrightarrow> view w' cs = view w cs" and "any_content h path"
  shows "intact h w'"
  unfolding intact_def
proof (intro allI impI)
  fix cs b assume "view w' cs = Some b"
  then show "record_complete h cs b" using assms by (cases "cs = path") (auto simp: intact_def any_content_def)
qed

lemma intact_write: "any_content h (dir @ [k]) \<Longrightarrow> keeps (intact h) (write_bytes h' dir k c)"
  unfolding keeps_def by (intro allI impI) (rule intact_frame, assumption, rule view_frames(1), assumption+)

lemma intact_append: "any_content h (dir @ [k]) \<Longrightarrow> keeps (intact h) (append_json_line h' dir k ser v name)"
  unfolding keeps_def by (intro allI impI) (rule intact_frame, assumption, rule view_frames(2), assumption+)

lemma intact_json:
  assumes "any_content h (dir @ [k @ ''.tmp''])" and "\<And>b. json_text ser v = Some b \<Longrightarrow> record_complete h (dir @ [k]) b"
  shows "keeps (intact h) (write_json_atomic h' dir k ser v name)"
  unfolding keeps_def
proof (intro allI impI)
  fix w r w' assume "write_json_atomic h' dir k ser v name w = (r, w')" and I: "intact h w"
  from write_json_view [OF this(1)] show "intact h w'"
  proof (elim disjE conjE exE)
    fix b assume b: "json_text ser v = Some b" and v: "view w' = (view w)(dir @ [k @ ''.tmp''] := None, dir @ [k] \<mapsto> b)"
    have "record_complete h cs c" if "view w' cs = Some c" for cs c
      using that v I assms(2) [OF b] by (auto simp: intact_def split: if_splits)
    then show ?thesis by (simp add: intact_def)
  next
    fix e assume "\<forall>cs. cs \<noteq> dir @ [k @ ''.tmp''] \<longrightarrow> view w' cs = view w cs"
    then show ?thesis using intact_frame [OF I _ assms(1)] by blast
  qed
qed

lemma record_completeI:
  "json_text (wr_run (ho_writers h)) r = Some b \<Longrightarrow> record_complete h [''run.json''] b"
  "json_text (wr_plan (ho_writers h)) p = Some b \<Longrightarrow> record_complete h [''resolved-plan.json''] b"
  "json_text (wr_validity (ho_writers h)) v = Some b \<Longrightarrow> record_complete h [''validity.json''] b"
  "json_text (wr_summary (ho_writers h)) s = Some b \<Longrightarrow> record_complete h [''summary.json''] b"
  "json_text (wr_manifest (ho_writers h)) m = Some b \<Longrightarrow> record_complete h [''manifest.json''] b"
  "json_text (wr_attempt (ho_writers h)) a = Some b \<Longrightarrow> record_complete h (attempt_directory @ [''attempt.json'']) b"
  "json_text (wr_provenance (ho_writers h)) q = Some b \<Longrightarrow> record_complete h (attempt_directory @ [''provenance.json'']) b"
  "json_text (wr_resources (ho_writers h)) u = Some b \<Longrightarrow> record_complete h (attempt_directory @ [''resources.json'']) b"
  by (auto simp: record_complete_def is_record_def attempt_directory_def)

lemma any_contentI:
  "any_content h [''run.json.tmp'']" "any_content h [''resolved-plan.json.tmp'']" "any_content h [''validity.json.tmp'']"
  "any_content h [''summary.json.tmp'']" "any_content h [''manifest.json.tmp'']" "any_content h [''experiment.yaml'']"
  "any_content h [''events.jsonl'']" "any_content h (attempt_directory @ [''attempt.json.tmp''])"
  "any_content h (attempt_directory @ [''provenance.json.tmp''])" "any_content h (attempt_directory @ [''resources.json.tmp''])"
  "any_content h (attempt_directory @ [''measurements.jsonl''])" "any_content h [''SHA256SUMS.tmp'']" "any_content h [''SHA256SUMS'']"
  by (simp_all add: any_content_def record_complete_def attempt_directory_def)

interpretation intact: recording "intact h" h for h
  by (unfold_locales, unfold write_provenance_def)
    (simp add: intact_def, (rule intact_json intact_append; simp add: any_contentI record_completeI)+)

lemma intact_initialize: "step_keeps (intact h) (initialize h bs plan ev)"
proof -
  have dir: "keeps (intact h) (create_directory h cs)" for cs
    unfolding keeps_def intact_def using create_directory_view by metis
  have root: "keeps (intact h) (write_bytes h [] ''experiment.yaml'' bs)" "keeps (intact h) (create_empty_file h [] ''events.jsonl'')"
    "keeps (intact h) (create_empty_file h attempt_directory ''measurements.jsonl'')"
    using intact_write [of h "[]" "''experiment.yaml''"] intact_write [of h "[]" "''events.jsonl''"]
      intact_write [of h attempt_directory "''measurements.jsonl''"]
    by (simp_all add: create_empty_file_def any_contentI)
  have plan: "keeps (intact h) (write_json_atomic h [] ''resolved-plan.json'' (wr_plan (ho_writers h)) plan ''resolved plan'')"
    by (rule intact_json) (simp_all add: any_contentI record_completeI)
  show ?thesis
    unfolding initialize_def by (intro keeps_intros intact.snapshots_keep dir root plan intact.event_line)
qed

lemma record_complete_names:
  "k \<in> {''SHA256SUMS'', ''SHA256SUMS.tmp''} \<Longrightarrow> record_complete h (k # cs) b" "record_complete h [] b"
  by (auto simp: record_complete_def attempt_directory_def)

lemma intact_checksum: "keeps (intact h) (checksum_staging h)"
  unfolding keeps_def intact_def
proof (intro allI impI)
  fix w r w' cs b
  assume run: "checksum_staging h w = (r, w')" and I: "\<forall>cs b. view w cs = Some b \<longrightarrow> record_complete h cs b" and v: "view w' cs = Some b"
  show "record_complete h cs b"
  proof (cases cs)
    case (Cons k rest)
    then show ?thesis
      using checksum_staging_view [OF run, of k rest] I v record_complete_names(1) by (cases "k \<in> {''SHA256SUMS'', ''SHA256SUMS.tmp''}") auto
  qed (simp add: record_complete_names)
qed

interpretation intact_run: run_invariant "intact (production h)" "production h" for h
proof unfold_locales
  show "intact (production h) w'" if "verify_staging (production h) w = Return (r, w')" "intact (production h) w" for w r w'
    using that by (auto simp: intact_def dest: verify_staging_view)
  show "intact (production h) w'" if "rename_staging (production h) w = (Err e, w')" "intact (production h) w" for w e w'
    using that by (auto simp: intact_def dest: rename_staging_view)
qed (simp_all add: intact_initialize intact_checksum)

text \<open>
  C5. No torn record. However a run fails after its allocation - at any operation, with any part of a
  write done, during the attempts to record the failure as well - every record file that is present in the
  retained staging directory is one complete serialized record of its kind with its newline.
\<close>

theorem records_never_torn:
  assumes "run_experiment h bs w = Some (Return (Err e, w'))" and "is_finalization_failure e"
    and "view w' path = Some content"
  shows "record_complete h path content"
proof -
  obtain a b c d where e: "e = Allocated a b c d" using assms(2) by (cases e) auto
  have fresh: "intact (production h) w1" if "allocate (production h) w = (Ok (), w1)" for w1
  proof -
    have "wd_staging w1 = Some (Dir [])" using allocate_world [OF that] by simp
    then have "view w1 cs = None" for cs by (cases cs) (simp_all add: view_staged file_at_Dir)
    then show ?thesis by (simp add: intact_def)
  qed
  have "intact (production h) w'"
    by (rule intact_run.failed_run_keeps [OF assms(1) [unfolded run_experiment_def e] fresh])
  then show ?thesis using assms(3) by (simp add: intact_def record_complete_def)
qed

end
