(* ===== verification/RunContents.thy ===== *)
theory RunContents
  imports RunRecords
begin

text \<open>
  The contents of a published bundle, for every runtime and every host: the document as requested, the
  measurements as executed, the journal as driven and the records as decided.
\<close>

subsection \<open>Successful operations\<close>

text \<open>A path holds a serialized text, which exists.\<close>

definition stores :: "(string list \<Rightarrow> bytes option) \<Rightarrow> string list \<Rightarrow> bytes option \<Rightarrow> bool" where
  "stores f path t \<longleftrightarrow> t \<noteq> None \<and> f path = t"

fun json_lines :: "('a \<Rightarrow> string + bytes) \<Rightarrow> 'a list \<Rightarrow> bytes option" where
  "json_lines ser [] = Some []"
| "json_lines ser (v # vs) = (case json_text ser v of None \<Rightarrow> None | Some b \<Rightarrow> map_option ((@) b) (json_lines ser vs))"

lemma json_lines_snoc:
  "json_lines ser vs = Some bs \<Longrightarrow> json_text ser v = Some b \<Longrightarrow> json_lines ser (vs @ [v]) = Some (bs @ b)"
  by (induction vs arbitrary: bs) (auto split: option.splits)

lemma drive_snoc:
  "drive_lifecycle lc (rs @ [(to, at, f)]) = (case drive_lifecycle lc rs of (t, evs) \<Rightarrow> (case transition t to at f of
     (Inl _, t') \<Rightarrow> (t', evs) | (Inr ev, t') \<Rightarrow> (t', evs @ [ev])))"
  by (induction lc rs rule: drive_lifecycle.induct) (auto split: prod.splits sum.splits)

abbreviation files :: "Session \<Rightarrow> string list \<Rightarrow> bytes option" where
  "files s \<equiv> view (se_world s)"

lemma stores_frame: "stores f path t \<Longrightarrow> f' path = f path \<Longrightarrow> stores f' path t"
  by (simp add: stores_def)

lemma bytes_stored:
  assumes "with_world (write_bytes h dir k b) s = (Ok u, s')"
  shows "stores (files s') (dir @ [k]) (Some b)" "cs \<noteq> dir @ [k] \<Longrightarrow> files s' cs = files s cs" "se_lifecycle s' = se_lifecycle s"
  using assms write_bytes_view [of h dir k b] by (force simp: with_world_eq stores_def)+

lemma json_stored:
  assumes "with_world (write_json_atomic h dir k ser v name) s = (Ok u, s')"
  shows "stores (files s') (dir @ [k]) (json_text ser v)"
    "cs \<noteq> dir @ [k] \<Longrightarrow> cs \<noteq> dir @ [k @ ''.tmp''] \<Longrightarrow> files s' cs = files s cs" "se_lifecycle s' = se_lifecycle s"
  using assms write_json_view [of h dir k ser v name] by (force simp: with_world_eq stores_def)+

lemma line_stored:
  assumes "with_world (append_json_line h dir k ser v name) s = (Ok u, s')" and "stores (files s) (dir @ [k]) (json_lines ser vs)"
  shows "stores (files s') (dir @ [k]) (json_lines ser (vs @ [v]))" "cs \<noteq> dir @ [k] \<Longrightarrow> files s' cs = files s cs"
    "se_lifecycle s' = se_lifecycle s"
proof -
  obtain w' where w: "append_json_line h dir k ser v name (se_world s) = (Ok u, w')" "s' = s\<lparr>se_world := w'\<rparr>"
    using assms(1) by (auto simp: with_world_eq)
  obtain b old where b: "json_text ser v = Some b" "files s (dir @ [k]) = Some old" "view w' = (files s)(dir @ [k] \<mapsto> old @ b)"
    using append_json_view [OF w(1)] by blast
  show "stores (files s') (dir @ [k]) (json_lines ser (vs @ [v]))"
    using assms(2) b w(2) json_lines_snoc [of ser vs old v b] by (simp add: stores_def)
qed (use assms(1) append_json_view [of h dir k ser v name] in \<open>force simp: with_world_eq\<close>)+

subsection \<open>The state between two steps\<close>

text \<open>What the files say about the request, the journal and the measurements.\<close>

abbreviation measurement_lines :: "string list" where
  "measurement_lines \<equiv> attempt_directory @ [''measurements.jsonl'']"

definition journaled :: "Host \<Rightarrow> string \<Rightarrow> RunState list \<Rightarrow> Lifecycle \<Rightarrow> (string list \<Rightarrow> bytes option) \<Rightarrow> bool" where
  "journaled h at path lc f \<longleftrightarrow> (\<exists>rs. lc = fst (drive_lifecycle (fst (lifecycle_new (ho_run_id h) at 1)) rs)
     \<and> stores f [''events.jsonl''] (json_lines (wr_event (ho_writers h)) (journal (ho_run_id h) at 1 rs))
     \<and> map le_to_state (journal (ho_run_id h) at 1 rs) = Created # path)"

definition requested :: "Host \<Rightarrow> bytes \<Rightarrow> ResolvedExperiment \<Rightarrow> (string list \<Rightarrow> bytes option) \<Rightarrow> bool" where
  "requested h bs plan f \<longleftrightarrow> stores f [''experiment.yaml''] (Some bs)
     \<and> stores f [''resolved-plan.json''] (json_text (wr_plan (ho_writers h)) plan)"

definition measured :: "Host \<Rightarrow> MeasurementRecord list \<Rightarrow> (string list \<Rightarrow> bytes option) \<Rightarrow> bool" where
  "measured h ms f \<longleftrightarrow> stores f measurement_lines (json_lines (wr_measurement (ho_writers h)) ms)"

lemma journaled_frame: "journaled h at path lc f \<Longrightarrow> f' [''events.jsonl''] = f [''events.jsonl''] \<Longrightarrow> journaled h at path lc f'"
  unfolding journaled_def stores_def by simp

lemma requested_frame:
  "requested h bs plan f \<Longrightarrow> f' [''experiment.yaml''] = f [''experiment.yaml''] \<Longrightarrow> f' [''resolved-plan.json''] = f [''resolved-plan.json'']
   \<Longrightarrow> requested h bs plan f'"
  unfolding requested_def stores_def by simp

lemma measured_frame: "measured h ms f \<Longrightarrow> f' measurement_lines = f measurement_lines \<Longrightarrow> measured h ms f'"
  unfolding measured_def stores_def by simp

text \<open>One transition of the run: one event more in the journal, and a new run record.\<close>

lemma transition_recorded:
  assumes run: "persist_run_transition h to cause s = (Ok u, s')" and j: "journaled h at path (se_lifecycle s) (files s)"
  shows "journaled h at (path @ [to]) (se_lifecycle s') (files s')"
    and "stores (files s') [''run.json''] (json_text (wr_run (ho_writers h)) (se_run s'))"
    and "rr_run_status (se_run s') = to \<and> (is_terminal to \<longrightarrow> rr_failure (se_run s') = cause)"
    and "cs \<noteq> [''events.jsonl''] \<Longrightarrow> cs \<noteq> [''run.json''] \<Longrightarrow> cs \<noteq> [''run.json.tmp''] \<Longrightarrow> files s' cs = files s cs"
proof -
  let ?t = "ho_clock h (wd_ticks (se_world s))" and ?w = "wr_event (ho_writers h)"
  obtain event lc s2 rec where tr: "transition (se_lifecycle s) to ?t cause = (Ok event, lc)"
    and line: "with_world (append_json_line h [] ''events.jsonl'' ?w event ''lifecycle event'')
      (s\<lparr>se_world := (se_world s)\<lparr>wd_ticks := Suc (wd_ticks (se_world s))\<rparr>, se_lifecycle := lc\<rparr>) = (Ok (), s2)"
    and wrote: "with_world (write_json_atomic h [] ''run.json'' (wr_run (ho_writers h)) rec ''run record'') (s2\<lparr>se_run := rec\<rparr>) = (Ok (), s')"
    and rec: "rr_run_status rec = to" "is_terminal to \<longrightarrow> rr_failure rec = cause"
    using run by (cases "is_terminal to") (auto simp: persist_run_transition_def now_def Let_def split: prod.splits sum.splits)
  have s1: "files (s\<lparr>se_world := (se_world s)\<lparr>wd_ticks := Suc (wd_ticks (se_world s))\<rparr>, se_lifecycle := lc\<rparr>) = files s" by simp
  obtain rs where rs: "se_lifecycle s = fst (drive_lifecycle (fst (lifecycle_new (ho_run_id h) at 1)) rs)"
    "stores (files s) [''events.jsonl''] (json_lines ?w (journal (ho_run_id h) at 1 rs))"
    "map le_to_state (journal (ho_run_id h) at 1 rs) = Created # path"
    using j by (auto simp: journaled_def)
  let ?rs = "rs @ [(to, ?t, cause)]"
  have driven: "journal (ho_run_id h) at 1 ?rs = journal (ho_run_id h) at 1 rs @ [event]"
    "fst (drive_lifecycle (fst (lifecycle_new (ho_run_id h) at 1)) ?rs) = lc"
    using tr rs(1) by (simp_all add: journal_def drive_snoc case_prod_beta lifecycle_new_def)
  have to: "le_to_state event = to" using tr by (simp add: transition_Ok_iff)
  note a = line_stored [OF line, unfolded append_Nil s1, OF rs(2)] and b = json_stored [OF wrote, unfolded append_Nil]
  have "stores (files s') [''events.jsonl''] (json_lines ?w (journal (ho_run_id h) at 1 ?rs))"
    using stores_frame [OF a(1)] b(2) driven(1) by simp
  then show "journaled h at (path @ [to]) (se_lifecycle s') (files s')"
    unfolding journaled_def using driven to rs(3) a(3) b(3) by (intro exI [of _ ?rs]) simp
  show "cs \<noteq> [''events.jsonl''] \<Longrightarrow> cs \<noteq> [''run.json''] \<Longrightarrow> cs \<noteq> [''run.json.tmp''] \<Longrightarrow> files s' cs = files s cs"
    using a(2) b(2) by simp
  have "se_run s' = rec" using wrote by (auto simp: with_world_eq)
  then show "stores (files s') [''run.json''] (json_text (wr_run (ho_writers h)) (se_run s'))"
    "rr_run_status (se_run s') = to \<and> (is_terminal to \<longrightarrow> rr_failure (se_run s') = cause)"
    using b(1) rec by simp_all
qed

lemma attempt_recorded:
  assumes "persist_attempt_status h status cause s = (Ok u, s')"
  shows "stores (files s') (attempt_directory @ [''attempt.json'']) (json_text (wr_attempt (ho_writers h)) (se_attempt s'))"
    and "ar_status (se_attempt s') = status \<and> (attempt_is_terminal status \<longrightarrow> ar_failure (se_attempt s') = cause)"
    and "cs \<noteq> attempt_directory @ [''attempt.json''] \<Longrightarrow> cs \<noteq> attempt_directory @ [''attempt.json.tmp''] \<Longrightarrow> files s' cs = files s cs"
    and "se_lifecycle s' = se_lifecycle s"
proof -
  obtain rec t where wrote: "with_world (write_json_atomic h attempt_directory ''attempt.json'' (wr_attempt (ho_writers h)) rec ''attempt record'')
      (s\<lparr>se_world := (se_world s)\<lparr>wd_ticks := t\<rparr>, se_attempt := rec\<rparr>) = (Ok u, s')"
    and rec: "ar_status rec = status" "attempt_is_terminal status \<longrightarrow> ar_failure rec = cause"
    using assms by (cases "attempt_is_terminal status") (auto simp: persist_attempt_status_def now_def Let_def)
  have "se_attempt s' = rec" using wrote by (auto simp: with_world_eq)
  with json_stored [OF wrote] rec show "stores (files s') (attempt_directory @ [''attempt.json'']) (json_text (wr_attempt (ho_writers h)) (se_attempt s'))"
    "ar_status (se_attempt s') = status \<and> (attempt_is_terminal status \<longrightarrow> ar_failure (se_attempt s') = cause)"
    "cs \<noteq> attempt_directory @ [''attempt.json''] \<Longrightarrow> cs \<noteq> attempt_directory @ [''attempt.json.tmp''] \<Longrightarrow> files s' cs = files s cs"
    "se_lifecycle s' = se_lifecycle s"
    by simp_all
qed

text \<open>The three together, and the operations that leave them as they are.\<close>

definition recorded ::
  "Host \<Rightarrow> bytes \<Rightarrow> ResolvedExperiment \<Rightarrow> string \<Rightarrow> RunState list \<Rightarrow> MeasurementRecord list \<Rightarrow> Session \<Rightarrow> bool" where
  "recorded h bs plan at path ms s \<longleftrightarrow> journaled h at path (se_lifecycle s) (files s) \<and> requested h bs plan (files s) \<and> measured h ms (files s)"

lemma recorded_frame:
  assumes "recorded h bs plan at path ms s" and "se_lifecycle s' = se_lifecycle s"
    and "\<And>cs. cs \<in> {[''experiment.yaml''], [''resolved-plan.json''], measurement_lines, [''events.jsonl'']} \<Longrightarrow> files s' cs = files s cs"
  shows "recorded h bs plan at path ms s'"
  using assms unfolding recorded_def by (auto intro: journaled_frame requested_frame measured_frame)

lemma recorded_transition:
  assumes "persist_run_transition h to cause s = (Ok u, s')" and "recorded h bs plan at path ms s"
  shows "recorded h bs plan at (path @ [to]) ms s'"
proof -
  have r: "journaled h at path (se_lifecycle s) (files s)" "requested h bs plan (files s)" "measured h ms (files s)"
    using assms(2) by (simp_all add: recorded_def)
  note t = transition_recorded [OF assms(1) r(1)]
  show ?thesis
    unfolding recorded_def using t(1) requested_frame [OF r(2)] measured_frame [OF r(3)] t(4) by (simp add: attempt_directory_def)
qed

lemma recorded_attempt:
  assumes "persist_attempt_status h status cause s = (Ok u, s')" and "recorded h bs plan at path ms s"
  shows "recorded h bs plan at path ms s'"
  by (rule recorded_frame [OF assms(2) attempt_recorded(4) [OF assms(1)]], rule attempt_recorded(3) [OF assms(1)])
    (auto simp: attempt_directory_def)

lemma recorded_json:
  assumes "with_world (write_json_atomic h dir k ser v name) s = (Ok u, s')" and "recorded h bs plan at path ms s"
    and "dir @ [k] \<notin> {[''experiment.yaml''], [''resolved-plan.json''], measurement_lines, [''events.jsonl'']}"
    and "dir @ [k @ ''.tmp''] \<notin> {[''experiment.yaml''], [''resolved-plan.json''], measurement_lines, [''events.jsonl'']}"
  shows "recorded h bs plan at path ms s'"
  using assms(3,4) by (intro recorded_frame [OF assms(2) json_stored(3) [OF assms(1)]], intro json_stored(2) [OF assms(1)]) auto

lemma measurement_recorded:
  assumes "with_world (append_json_line h attempt_directory ''measurements.jsonl'' (wr_measurement (ho_writers h)) m name) s = (Ok u, s')"
    and "recorded h bs plan at path ms s"
  shows "recorded h bs plan at path (ms @ [m]) s'" "cs \<noteq> measurement_lines \<Longrightarrow> files s' cs = files s cs"
proof -
  have r: "journaled h at path (se_lifecycle s) (files s)" "requested h bs plan (files s)"
    "stores (files s) measurement_lines (json_lines (wr_measurement (ho_writers h)) ms)"
    using assms(2) by (simp_all add: recorded_def measured_def)
  note t = line_stored [OF assms(1) r(3)]
  show "recorded h bs plan at path (ms @ [m]) s'"
    unfolding recorded_def measured_def t(3)
    using t(1) requested_frame [OF r(2)] journaled_frame [OF r(1)] t(2) by (simp add: attempt_directory_def)
  show "cs \<noteq> measurement_lines \<Longrightarrow> files s' cs = files s cs" by (rule t(2))
qed

lemma measurements_recorded:
  assumes "record_measurements h new s = Some (Return (Ok u, s'))" and "recorded h bs plan at path ms s"
  shows "recorded h bs plan at path (ms @ new) s' \<and> (\<forall>cs. cs \<noteq> measurement_lines \<longrightarrow> files s' cs = files s cs)"
  using assms
proof (induction new arbitrary: ms s)
  case (Cons m new)
  then obtain s1 where s1: "with_world (append_json_line h attempt_directory ''measurements.jsonl'' (wr_measurement (ho_writers h)) m ''measurement'') s = (Ok (), s1)"
      "record_measurements h new s1 = Some (Return (Ok u, s'))"
    by (auto simp: step_simps)
  then show ?case using Cons.IH [OF s1(2) measurement_recorded(1) [OF s1(1) Cons.prems(2)]] measurement_recorded(2) [OF s1(1) Cons.prems(2)] by simp
qed (simp add: step_simps)

subsection \<open>The phases\<close>

lemma initialize_recorded:
  assumes run: "initialize h bs plan ev s = Some (Return (Ok u, s'))" and new: "lifecycle_new (ho_run_id h) at 1 = (se_lifecycle s, ev)"
  shows "recorded h bs plan at [] [] s'"
proof -
  let ?wr = "ho_writers h"
  obtain s1 s2 s3 s4 s5 s6 s7 where
    ops: "with_world (create_directory h attempt_directory) s = (Ok (), s1)"
      "with_world (write_bytes h [] ''experiment.yaml'' bs) s1 = (Ok (), s2)"
      "with_world (write_json_atomic h [] ''resolved-plan.json'' (wr_plan ?wr) plan ''resolved plan'') s2 = (Ok (), s3)"
      "with_world (write_bytes h [] ''events.jsonl'' []) s3 = (Ok (), s4)"
      "with_world (append_json_line h [] ''events.jsonl'' (wr_event ?wr) ev ''lifecycle event'') s4 = (Ok (), s5)"
      "with_world (write_bytes h attempt_directory ''measurements.jsonl'' []) s5 = (Ok (), s6)"
      "with_world (write_json_atomic h [] ''run.json'' (wr_run ?wr) (se_run s6) ''run record'') s6 = (Ok (), s7)"
      "with_world (write_json_atomic h attempt_directory ''attempt.json'' (wr_attempt ?wr) (se_attempt s6) ''attempt record'') s7 = (Ok (), s')"
    using run by (fastforce simp: initialize_def create_empty_file_def write_snapshots_def at_phase_Ok and_step_eq with_world_eq fs_then_eq)
  note e = bytes_stored [OF ops(2), unfolded append_Nil] and p = json_stored [OF ops(3), unfolded append_Nil]
    and m = bytes_stored [OF ops(6)] and l = bytes_stored [OF ops(4), unfolded append_Nil]
  note j = line_stored [OF ops(5), unfolded append_Nil, of "[]", simplified, OF l(1)]
  have lc: "se_lifecycle s6 = se_lifecycle s" using ops(1) e(3) p(3) l(3) j(3) m(3) by (auto simp: with_world_eq)
  have "stores (files s6) [''experiment.yaml''] (Some bs)" "stores (files s6) [''resolved-plan.json''] (json_text (wr_plan ?wr) plan)"
    "stores (files s6) [''events.jsonl''] (json_lines (wr_event ?wr) [ev])"
    using stores_frame [OF e(1)] stores_frame [OF p(1)] stores_frame [OF j(1)] p(2) l(2) j(2) m(2) by (simp_all add: attempt_directory_def)
  moreover have "journal (ho_run_id h) at 1 [] = [ev]" "le_to_state ev = Created" "se_lifecycle s = fst (lifecycle_new (ho_run_id h) at 1)"
    using new by (auto simp: journal_def lifecycle_new_def)
  ultimately have "recorded h bs plan at [] [] s6"
    unfolding recorded_def journaled_def requested_def measured_def lc using m(1) by (intro conjI exI [of _ "[]"]) simp_all
  then show ?thesis
    using recorded_json [OF ops(8) recorded_json [OF ops(7)]] by (simp add: attempt_directory_def)
qed

lemma prepare_recorded:
  assumes run: "prepare h plan s = Some (Return (Ok provenance, s'))" and rec: "recorded h bs plan at [] [] s"
  shows "recorded h bs plan at [Preparing, Running] [] s'"
proof -
  obtain s1 s2 s3 s4 where ops: "persist_run_transition h Preparing None s = (Ok (), s1)"
      "persist_attempt_status h AttemptPreparing None s1 = (Ok (), s2)"
      "with_world (write_json_atomic h attempt_directory ''provenance.json'' (wr_provenance (ho_writers h)) provenance ''attempt provenance'') s2 = (Ok (), s3)"
      "persist_run_transition h Running None s3 = (Ok (), s4)" "persist_attempt_status h AttemptRunning None s4 = (Ok (), s')"
    using run by (fastforce simp: prepare_def write_provenance_def at_phase_Ok and_step_eq or_panic_eq done_with_eq)
  have "recorded h bs plan at [Preparing] [] s3"
    using recorded_json [OF ops(3) recorded_attempt [OF ops(2) recorded_transition [OF ops(1) rec]]] by (simp add: attempt_directory_def)
  from recorded_attempt [OF ops(5) recorded_transition [OF ops(4) this]] show ?thesis by simp
qed

text \<open>What the attempt's own records say of the execution.\<close>

definition attempt_evidence :: "Host \<Rightarrow> ExecutionOutput \<Rightarrow> (string list \<Rightarrow> bytes option) \<Rightarrow> bool" where
  "attempt_evidence h out f \<longleftrightarrow>
     (\<exists>a. stores f (attempt_directory @ [''attempt.json'']) (json_text (wr_attempt (ho_writers h)) a)
        \<and> attempt_terminal (eo_terminal_state out) = Return (ar_status a) \<and> ar_failure a = eo_failure out)
   \<and> (case eo_resources out of None \<Rightarrow> True | Some r \<Rightarrow>
        stores f (attempt_directory @ [''resources.json'']) (json_text (wr_resources (ho_writers h))
          \<lparr>at_format = ATTEMPT_RESOURCES_FORMAT_V1, at_run_id = ho_run_id h, at_attempt_number = 1, at_scope = HelperProcessLifetime,
           at_cpu_time_micros = pr_cpu_time_micros r, at_peak_rss_bytes = pr_peak_rss_bytes r\<rparr>))"

lemma attempt_evidence_frame:
  "attempt_evidence h out f \<Longrightarrow> (\<And>k. k \<in> {''attempt.json'', ''resources.json''} \<Longrightarrow> f' (attempt_directory @ [k]) = f (attempt_directory @ [k]))
   \<Longrightarrow> attempt_evidence h out f'"
  unfolding attempt_evidence_def stores_def by (auto split: option.splits)

lemma execution_recorded:
  assumes run: "record_execution h provenance out s = Some (Return (Ok u, s'))" and rec: "recorded h bs plan at path [] s"
    and hook: "ho_hook h = noop_hook"
  shows "recorded h bs plan at path (eo_measurements out) s'" "attempt_evidence h out (files s')"
proof -
  obtain s1 status s2 s3 where ops: "record_nvidia h provenance out s = Some (Return (Ok (), s1))"
      "attempt_terminal (eo_terminal_state out) = Return status" "persist_attempt_status h status (eo_failure out) s1 = (Ok (), s2)"
      "record_resources h out s2 = Some (Return (Ok (), s3))" "record_measurements h (eo_measurements out) s3 = Some (Return (Ok u, s'))"
    using run by (fastforce simp: record_execution_def at_phase_Ok and_step_eq or_panic_eq with_world_eq check_noop(2) [OF hook])
  have r1: "recorded h bs plan at path [] s1"
  proof -
    have "s1 = s \<or> (\<exists>q. with_world (write_json_atomic h attempt_directory ''provenance.json'' (wr_provenance (ho_writers h)) q
        ''attempt provenance'') s = (Ok (), s1))"
      using ops(1) by (auto simp: record_nvidia_def write_provenance_def at_phase_Ok done_with_eq or_panic_eq split: option.splits sum.splits)
    then show ?thesis using rec by (auto simp: attempt_directory_def elim!: recorded_json)
  qed
  note a = attempt_recorded [OF ops(3)]
  have ended: "attempt_is_terminal status" using ops(2) by (auto simp: attempt_terminal_def attempt_is_terminal_def split: RunState.splits)
  have r3: "recorded h bs plan at path [] s3 \<and> attempt_evidence h out (files s3)"
  proof (cases "eo_resources out")
    case None
    then have "s3 = s2" using ops(4) by (simp add: record_resources_def step_simps)
    then show ?thesis using recorded_attempt [OF ops(3) r1] a(1,2) ops(2) None ended by (auto simp: attempt_evidence_def)
  next
    case (Some r)
    then have w: "with_world (write_json_atomic h attempt_directory ''resources.json'' (wr_resources (ho_writers h))
        \<lparr>at_format = ATTEMPT_RESOURCES_FORMAT_V1, at_run_id = ho_run_id h, at_attempt_number = 1, at_scope = HelperProcessLifetime,
         at_cpu_time_micros = pr_cpu_time_micros r, at_peak_rss_bytes = pr_peak_rss_bytes r\<rparr> ''attempt resources'') s2 = (Ok (), s3)"
      using ops(4) by (simp add: record_resources_def at_phase_Ok)
    have "stores (files s3) (attempt_directory @ [''attempt.json'']) (json_text (wr_attempt (ho_writers h)) (se_attempt s2))"
      using stores_frame [OF a(1)] json_stored(2) [OF w] by simp
    then show ?thesis
      using recorded_json [OF w recorded_attempt [OF ops(3) r1]] json_stored(1) [OF w] a(2) ops(2) Some ended
      by (auto simp: attempt_evidence_def attempt_directory_def)
  qed
  then show "recorded h bs plan at path (eo_measurements out) s'"
    using measurements_recorded [OF ops(5)] by fastforce
  show "attempt_evidence h out (files s')"
    using r3 measurements_recorded [OF ops(5)] by (auto intro!: attempt_evidence_frame [of h out "files s3"])
qed

text \<open>What the records of the run say of the execution and its evaluation, and the states of its journal.\<close>

definition run_evidence ::
  "Host \<Rightarrow> ResolvedExperiment \<Rightarrow> ExecutionOutput \<Rightarrow> ValidityResult \<Rightarrow> RunSummary \<Rightarrow> (string list \<Rightarrow> bytes option) \<Rightarrow> bool" where
  "run_evidence h plan out v su f \<longleftrightarrow> (let wr = ho_writers h in
     (\<exists>r. stores f [''run.json''] (json_text (wr_run wr) r) \<and> rr_run_status r = eo_terminal_state out \<and> rr_failure r = eo_failure out)
   \<and> stores f [''validity.json''] (json_text (wr_validity wr) v)
   \<and> stores f [''summary.json''] (json_text (wr_summary wr) su)
   \<and> stores f [''manifest.json''] (json_text (wr_manifest wr) (manifest_of h plan out v)))"

definition states_through :: "RunState \<Rightarrow> RunState list" where
  "states_through terminal = [Preparing, Running] @ (if terminal = Succeeded then [Collecting] else []) @ [Finalizing, terminal]"

lemma finalize_recorded:
  assumes run: "finalize h plan out s = Some (Return (Ok (v, su), s'))" and rec: "recorded h bs plan at [Preparing, Running] ms s"
    and final: "is_terminal (eo_terminal_state out)"
  shows "recorded h bs plan at (states_through (eo_terminal_state out)) ms s'" "run_evidence h plan out v su (files s')"
    "evaluate_validity plan out (ho_run_id h) = Return v" "summarize plan out v (ho_run_id h) = Return su"
    "files s' (''attempts'' # cs) = files s (''attempts'' # cs)"
proof -
  let ?wr = "ho_writers h"
  obtain s1 s2 s3 s4 s5 where ops:
      "(if eo_terminal_state out = Succeeded then at_phase (persist_run_transition h Collecting None) ''collecting'' else done_with ()) s = Some (Return (Ok (), s1))"
      "persist_run_transition h Finalizing None s1 = (Ok (), s2)"
      "persist_run_transition h (eo_terminal_state out) (eo_failure out) s2 = (Ok (), s3)"
      "with_world (write_json_atomic h [] ''validity.json'' (wr_validity ?wr) v ''validity result'') s3 = (Ok (), s4)"
      "with_world (write_json_atomic h [] ''summary.json'' (wr_summary ?wr) su ''run summary'') s4 = (Ok (), s5)"
      "with_world (write_json_atomic h [] ''manifest.json'' (wr_manifest ?wr) (manifest_of h plan out v) ''evidence manifest'') s5 = (Ok (), s')"
    and pure: "evaluate_validity plan out (ho_run_id h) = Return v" "summarize plan out v (ho_run_id h) = Return su"
    using run by (fastforce simp: finalize_def at_phase_Ok and_step_eq or_panic_eq done_with_eq)
  have r1: "recorded h bs plan at ([Preparing, Running] @ (if eo_terminal_state out = Succeeded then [Collecting] else [])) ms s1
    \<and> files s1 (''attempts'' # cs) = files s (''attempts'' # cs)"
  proof (cases "eo_terminal_state out = Succeeded")
    case True
    then have c: "persist_run_transition h Collecting None s = (Ok (), s1)" using ops(1) by (simp add: at_phase_Ok)
    then show ?thesis
      using True recorded_transition [OF c rec] transition_recorded(4) [OF c rec [unfolded recorded_def, THEN conjunct1]] by simp
  qed (use ops(1) rec in \<open>simp add: done_with_eq\<close>)
  then have r2: "recorded h bs plan at ([Preparing, Running] @ (if eo_terminal_state out = Succeeded then [Collecting] else []) @ [Finalizing]) ms s2"
    using recorded_transition [OF ops(2)] by fastforce
  have r3: "recorded h bs plan at (states_through (eo_terminal_state out)) ms s3" using recorded_transition [OF ops(3) r2] by (simp add: states_through_def)
  note a = transition_recorded [OF ops(2) r1 [THEN conjunct1, unfolded recorded_def, THEN conjunct1]]
    and t = transition_recorded [OF ops(3) r2 [unfolded recorded_def, THEN conjunct1]]
    and x = json_stored [OF ops(4), unfolded append_Nil] and y = json_stored [OF ops(5), unfolded append_Nil]
    and z = json_stored [OF ops(6), unfolded append_Nil]
  show "recorded h bs plan at (states_through (eo_terminal_state out)) ms s'"
    using recorded_json [OF ops(6) recorded_json [OF ops(5) recorded_json [OF ops(4) r3]]] by (simp add: attempt_directory_def)
  have "stores (files s') [''run.json''] (json_text (wr_run ?wr) (se_run s3))" "stores (files s') [''validity.json''] (json_text (wr_validity ?wr) v)"
    "stores (files s') [''summary.json''] (json_text (wr_summary ?wr) su)"
    using stores_frame [OF t(2)] stores_frame [OF x(1)] stores_frame [OF y(1)] x(2) y(2) z(2) by simp_all
  then show "run_evidence h plan out v su (files s')" unfolding run_evidence_def Let_def using z(1) t(3) final by auto
  show "files s' (''attempts'' # cs) = files s (''attempts'' # cs)" using r1 a(4) t(4) x(2) y(2) z(2) by simp
qed (use run in \<open>auto simp: finalize_def step_simps\<close>)

lemma publish_files:
  assumes hook: "ho_hook h = noop_hook" and run: "publish h s = Some (Return (Ok pending, s'))"
  shows "\<exists>n. wd_final (se_world s') = Some n
    \<and> (\<forall>k cs. k \<notin> {''SHA256SUMS'', ''SHA256SUMS.tmp''} \<longrightarrow> file_at n (k # cs) = files s (k # cs))"
proof -
  obtain p w1 w2 w3 where c: "checksum_staging h (se_world s) = (Ok p, w1)" "verify_staging h w1 = Return (Ok (), w2)"
      "wd_final w2 = None \<or> wd_final w2 = Some BrokenLink" "rename_staging h w2 = (Ok (), w3)" "se_world s' = w3"
    by (rule publish_stages [OF assms])
  obtain n where n: "wd_staging w2 = Some n" "wd_final w3 = Some n"
    using rename_staging_Ok [OF c(4,3)] by auto
  have "file_at n (k # cs) = files s (k # cs)" if "k \<notin> {''SHA256SUMS'', ''SHA256SUMS.tmp''}" for k cs
    using checksum_staging_view [OF c(1) that] verify_staging_view [OF c(2)] view_staged [OF n(1)] by simp
  then show ?thesis using n c(5) by blast
qed

subsection \<open>The published bundle\<close>

definition bundle_records ::
  "Host \<Rightarrow> bytes \<Rightarrow> ResolvedExperiment \<Rightarrow> ExecutionOutput \<Rightarrow> ValidityResult \<Rightarrow> RunSummary \<Rightarrow> (string list \<Rightarrow> bytes option) \<Rightarrow> bool" where
  "bundle_records h bs plan out v su f \<longleftrightarrow> requested h bs plan f \<and> measured h (eo_measurements out) f
     \<and> (\<exists>at lc. journaled h at (states_through (eo_terminal_state out)) lc f) \<and> attempt_evidence h out f \<and> run_evidence h plan out v su f"

lemma bundle_records_frame:
  assumes "bundle_records h bs plan out v su f" and "\<And>k cs. k \<notin> {''SHA256SUMS'', ''SHA256SUMS.tmp''} \<Longrightarrow> f' (k # cs) = f (k # cs)"
  shows "bundle_records h bs plan out v su f'"
proof -
  have "run_evidence h plan out v su f'"
    using assms unfolding bundle_records_def run_evidence_def Let_def stores_def by simp
  moreover have "attempt_evidence h out f'"
    using assms by (auto simp: bundle_records_def attempt_directory_def intro: attempt_evidence_frame)
  moreover obtain at lc where "journaled h at (states_through (eo_terminal_state out)) lc f" using assms(1) by (auto simp: bundle_records_def)
  then have "journaled h at (states_through (eo_terminal_state out)) lc f'" using assms(2) by (rule journaled_frame) simp
  ultimately show ?thesis
    using assms unfolding bundle_records_def by (auto simp: attempt_directory_def intro: requested_frame measured_frame)
qed

lemma allocated_run_recorded:
  assumes run: "allocated_run h bs plan kind ev s = Some (Return (Ok result, s'))" and hook: "ho_hook h = noop_hook"
    and new: "lifecycle_new (ho_run_id h) at 1 = (se_lifecycle s, ev)"
  shows "\<exists>out v su n. execute_kind h plan kind = Some out \<and> evaluate_validity plan out (ho_run_id h) = Return v
     \<and> summarize plan out v (ho_run_id h) = Return su \<and> wd_final (se_world s') = Some n \<and> bundle_records h bs plan out v su (file_at n)
     \<and> rs_run_state result = eo_terminal_state out \<and> rs_failure result = eo_failure out
     \<and> rs_validity_status result = vy_status v \<and> rs_sample_count result = su_sample_count su \<and> rs_latency result = su_latency su"
proof -
  obtain provenance out v su pending s1 s2 s3 s4 where steps: "initialize h bs plan ev s = Some (Return (Ok (), s1))"
      "prepare h plan s1 = Some (Return (Ok provenance, s2))" "execute_kind h plan kind = Some out"
      "record_execution h provenance out s2 = Some (Return (Ok (), s3))" "finalize h plan out s3 = Some (Return (Ok (v, su), s4))"
      "publish h s4 = Some (Return (Ok pending, s'))"
    and result: "rs_run_state result = eo_terminal_state out \<and> rs_failure result = eo_failure out
     \<and> rs_validity_status result = vy_status v \<and> rs_sample_count result = su_sample_count su \<and> rs_latency result = su_latency su"
    using run by (fastforce simp: allocated_run_def step_simps)
  note x = execution_recorded [OF steps(4) prepare_recorded [OF steps(2) initialize_recorded [OF steps(1) new]] hook]
  have "is_terminal (eo_terminal_state out)"
    using x(2) by (auto simp: attempt_evidence_def attempt_terminal_def split: RunState.splits)
  note f = finalize_recorded [OF steps(5) x(1) this]
  have "attempt_evidence h out (files s4)"
    using x(2) by (rule attempt_evidence_frame) (simp add: attempt_directory_def f(5))
  then have "bundle_records h bs plan out v su (files s4)" using f(1,2) unfolding bundle_records_def recorded_def by blast
  moreover obtain n where n: "wd_final (se_world s') = Some n"
      "\<forall>k cs. k \<notin> {''SHA256SUMS'', ''SHA256SUMS.tmp''} \<longrightarrow> file_at n (k # cs) = files s4 (k # cs)"
    using publish_files [OF hook steps(6)] by blast
  ultimately have "bundle_records h bs plan out v su (file_at n)" by (auto intro: bundle_records_frame)
  then show ?thesis using steps(3) f(3,4) n(1) result by blast
qed

text \<open>
  C2. What is published is what ran. A run that returns a result, by whatever runtime, published a bundle whose
  document is the requested bytes, whose plan is the resolved plan, whose measurements are the lines of
  the execution's measurements in order, whose journal is the events of one lifecycle through exactly the
  states of its terminal state, and whose attempt, resource, run, validity, summary and manifest records
  are those of the execution and of its evaluation; and the result reports the same states, failure and
  latencies.
\<close>

theorem published_evidence_is_what_ran:
  assumes "run_experiment h bs w = Some (Return (Ok result, w'))"
  shows "\<exists>e plan kind out v su n. parse_experiment (cd_yaml (ho_codecs h)) bs = Ok e \<and> cd_resolve (ho_codecs h) e = Ok plan
     \<and> execution_kind (ho_cuda_package h) plan = Ok kind \<and> execute_kind (production h) plan kind = Some out
     \<and> evaluate_validity plan out (ho_run_id h) = Return v \<and> summarize plan out v (ho_run_id h) = Return su
     \<and> wd_final w' = Some n \<and> bundle_records h bs plan out v su (file_at n)
     \<and> rs_run_state result = eo_terminal_state out \<and> rs_failure result = eo_failure out
     \<and> rs_validity_status result = vy_status v \<and> rs_sample_count result = su_sample_count su \<and> rs_latency result = su_latency su"
  using assms [unfolded run_experiment_def]
proof (cases rule: run_cases)
  case (finished plan kind w1 ev s q s')
  have q: "q = Ok result" "w' = se_world s'"
    using finished(5) by (auto simp: settle_def split: sum.splits prod.splits)
  have new: "lifecycle_new (ho_run_id (production h)) (ho_clock h (wd_ticks w1)) 1 = (se_lifecycle s, ev)"
    using finished(3) by (auto simp: start_session_def Let_def split: prod.splits)
  have same: "bundle_records (production h) bs plan out v su f = bundle_records h bs plan out v su f" for out v su f
    by (simp add: bundle_records_def requested_def measured_def journaled_def attempt_evidence_def run_evidence_def manifest_of_def
      cong: option.case_cong)
  show ?thesis
    using allocated_run_recorded [OF finished(4) [unfolded q(1)] _ new] finished(1,6) q(2) by (simp add: same) blast
qed auto

end
