(* ===== verification/SamplePublication.thy ===== *)
theory SamplePublication
  imports SampleRun RunPublication RunContents
begin

text \<open>
  A concrete host on which no operation fails. A record is written as a short tag from which the
  reader rebuilds the fields the verifier compares. A rehearsal is a document with its plan, the output of its
  execution and the children of the host; the sample document runs to a published bundle.
\<close>

definition read_tag :: "('a \<Rightarrow> string) \<Rightarrow> 'a list \<Rightarrow> bytes \<Rightarrow> string + 'a" where
  "read_tag show xs b = ok_or ''no such tag'' (List.find (\<lambda>x. show x @ [CHR 0x0A] = b) xs)"

lemma read_tag_written: "distinct (map show xs) \<Longrightarrow> x \<in> set xs \<Longrightarrow> read_tag show xs (show x @ [CHR 0x0A]) = Ok x"
  unfolding read_tag_def by (induction xs) auto

definition run_states :: "RunState list" where
  "run_states = [Created, Preparing, Running, Collecting, Finalizing, Succeeded, Failed, Interrupted]"

fun attempt_tag :: "AttemptStatus \<Rightarrow> string" where
  "attempt_tag AttemptCreated = ''c''"
| "attempt_tag AttemptPreparing = ''p''"
| "attempt_tag AttemptRunning = ''r''"
| "attempt_tag AttemptSucceeded = ''s''"
| "attempt_tag AttemptFailed = ''f''"
| "attempt_tag AttemptInterrupted = ''i''"

definition attempt_statuses :: "AttemptStatus list" where
  "attempt_statuses = [AttemptCreated, AttemptPreparing, AttemptRunning, AttemptSucceeded, AttemptFailed, AttemptInterrupted]"

lemma run_tag: "read_tag run_state_as_str run_states (run_state_as_str st @ [CHR 0x0A]) = Ok st"
  by (rule read_tag_written) (simp add: run_states_def, cases st, simp_all add: run_states_def)

lemma attempt_tag: "read_tag attempt_tag attempt_statuses (attempt_tag st @ [CHR 0x0A]) = Ok st"
  by (rule read_tag_written) (simp add: attempt_statuses_def, cases st, simp_all add: attempt_statuses_def)

record Rehearsal =
  rh_document :: Experiment
  rh_plan :: ResolvedExperiment
  rh_output :: ExecutionOutput
  rh_line :: "MeasurementRecord \<Rightarrow> bytes"
  rh_spawn :: "string \<Rightarrow> system"

definition rh_reader :: "Rehearsal \<Rightarrow> json_reader" where
  "rh_reader k line = ok_or ''not a record'' (find (\<lambda>r. rh_line k r = line) (eo_measurements (rh_output k)))"

definition tag_codecs :: "Rehearsal \<Rightarrow> AttemptProvenance \<Rightarrow> ValidityResult \<Rightarrow> RunSummary \<Rightarrow> Codecs" where
  "tag_codecs k p v su = sample_codecs\<lparr>cd_yaml := (\<lambda>_. Ok (rh_document k)), cd_plan := (\<lambda>_. Ok (rh_plan k)),
     cd_run := (\<lambda>b. and_then (read_tag run_state_as_str run_states b) (\<lambda>st. Ok (sample_run\<lparr>rr_run_status := st\<rparr>))),
     cd_attempt := (\<lambda>b. and_then (read_tag attempt_tag attempt_statuses b) (\<lambda>st. Ok (sample_attempt\<lparr>ar_status := st\<rparr>))),
     cd_provenance := (\<lambda>_. Ok p), cd_validity := (\<lambda>_. Ok v), cd_summary := (\<lambda>_. Ok su),
     cd_resources := (\<lambda>_. ok_or ''no resources'' (map_option (resource_record failing_host) (eo_resources (rh_output k)))),
     cd_manifest := (\<lambda>_. Ok (manifest_of failing_host (rh_plan k) (rh_output k) v)), cd_measurement := rh_reader k\<rparr>"

definition tag_host :: "Rehearsal \<Rightarrow> AttemptProvenance \<Rightarrow> ValidityResult \<Rightarrow> RunSummary \<Rightarrow> Host" where
  "tag_host k p v su = failing_host\<lparr>ho_fault := (\<lambda>_. None), ho_codecs := tag_codecs k p v su, ho_spawn := rh_spawn k,
     ho_read_record := rh_reader k,
     ho_writers := sample_writers\<lparr>wr_run := (\<lambda>r. Ok (run_state_as_str (rr_run_status r))),
       wr_attempt := (\<lambda>a. Ok (attempt_tag (ar_status a))), wr_measurement := (\<lambda>r. Ok (rh_line k r))\<rparr>\<rparr>"

lemma tag_host_simps:
  "ho_run_id (tag_host k p v su) = sample_run_id" "ho_codecs (tag_host k p v su) = tag_codecs k p v su"
  "ho_platform (tag_host k p v su) = bare_platform" "ho_fault (tag_host k p v su) n = None"
  "ho_spawn (tag_host k p v su) = rh_spawn k" "ho_read_record (tag_host k p v su) = rh_reader k"
  "wr_run (ho_writers (tag_host k p v su)) r = Ok (run_state_as_str (rr_run_status r))"
  "wr_attempt (ho_writers (tag_host k p v su)) a = Ok (attempt_tag (ar_status a))"
  "wr_measurement (ho_writers (tag_host k p v su)) m = Ok (rh_line k m)"
  "wr_event (ho_writers (tag_host k p v su)) e = Ok ''e''" "wr_plan (ho_writers (tag_host k p v su)) pl = Ok ''p''"
  "wr_provenance (ho_writers (tag_host k p v su)) q = Ok ''q''" "wr_validity (ho_writers (tag_host k p v su)) y = Ok ''v''"
  "wr_resources (ho_writers (tag_host k p v su)) u = Ok ''u''"
  "wr_summary (ho_writers (tag_host k p v su)) s = Ok ''s''" "wr_manifest (ho_writers (tag_host k p v su)) mf = Ok ''m''"
  "manifest_of (tag_host k p v su) pl o' v' = manifest_of failing_host pl o' v'"
  "resource_record (tag_host k p v su) x = resource_record failing_host x"
  by (simp_all add: tag_host_def failing_host_def sample_writers_def manifest_of_def resource_record_def)

lemma tag_codecs_simps:
  "cd_sha256 (tag_codecs k p v su) = zero_sha256" "cd_hex (tag_codecs k p v su) = zero_hex"
  "cd_yaml (tag_codecs k p v su) b' = Ok (rh_document k)"
  "cd_resolve (tag_codecs k p v su) = cd_resolve sample_codecs" "cd_plan (tag_codecs k p v su) b = Ok (rh_plan k)"
  "cd_event (tag_codecs k p v su) b = Ok sample_event" "cd_provenance (tag_codecs k p v su) b = Ok p"
  "cd_validity (tag_codecs k p v su) b = Ok v" "cd_summary (tag_codecs k p v su) b = Ok su"
  "cd_resources (tag_codecs k p v su) b = ok_or ''no resources'' (map_option (resource_record failing_host) (eo_resources (rh_output k)))"
  "cd_manifest (tag_codecs k p v su) b = Ok (manifest_of failing_host (rh_plan k) (rh_output k) v)"
  "cd_measurement (tag_codecs k p v su) = rh_reader k" "cd_uuid (tag_codecs k p v su) t = Some (t, 7, True)"
  by (simp_all add: tag_codecs_def sample_codecs_def cd_resolve_def fun_eq_iff)

lemma run_state_length: "length (run_state_as_str st) \<le> 11" by (cases st) simp_all
lemma attempt_tag_length: "length (attempt_tag st) = 1" by (cases st) simp_all

text \<open>A rehearsal is sound if its plan is the resolved document and its measurements read back.\<close>

definition rehearsed :: "Rehearsal \<Rightarrow> bool" where
  "rehearsed k \<longleftrightarrow> admissible (rh_document k) \<and> rh_plan k = resolved_fixture (rh_document k)
     \<and> (\<forall>c r. cd_measurement c = rh_reader k \<longrightarrow> r \<in> set (eo_measurements (rh_output k)) \<longrightarrow> readable c (rh_line k) r)
     \<and> length (jsonl (rh_line k) (eo_measurements (rh_output k))) \<le> MAX_MEASUREMENTS_BYTES"

lemma tag_snapshots:
  assumes "rehearsed k"
  shows "snapshots_read_back (tag_host k p v su) (rh_plan k)"
proof -
  have "re_experiment_digest (rh_plan k) = zero_digest" "re_resolved_plan_digest (rh_plan k) = zero_digest"
    using assms by (simp_all add: rehearsed_def resolved_fixture_def resolved_with_def)
  then have run: "run_bytes (tag_host k p v su) (rh_plan k) st (run_state_as_str st @ [CHR 0x0A])" for st
    using run_state_length [of st] by (simp add: run_bytes_def own_run_def tag_host_simps, simp add: tag_codecs_def run_tag
        MAX_IDENTITY_RECORD_BYTES_def) (simp add: sample_run_def)
  have attempt: "attempt_bytes (tag_host k p v su) st (attempt_tag st @ [CHR 0x0A])" for st
    by (simp add: attempt_bytes_def own_attempt_def tag_host_simps attempt_tag_length MAX_IDENTITY_RECORD_BYTES_def,
        simp add: tag_codecs_def attempt_tag) (simp add: sample_attempt_def)
  have event: "event_line (tag_host k p v su) ''e''"
    by (simp add: event_line_def own_event_def tag_host_simps tag_codecs_simps sample_event_def)
  show ?thesis unfolding snapshots_read_back_def tag_host_simps own_run_def own_attempt_def using run attempt event by auto
qed

lemma tag_evidence_codecs:
  assumes "rehearsed k"
  shows "evidence_codecs (tag_host k p v su) ''x'' (rh_plan k) (rh_output k) p p v su (rh_line k)"
proof -
  have "identity_ok (tag_host k p v su)"
    by (simp add: identity_ok_def is_run_id_def strip_prefix_def tag_host_simps tag_codecs_simps sample_run_id_def from_utf8_def
        is_utf8_char_def is_continuation_def byte_of_def)
  moreover have "\<forall>r \<in> set (eo_measurements (rh_output k)). readable (tag_codecs k p v su) (rh_line k) r"
    using assms by (simp add: rehearsed_def tag_codecs_simps)
  ultimately show ?thesis
    using zero_contracts tag_snapshots [OF assms] assms
    by (simp add: evidence_codecs_def Let_def reads_back_def tag_host_simps tag_codecs_simps rehearsed_def MAX_EXPERIMENT_BYTES_def
        MAX_RESOLVED_PLAN_BYTES_def MAX_ATTEMPT_PROVENANCE_BYTES_def MAX_IDENTITY_RECORD_BYTES_def MAX_MANIFEST_BYTES_def
        MAX_ATTEMPT_RESOURCES_BYTES_def split: option.splits)
qed

lemma tag_host_ready:
  assumes "rehearsed k"
  shows "quiet (tag_host k p v su)" "parse_experiment (cd_yaml (ho_codecs (tag_host k p v su))) ''x'' = Ok (rh_document k)"
    "cd_resolve (ho_codecs (tag_host k p v su)) (rh_document k) = Ok (rh_plan k)"
    "host_ok (ho_platform (tag_host k p v su))" "nix_installed (ho_platform (tag_host k p v su)) rt"
proof -
  show "quiet (tag_host k p v su)" "host_ok (ho_platform (tag_host k p v su))" "nix_installed (ho_platform (tag_host k p v su)) rt"
    using bare_host_ok bare_installed by (simp_all add: quiet_def tag_host_simps)
  show "parse_experiment (cd_yaml (ho_codecs (tag_host k p v su))) ''x'' = Ok (rh_document k)"
    by (simp add: parse_experiment_def from_utf8_def is_utf8_char_def byte_of_def tag_host_simps tag_codecs_simps)
  show "cd_resolve (ho_codecs (tag_host k p v su)) (rh_document k) = Ok (rh_plan k)"
    using assms unfolding tag_host_simps tag_codecs_simps cd_resolve_def resolve_Ok_iff
    by (simp add: rehearsed_def tag_codecs_def sample_codecs_def resolved_fixture_def sha256_digest_def zero_sha256_def zero_hex_def
        zero_digest_def)
qed

lemma empty_world_free: "wd_staging empty_world = None" "wd_final empty_world = None"
  by (simp_all add: empty_world_def)

subsection \<open>The local fake\<close>

definition fake_rehearsal :: Rehearsal where
  "fake_rehearsal = \<lparr>rh_document = minimal_local_fake, rh_plan = sample_plan, rh_output = sample_output,
     rh_line = short_line, rh_spawn = no_child\<rparr>"

lemma fake_rehearsed: "rehearsed fake_rehearsal"
proof -
  have "rh_reader fake_rehearsal = read_among (eo_measurements sample_output)"
    by (simp add: fun_eq_iff rh_reader_def read_among_def fake_rehearsal_def)
  then show ?thesis
    using sample_output_readable(1) sample_output_readable(2) [of "sample_codecs\<lparr>cd_measurement := read_among (eo_measurements sample_output)\<rparr>"]
      local_fake_admissible
    by (simp add: rehearsed_def fake_rehearsal_def sample_plan_def)
qed

lemma sample_output_value: "eo_terminal_state sample_output = Succeeded" "eo_resources sample_output = None" "eo_nvidia_gpu sample_output = None"
  by (simp_all add: sample_output_def local_fake_execute_def Let_def)

lemma sample_records:
  "\<exists>p v su. capture bare_platform sample_run_id sample_plan = Return p \<and> evaluate_validity sample_plan sample_output sample_run_id = Return v
     \<and> summarize sample_plan sample_output v sample_run_id = Return su"
proof -
  have p: "\<exists>p. capture bare_platform sample_run_id sample_plan = Return p"
    by (simp add: capture_def capture_runtime_def Let_def bare_platform_def read_bounded_def sample_plan_simps)
  have n: "length (measured_records (eo_measurements sample_output)) = 3"
    by (simp add: sample_output_def local_fake_measured sample_plan_simps measured_count_def)
  then obtain v where v: "evaluate_validity sample_plan sample_output sample_run_id = Return v"
    by (simp add: evaluate_validity_def sample_output_value Let_def sample_plan_simps)
  show ?thesis using p v summarize_value [of sample_output sample_plan v sample_run_id] n by fastforce
qed

lemma sample_run_completes:
  "\<exists>p v su result w'. run_experiment (tag_host fake_rehearsal p v su) ''x'' empty_world = Some (Return (Ok result, w'))
     \<and> rs_run_state result = Succeeded"
proof -
  obtain p v su where r: "capture bare_platform sample_run_id sample_plan = Return p" "evaluate_validity sample_plan sample_output sample_run_id = Return v"
     "summarize sample_plan sample_output v sample_run_id = Return su"
    using sample_records by blast
  let ?h = "tag_host fake_rehearsal p v su"
  have k: "rh_plan fake_rehearsal = sample_plan" "rh_output fake_rehearsal = sample_output" by (simp_all add: fake_rehearsal_def)
  have kind: "execution_kind (ho_cuda_package ?h) sample_plan = Ok (KindLocalFake 0 ScenarioSuccess)"
    by (simp add: execution_kind_def sample_plan_simps Let_def)
  have exec: "execute_kind (production ?h) sample_plan (KindLocalFake 0 ScenarioSuccess) = Some sample_output"
    by (simp add: execute_kind_def sample_output_def tag_host_simps tag_codecs_simps)
  have spawn: "\<forall>executable arguments. accounted (ho_spawn ?h executable arguments)"
    by (simp add: tag_host_simps fake_rehearsal_def accounted_def accounted_wait_def no_child_def)
  have agree: "evidence_agrees sample_plan sample_output" "enriched sample_output p p"
    by (simp_all add: evidence_agrees_def enriched_def sample_output_value sample_plan_simps)
  note ready = tag_host_ready [OF fake_rehearsed, unfolded k]
  obtain st where "smooth (production ?h) ''x'' sample_plan sample_output p p v su (rh_line fake_rehearsal) st"
    using executed_smooth [OF ready(1-3) kind exec ready(4,5) spawn agree(1) _ agree(2) _ _
        tag_evidence_codecs [OF fake_rehearsed, unfolded k]] r by (auto simp: tag_host_simps)
  from smooth_run [OF this _ exec empty_world_free] kind show ?thesis
    unfolding run_experiment_def by (simp add: sample_output_value) blast
qed

theorem published_evidence_is_what_ran_witness:
  "\<exists>h result w' n. run_experiment h ''x'' empty_world = Some (Return (Ok result, w')) \<and> wd_final w' = Some n
     \<and> file_at n [''experiment.yaml''] = Some ''x'' \<and> file_at n [''resolved-plan.json''] = Some (''p'' @ [CHR 0x0A])
     \<and> rs_run_state result = Succeeded"
proof -
  obtain p v su result w' where run: "run_experiment (tag_host fake_rehearsal p v su) ''x'' empty_world = Some (Return (Ok result, w'))"
    "rs_run_state result = Succeeded" using sample_run_completes by blast
  from published_evidence_is_what_ran [OF run(1)] obtain plan out v' su' n where "wd_final w' = Some n"
    "bundle_records (tag_host fake_rehearsal p v su) ''x'' plan out v' su' (file_at n)"
    by blast
  then show ?thesis using run by (auto simp: bundle_records_def requested_def stores_def json_text_def tag_host_simps)
qed

end
