(* ===== verification/HelperDelivery.thy ===== *)
theory HelperDelivery
  imports CpuProbe
begin

text \<open>
  The helper and its supervisor together: when the helper's output arrives, on time and in any cut
  into reads, and the helper exits successfully, the execution succeeds with exactly the records the
  helper measured. Supervision facts for any protocol come first, the CPU probe instance second.
\<close>

subsection \<open>A conforming output is accepted\<close>

definition conforming :: "json_reader \<Rightarrow> validator \<Rightarrow> ChildProtocol \<Rightarrow> bytes list \<Rightarrow> bool" where
  "conforming fs v p L \<longleftrightarrow>
     length L \<le> unat (cq_expected_metadata_records p) + unat (cq_expected_records p)
     \<and> (\<forall>l\<in>set L. length l < unat (cq_max_record_bytes p))
     \<and> (\<forall>i < length L. unat (cq_expected_metadata_records p) \<le> i \<longrightarrow>
         (\<exists>r. fs (L ! i) = Ok r \<and> v r (i - unat (cq_expected_metadata_records p)) = Ok ()))"

lemma accept_conforming:
  assumes c: "conforming fs v p L" and h: "st_holds fs v p ls st" and r: "representable p"
    and L: "L = ls @ line # rest"
  shows "\<exists>b st'. accept_line fs v p line st = Ok (b, st')"
proof -
  let ?m = "unat (cq_expected_metadata_records p)"
  have "length ls < ?m + unat (cq_expected_records p)" using c L by (simp add: conforming_def)
  then have room: "\<not> saturating_add (len (sv_metadata st)) (len (sv_measurements st))
      \<ge> saturating_add (cq_expected_metadata_records p) (cq_expected_records p)"
    using emitted_less_iff [OF h r] by simp
  have short: "length line < unat (cq_max_record_bytes p)" using c L by (simp add: conforming_def)
  then have ll: "unat (len line) = length line" by (intro len_le_iff [of _ "cq_max_record_bytes p"]) simp
  have "unat (cq_max_record_bytes p) < 2 ^ 64" by simp
  then have "length line + 1 < 2 ^ 64" using short by linarith
  then have fits: "\<not> is_none_or (\<lambda>bytes. bytes > cq_max_record_bytes p) (checked_add (len line) 1)"
    using short ll by (simp add: checked_add_def word_less_nat_alt)
  show ?thesis
  proof (cases "len (sv_metadata st) < cq_expected_metadata_records p")
    case True
    then show ?thesis using room fits unfolding accept_line_def Let_def by (simp only: if_False if_True) blast
  next
    case False
    then have ge: "?m \<le> length ls"
      using holds_len [OF h] h by (auto simp: word_less_nat_alt holds_def)
    have ix: "length (sv_measurements st) = length ls - ?m"
      using h by (auto simp: holds_def dest: list_all2_lengthD)
    obtain rec where "fs line = Ok rec" "v rec (length ls - ?m) = Ok ()"
      using c L ge by (auto simp: conforming_def dest: spec [of _ "length ls"])
    then show ?thesis using room fits False ix unfolding accept_line_def Let_def by auto
  qed
qed

definition on_time :: "nat \<Rightarrow> Poll \<Rightarrow> bool" where
  "on_time d poll \<longleftrightarrow> po_now poll < d \<and> (\<exists>w. po_wait poll = Ok w
     \<and> (\<forall>reaped. w = Some reaped \<longrightarrow> rc_status reaped = 0 \<and> is_ok (rc_resources reaped)))"

definition clean_exit :: "ReapedChild option \<Rightarrow> bool" where
  "clean_exit w \<longleftrightarrow> (\<forall>reaped. w = Some reaped \<longrightarrow> rc_status reaped = 0 \<and> is_ok (rc_resources reaped))"

lemma poll_exit_clean:
  assumes "on_time d poll" and "clean_exit (sv_exit_status st)"
  shows "\<exists>st'. poll_exit p (po_wait poll) st = Ok st' \<and> clean_exit (sv_exit_status st')"
  using assms by (auto simp: poll_exit_def on_time_def clean_exit_def split: option.splits)

lemma map_Line_prefix:
  "map Line ls @ Line line # q = map Line L @ [Done] \<Longrightarrow> \<exists>rest. L = ls @ line # rest"
proof (induction ls arbitrary: L)
  case Nil
  then show ?case by (cases L) auto
next
  case (Cons a ls)
  then show ?case by (cases L) auto
qed

lemma receive_conforming:
  assumes c: "conforming fs v p L" and inv: "stream_inv fs v p L Done q st" and r: "representable p"
    and chan: "channel q (poll # polls)"
  shows "\<exists>b st'. receive fs v p (po_received poll) st = Ok (b, st')
    \<and> sv_exit_status st' = sv_exit_status st"
proof (cases "po_received poll")
  case (Received e)
  show ?thesis
  proof (cases e)
    case (Line line)
    then obtain q' where q: "q = Line line # q'" using chan Received by (auto split: list.splits)
    then obtain ls where ls: "map Line ls @ Line line # q' = map Line L @ [Done]" "st_holds fs v p ls st"
      using inv by (auto simp: stream_inv_def split: if_splits)
    then have "\<exists>rest. L = ls @ line # rest" by (intro map_Line_prefix)
    then obtain b st' where "accept_line fs v p line st = Ok (b, st')"
      using accept_conforming [OF c ls(2) r] by blast
    moreover from this have "sv_exit_status st' = sv_exit_status st"
      using accept_line_holds [OF ls(2) r] by blast
    ultimately show ?thesis using Received Line by (auto simp: receive_def)
  next
    case (StdoutError m)
    then obtain q' where q: "q = StdoutError m # q'" using chan Received by (auto split: list.splits)
    then obtain ls where "map Line ls @ StdoutError m # q' = map Line L @ [Done]"
      using inv by (auto simp: stream_inv_def split: if_splits)
    from map_Line_end_unique [OF this] show ?thesis by (simp add: ends_def)
  next
    case Done
    then show ?thesis using Received by (auto simp: receive_def)
  qed
qed (auto simp: receive_def)

lemma loop_conforming:
  assumes "conforming fs v p L" and "stream_inv fs v p L Done q st" and "representable p"
    and "channel q polls" and "\<forall>poll\<in>set polls. on_time d poll" and "clean_exit (sv_exit_status st)"
    and "supervise_loop fs v p d polls st = Some res"
  shows "\<exists>c. res = Ok c \<and> clean_exit (Some (cc_reaped c))"
  using assms
proof (induction polls arbitrary: q st)
  case Nil
  then show ?case by (auto simp: supervise_complete_eq_Some)
next
  case (Cons poll polls)
  show ?case
  proof (cases "supervise_complete st")
    case (Some c)
    then have "res = Ok c" using Cons.prems(7) by simp
    then show ?thesis using Some Cons.prems(6) by (auto simp: supervise_complete_eq_Some)
  next
    case None
    have ot: "on_time d poll" using Cons.prems(5) by simp
    obtain b st1 where rcv: "receive fs v p (po_received poll) st = Ok (b, st1)"
      and ex: "sv_exit_status st1 = sv_exit_status st"
      using receive_conforming [OF Cons.prems(1-4)] by blast
    have e: "ends Done" by (simp add: ends_def)
    obtain q' where q': "stream_inv fs v p L Done q' st1" "channel q' polls"
      using stream_inv_receive [OF Cons.prems(2) e Cons.prems(3,4) rcv] by blast
    obtain st2 where st2: "poll_exit p (po_wait poll) st1 = Ok st2" "clean_exit (sv_exit_status st2)"
      using poll_exit_clean [OF ot] Cons.prems(6) ex by metis
    define st' where "st' = (if b then st1 else st2)"
    have it: "supervise_iteration fs v p d poll st = Ok st'"
      using ot rcv st2(1) by (simp add: supervise_iteration_def on_time_def st'_def)
    have "stream_inv fs v p L Done q' st'"
      using q'(1) poll_exit_keeps [OF st2(1)] by (simp add: stream_inv_def st'_def)
    moreover have "clean_exit (sv_exit_status st')" using st2(2) ex Cons.prems(6) by (simp add: st'_def)
    moreover have "supervise_loop fs v p d polls st' = Some res" using Cons.prems(7) None it by simp
    moreover have "\<forall>poll\<in>set polls. on_time d poll" using Cons.prems(5) by simp
    ultimately show ?thesis using Cons.IH [OF Cons.prems(1) _ Cons.prems(3) q'(2)] by blast
  qed
qed

lemma conforming_execution:
  assumes c: "conforming fs v p L" and full: "length L = unat (cq_expected_metadata_records p) + unat (cq_expected_records p)"
    and b: "accepted_bytes p = Ok bytes" and sp: "en_spawn env = Ok ()"
    and reads: "read_stdout p reads = map Line L @ [Done]" and ch: "channel (read_stdout p reads) (en_polls env)"
    and time: "\<forall>poll\<in>set (en_polls env). on_time (en_started env + unat (cq_maximum_runtime_seconds p) * 1000000000) poll"
    and ret: "child_execute show_status fs p v env = Some x"
  shows "ce_failure x = None
    \<and> list_all2 (\<lambda>l r. fs l = Ok r) (drop (unat (cq_expected_metadata_records p)) L) (ce_measurements x)"
proof -
  let ?d = "en_started env + unat (cq_maximum_runtime_seconds p) * 1000000000"
  have rep: "representable p" using accepted_bytes_Ok [OF b] by blast
  obtain res outcome acts stderr where res: "supervise fs v p ?d (en_polls env) = Some res"
    and settled: "settle_child env res = Some (outcome, acts)" and x: "x = conclude show_status p outcome stderr"
    by (rule child_execute_Some [OF ret b sp])
  have st: "\<not> sv_stdout_done supervision_start" by (simp add: supervision_start_def)
  have inv: "stream_inv fs v p L Done (read_stdout p reads) supervision_start"
    unfolding stream_inv_def if_not_P [OF st] using start_holds reads by (intro exI [of _ "[]"]) simp
  obtain c where rc: "res = Ok c" "clean_exit (Some (cc_reaped c))"
    using loop_conforming [OF c inv rep ch time _ res [unfolded supervise_def]]
    by (auto simp: clean_exit_def supervision_start_def)
  have "ends Done" by (simp add: ends_def)
  from stream_inv_loop [OF inv this rep ch] res rc(1)
  have h: "holds fs v p L (cc_metadata c) (cc_measurements c)" by (simp add: supervise_def)
  have "len (cc_metadata c) = cq_expected_metadata_records p \<and> len (cc_measurements c) = cq_expected_records p"
    using holds_len [OF h] h full by (auto simp: word_unat_eq_iff holds_def dest: list_all2_lengthD)
  moreover obtain u where "rc_resources (cc_reaped c) = Ok u" "rc_status (cc_reaped c) = 0"
    using rc(2) by (auto simp: clean_exit_def is_ok_iff)
  moreover have "outcome = Ok c" using settled rc(1) by (simp add: settle_child_def)
  ultimately show ?thesis using x h by (auto simp: conclude_def status_success_def completed_success_def holds_def)
qed

subsection \<open>The CPU probe\<close>

definition record_at ::
  "Args \<Rightarrow> (MeasurementPhase \<Rightarrow> u32 \<Rightarrow> RepetitionClock) \<Rightarrow> nat \<Rightarrow> string + MeasurementRecord" where
  "record_at args clock i = (let phase = slot_phase (unat (ag_warmup_runs args)) i;
       index = of_nat (slot_index (unat (ag_warmup_runs args)) i)
     in repetition_record args phase index (rk_timings (clock phase index)) (rk_elapsed (clock phase index)))"

definition slot :: "nat \<Rightarrow> nat \<Rightarrow> MeasurementPhase \<times> u32" where
  "slot w i = (slot_phase w i, of_nat (slot_index w i))"

lemma slots_in_order:
  "map (Pair Warmup) (one_to w) @ map (Pair Measured) (one_to n) = map (slot (unat w)) [0..<unat w + unat n]"
proof (rule nth_equalityI)
  fix i assume "i < length (map (Pair Warmup) (one_to w) @ map (Pair Measured) (one_to n))"
  then show "(map (Pair Warmup) (one_to w) @ map (Pair Measured) (one_to n)) ! i
      = map (slot (unat w)) [0..<unat w + unat n] ! i"
    by (auto simp: nth_append one_to_nth slot_def slot_phase_def slot_index_def)
qed simp

text \<open>The helper's standard output takes everything the helper writes.\<close>

definition writes_succeed :: "(MeasurementPhase \<Rightarrow> u32 \<Rightarrow> RepetitionClock) \<Rightarrow> bool" where
  "writes_succeed clock \<longleftrightarrow> (\<forall>phase index. rk_fault (clock phase index) = None)"

text \<open>\<open>ser i\<close> is the serialized record of position \<open>i\<close>.\<close>

lemma emit_all_Ok:
  assumes "\<forall>i\<in>set is. \<exists>r. record_at args clock i = Ok r \<and> to_json r = Ok (ser i)" and "writes_succeed clock"
  shows "emit_all to_json args clock (map (slot (unat (ag_warmup_runs args))) is) =
    (concat (map (\<lambda>i. ser i @ [CHR 0x0A]) is), Ok ())"
  using assms
  by (induction "is") (auto simp: emit_repetition_def slot_def record_at_def Let_def writes_succeed_def)

lemma split_on_append_line: "CHR 0x0A \<notin> set b \<Longrightarrow> split_on CHR 0x0A (b @ CHR 0x0A # rest) = b # split_on CHR 0x0A rest"
  by (induction b) auto

lemma protocol_lines_concat:
  assumes "\<forall>b\<in>set bs. CHR 0x0A \<notin> set b"
  shows "protocol_lines (concat (map (\<lambda>b. b @ [CHR 0x0A]) bs)) = bs"
proof -
  have "split_on CHR 0x0A (concat (map (\<lambda>b. b @ [CHR 0x0A]) bs)) = bs @ [[]]"
    using assms by (induction bs) (auto simp: split_on_append_line)
  then show ?thesis by (simp add: protocol_lines_def)
qed

definition config_of :: "Args \<Rightarrow> u64 \<Rightarrow> CpuProbeConfig" where
  "config_of args seconds = \<lparr>cf_requests = ag_requests args, cf_warmup_runs = ag_warmup_runs args,
     cf_repetitions = ag_repetitions args, cf_output_tokens = ag_output_tokens args,
     cf_work_units_per_token = ag_work_units_per_token args, cf_maximum_runtime_seconds = seconds\<rparr>"

text \<open>What is assumed of JSON: the records of this run are written as one short line and read back.\<close>

definition json_roundtrip ::
  "(MeasurementRecord \<Rightarrow> string + bytes) \<Rightarrow> json_reader \<Rightarrow> MeasurementRecord \<Rightarrow> bool" where
  "json_roundtrip to_json fs r \<longleftrightarrow> (\<exists>b. to_json r = Ok b \<and> CHR 0x0A \<notin> set b \<and> length b < 512 \<and> fs b = Ok r)"

lemma cpu_accepted_bytes:
  assumes "helper_admissible args"
  shows "\<exists>b. accepted_bytes (cpu_protocol (config_of args secs) (cpu_count (config_of args secs))) = Ok b"
    and "unat (cpu_count (config_of args secs)) = unat (ag_warmup_runs args) + unat (ag_repetitions args)"
proof -
  have le: "unat (ag_warmup_runs args) + unat (ag_repetitions args) \<le> 1000"
    using assms by (simp add: helper_admissible_def)
  then show n: "unat (cpu_count (config_of args secs)) = unat (ag_warmup_runs args) + unat (ag_repetitions args)"
    by (simp add: cpu_count_def config_of_def)
  let ?n = "cpu_count (config_of args secs)"
  have "unat ?n * 512 \<le> 512000" using n le by simp
  then have "checked_mul ?n 512 = Some (?n * 512)" "?n * 512 \<le> 1048576"
    by (simp_all add: checked_mul_def word_le_nat_alt)
  then show "\<exists>b. accepted_bytes (cpu_protocol (config_of args secs) ?n) = Ok b"
    by (simp add: accepted_bytes_def cpu_protocol_def checked_add_def cpu_limit_defs)
qed

lemma helper_output:
  assumes "helper_admissible args" and writes: "writes_succeed clock"
    and json: "\<forall>i < unat (ag_warmup_runs args) + unat (ag_repetitions args). \<forall>r.
      record_at args clock i = Ok r \<longrightarrow> json_roundtrip to_json fs r"
  obtains ser where
    "helper_run to_json args clock = (concat (map (\<lambda>b. b @ [CHR 0x0A])
       (map ser [0..<unat (ag_warmup_runs args) + unat (ag_repetitions args)])), Ok ())"
    and "\<forall>i < unat (ag_warmup_runs args) + unat (ag_repetitions args). \<exists>r. record_at args clock i = Ok r
       \<and> slot_record CPU_PROBE_GENERATOR_VERSION (ag_requests args) (ag_warmup_runs args) i r
       \<and> CHR 0x0A \<notin> set (ser i) \<and> length (ser i) < 512 \<and> fs (ser i) = Ok r"
proof -
  let ?n = "unat (ag_warmup_runs args) + unat (ag_repetitions args)"
  have bound: "?n \<le> 1000" using assms(1) by (simp add: helper_admissible_def)
  have "\<exists>b. i < ?n \<longrightarrow> (\<exists>r. record_at args clock i = Ok r
       \<and> slot_record CPU_PROBE_GENERATOR_VERSION (ag_requests args) (ag_warmup_runs args) i r
       \<and> to_json r = Ok b \<and> CHR 0x0A \<notin> set b \<and> length b < 512 \<and> fs b = Ok r)" for i
  proof (cases "i < ?n")
    case True
    then have "i < 2 ^ 32 - 1" using bound by simp
    then obtain r where r: "record_at args clock i = Ok r"
      "slot_record CPU_PROBE_GENERATOR_VERSION (ag_requests args) (ag_warmup_runs args) i r"
      using repetition_record_slot [of i args] unfolding record_at_def Let_def by blast
    then show ?thesis using json True unfolding json_roundtrip_def by blast
  qed blast
  then obtain ser where t: "\<forall>i. i < ?n \<longrightarrow> (\<exists>r. record_at args clock i = Ok r
       \<and> slot_record CPU_PROBE_GENERATOR_VERSION (ag_requests args) (ag_warmup_runs args) i r
       \<and> to_json r = Ok (ser i) \<and> CHR 0x0A \<notin> set (ser i) \<and> length (ser i) < 512 \<and> fs (ser i) = Ok r)"
    by metis
  have "\<forall>i\<in>set [0..<?n]. \<exists>r. record_at args clock i = Ok r \<and> to_json r = Ok (ser i)" using t by auto
  note emitted = emit_all_Ok [OF this writes]
  have "helper_validate args = Ok ()" using assms(1) by (simp add: helper_validate_iff)
  then have "helper_run to_json args clock = (concat (map (\<lambda>b. b @ [CHR 0x0A]) (map ser [0..<?n])), Ok ())"
    using emitted by (simp add: helper_run_def slots_in_order o_def)
  then show thesis using that t by blast
qed

text \<open>The lines of an admissible helper fit the protocol: the reader passes them all and each is accepted.\<close>

lemma cpu_protocol_limits:
  fixes args :: Args and secs :: u64
  defines "protocol \<equiv> cpu_protocol (config_of args secs) (cpu_count (config_of args secs))"
  assumes "helper_admissible args"
  shows "cq_expected_metadata_records protocol = 0"
    "unat (cq_expected_records protocol) = unat (ag_warmup_runs args) + unat (ag_repetitions args)"
    "unat (cq_max_record_bytes protocol) = 512" "unat (cq_max_stdout_bytes protocol) = 1048576"
    "cq_maximum_runtime_seconds protocol = secs" "0 < cq_max_record_bytes protocol"
  using cpu_accepted_bytes(2) [OF assms(2), of secs]
  by (simp_all add: protocol_def cpu_protocol_def cpu_limit_defs) (simp add: config_of_def)

lemma helper_lines_accepted:
  fixes args :: Args and secs :: u64 and ser :: "nat \<Rightarrow> bytes"
  defines "n \<equiv> unat (ag_warmup_runs args) + unat (ag_repetitions args)" and "config \<equiv> config_of args secs"
  defines "protocol \<equiv> cpu_protocol config (cpu_count config)"
  assumes adm: "helper_admissible args"
    and ser: "\<forall>i < n. \<exists>r. slot_record CPU_PROBE_GENERATOR_VERSION (ag_requests args) (ag_warmup_runs args) i r
       \<and> CHR 0x0A \<notin> set (ser i) \<and> length (ser i) < 512 \<and> fs (ser i) = Ok r"
    and chunks: "\<forall>c\<in>set chunks. c \<noteq> []" "concat chunks = concat (map (\<lambda>b. b @ [CHR 0x0A]) (map ser [0..<n]))"
  shows "read_stdout protocol (map ReadBytes chunks) = map Line (map ser [0..<n]) @ [Done]"
    and "conforming fs (cpu_validate_record config) protocol (map ser [0..<n])"
proof -
  let ?L = "map ser [0..<n]"
  have n: "n \<le> 1000" using adm by (simp add: helper_admissible_def n_def)
  note p = cpu_protocol_limits [OF adm, of secs, folded config_def n_def, folded protocol_def]
  have lines: "protocol_lines (concat chunks) = ?L"
    unfolding chunks(2) by (rule protocol_lines_concat) (use ser in auto)
  have short: "\<forall>l\<in>set ?L. length l < 512" using ser by fastforce
  have "length (concat chunks) = sum_list (map (\<lambda>i. length (ser i) + 1) [0..<n])"
    unfolding chunks(2) by (simp add: length_concat o_def)
  also have "\<dots> \<le> n * 512" using ser
    sum_list_between [of "map (\<lambda>i. length (ser i) + 1) [0..<n]" 0 512] by (fastforce simp: Suc_le_eq)
  finally have "length (concat chunks) \<le> unat (cq_max_stdout_bytes protocol)" using n p(4) by simp
  then show "read_stdout protocol (map ReadBytes chunks) = map Line ?L @ [Done]"
    using read_stdout_whole [OF chunks(1) _ p(6)] short unfolding lines p(3) by blast
  have "\<exists>r. fs (?L ! i) = Ok r \<and> cpu_validate_record config r i = Ok ()" if i: "i < n" for i
  proof -
    obtain r where "slot_record CPU_PROBE_GENERATOR_VERSION (ag_requests args) (ag_warmup_runs args) i r"
      "fs (ser i) = Ok r" using ser i by blast
    moreover have "i < 2 ^ 32 - 1" using i n by simp
    ultimately show ?thesis using i by (auto simp: cpu_validate_iff config_def config_of_def)
  qed
  then show "conforming fs (cpu_validate_record config) protocol ?L" using short p by (auto simp: conforming_def)
qed

text \<open>
  C37. The helper and the supervisor agree end to end. When the helper accepts its arguments, can write its output and
  the output reaches the supervisor in any cut into nonempty reads, every poll is before the deadline and
  the child exits cleanly, then an execution that returns has succeeded, and its measurements are
  exactly the records the helper measured, warmup repetitions first, in order.
\<close>

theorem cpu_probe_delivers:
  fixes args :: Args and secs :: u64 and system :: system
  defines "n \<equiv> unat (ag_warmup_runs args) + unat (ag_repetitions args)"
    and "config \<equiv> config_of args secs"
  defines "protocol \<equiv> cpu_protocol config (cpu_count config)" and "env \<equiv> system (cpu_arguments config)"
  assumes "helper_validate args = Ok ()"
    and "\<forall>i < n. \<forall>r. record_at args clock i = Ok r \<longrightarrow> json_roundtrip to_json fs r"
    and "helper_run to_json args clock = (out, result)"
    and "\<forall>c\<in>set chunks. c \<noteq> []" and "concat chunks = out"
    and "en_spawn env = Ok ()" and "channel (read_stdout protocol (map ReadBytes chunks)) (en_polls env)"
    and "\<forall>poll\<in>set (en_polls env). on_time (en_started env + unat secs * 1000000000) poll"
    and "cpu_execute show_status fs config system = Some ex" and writes: "writes_succeed clock"
  shows "result = Ok () \<and> eo_terminal_state ex = Succeeded
    \<and> map Ok (eo_measurements ex) = map (record_at args clock) [0..<n]"
proof -
  have adm: "helper_admissible args" using assms(5) by (simp add: helper_validate_iff)
  obtain ser where out: "helper_run to_json args clock =
      (concat (map (\<lambda>b. b @ [CHR 0x0A]) (map ser [0..<n])), Ok ())"
    and ser: "\<forall>i < n. \<exists>r. record_at args clock i = Ok r
       \<and> slot_record CPU_PROBE_GENERATOR_VERSION (ag_requests args) (ag_warmup_runs args) i r
       \<and> CHR 0x0A \<notin> set (ser i) \<and> length (ser i) < 512 \<and> fs (ser i) = Ok r"
    using helper_output [OF adm writes assms(6) [unfolded n_def]] unfolding n_def by metis
  note p = cpu_protocol_limits [OF adm, of secs, folded config_def n_def, folded protocol_def]
  have cc: "concat chunks = concat (map (\<lambda>b. b @ [CHR 0x0A]) (map ser [0..<n]))" using assms(7,9) out by simp
  have "\<forall>i < n. \<exists>r. slot_record CPU_PROBE_GENERATOR_VERSION (ag_requests args) (ag_warmup_runs args) i r
       \<and> CHR 0x0A \<notin> set (ser i) \<and> length (ser i) < 512 \<and> fs (ser i) = Ok r"
    using ser by blast
  note l = helper_lines_accepted [OF adm this [unfolded n_def] assms(8) cc [unfolded n_def], of secs,
      folded n_def config_def, folded protocol_def]
  obtain ab where ab: "accepted_bytes protocol = Ok ab"
    using cpu_accepted_bytes(1) [OF adm, of secs] unfolding protocol_def config_def by blast
  have "n \<le> 1000" using adm by (simp add: helper_admissible_def n_def)
  then have "cpu_expected_record_count config = Ok (cpu_count config)"
    by (simp add: cpu_expected_record_count_Ok config_def config_of_def n_def)
  then obtain x where x: "child_execute show_status fs protocol (cpu_validate_record config) env = Some x"
    "ex = cpu_into_execution_output x"
    using assms(13) by (auto simp: cpu_execute_def cpu_execute_command_def protocol_def env_def)
  have "ce_failure x = None \<and> list_all2 (\<lambda>l r. fs l = Ok r) (map ser [0..<n]) (ce_measurements x)"
    using conforming_execution [OF l(2) _ ab assms(10) l(1) assms(11) _ x(1)] assms(12) p by simp
  then show ?thesis using assms(7) out x(2) ser
    by (auto simp: cpu_into_execution_output_def list_all2_conv_all_nth intro!: nth_equalityI)
qed

text \<open>One repetition of one request, delivered in two reads.\<close>

definition one_args :: Args where
  "one_args = \<lparr>ag_requests = 1, ag_warmup_runs = 0, ag_repetitions = 1, ag_output_tokens = 1,
     ag_work_units_per_token = 1\<rparr>"

definition one_clock :: "MeasurementPhase \<Rightarrow> u32 \<Rightarrow> RepetitionClock" where
  "one_clock ph i = \<lparr>rk_timings = [\<lparr>rt_first_output = 1000, rt_elapsed = 2000\<rparr>], rk_elapsed = 3000, rk_fault = None\<rparr>"

lemma one_clock_writes: "writes_succeed one_clock"
  by (simp add: writes_succeed_def one_clock_def)

definition one_record :: MeasurementRecord where
  "one_record = \<lparr>mr_generator = CPU_PROBE_GENERATOR_VERSION, mr_attempt_number = 1, mr_phase = Measured,
     mr_repetition_index = 1, mr_sample_index = 1, mr_latency_micros = 2,
     mr_time_to_first_token_micros = 1, mr_throughput_milli_requests_per_second = 333333333,
     mr_successful_requests = 1, mr_failed_requests = 0, mr_request_observations = []\<rparr>"

definition one_system :: system where
  "one_system arguments = sample_environment
     [sample_poll 1 (Received (Line ''r'')) None, sample_poll 2 (Received Done) (Some sample_reaped)]"

lemma ceil_micros_small: "n \<le> 1000000 \<Longrightarrow> 0 < n \<Longrightarrow> ceil_micros (of_nat n) = of_nat (ceil_div n 1000)"
proof -
  assume n: "n \<le> 1000000" "0 < n"
  then have u: "unat (of_nat n :: u128) = n" by (intro unat_of_nat_small) simp
  have c: "ceil_div n 1000 \<le> 1000" "1 \<le> ceil_div n 1000"
    using n ceil_div_le_iff [of 1000 n 1000] ceil_div_le_iff [of 1000 n 0] by auto
  have d: "unat (div_ceil (of_nat n :: u128) 1000) = ceil_div n 1000" by (subst unat_div_ceil) (simp_all add: u)
  then have "max (div_ceil (of_nat n :: u128) 1000) 1 = div_ceil (of_nat n) 1000"
    using c by (intro max_absorb1) (simp add: word_le_nat_alt)
  moreover have "unat (of_nat (ceil_div n 1000) :: u64) = ceil_div n 1000" using c by (intro unat_of_nat_small) simp
  then have "try_into (div_ceil (of_nat n :: u128) 1000) = Some (of_nat (ceil_div n 1000) :: u64)"
    using d by (simp add: try_into_eq_Some)
  ultimately show ?thesis by (simp add: ceil_micros_def)
qed

lemma one_record_at: "record_at one_args one_clock 0 = Ok one_record"
proof -
  have m: "ceil_micros 1000 = 1" "ceil_micros 2000 = 2" "ceil_micros 3000 = 3"
    using ceil_micros_small [of 1000] ceil_micros_small [of 2000] ceil_micros_small [of 3000]
    by (simp_all add: ceil_div_def)
  have "try_into (333333333 :: u128) = Some (333333333 :: u64)" by (simp add: try_into_eq_Some)
  moreover have "(1000000000 :: u128) div 3 = 333333333" by simp
  ultimately show ?thesis
    by (simp add: record_at_def slot_phase_def slot_index_def one_args_def one_clock_def
        repetition_record_def m one_record_def Let_def)
qed

lemma one_system_ready:
  "en_spawn (one_system a) = Ok ()" "en_started (one_system a) = 0" "channel [Line ''r'', Done] (en_polls (one_system a))"
  "\<forall>poll\<in>set (en_polls (one_system a)). on_time 5000000000 poll"
  by (simp_all add: one_system_def sample_environment_def sample_poll_def on_time_def sample_reaped_def)

definition one_output :: ExecutionOutput where
  "one_output = \<lparr>eo_measurements = [one_record], eo_resources = Some \<lparr>pr_cpu_time_micros = 7, pr_peak_rss_bytes = 1024\<rparr>,
     eo_nvidia_gpu = None, eo_terminal_state = Succeeded, eo_failure = None\<rparr>"

lemma one_execution:
  assumes fs: "fs ''r'' = Ok one_record"
  shows "cpu_execute show_status fs (config_of one_args 5) one_system = Some one_output"
proof -
  let ?config = "config_of one_args 5"
  have adm: "helper_admissible one_args" by (simp add: helper_admissible_def one_args_def)
  have c1: "cpu_count ?config = 1"
    using cpu_accepted_bytes(2) [OF adm, of 5] by (simp add: word_eq_iff_unsigned [where 'a = nat] one_args_def)
  obtain b where b: "accepted_bytes (cpu_protocol ?config 1) = Ok b"
    using cpu_accepted_bytes(1) [OF adm, of 5] c1 by auto
  have e: "cpu_expected_record_count ?config = Ok 1"
    using c1 by (simp add: cpu_expected_record_count_Ok config_of_def one_args_def)
  have p: "unat (cq_maximum_runtime_seconds (cpu_protocol ?config 1)) = 5" "cq_expected_metadata_records (cpu_protocol ?config 1) = 0"
    "cq_expected_records (cpu_protocol ?config 1) = 1" by (simp_all add: cpu_protocol_def config_of_def)
  have c: "supervise fs (cpu_validate_record ?config) (cpu_protocol ?config 1) 5000000000
      (en_polls (one_system (cpu_arguments ?config))) = Some (Ok \<lparr>cc_reaped = sample_reaped, cc_metadata = [], cc_measurements = [one_record]\<rparr>)"
    by (simp add: one_system_def sample_defs supervise_eval cpu_protocol_def cpu_limit_defs fs
        word_le_nat_alt cpu_validate_record_def one_record_def config_of_def one_args_def)
  have "child_execute show_status fs (cpu_protocol ?config 1) (cpu_validate_record ?config) (one_system (cpu_arguments ?config))
      = Some \<lparr>ce_metadata = [], ce_measurements = [one_record],
          ce_resources = Some \<lparr>pr_cpu_time_micros = 7, pr_peak_rss_bytes = 1024\<rparr>, ce_failure = None\<rparr>"
    unfolding child_execute_def b one_system_ready(1,2) p(1) Let_def
    using c by (simp add: one_system_def sample_environment_def settle_child_def conclude_def status_success_def completed_success_def sample_reaped_def len_def p)
  then show ?thesis
    unfolding cpu_execute_def cpu_execute_command_def e by (simp add: cpu_into_execution_output_def one_output_def)
qed

theorem cpu_probe_delivers_witness:
  "\<exists>ex. cpu_execute (\<lambda>_. []) (\<lambda>_. Ok one_record) (config_of one_args 5) one_system = Some ex
     \<and> eo_terminal_state ex = Succeeded \<and> eo_measurements ex = [one_record]"
proof -
  let ?config = "config_of one_args 5"
  let ?p = "cpu_protocol ?config (cpu_count ?config)"
  have n: "unat (ag_warmup_runs one_args) + unat (ag_repetitions one_args) = 1" by (simp add: one_args_def)
  have "helper_admissible one_args" by (simp add: helper_admissible_def one_args_def)
  then have v: "helper_validate one_args = Ok ()" by (simp add: helper_validate_iff)
  have json: "\<forall>i < unat (ag_warmup_runs one_args) + unat (ag_repetitions one_args). \<forall>r.
      record_at one_args one_clock i = Ok r \<longrightarrow> json_roundtrip (\<lambda>_. Ok ''r'') (\<lambda>_. Ok one_record) r"
    using one_record_at by (simp add: n json_roundtrip_def)
  have "helper_run (\<lambda>_. Ok ''r'') one_args one_clock = ([CHR ''r'', CHR 0x0A], Ok ())"
    using one_clock_writes emit_all_Ok [of "[0]" one_args one_clock "\<lambda>_. Ok ''r''" "\<lambda>_. ''r''"] one_record_at v
    by (simp add: helper_run_def slots_in_order n)
  moreover have reads: "read_stdout ?p (map ReadBytes [''r'', [CHR 0x0A]]) = [Line ''r'', Done]"
    using read_stdout_whole [of "[''r'', [CHR 0x0A]]" ?p]
    by (simp add: protocol_lines_def cpu_protocol_def cpu_limit_defs)
  moreover note one_system_ready
  moreover have ex: "cpu_execute (\<lambda>_. []) (\<lambda>_. Ok one_record) ?config one_system = Some one_output"
    by (rule one_execution) simp
  ultimately show ?thesis
    using cpu_probe_delivers [OF v json, of "[CHR ''r'', CHR 0x0A]" "Ok ()" "[''r'', [CHR 0x0A]]"
        one_system 5 "\<lambda>_. []" one_output] one_record_at n one_clock_writes
    by (auto simp: map_eq_Cons_conv)
qed

end
