(* ===== verification/SampleProbe.thy ===== *)
theory SampleProbe
  imports SamplePublication HelperDelivery
begin

text \<open>
  A whole run of the CPU probe: the helper of one repetition is spawned by the host, its output is
  supervised, and the run publishes the record it measured with the resources it used.
\<close>

definition probe_document :: Experiment where
  "probe_document = minimal_cpu_probe\<lparr>ex_spec := (ex_spec minimal_cpu_probe)\<lparr>sp_runtime := RuntimeCpuProbe 1 1,
     sp_measurement := \<lparr>ms_warmup_runs = 0, ms_repetitions = 1\<rparr>,
     sp_lifecycle := \<lparr>ls_maximum_runtime_seconds = 5, ls_destroy_on_completion = True\<rparr>\<rparr>\<rparr>"

definition probe_plan :: ResolvedExperiment where
  "probe_plan = resolved_fixture probe_document"

definition probe_rehearsal :: Rehearsal where
  "probe_rehearsal = \<lparr>rh_document = probe_document, rh_plan = probe_plan, rh_output = one_output,
     rh_line = (\<lambda>_. ''r''), rh_spawn = (\<lambda>_. one_system)\<rparr>"

lemma probe_admissible: "admissible probe_document"
  by (simp add: probe_document_def fixture_defs admissible_def Let_def runtime_admissible_def provider_admissible_def
      requests_def records_def trim_graphic byte_of_def CPU_PROBE_WORKLOAD_PROFILE_def f64_zero)

lemma probe_plan_simps:
  "plan_runtime probe_plan = RuntimeCpuProbe 1 1" "sp_provider (ex_spec (re_experiment probe_plan)) = ProviderLocal"
  "plan_requests probe_plan = 1" "plan_measurement probe_plan = \<lparr>ms_warmup_runs = 0, ms_repetitions = 1\<rparr>"
  "ls_maximum_runtime_seconds (sp_lifecycle (ex_spec (re_experiment probe_plan))) = 5"
  by (simp_all add: probe_plan_def probe_document_def fixture_defs)

lemma probe_reader: "rh_reader probe_rehearsal ''r'' = Ok one_record"
  by (simp add: rh_reader_def probe_rehearsal_def one_output_def)

lemma probe_rehearsed: "rehearsed probe_rehearsal"
  using probe_admissible probe_reader
  by (simp add: rehearsed_def) (simp add: probe_rehearsal_def probe_plan_def one_output_def readable_def jsonl_def
      MAX_MEASUREMENTS_BYTES_def MAX_MEASUREMENT_LINE_BYTES_def)

lemma one_system_accounted: "accounted (one_system arguments)"
proof -
  let ?usage = "\<lparr>ru_utime_sec = 0, ru_utime_usec = 7, ru_stime_sec = 0, ru_stime_usec = 0, ru_maxrss = 1\<rparr>"
  have "convert_resource_usage ?usage = Ok \<lparr>pr_cpu_time_micros = 7, pr_peak_rss_bytes = 1024\<rparr>"
    by (simp add: convert_resource_usage_def resource_usage_from_components_def time_micros_def
        u64_from_i64_def checked_mul_def checked_add_def)
  then have "\<exists>usage. rc_resources sample_reaped = convert_resource_usage usage"
    unfolding sample_reaped_def by (intro exI [of _ ?usage]) simp
  then show ?thesis by (simp add: accounted_def accounted_wait_def one_system_def sample_environment_def sample_poll_def)
qed

lemma probe_kind: "execution_kind cuda probe_plan = Ok (KindCpuProbe (config_of one_args 5))"
  using probe_plan_simps by (simp add: execution_kind_def Let_def config_of_def one_args_def)

lemma probe_records:
  "\<exists>p v su. capture bare_platform sample_run_id probe_plan = Return p \<and> evaluate_validity probe_plan one_output sample_run_id = Return v
     \<and> vy_status v = Valid \<and> summarize probe_plan one_output v sample_run_id = Return su"
proof -
  have p: "\<exists>p. capture bare_platform sample_run_id probe_plan = Return p"
    by (simp add: capture_def capture_runtime_def Let_def bare_platform_def read_bounded_def probe_plan_simps)
  have n: "length (measured_records (eo_measurements one_output)) = 1"
    by (simp add: one_output_def one_record_def measured_records_def)
  then obtain v where v: "evaluate_validity probe_plan one_output sample_run_id = Return v" "vy_status v = Valid"
    by (simp add: evaluate_validity_def Let_def probe_plan_simps) (simp add: one_output_def)
  show ?thesis using p v summarize_value [of one_output probe_plan v sample_run_id] n by fastforce
qed

theorem executed_run_publishes_witness:
  "\<exists>h result w'. run_experiment h ''x'' empty_world = Some (Return (Ok result, w')) \<and> wd_final w' \<noteq> None
     \<and> rs_run_state result = Succeeded \<and> rs_validity_status result = Valid \<and> rs_sample_count result = 1"
proof -
  obtain p v su where r: "capture bare_platform sample_run_id probe_plan = Return p" "evaluate_validity probe_plan one_output sample_run_id = Return v"
     "summarize probe_plan one_output v sample_run_id = Return su" and valid: "vy_status v = Valid"
    using probe_records by blast
  let ?h = "tag_host probe_rehearsal p v su" and ?kind = "KindCpuProbe (config_of one_args 5)"
  have k: "rh_plan probe_rehearsal = probe_plan" "rh_output probe_rehearsal = one_output" by (simp_all add: probe_rehearsal_def)
  have exec: "execute_kind (production ?h) probe_plan ?kind = Some one_output"
    using one_execution [of "rh_reader probe_rehearsal", OF probe_reader] by (simp add: execute_kind_def tag_host_simps Let_def) (simp add: probe_rehearsal_def)
  have spawn: "\<forall>executable arguments. accounted (ho_spawn ?h executable arguments)"
    by (simp add: tag_host_simps probe_rehearsal_def one_system_accounted)
  have agree: "evidence_agrees probe_plan one_output" "enriched one_output p p"
    by (simp_all add: evidence_agrees_def enriched_def probe_plan_simps) (simp_all add: one_output_def one_record_def)
  have r': "capture (ho_platform ?h) (ho_run_id ?h) probe_plan = Return p" "evaluate_validity probe_plan one_output (ho_run_id ?h) = Return v"
     "summarize probe_plan one_output v (ho_run_id ?h) = Return su" using r by (simp_all add: tag_host_simps)
  note ready = tag_host_ready [OF probe_rehearsed, unfolded k]
  obtain result w' where "run_experiment ?h ''x'' empty_world = Some (Return (Ok result, w'))" "wd_final w' \<noteq> None"
    "rs_run_state result = eo_terminal_state one_output" "rs_validity_status result = vy_status v"
    and n: "unat (rs_sample_count result) = length (measured_records (eo_measurements one_output))"
    using executed_run_publishes [OF ready(1) empty_world_free ready(2,3) probe_kind exec ready(4,5) spawn agree(1) r'(1) agree(2) r'(2,3)
        tag_evidence_codecs [OF probe_rehearsed, unfolded k]] by blast
  moreover have "eo_terminal_state one_output = Succeeded" by (simp add: one_output_def)
  moreover have "rs_sample_count result = 1"
    using n by (simp add: one_output_def one_record_def measured_records_def word_eq_iff_unsigned [where 'a = nat])
  ultimately show ?thesis using valid by metis
qed

end
