(* ===== verification/SampleRecords.thy ===== *)
theory SampleRecords
  imports RunRecords SampleRun
begin

text \<open>
  A run whose disk fills up in the middle of its initialization: every write from the eighth operation on
  stops after one byte. The plan, written before, is complete; the temporary files of the records that
  the failing writes left are not.
\<close>

definition torn_disk :: "nat \<Rightarrow> Fault option" where
  "torn_disk n = (if n < 7 then None else Some (Fault ''No space left on device (os error 28)'' (Some 1)))"

definition torn_host :: Host where
  "torn_host = failing_host\<lparr>ho_fault := torn_disk\<rparr>"

lemma torn_run:
  "\<exists>a b c d es i t. run_experiment torn_host ''x'' empty_world
     = Some (Return (Err (Allocated a b c d), \<lparr>wd_staging = Some (Dir es), wd_final = None, wd_io = i, wd_ticks = t\<rparr>))
     \<and> map_of es ''resolved-plan.json'' = Some (FileNode (''p'' @ [CHR 0x0A]))
     \<and> map_of es ''run.json.tmp'' = Some (FileNode ''r'')"
proof -
  obtain kind where k: "execution_kind False sample_plan = Ok kind" using execution_kind_sample by blast
  show ?thesis
    by (simp add: run_experiment_def run_experiment_with_services_def torn_host_def failing_host_def sample_document sample_resolves k
      allocate_def fs_then_def create_parent_directory_def create_new_directory_def system_call_def torn_disk_def empty_world_def
      start_session_def Let_def lifecycle_new_def allocated_run_def initialize_def and_step_def at_phase_def with_world_def
      create_directory_def settle_def persist_allocated_failure_def now_def write_json_atomic_def json_bytes_def
      sample_writers_def write_bytes_def no_partial_def on_staging_def make_dirs.simps update_dir.simps put_file_def
      rename_file_def set_entry_def remove_entry_def attempt_directory_def create_empty_file_def result_simps)
qed

theorem records_never_torn_witness:
  "\<exists>e w'. run_experiment torn_host ''x'' empty_world = Some (Return (Err e, w')) \<and> is_finalization_failure e
     \<and> view w' [''run.json.tmp''] = Some ''r'' \<and> record_complete torn_host [''resolved-plan.json''] (''p'' @ [CHR 0x0A])"
proof -
  obtain a b c d es i t where r: "run_experiment torn_host ''x'' empty_world
      = Some (Return (Err (Allocated a b c d), \<lparr>wd_staging = Some (Dir es), wd_final = None, wd_io = i, wd_ticks = t\<rparr>))"
    and es: "map_of es ''resolved-plan.json'' = Some (FileNode (''p'' @ [CHR 0x0A]))" "map_of es ''run.json.tmp'' = Some (FileNode ''r'')"
    using torn_run by blast
  have "view \<lparr>wd_staging = Some (Dir es), wd_final = None, wd_io = i, wd_ticks = t\<rparr> [''resolved-plan.json''] = Some (''p'' @ [CHR 0x0A])"
    using es(1) by (simp add: view_def file_at_Dir)
  from records_never_torn [OF r _ this] r es(2) show ?thesis by (auto simp: view_def file_at_Dir)
qed

end
