(* ===== verification/Spec2Isabelle.thy ===== *)
theory Spec2Isabelle
  imports MeanBounds SampleProbe SampleRecords
begin

text \<open>
  Verification of benchplane, a tool that runs a described experiment and publishes the evidence of it.

  \<^bold>\<open>The program.\<close> A YAML document is parsed (\<open>parsing.rs\<close>), validated (\<open>experiment.rs\<close>) and resolved into a
  plan with digests (\<open>resolution.rs\<close>). A run (\<open>run.rs\<close>) allocates a staging directory, drives a state
  machine (\<open>lifecycle.rs\<close>) whose events are appended to a journal, captures the platform
  (\<open>provenance.rs\<close>), executes one of three runtimes (\<open>local_fake.rs\<close>, and \<open>cpu_probe.rs\<close> and \<open>llama_cpp.rs\<close>
  through helper processes under \<open>child_supervisor.rs\<close>), decides validity and summary (\<open>execution.rs\<close>),
  writes every record, checksums the directory, verifies it as any later reader would (\<open>evidence.rs\<close>)
  and renames it to its publication path. Two published bundles can be compared (\<open>comparison.rs\<close>). The
  command line (\<open>main.rs\<close>) turns each outcome into an exit code. The sources are under
  \<open>src/crates/benchplane-core/src\<close>, \<open>src/crates/benchplane-schema/src\<close> and \<open>src/crates/benchplane/src\<close>.

  \<^bold>\<open>Theories and sources.\<close> Names of types, constants and functions are those of the source, with a prefix where
  two modules share a name; the fields of a record carry a two-letter prefix of their struct.
  \<^item> \<open>Prelude\<close>: results, checked arithmetic, UTF-8 bytes, and the shared lemmas. \<open>Fixtures\<close>: documents of the
    repository as concrete values.
  \<^item> \<open>Experiment\<close>: the document and \<open>Experiment::validate\<close>. \<open>EvidenceSchema\<close>, \<open>ComparisonSchema\<close>: the records of
    \<open>schema/src/evidence.rs\<close>. \<open>Resolution\<close>: \<open>parse_experiment\<close> and \<open>resolve_experiment\<close>.
  \<^item> \<open>Lifecycle\<close>: the state machine; its state is the record \<open>Lifecycle\<close>, its operations \<open>lifecycle_new\<close> and
    \<open>transition\<close>. \<open>Execution\<close>: validity, percentiles, mean, summary.
  \<^item> \<open>ChildSupervisor\<close>, \<open>SupervisionFacts\<close>: the reader threads, the supervision loop, reaping and accounting,
    and what they guarantee. \<open>RuntimeContract\<close>: what a runtime promises to its callers. \<open>LocalFake\<close>, \<open>CpuProbe\<close>
    (with its helper binary), \<open>LlamaCpp\<close>: the runtimes. \<open>HelperDelivery\<close>: helper and supervisor together.
  \<^item> \<open>Provenance\<close>, \<open>ProvenanceFacts\<close>: capture, and that the verifier accepts what was captured.
  \<^item> \<open>Evidence\<close>, \<open>EvidenceBundle\<close>, \<open>EvidenceFacts\<close>, \<open>MeanBounds\<close>: the checks of the records of a bundle.
    \<open>Checksums\<close>, \<open>ChecksumFacts\<close>: the walk over the payloads and \<open>SHA256SUMS\<close>, written and verified.
  \<^item> \<open>Comparison\<close>: comparison of two verified bundles.
  \<^item> \<open>RunFiles\<close>, \<open>Run\<close>: the run over a \<open>World\<close> (the staging and the publication path) and a \<open>Session\<close> (the
    mutable locals of \<open>run_experiment_with_services\<close>). \<open>RunFacts\<close>: invariants of every run. \<open>RunStore\<close>,
    \<open>RunRecords\<close>, \<open>RunContents\<close>: the files of a run as a map, which records failures leave, what a published
    bundle holds. \<open>ExecutionEvidence\<close>: what the output of each runtime is to the verifier. \<open>RunSteps\<close>,
    \<open>RunSuccess\<close>, \<open>RunPublication\<close>: the run on a host without faults.
  \<^item> \<open>Cli\<close>, \<open>CliFacts\<close>: the commands and their exit codes.
  \<^item> \<open>SampleBundle\<close>, \<open>SampleRun\<close>, \<open>SampleRecords\<close>, \<open>SamplePublication\<close>, \<open>SampleProbe\<close>: concrete bundles, hosts and
    runs on which the properties are evaluated.

  \<^bold>\<open>Interfaces.\<close> \<open>journaled_machine\<close> is what the run needs of the lifecycle; \<open>record_protocol\<close> what an adapter
  owes the supervisor, interpreted on both helper-backed runtimes; \<open>runtime_adapter\<close> what validity and
  summary need of a runtime, interpreted on all three and on the dispatcher of the run; \<open>helper_runtime\<close> extends it
  with the measurements a helper-backed runtime leaves. \<open>ticking\<close>,
  \<open>recording\<close>, \<open>staging_invariant\<close> and \<open>run_invariant\<close> are the contracts under which a predicate of the world
  survives a run; they are interpreted on \<open>unpublished\<close> (the publication path is untouched) and on
  \<open>intact\<close> (no record is torn).

  \<^bold>\<open>What is shown.\<close> A run never panics, and returns unless the execution of its helper does not; a result means a verified bundle at the
  publication path that holds what was requested, executed and decided; a failure means an untouched publication path
  and whole records in the retained staging directory; on a host without faults every execution that returns, of
  any runtime and whether it succeeded or not, is published, provided the host's own values are presentable (\<open>host_ok\<close>), the
  store objects it runs from are named as Nix names them (\<open>nix_installed\<close>), resources come from \<open>wait4\<close> (\<open>accounted\<close>), the
  records read back within their limits (\<open>evidence_codecs\<close>) and the output satisfies the three checks that the verifier makes and
  the adapters do not (\<open>evidence_agrees\<close>). Exit codes tell these outcomes apart, and the commands agree about a
  document and about a bundle. The verifier returns a verdict on every directory and never panics; its acceptance means that the checksum file lists exactly the files with their digests and
  that records agree with each other and with the plan; writing then verifying succeeds. Comparison is
  total and its deltas are exact. Captured provenance is accepted exactly if the captured store objects are named by
  Nix, with one lineage. Supervision consumes the whole output, discards everything on failure,
  accounts exactly and returns after its deadline, if what it waits for ends when the helper is killed. Validation is equivalent to bounds over unbounded
  naturals; arithmetic on \<open>u32\<close>, \<open>u64\<close> and \<open>u128\<close> stays at its width, and where it is checked or
  saturating the theorems relate it to naturals.

  \<^bold>\<open>Parameters.\<close> SHA-256, hex, UUID parsing, the YAML and JSON readers are the record \<open>Codecs\<close>; the JSON
  writers \<open>Writers\<close>; the files provenance reads \<open>Platform\<close>; the terminal, the schema generator and
  the rendering of errors \<open>Shell\<close>, which also says which lines the console takes: a line it refuses is a panic of
  \<open>println!\<close>, and the process ends with status 101. A \<open>Host\<close> bundles these with the clock, the fresh run identity, the
  helper processes, and a fault for every I/O operation, by its number, that may leave any prefix of a write. Where a
  theorem relies on a parameter it says so: a digest is 32 bytes, hex is the lowercase alphabet, a record
  that is written reads back.

  \<^bold>\<open>Loops.\<close> There is no fuel. Recursions are structural or on the length of the input; a wait that
  may last forever consumes the sequence of polls that have happened, so \<open>None\<close> means that it is
  still waiting, and that it returns after the deadline is a theorem. The calls after the loop that block without a
  deadline, the waits for the child and the joins of the reader threads, are answers of the environment to what was
  done before them (\<open>ChildAction\<close>), and \<open>None\<close> where they do not return.

  \<^bold>\<open>Panics.\<close> \<open>unreachable!\<close>, \<open>expect\<close> and indexing are \<open>Panic\<close> in the result type \<open>outcome\<close>, also inside the verifier. Three
  of them are ruled out by the shape of the model's data instead: the walk over a bundle builds relative paths downwards, so
  that \<open>strip_prefix\<close> has nothing to fail on; path components are matched after all were found normal; and a retained payload is kept
  together with its limit.

  \<^bold>\<open>Not modelled.\<close> All non-test code of the Rust crates is modelled, but for their derives: serde, schemars, thiserror and
  clap generate parsers, serializers, schemas, messages and argument parsing, which are the parameters above. The crate roots only
  re-export. The C++ helper wraps the third-party llama.cpp; its output enters as the bytes the supervisor reads. The
  Nix, NixOS and OpenTofu files describe builds and machines. A bundle is a snapshot: concurrent writers to a bundle under verification and
  crashes of the machine between operations are outside the model, and so are \<open>fsync\<close> and permissions.
\<close>

subsection \<open>Properties that span components\<close>

text \<open>
  C40. The output of every runtime has the shape the rest of the program is written for: its state is
  terminal and maps to an attempt status, it carries a failure exactly if it did not succeed, GPU metadata appears for
  the CUDA target only, and validity and summary are defined for it. It has fewer than \<open>2^32\<close> measured records, so that
  the casts to \<open>u32\<close> lose nothing: the observed samples of the validity and the sample count of the summary are
  the number of measured records.
\<close>

theorem execution_output_well_formed:
  assumes "execution_kind cuda plan = Ok kind" and "execute_kind h plan kind = Some out"
  shows "is_terminal (eo_terminal_state out) \<and> (\<exists>st. attempt_terminal (eo_terminal_state out) = Return st)
    \<and> (eo_failure out = None \<longleftrightarrow> eo_terminal_state out = Succeeded)
    \<and> (eo_nvidia_gpu out = None \<or> (\<exists>model tokens. plan_runtime plan = RuntimeLlamaCpp TargetNvidiaCuda model tokens))
    \<and> length (measured_records (eo_measurements out)) < 2 ^ 32
    \<and> (\<exists>v s. evaluate_validity plan out run_id = Return v \<and> summarize plan out v run_id = Return s
      \<and> unat (vy_observed_samples v) = length (measured_records (eo_measurements out))
      \<and> unat (su_sample_count s) = length (measured_records (eo_measurements out)))"
proof -
  have run: "run_kind (h, plan) kind = Some out" using assms(2) by (simp add: run_kind_def)
  have "eo_terminal_state out \<in> set terminal_states" by (rule runs.terminal [OF run])
  then have "is_terminal (eo_terminal_state out)" "\<exists>st. attempt_terminal (eo_terminal_state out) = Return st"
    by (auto simp: terminal_states_def attempt_terminal_def)
  then show ?thesis
    using runs.failure_iff [OF run] runs.bounded [OF run] runs.statistics_total [OF run] nvidia_only_for_cuda [OF assms(2) _ assms(1)]
    by blast
qed

theorem execution_output_well_formed_witness:
  "is_terminal (eo_terminal_state sample_output) \<and> eo_failure sample_output = None
   \<and> length (measured_records (eo_measurements sample_output)) < 2 ^ 32"
proof -
  have "execute_kind (failing_host) sample_plan (KindLocalFake 0 ScenarioSuccess) = Some sample_output"
    by (simp add: execute_kind_def sample_output_def failing_host_def sample_codecs_def)
  from execution_output_well_formed [OF _ this, of False] sample_output_value show ?thesis
    by (simp add: execution_kind_def sample_plan_simps Let_def)
qed

end
